(* ===== verification/Prelude.thy ===== *)
theory Prelude
  imports Main
begin

text \<open>
  What the components share: fallible programs over a mutable world, the two
  shapes of statement proved about them (what a program returns, and how it may
  change the world), and keyed rows, the model of a database table.

  A Go function of the form \<open>func (...) (T, error)\<close> that reads and writes shared
  state is a \<open>prog\<close>: it takes the world and returns either the error or the value,
  with the world it leaves. An error return keeps the effects made before it, as in
  Go; only \<open>with_tx\<close> undoes them, as \<open>Rollback\<close> does.
\<close>

named_theorems keeps_intros

section \<open>Programs with errors\<close>

type_synonym ('s, 'e, 'a) prog = "'s \<Rightarrow> ('e + 'a) \<times> 's"

definition ret :: "'a \<Rightarrow> ('s, 'e, 'a) prog" where
  "ret a = (\<lambda>s. (Inr a, s))"

definition fail :: "'e \<Rightarrow> ('s, 'e, 'a) prog" where
  "fail e = (\<lambda>s. (Inl e, s))"

definition bindE :: "('s, 'e, 'a) prog \<Rightarrow> ('a \<Rightarrow> ('s, 'e, 'b) prog) \<Rightarrow> ('s, 'e, 'b) prog" where
  "bindE m k = (\<lambda>s. case m s of (Inl e, s') \<Rightarrow> (Inl e, s') | (Inr a, s') \<Rightarrow> k a s')"

text \<open>\<open>try_prog\<close> hands the error to the code that follows: \<open>if err := ...; err != nil {...}\<close>.\<close>

definition try_prog :: "('s, 'e, 'a) prog \<Rightarrow> ('s, 'e, 'e + 'a) prog" where
  "try_prog m = (\<lambda>s. case m s of (r, s') \<Rightarrow> (Inr r, s'))"

definition gets :: "('s \<Rightarrow> 'a) \<Rightarrow> ('s, 'e, 'a) prog" where
  "gets f = (\<lambda>s. (Inr (f s), s))"

definition modify :: "('s \<Rightarrow> 's) \<Rightarrow> ('s, 'e, unit) prog" where
  "modify f = (\<lambda>s. (Inr (), f s))"

definition lift_result :: "'e + 'a \<Rightarrow> ('s, 'e, 'a) prog" where
  "lift_result r = (\<lambda>s. (r, s))"

definition with_tx :: "('s, 'e, 'a) prog \<Rightarrow> ('s, 'e, 'a) prog" where
  "with_tx m = (\<lambda>s. case m s of (Inl e, _) \<Rightarrow> (Inl e, s) | (Inr a, s') \<Rightarrow> (Inr a, s'))"

definition wrap_error :: "('e \<Rightarrow> 'e) \<Rightarrow> ('s, 'e, 'a) prog \<Rightarrow> ('s, 'e, 'a) prog" where
  "wrap_error f m = (\<lambda>s. case m s of (Inl e, s') \<Rightarrow> (Inl (f e), s') | (Inr a, s') \<Rightarrow> (Inr a, s'))"

primrec foreach :: "('a \<Rightarrow> ('s, 'e, unit) prog) \<Rightarrow> 'a list \<Rightarrow> ('s, 'e, unit) prog" where
  "foreach f [] = ret ()"
| "foreach f (x # xs) = bindE (f x) (\<lambda>_. foreach f xs)"

primrec mapE :: "('a \<Rightarrow> ('s, 'e, 'b) prog) \<Rightarrow> 'a list \<Rightarrow> ('s, 'e, 'b list) prog" where
  "mapE f [] = ret []"
| "mapE f (x # xs) = bindE (f x) (\<lambda>y. bindE (mapE f xs) (\<lambda>ys. ret (y # ys)))"

abbreviation skip :: "('s, 'e, unit) prog" where
  "skip \<equiv> ret ()"

abbreviation outcome_of :: "('s, 'e, 'a) prog \<Rightarrow> 's \<Rightarrow> 'e + 'a" where
  "outcome_of m s \<equiv> fst (m s)"

abbreviation world_after :: "('s, 'e, 'a) prog \<Rightarrow> 's \<Rightarrow> 's" where
  "world_after m s \<equiv> snd (m s)"

lemma ret_apply [simp]: "ret a s = (Inr a, s)"
  by (simp add: ret_def)

lemma fail_apply [simp]: "fail e s = (Inl e, s)"
  by (simp add: fail_def)

lemma gets_apply [simp]: "gets f s = (Inr (f s), s)"
  by (simp add: gets_def)

lemma modify_apply [simp]: "modify f s = (Inr (), f s)"
  by (simp add: modify_def)

lemma lift_result_apply [simp]: "lift_result r s = (r, s)"
  by (simp add: lift_result_def)

lemma bindE_Inr: "m s = (Inr a, s') \<Longrightarrow> bindE m k s = k a s'"
  by (simp add: bindE_def)

lemma bindE_Inl: "m s = (Inl e, s') \<Longrightarrow> bindE m k s = (Inl e, s')"
  by (simp add: bindE_def)

lemma bindE_ret [simp]: "bindE (ret a) k s = k a s"
  by (simp add: bindE_def)

lemma bindE_fail [simp]: "bindE (fail e) k s = (Inl e, s)"
  by (simp add: bindE_def)

lemma bindE_gets [simp]: "bindE (gets f) k s = k (f s) s"
  by (simp add: bindE_def)

lemma bindE_modify [simp]: "bindE (modify g) k s = k () (g s)"
  by (simp add: bindE_def)

lemma bindE_lift_result: "bindE (lift_result r) k s = (case r of Inl e \<Rightarrow> (Inl e, s) | Inr a \<Rightarrow> k a s)"
  by (simp add: bindE_def split: sum.splits)

lemma try_prog_apply: "try_prog m s = (Inr (outcome_of m s), world_after m s)"
  by (simp add: try_prog_def split: prod.splits)

lemma bindE_try_prog: "bindE (try_prog m) k s = k (outcome_of m s) (world_after m s)"
  by (simp add: bindE_def try_prog_apply)

lemma bindE_assoc: "bindE (bindE m f) g = bindE m (\<lambda>a. bindE (f a) g)"
  by (auto simp: bindE_def fun_eq_iff split: prod.splits sum.splits)

lemma bindE_cases:
  assumes "bindE m k s = (r, s')"
  obtains (Error) e where "m s = (Inl e, s')" and "r = Inl e"
  | (Value) a s1 where "m s = (Inr a, s1)" and "k a s1 = (r, s')"
  using assms by (auto simp: bindE_def split: prod.splits sum.splits)

lemma bindE_Inr_iff:
  "bindE m k s = (Inr b, s') \<longleftrightarrow> (\<exists>a s1. m s = (Inr a, s1) \<and> k a s1 = (Inr b, s'))"
  by (auto simp: bindE_def split: prod.splits sum.splits)

lemma bindE_InrE:
  assumes "bindE m k s = (Inr b, s')"
  obtains a s1 where "m s = (Inr a, s1)" "k a s1 = (Inr b, s')"
  using assms unfolding bindE_Inr_iff by blast

lemma with_tx_Inr_iff: "with_tx m s = (Inr a, s') \<longleftrightarrow> m s = (Inr a, s')"
  by (auto simp: with_tx_def split: prod.splits sum.splits)

lemma with_tx_Inl: "with_tx m s = (Inl e, s') \<Longrightarrow> s' = s"
  by (auto simp: with_tx_def split: prod.splits sum.splits)

lemma with_tx_Inr: "m s = (Inr a, s') \<Longrightarrow> with_tx m s = (Inr a, s')"
  by (simp add: with_tx_def)

section \<open>How a program may change the world\<close>

text \<open>
  \<open>keeps R m\<close>: whatever the outcome, the world before and the world after \<open>m\<close>
  are related by \<open>R\<close>. For a preorder \<open>R\<close> it is compositional, and an invariant is
  the case \<open>R s s' \<longleftrightarrow> (I s \<longrightarrow> I s')\<close>.
\<close>

definition keeps :: "('s \<Rightarrow> 's \<Rightarrow> bool) \<Rightarrow> ('s, 'e, 'a) prog \<Rightarrow> bool" where
  "keeps R m \<longleftrightarrow> (\<forall>s. R s (world_after m s))"

lemma keepsI: "(\<And>s. R s (world_after m s)) \<Longrightarrow> keeps R m"
  by (simp add: keeps_def)

lemma keepsD: "keeps R m \<Longrightarrow> R s (world_after m s)"
  by (simp add: keeps_def)

locale world_preorder =
  fixes R :: "'s \<Rightarrow> 's \<Rightarrow> bool"
  assumes refl: "R s s"
    and trans: "R s t \<Longrightarrow> R t u \<Longrightarrow> R s u"
begin

lemma keeps_ret: "keeps R (ret a)"
  by (simp add: keeps_def refl)

lemma keeps_fail: "keeps R (fail e)"
  by (simp add: keeps_def refl)

lemma keeps_gets: "keeps R (gets f)"
  by (simp add: keeps_def refl)

lemma keeps_lift_result: "keeps R (lift_result r)"
  by (simp add: keeps_def refl)

lemma keeps_bindE:
  assumes "keeps R m" and "\<And>a. keeps R (k a)"
  shows "keeps R (bindE m k)"
proof (rule keepsI)
  fix s
  from assms show "R s (world_after (bindE m k) s)"
    by (auto simp: bindE_def keeps_def split: prod.splits sum.splits)
      (metis snd_conv trans)+
qed

lemma keeps_try_prog: "keeps R m \<Longrightarrow> keeps R (try_prog m)"
  by (simp add: keeps_def try_prog_apply)

lemma keeps_wrap_error: "keeps R m \<Longrightarrow> keeps R (wrap_error f m)"
  unfolding keeps_def wrap_error_def
  by (metis (mono_tags, lifting) old.prod.case old.sum.simps(5,6) snd_conv sum.exhaust surj_pair)

lemma keeps_with_tx: "keeps R m \<Longrightarrow> keeps R (with_tx m)"
  by (auto simp: keeps_def with_tx_def refl split: prod.splits sum.splits)
    (metis snd_conv)

lemma keeps_foreach: "(\<And>x. keeps R (f x)) \<Longrightarrow> keeps R (foreach f xs)"
  by (induction xs) (simp_all add: keeps_ret keeps_bindE)

lemma keeps_mapE: "(\<And>x. keeps R (f x)) \<Longrightarrow> keeps R (mapE f xs)"
  by (induction xs) (simp_all add: keeps_ret keeps_bindE)

lemma keeps_if: "keeps R m \<Longrightarrow> keeps R n \<Longrightarrow> keeps R (if b then m else n)"
  by simp

lemma keeps_case_sum:
  "(\<And>e. keeps R (f e)) \<Longrightarrow> (\<And>a. keeps R (g a)) \<Longrightarrow> keeps R (case r of Inl e \<Rightarrow> f e | Inr a \<Rightarrow> g a)"
  by (cases r) simp_all

lemma keeps_case_option:
  "keeps R f \<Longrightarrow> (\<And>a. keeps R (g a)) \<Longrightarrow> keeps R (case x of None \<Rightarrow> f | Some a \<Rightarrow> g a)"
  by (cases x) simp_all

lemma keeps_case_prod:
  "(\<And>a b. keeps R (f a b)) \<Longrightarrow> keeps R (case p of (a, b) \<Rightarrow> f a b)"
  by (cases p) simp

lemmas keeps_rules =
  keeps_ret keeps_fail keeps_gets keeps_lift_result keeps_bindE keeps_try_prog
  keeps_wrap_error keeps_with_tx keeps_foreach keeps_mapE keeps_if
  keeps_case_sum keeps_case_option keeps_case_prod

end

text \<open>
  The same from the worlds that satisfy a fact. A fact that \<open>R\<close> preserves is \<open>stable\<close>:
  it may be used after any number of steps. A read adds what it has seen.
\<close>

definition keeps_from :: "('s \<Rightarrow> 's \<Rightarrow> bool) \<Rightarrow> ('s \<Rightarrow> bool) \<Rightarrow> ('s, 'e, 'a) prog \<Rightarrow> bool" where
  "keeps_from R F m \<longleftrightarrow> (\<forall>s. F s \<longrightarrow> R s (world_after m s))"

definition stable :: "('s \<Rightarrow> 's \<Rightarrow> bool) \<Rightarrow> ('s \<Rightarrow> bool) \<Rightarrow> bool" where
  "stable R F \<longleftrightarrow> (\<forall>s t. F s \<and> R s t \<longrightarrow> F t)"

definition sees :: "('s \<Rightarrow> bool) \<Rightarrow> ('s, 'e, 'a) prog \<Rightarrow> ('a \<Rightarrow> 's \<Rightarrow> bool) \<Rightarrow> bool" where
  "sees F m G \<longleftrightarrow> (\<forall>s. F s \<longrightarrow> world_after m s = s \<and> (\<forall>a. outcome_of m s = Inr a \<longrightarrow> G a s))"

lemma keeps_fromI: "(\<And>s. F s \<Longrightarrow> R s (world_after m s)) \<Longrightarrow> keeps_from R F m"
  by (simp add: keeps_from_def)

lemma keeps_fromD: "keeps_from R F m \<Longrightarrow> F s \<Longrightarrow> R s (world_after m s)"
  by (simp add: keeps_from_def)

lemma seesI:
  "(\<And>s. F s \<Longrightarrow> world_after m s = s) \<Longrightarrow> (\<And>s a. F s \<Longrightarrow> outcome_of m s = Inr a \<Longrightarrow> G a s) \<Longrightarrow> sees F m G"
  by (simp add: sees_def)

context world_preorder
begin

lemma from_keeps: "keeps R m \<Longrightarrow> keeps_from R F m"
  by (simp add: keeps_def keeps_from_def)

lemma from_bindE:
  assumes "stable R F" and m: "keeps_from R F m" and k: "\<And>a. keeps_from R F (k a)"
  shows "keeps_from R F (bindE m k)"
proof (rule keeps_fromI)
  fix s
  assume F: "F s"
  obtain r s1 where ms: "m s = (r, s1)" by (cases "m s") auto
  with m F have s1: "R s s1" using keeps_fromD [of R F m s] by simp
  then have "F s1" using assms(1) F by (auto simp: stable_def)
  with ms s1 show "R s (world_after (bindE m k) s)"
    using keeps_fromD [OF k] trans by (cases r) (auto simp: bindE_def)
qed

lemma from_read:
  assumes m: "sees F m G" and k: "\<And>a. keeps_from R (\<lambda>s. F s \<and> G a s) (k a)"
  shows "keeps_from R F (bindE m k)"
proof (rule keeps_fromI)
  fix s
  assume F: "F s"
  obtain r s1 where ms: "m s = (r, s1)" by (cases "m s") auto
  with m F have s1: "s1 = s" and G: "\<And>a. r = Inr a \<Longrightarrow> G a s" by (auto simp: sees_def)
  show "R s (world_after (bindE m k) s)"
  proof (cases r)
    case (Inl e)
    with ms s1 show ?thesis by (simp add: bindE_def refl)
  next
    case (Inr a)
    with ms s1 F G show ?thesis using keeps_fromD [OF k [of a], of s] by (simp add: bindE_def)
  qed
qed

lemma from_try_prog: "keeps_from R F m \<Longrightarrow> keeps_from R F (try_prog m)"
  by (simp add: keeps_from_def try_prog_apply)

lemma from_if: "(b \<Longrightarrow> keeps_from R F m) \<Longrightarrow> (\<not> b \<Longrightarrow> keeps_from R F n) \<Longrightarrow> keeps_from R F (if b then m else n)"
  by simp

lemma from_case_sum:
  "(\<And>e. r = Inl e \<Longrightarrow> keeps_from R F (f e)) \<Longrightarrow> (\<And>a. r = Inr a \<Longrightarrow> keeps_from R F (g a)) \<Longrightarrow>
   keeps_from R F (case r of Inl e \<Rightarrow> f e | Inr a \<Rightarrow> g a)"
  by (cases r) simp_all

lemma from_case_option:
  "(x = None \<Longrightarrow> keeps_from R F f) \<Longrightarrow> (\<And>a. x = Some a \<Longrightarrow> keeps_from R F (g a)) \<Longrightarrow>
   keeps_from R F (case x of None \<Rightarrow> f | Some a \<Rightarrow> g a)"
  by (cases x) simp_all

lemma from_case_prod:
  "(\<And>a b. p = (a, b) \<Longrightarrow> keeps_from R F (f a b)) \<Longrightarrow> keeps_from R F (case p of (a, b) \<Rightarrow> f a b)"
  by (cases p) simp

lemma from_foreach:
  "stable R F \<Longrightarrow> (\<And>x. x \<in> set xs \<Longrightarrow> keeps_from R F (f x)) \<Longrightarrow> keeps_from R F (foreach f xs)"
  by (induction xs) (simp_all add: from_keeps keeps_ret from_bindE)

lemma from_mapE:
  "stable R F \<Longrightarrow> (\<And>x. x \<in> set xs \<Longrightarrow> keeps_from R F (f x)) \<Longrightarrow> keeps_from R F (mapE f xs)"
  by (induction xs) (simp_all add: from_keeps keeps_ret from_bindE)

lemma from_weaken: "keeps_from R G m \<Longrightarrow> (\<And>s. F s \<Longrightarrow> G s) \<Longrightarrow> keeps_from R F m"
  by (simp add: keeps_from_def)

end

section \<open>Keyed rows\<close>

text \<open>
  A table is the list of its rows. \<open>SELECT ... WHERE key = k\<close> finds the row,
  \<open>UPDATE ... WHERE key = k\<close> rewrites it, \<open>DELETE ... WHERE p\<close> filters; an insert
  appends. The list order stands for the physical order of the rows.
\<close>

definition find_row :: "('r \<Rightarrow> 'k) \<Rightarrow> 'k \<Rightarrow> 'r list \<Rightarrow> 'r option" where
  "find_row key k rows = find (\<lambda>r. key r = k) rows"

definition update_rows :: "('r \<Rightarrow> 'k) \<Rightarrow> 'k \<Rightarrow> ('r \<Rightarrow> 'r) \<Rightarrow> 'r list \<Rightarrow> 'r list" where
  "update_rows key k f rows = map (\<lambda>r. if key r = k then f r else r) rows"

definition has_row :: "('r \<Rightarrow> 'k) \<Rightarrow> 'k \<Rightarrow> 'r list \<Rightarrow> bool" where
  "has_row key k rows = (\<exists>r \<in> set rows. key r = k)"

abbreviation unique_key :: "('r \<Rightarrow> 'k) \<Rightarrow> 'r list \<Rightarrow> bool" where
  "unique_key key rows \<equiv> distinct (map key rows)"

lemma find_row_SomeD: "find_row key k rows = Some r \<Longrightarrow> r \<in> set rows \<and> key r = k"
  by (auto simp: find_row_def find_Some_iff)

lemma find_row_NoneD: "find_row key k rows = None \<Longrightarrow> r \<in> set rows \<Longrightarrow> key r \<noteq> k"
  by (auto simp: find_row_def find_None_iff)

lemma find_row_None_iff: "find_row key k rows = None \<longleftrightarrow> \<not> has_row key k rows"
  by (auto simp: find_row_def find_None_iff has_row_def)

lemma find_row_unique:
  "unique_key key rows \<Longrightarrow> r \<in> set rows \<Longrightarrow> key r = k \<Longrightarrow> find_row key k rows = Some r"
  unfolding find_row_def by (induction rows) auto

lemma find_row_iff:
  "unique_key key rows \<Longrightarrow> find_row key k rows = Some r \<longleftrightarrow> r \<in> set rows \<and> key r = k"
  by (auto dest: find_row_SomeD intro: find_row_unique)

lemma find_row_Nil [simp]: "find_row key k [] = None"
  by (simp add: find_row_def)

lemma find_row_Cons [simp]:
  "find_row key k (r # rows) = (if key r = k then Some r else find_row key k rows)"
  by (simp add: find_row_def)

lemma find_row_update:
  assumes "\<And>r. key (f r) = key r"
  shows "find_row key k' (update_rows key k f rows) =
    (if k' = k then map_option f (find_row key k rows) else find_row key k' rows)"
  by (induction rows) (auto simp: update_rows_def assms)

lemma find_row_append:
  "find_row key k (rows @ [r]) =
    (case find_row key k rows of Some x \<Rightarrow> Some x | None \<Rightarrow> if key r = k then Some r else None)"
  by (induction rows) auto

lemma update_rows_Nil [simp]: "update_rows key k f [] = []"
  by (simp add: update_rows_def)

lemma update_rows_Cons [simp]:
  "update_rows key k f (r # rows) = (if key r = k then f r else r) # update_rows key k f rows"
  by (simp add: update_rows_def)

lemma map_update_rows:
  assumes "\<And>r. g (f r) = g r"
  shows "map g (update_rows key k f rows) = map g rows"
  by (induction rows) (auto simp: assms)

lemma set_update_rows:
  "set (update_rows key k f rows) = (\<lambda>r. if key r = k then f r else r) ` set rows"
  by (simp add: update_rows_def)

lemma has_row_iff_image: "has_row key k rows \<longleftrightarrow> k \<in> key ` set rows"
  by (auto simp: has_row_def)

lemma has_row_update [simp]:
  assumes "\<And>r. key' (f r) = key' r"
  shows "has_row key' k' (update_rows key k f rows) = has_row key' k' rows"
  using assms by (auto simp: has_row_def set_update_rows)

lemma has_row_append [simp]: "has_row key k (rows @ [r]) \<longleftrightarrow> has_row key k rows \<or> key r = k"
  by (auto simp: has_row_def)

lemma has_row_Nil [simp]: "\<not> has_row key k []"
  by (simp add: has_row_def)

lemma has_row_Cons [simp]: "has_row key k (r # rows) \<longleftrightarrow> key r = k \<or> has_row key k rows"
  by (simp add: has_row_def)

lemma unique_key_append:
  "unique_key key (rows @ [r]) \<longleftrightarrow> unique_key key rows \<and> \<not> has_row key (key r) rows"
  by (auto simp: has_row_iff_image)

end
