(* ===== verification/States.thy ===== *)
theory States
  imports Prelude
begin

text \<open>
  The run, job and lease state machines of \<open>state/states.go\<close>, with the error values
  of the state package. A state column is a Go string type: the declared constants are
  constructors, and any other string (the empty one among them) is \<open>...Other\<close>, so
  that the unknown-state branches of the validators are branches of the model.
\<close>

section \<open>Errors\<close>

text \<open>
  \<open>Wrapped m e\<close> is \<open>fmt.Errorf("m: %w", e)\<close>; \<open>NotFound m\<close> is
  \<open>fmt.Errorf("%w: m", ErrNotFound)\<close>; \<open>PlainError m\<close> is \<open>errors.New(m)\<close>. The three
  violations are the Postgres errors 23505, 23503 and 23514 with the constraint's name.
\<close>

datatype go_error =
    TransitionError string string string string
  | UnknownStateError string string
  | NotFound string
  | ErrQueueEmpty
  | ErrNoExpiredLeases
  | ErrDuplicateTrigger
  | ErrDuplicateRerun
  | ErrStaleLease
  | ErrInvalidRunState string
  | UniqueViolation string
  | ForeignKeyViolation string
  | CheckViolation string
  | PlainError string
  | Wrapped string go_error

fun IsTransitionError :: "go_error \<Rightarrow> bool" where
  "IsTransitionError (TransitionError _ _ _ _) = True"
| "IsTransitionError (Wrapped _ e) = IsTransitionError e"
| "IsTransitionError _ = False"

fun IsUnknownStateError :: "go_error \<Rightarrow> bool" where
  "IsUnknownStateError (UnknownStateError _ _) = True"
| "IsUnknownStateError (Wrapped _ e) = IsUnknownStateError e"
| "IsUnknownStateError _ = False"

fun isUniqueViolation :: "go_error \<Rightarrow> bool" where
  "isUniqueViolation (UniqueViolation _) = True"
| "isUniqueViolation (Wrapped _ e) = isUniqueViolation e"
| "isUniqueViolation _ = False"

fun is_not_found :: "go_error \<Rightarrow> bool" where
  "is_not_found (NotFound _) = True"
| "is_not_found (Wrapped _ e) = is_not_found e"
| "is_not_found _ = False"

section \<open>Run states\<close>

datatype run_state =
    RunStateCreated | RunStatePlanning | RunStatePlanFailed | RunStateQueued | RunStateRunning
  | RunStateCancelRequested | RunStateSuccess | RunStateFailed | RunStateCanceled
  | RunStateReported | RunStateTimeout | RunStateOther string

fun run_state_string :: "run_state \<Rightarrow> string" where
  "run_state_string RunStateCreated = ''CREATED''"
| "run_state_string RunStatePlanning = ''PLANNING''"
| "run_state_string RunStatePlanFailed = ''PLAN_FAILED''"
| "run_state_string RunStateQueued = ''QUEUED''"
| "run_state_string RunStateRunning = ''RUNNING''"
| "run_state_string RunStateCancelRequested = ''CANCEL_REQUESTED''"
| "run_state_string RunStateSuccess = ''SUCCESS''"
| "run_state_string RunStateFailed = ''FAILED''"
| "run_state_string RunStateCanceled = ''CANCELED''"
| "run_state_string RunStateReported = ''REPORTED''"
| "run_state_string RunStateTimeout = ''TIMEOUT''"
| "run_state_string (RunStateOther x) = x"

fun runTransitions :: "run_state \<Rightarrow> run_state list option" where
  "runTransitions RunStateCreated = Some [RunStateCreated, RunStatePlanning]"
| "runTransitions RunStatePlanning = Some [RunStatePlanning, RunStateQueued, RunStatePlanFailed]"
| "runTransitions RunStatePlanFailed = Some [RunStatePlanFailed, RunStateFailed]"
| "runTransitions RunStateQueued = Some [RunStateQueued, RunStateRunning, RunStateCancelRequested]"
| "runTransitions RunStateRunning =
     Some [RunStateRunning, RunStateSuccess, RunStateFailed, RunStateCancelRequested, RunStateTimeout]"
| "runTransitions RunStateCancelRequested = Some [RunStateCancelRequested, RunStateCanceled]"
| "runTransitions RunStateSuccess = Some [RunStateSuccess, RunStateReported]"
| "runTransitions RunStateFailed = Some [RunStateFailed, RunStateReported]"
| "runTransitions RunStateCanceled = Some [RunStateCanceled, RunStateReported]"
| "runTransitions RunStateTimeout = Some [RunStateTimeout, RunStateReported]"
| "runTransitions RunStateReported = Some [RunStateReported]"
| "runTransitions (RunStateOther _) = None"

section \<open>Job states\<close>

datatype job_state =
    JobStateCreated | JobStateQueued | JobStateLeased | JobStateStarting | JobStateRunning
  | JobStateUploading | JobStateSucceeded | JobStateFailed | JobStateCancelRequested
  | JobStateCanceled | JobStateTimedOut | JobStateStale | JobStateOther string

fun job_state_string :: "job_state \<Rightarrow> string" where
  "job_state_string JobStateCreated = ''CREATED''"
| "job_state_string JobStateQueued = ''QUEUED''"
| "job_state_string JobStateLeased = ''LEASED''"
| "job_state_string JobStateStarting = ''STARTING''"
| "job_state_string JobStateRunning = ''RUNNING''"
| "job_state_string JobStateUploading = ''UPLOADING''"
| "job_state_string JobStateSucceeded = ''SUCCEEDED''"
| "job_state_string JobStateFailed = ''FAILED''"
| "job_state_string JobStateCancelRequested = ''CANCEL_REQUESTED''"
| "job_state_string JobStateCanceled = ''CANCELED''"
| "job_state_string JobStateTimedOut = ''TIMED_OUT''"
| "job_state_string JobStateStale = ''STALE''"
| "job_state_string (JobStateOther x) = x"

fun jobTransitions :: "job_state \<Rightarrow> job_state list option" where
  "jobTransitions JobStateCreated = Some [JobStateCreated, JobStateQueued]"
| "jobTransitions JobStateQueued = Some [JobStateQueued, JobStateLeased, JobStateCancelRequested]"
| "jobTransitions JobStateLeased =
     Some [JobStateLeased, JobStateStarting, JobStateQueued, JobStateCancelRequested, JobStateStale]"
| "jobTransitions JobStateStarting =
     Some [JobStateStarting, JobStateRunning, JobStateQueued, JobStateCancelRequested, JobStateStale]"
| "jobTransitions JobStateRunning =
     Some [JobStateRunning, JobStateUploading, JobStateTimedOut, JobStateQueued,
           JobStateCancelRequested, JobStateStale]"
| "jobTransitions JobStateUploading = Some [JobStateUploading, JobStateSucceeded, JobStateFailed]"
| "jobTransitions JobStateSucceeded = Some [JobStateSucceeded]"
| "jobTransitions JobStateFailed = Some [JobStateFailed, JobStateQueued]"
| "jobTransitions JobStateCancelRequested = Some [JobStateCancelRequested, JobStateCanceled]"
| "jobTransitions JobStateCanceled = Some [JobStateCanceled]"
| "jobTransitions JobStateTimedOut = Some [JobStateTimedOut, JobStateQueued]"
| "jobTransitions JobStateStale = Some [JobStateStale]"
| "jobTransitions (JobStateOther _) = None"

section \<open>Lease states\<close>

datatype lease_state =
    LeaseStateGranted | LeaseStateActive | LeaseStateExpired | LeaseStateRevoked
  | LeaseStateCompleted | LeaseStateCanceled | LeaseStateOther string

fun lease_state_string :: "lease_state \<Rightarrow> string" where
  "lease_state_string LeaseStateGranted = ''GRANTED''"
| "lease_state_string LeaseStateActive = ''ACTIVE''"
| "lease_state_string LeaseStateExpired = ''EXPIRED''"
| "lease_state_string LeaseStateRevoked = ''REVOKED''"
| "lease_state_string LeaseStateCompleted = ''COMPLETED''"
| "lease_state_string LeaseStateCanceled = ''CANCELED''"
| "lease_state_string (LeaseStateOther x) = x"

fun leaseTransitions :: "lease_state \<Rightarrow> lease_state list option" where
  "leaseTransitions LeaseStateGranted =
     Some [LeaseStateGranted, LeaseStateActive, LeaseStateExpired, LeaseStateRevoked]"
| "leaseTransitions LeaseStateActive =
     Some [LeaseStateActive, LeaseStateExpired, LeaseStateCompleted, LeaseStateCanceled, LeaseStateRevoked]"
| "leaseTransitions LeaseStateExpired = Some [LeaseStateExpired]"
| "leaseTransitions LeaseStateRevoked = Some [LeaseStateRevoked]"
| "leaseTransitions LeaseStateCompleted = Some [LeaseStateCompleted]"
| "leaseTransitions LeaseStateCanceled = Some [LeaseStateCanceled]"
| "leaseTransitions (LeaseStateOther _) = None"

section \<open>Membership and validation\<close>

fun containsRunStateValue :: "run_state list \<Rightarrow> run_state \<Rightarrow> bool" where
  "containsRunStateValue [] target = False"
| "containsRunStateValue (candidate # rest) target =
     (if candidate = target then True else containsRunStateValue rest target)"

fun containsJobStateValue :: "job_state list \<Rightarrow> job_state \<Rightarrow> bool" where
  "containsJobStateValue [] target = False"
| "containsJobStateValue (candidate # rest) target =
     (if candidate = target then True else containsJobStateValue rest target)"

fun containsLeaseStateValue :: "lease_state list \<Rightarrow> lease_state \<Rightarrow> bool" where
  "containsLeaseStateValue [] target = False"
| "containsLeaseStateValue (candidate # rest) target =
     (if candidate = target then True else containsLeaseStateValue rest target)"

definition containsRunState :: "run_state \<Rightarrow> bool" where
  "containsRunState x = (runTransitions x \<noteq> None)"

definition containsJobState :: "job_state \<Rightarrow> bool" where
  "containsJobState x = (jobTransitions x \<noteq> None)"

definition containsLeaseState :: "lease_state \<Rightarrow> bool" where
  "containsLeaseState x = (leaseTransitions x \<noteq> None)"

definition validateRunTransition :: "string \<Rightarrow> run_state \<Rightarrow> run_state \<Rightarrow> go_error + unit" where
  "validateRunTransition rid from_state to_state =
     (case runTransitions from_state of
        None \<Rightarrow> Inl (UnknownStateError ''run'' (run_state_string from_state))
      | Some allowed \<Rightarrow>
          if \<not> containsRunState to_state then Inl (UnknownStateError ''run'' (run_state_string to_state))
          else if \<not> containsRunStateValue allowed to_state
          then Inl (TransitionError ''run'' rid (run_state_string from_state) (run_state_string to_state))
          else Inr ())"

definition validateJobTransition :: "string \<Rightarrow> job_state \<Rightarrow> job_state \<Rightarrow> go_error + unit" where
  "validateJobTransition jid from_state to_state =
     (case jobTransitions from_state of
        None \<Rightarrow> Inl (UnknownStateError ''job'' (job_state_string from_state))
      | Some allowed \<Rightarrow>
          if \<not> containsJobState to_state then Inl (UnknownStateError ''job'' (job_state_string to_state))
          else if \<not> containsJobStateValue allowed to_state
          then Inl (TransitionError ''job'' jid (job_state_string from_state) (job_state_string to_state))
          else Inr ())"

definition validateLeaseTransition :: "string \<Rightarrow> lease_state \<Rightarrow> lease_state \<Rightarrow> go_error + unit" where
  "validateLeaseTransition lid from_state to_state =
     (case leaseTransitions from_state of
        None \<Rightarrow> Inl (UnknownStateError ''lease'' (lease_state_string from_state))
      | Some allowed \<Rightarrow>
          if \<not> containsLeaseState to_state then Inl (UnknownStateError ''lease'' (lease_state_string to_state))
          else if \<not> containsLeaseStateValue allowed to_state
          then Inl (TransitionError ''lease'' lid (lease_state_string from_state) (lease_state_string to_state))
          else Inr ())"

lemma containsRunStateValue_iff [simp]: "containsRunStateValue xs x \<longleftrightarrow> x \<in> set xs"
  by (induction xs) auto

lemma containsJobStateValue_iff [simp]: "containsJobStateValue xs x \<longleftrightarrow> x \<in> set xs"
  by (induction xs) auto

lemma containsLeaseStateValue_iff [simp]: "containsLeaseStateValue xs x \<longleftrightarrow> x \<in> set xs"
  by (induction xs) auto

section \<open>The step relations the tables define\<close>

text \<open>
  One rule per entry: \<open>run_step a b\<close> when the table of \<open>a\<close> lists \<open>b\<close>. The closures
  say which states a row can reach in its whole life, whatever the interleaving.
\<close>

inductive run_step :: "run_state \<Rightarrow> run_state \<Rightarrow> bool" where
  "runTransitions a = Some bs \<Longrightarrow> b \<in> set bs \<Longrightarrow> run_step a b"

inductive job_step :: "job_state \<Rightarrow> job_state \<Rightarrow> bool" where
  "jobTransitions a = Some bs \<Longrightarrow> b \<in> set bs \<Longrightarrow> job_step a b"

inductive lease_step :: "lease_state \<Rightarrow> lease_state \<Rightarrow> bool" where
  "leaseTransitions a = Some bs \<Longrightarrow> b \<in> set bs \<Longrightarrow> lease_step a b"

inductive_simps run_step_simps: "run_step a b"
inductive_simps job_step_simps: "job_step a b"
inductive_simps lease_step_simps: "lease_step a b"

lemma run_transitions_closed: "runTransitions a = Some bs \<Longrightarrow> b \<in> set bs \<Longrightarrow> containsRunState b"
  by (cases a) (auto simp: containsRunState_def)

lemma job_transitions_closed: "jobTransitions a = Some bs \<Longrightarrow> b \<in> set bs \<Longrightarrow> containsJobState b"
  by (cases a) (auto simp: containsJobState_def)

lemma lease_transitions_closed:
  "leaseTransitions a = Some bs \<Longrightarrow> b \<in> set bs \<Longrightarrow> containsLeaseState b"
  by (cases a) (auto simp: containsLeaseState_def)

lemma validateRun_Inr_iff: "validateRunTransition i a b = Inr () \<longleftrightarrow> run_step a b"
  by (auto simp: validateRunTransition_def run_step_simps dest: run_transitions_closed
      split: option.splits)

lemma validateJob_Inr_iff: "validateJobTransition i a b = Inr () \<longleftrightarrow> job_step a b"
  by (auto simp: validateJobTransition_def job_step_simps dest: job_transitions_closed
      split: option.splits)

lemma validateLease_Inr_iff: "validateLeaseTransition i a b = Inr () \<longleftrightarrow> lease_step a b"
  by (auto simp: validateLeaseTransition_def lease_step_simps dest: lease_transitions_closed
      split: option.splits)

lemma run_step_refl: "containsRunState a \<Longrightarrow> run_step a a"
  by (cases a) (auto simp: run_step_simps containsRunState_def)

lemma job_step_refl: "containsJobState a \<Longrightarrow> job_step a a"
  by (cases a) (auto simp: job_step_simps containsJobState_def)

lemma lease_step_refl: "containsLeaseState a \<Longrightarrow> lease_step a a"
  by (cases a) (auto simp: lease_step_simps containsLeaseState_def)

lemma run_step_known: "run_step a b \<Longrightarrow> containsRunState a \<and> containsRunState b"
  by (auto simp: run_step_simps dest: run_transitions_closed) (auto simp: containsRunState_def)

lemma job_step_known: "job_step a b \<Longrightarrow> containsJobState a \<and> containsJobState b"
  by (auto simp: job_step_simps dest: job_transitions_closed) (auto simp: containsJobState_def)

lemma lease_step_known: "lease_step a b \<Longrightarrow> containsLeaseState a \<and> containsLeaseState b"
  by (auto simp: lease_step_simps dest: lease_transitions_closed) (auto simp: containsLeaseState_def)

section \<open>What the closures forbid\<close>

text \<open>A set closed under single steps is closed under the reflexive transitive closure.\<close>

lemma rtranclp_closed:
  assumes "step\<^sup>*\<^sup>* a b" and "P a" and "\<And>x y. P x \<Longrightarrow> step x y \<Longrightarrow> P y"
  shows "P b"
  using assms by (induction rule: rtranclp_induct) auto

fun run_settled :: "run_state \<Rightarrow> bool" where
  "run_settled RunStateSuccess = True"
| "run_settled RunStateFailed = True"
| "run_settled RunStateCanceled = True"
| "run_settled RunStateTimeout = True"
| "run_settled RunStateReported = True"
| "run_settled _ = False"

fun lease_live :: "lease_state \<Rightarrow> bool" where
  "lease_live LeaseStateGranted = True"
| "lease_live LeaseStateActive = True"
| "lease_live _ = False"

fun job_final :: "job_state \<Rightarrow> bool" where
  "job_final JobStateSucceeded = True"
| "job_final JobStateCanceled = True"
| "job_final JobStateStale = True"
| "job_final _ = False"

lemma run_settled_step: "run_settled a \<Longrightarrow> run_step a b \<Longrightarrow> b = a \<or> b = RunStateReported"
  by (cases a) (auto simp: run_step_simps)

lemma run_settled_closure:
  assumes "run_step\<^sup>*\<^sup>* a b" and "run_settled a"
  shows "b = a \<or> b = RunStateReported"
proof (rule rtranclp_closed [OF assms(1)])
  show "a = a \<or> a = RunStateReported" by simp
next
  fix x y
  assume "x = a \<or> x = RunStateReported" and "run_step x y"
  with assms(2) show "y = a \<or> y = RunStateReported"
    by (auto dest: run_settled_step simp: run_step_simps)
qed

lemma job_final_closure: "job_step\<^sup>*\<^sup>* a b \<Longrightarrow> job_final a \<Longrightarrow> b = a"
  by (erule rtranclp_closed [where P = "\<lambda>x. x = a"]) (auto simp: job_step_simps elim!: job_final.elims)

lemma lease_dead_closure: "lease_step\<^sup>*\<^sup>* a b \<Longrightarrow> \<not> lease_live a \<Longrightarrow> b = a"
  by (erule rtranclp_closed [where P = "\<lambda>x. x = a"])
    (cases a; auto simp: lease_step_simps)+

section \<open>Properties of the machines\<close>

text \<open>
  A rank that every step between two different states raises: the run and the lease
  machine have no cycle. The job machine has, because a job is queued again.
\<close>

fun run_rank :: "run_state \<Rightarrow> nat" where
  "run_rank RunStateCreated = 0"
| "run_rank RunStatePlanning = 1"
| "run_rank RunStatePlanFailed = 2"
| "run_rank RunStateQueued = 2"
| "run_rank RunStateRunning = 3"
| "run_rank RunStateCancelRequested = 4"
| "run_rank RunStateReported = 6"
| "run_rank _ = 5"

lemma run_step_rank: "run_step a b \<Longrightarrow> a = b \<or> run_rank a < run_rank b"
  by (cases a) (auto simp: run_step_simps)

lemma run_closure_rank:
  assumes "run_step\<^sup>*\<^sup>* a b"
  shows "a = b \<or> run_rank a < run_rank b"
  using assms by (induction rule: rtranclp_induct) (auto dest: run_step_rank)

lemma run_path: "run_step a b \<Longrightarrow> run_step\<^sup>*\<^sup>* b c \<Longrightarrow> run_step\<^sup>*\<^sup>* a c"
  by (rule converse_rtranclp_into_rtranclp)

lemma run_settled_reported: "run_settled a \<Longrightarrow> run_step\<^sup>*\<^sup>* a RunStateReported"
  by (cases a) (auto simp: run_step_simps intro: r_into_rtranclp)

lemma run_reaches_failed: "a \<in> {RunStatePlanning, RunStatePlanFailed, RunStateRunning, RunStateQueued} \<Longrightarrow>
  run_step\<^sup>*\<^sup>* a RunStateFailed"
  by (elim insertE emptyE)
    (simp_all add: run_path [of _ RunStatePlanFailed] run_path [of _ RunStateRunning] r_into_rtranclp run_step_simps)

text \<open>
  C40: The run machine is a one-way street with an exit: two different run states are
  never reachable from each other through \<open>runTransitions\<close>, and every known state has
  a path to \<open>REPORTED\<close>. So no sequence of accepted transitions revives or repeats a
  phase of a run, and no phase is a trap.
\<close>

theorem run_machine_one_way:
  "(run_step\<^sup>*\<^sup>* a b \<and> run_step\<^sup>*\<^sup>* b a \<longrightarrow> a = b)
   \<and> (containsRunState a \<longrightarrow> run_step\<^sup>*\<^sup>* a RunStateReported)"
proof (intro conjI impI)
  assume "run_step\<^sup>*\<^sup>* a b \<and> run_step\<^sup>*\<^sup>* b a"
  then show "a = b" using run_closure_rank [of a b] run_closure_rank [of b a] by auto
next
  assume known: "containsRunState a"
  have failed: "run_step\<^sup>*\<^sup>* RunStateFailed RunStateReported"
    by (rule run_settled_reported) simp
  consider "run_settled a" | "a = RunStateCreated" | "a = RunStateCancelRequested"
    | "a \<in> {RunStatePlanning, RunStatePlanFailed, RunStateRunning, RunStateQueued}"
    using known by (cases a) (auto simp: containsRunState_def)
  then show "run_step\<^sup>*\<^sup>* a RunStateReported"
  proof cases
    case 1
    then show ?thesis by (rule run_settled_reported)
  next
    case 2
    have "run_step\<^sup>*\<^sup>* RunStatePlanning RunStateReported"
      using run_reaches_failed [of RunStatePlanning] failed by auto
    with 2 show ?thesis by (auto intro: run_path simp: run_step_simps)
  next
    case 3
    have "run_step\<^sup>*\<^sup>* RunStateCanceled RunStateReported" by (rule run_settled_reported) simp
    with 3 show ?thesis by (auto intro: run_path simp: run_step_simps)
  next
    case 4
    then show ?thesis using run_reaches_failed failed by (meson rtranclp_trans)
  qed
qed

theorem run_machine_one_way_witness:
  "run_step\<^sup>*\<^sup>* RunStateRunning RunStateReported \<and> \<not> run_step\<^sup>*\<^sup>* RunStateReported RunStateRunning"
proof -
  have "run_step\<^sup>*\<^sup>* RunStateRunning RunStateReported"
    using run_machine_one_way [of RunStateRunning RunStateRunning] by (simp add: containsRunState_def)
  moreover have "\<not> run_step\<^sup>*\<^sup>* RunStateReported RunStateRunning"
    using run_machine_one_way [of RunStateRunning RunStateReported] calculation by auto
  ultimately show ?thesis by simp
qed

text \<open>
  The states a row can never leave, whatever transitions are asked for: a settled
  run only ever becomes \<open>REPORTED\<close>, a \<open>SUCCEEDED\<close>, \<open>CANCELED\<close> or \<open>STALE\<close> job keeps
  its state, and a lease that is neither granted nor active keeps its state. These are
  the terminal states of \<open>docs/architecture/state-machines.md\<close>.
\<close>

theorem terminal_states_are_kept:
  "(run_step\<^sup>*\<^sup>* r r' \<and> run_settled r \<longrightarrow> r' = r \<or> r' = RunStateReported)
   \<and> (job_step\<^sup>*\<^sup>* j j' \<and> job_final j \<longrightarrow> j' = j)
   \<and> (lease_step\<^sup>*\<^sup>* l l' \<and> \<not> lease_live l \<longrightarrow> l' = l)"
  using run_settled_closure job_final_closure lease_dead_closure by blast

theorem terminal_states_are_kept_witness:
  "run_settled RunStateSuccess \<and> \<not> run_step\<^sup>*\<^sup>* RunStateSuccess RunStateRunning
   \<and> \<not> job_step\<^sup>*\<^sup>* JobStateSucceeded JobStateQueued \<and> \<not> lease_step\<^sup>*\<^sup>* LeaseStateExpired LeaseStateActive"
  using terminal_states_are_kept [of RunStateSuccess RunStateRunning JobStateSucceeded JobStateQueued
      LeaseStateExpired LeaseStateActive]
  by auto

end
