(* ===== verification/Types.thy ===== *)
theory Types
  imports States
begin

text \<open>
  The rows of the Postgres tables (\<open>state/types.go\<close>, \<open>state/recipes.go\<close>,
  \<open>state/cache_events.go\<close> and the columns the migrations add), the wire messages of
  \<open>protocol/messages.go\<close>, the planner's interface types, and the world the store's
  programs act on.

  A \<open>time.Time\<close> is the number of nanoseconds since Go's zero time, so \<open>IsZero\<close> is
  \<open>t = 0\<close>; a nil pointer or SQL \<open>NULL\<close> is \<open>None\<close>; a Go \<open>int\<close> is an \<open>int\<close>.
\<close>

section \<open>Time\<close>

type_synonym go_time = int

definition time_IsZero :: "go_time \<Rightarrow> bool" where
  "time_IsZero t = (t = 0)"

definition time_After :: "go_time \<Rightarrow> go_time \<Rightarrow> bool" where
  "time_After t u = (t > u)"

definition time_second :: int where
  "time_second = 1000000000"

section \<open>Wire messages (protocol/messages.go)\<close>

record cache_spec =
  cs_type :: string
  cs_key :: string
  cs_paths :: "string list"
  cs_read_only :: bool

record job_spec =
  spec_name :: string
  spec_workdir :: string
  spec_steps :: "string list"
  spec_env :: "(string \<times> string) list"
  spec_caches :: "cache_spec list"

record artifact_ref =
  aref_type :: string
  aref_uri :: string

record cache_event_msg =
  cem_type :: string
  cem_key :: string
  cem_hit :: bool
  cem_read_only :: bool

record lease_granted =
  lg_run_id :: string
  lg_job_id :: string
  lg_lease_id :: string
  lg_lease_ttl_seconds :: int
  lg_heartbeat_interval_seconds :: int
  lg_max_runtime_seconds :: int
  lg_job_spec :: job_spec

record ack_lease_msg =
  ack_job_id :: string
  ack_lease_id :: string
  ack_runner_id :: string
  ack_accepted_at :: go_time

record heartbeat_msg =
  hb_lease_id :: string
  hb_runner_id :: string
  hb_ts :: go_time

record heartbeat_ack =
  hba_lease_id :: string
  hba_extend_lease :: bool
  hba_new_lease_ttl_seconds :: int
  hba_cancel_requested :: bool
  hba_cancel_deadline_seconds :: int

text \<open>\<open>CompleteStatus\<close> and \<open>CancelFinalStatus\<close> are open string types, as the states are.\<close>

datatype complete_status =
    CompleteStatusSucceeded | CompleteStatusFailed | CompleteStatusOther string

datatype cancel_final_status =
    CancelFinalStatusCanceled | CancelFinalStatusOther string

record complete_msg =
  cm_lease_id :: string
  cm_runner_id :: string
  cm_status :: complete_status
  cm_exit_code :: int
  cm_finished_at :: go_time
  cm_summary :: string
  cm_artifacts :: "artifact_ref list"
  cm_caches :: "cache_event_msg list"

record cancel_ack_msg =
  ca_lease_id :: string
  ca_runner_id :: string
  ca_final_status :: cancel_final_status
  ca_ts :: go_time
  ca_artifacts :: "artifact_ref list"
  ca_summary :: string

section \<open>Planner interface (planner/planner.go, planner/recipes.go)\<close>

record plan_request =
  pr_run_id :: string
  pr_repo_id :: string
  pr_ref :: string
  pr_commit_sha :: string

record skipped_job =
  sj_name :: string
  sj_reason :: string

record planned_job =
  pj_name :: string
  pj_required :: bool
  pj_spec :: job_spec
  pj_reason :: string
  pj_depends_on :: "string list"

record plan_result =
  pl_jobs :: "planned_job list"
  pl_explain :: string
  pl_skipped_jobs :: "skipped_job list"
  pl_fingerprint :: string
  pl_recipe_source :: string
  pl_recipe_id :: string
  pl_recipe_version :: int

record recipe =
  rc_id :: string
  rc_fingerprint :: string
  rc_version :: int
  rc_source :: string
  rc_jobs :: "planned_job list"

text \<open>
  The documents \<open>encoding/json\<close> writes into the JSONB columns: the value they encode,
  no bytes at all, or text that decodes to neither type.
\<close>

datatype json_doc =
    JsonEmpty
  | JsonJobSpec job_spec
  | JsonPlannedJobs "planned_job list"
  | JsonText string

fun unmarshal_job_spec :: "json_doc \<Rightarrow> go_error + job_spec" where
  "unmarshal_job_spec (JsonJobSpec x) = Inr x"
| "unmarshal_job_spec _ = Inl (PlainError ''json: cannot unmarshal into JobSpec'')"

fun unmarshal_planned_jobs :: "json_doc \<Rightarrow> go_error + planned_job list" where
  "unmarshal_planned_jobs (JsonPlannedJobs xs) = Inr xs"
| "unmarshal_planned_jobs _ = Inl (PlainError ''json: cannot unmarshal into PlannedJob slice'')"

section \<open>Table rows\<close>

record run =
  run_id :: string
  run_repo_id :: string
  run_ref :: string
  run_commit_sha :: string
  run_state :: run_state
  run_created_at :: go_time
  run_updated_at :: go_time

record job =
  job_id :: string
  job_run_id :: string
  job_name :: string
  job_required :: bool
  job_state :: job_state
  job_attempt_count :: int
  job_reason :: string
  job_created_at :: go_time
  job_updated_at :: go_time

record job_attempt =
  att_id :: string
  att_job_id :: string
  att_number :: int
  att_state :: job_state
  att_lease_id :: "string option"
  att_created_at :: go_time
  att_updated_at :: go_time
  att_started_at :: "go_time option"
  att_completed_at :: "go_time option"

record lease =
  lease_id :: string
  lease_attempt_id :: string
  lease_runner_id :: "string option"
  lease_state :: lease_state
  lease_ttl :: int
  lease_heartbeat :: int
  lease_granted_at :: go_time
  lease_updated_at :: go_time
  lease_acknowledged_at :: "go_time option"
  lease_last_heartbeat_at :: "go_time option"
  lease_expires_at :: "go_time option"
  lease_completed_at :: "go_time option"

record queue_item =
  q_attempt_id :: string
  q_available_at :: go_time
  q_inflight_until :: "go_time option"
  q_delivery_count :: int
  q_last_delivered_at :: "go_time option"

record artifact =
  art_id :: int
  art_attempt_id :: string
  art_type :: string
  art_uri :: string
  art_created_at :: go_time

datatype failure_category =
    FailureCategoryUser | FailureCategoryInfra | FailureCategoryTooling | FailureCategoryFlaky
  | FailureCategoryCanceled | FailureCategoryUnknown | FailureCategoryOther string

datatype failure_confidence =
    FailureConfidenceLow | FailureConfidenceMedium | FailureConfidenceHigh
  | FailureConfidenceOther string

record failure_explanation =
  fe_id :: int
  fe_attempt_id :: string
  fe_category :: failure_category
  fe_summary :: string
  fe_confidence :: failure_confidence
  fe_details :: string
  fe_created_at :: go_time

record run_trigger =
  tr_run_id :: string
  tr_provider :: string
  tr_event_key :: string
  tr_event_type :: string
  tr_repo_id :: string
  tr_repo_owner :: string
  tr_repo_name :: string
  tr_pr_number :: "int option"
  tr_created_at :: go_time

record status_report =
  sr_run_id :: string
  sr_provider :: string
  sr_check_run_id :: "string option"
  sr_pr_comment_id :: "string option"
  sr_last_state :: string
  sr_created_at :: go_time
  sr_updated_at :: go_time

record run_rerun =
  rr_original_run_id :: string
  rr_idempotency_key :: string
  rr_new_run_id :: string

record job_dependency =
  dep_job_id :: string
  dep_on_job_id :: string

record job_spec_row =
  js_job_id :: string
  js_spec :: json_doc

record cache_event =
  ce_id :: int
  ce_attempt_id :: string
  ce_type :: string
  ce_key :: string
  ce_hit :: bool
  ce_read_only :: bool

record run_plan =
  rp_run_id :: string
  rp_repo_id :: string
  rp_fingerprint :: string
  rp_recipe_id :: "string option"
  rp_recipe_source :: string
  rp_recipe_version :: "int option"
  rp_explain :: string
  rp_skipped_jobs :: "skipped_job list"
  rp_created_at :: go_time
  rp_updated_at :: go_time

record recipe_record =
  rec_id :: string
  rec_repo_id :: string
  rec_fingerprint :: string
  rec_version :: int
  rec_source :: string
  rec_json :: json_doc
  rec_created_at :: go_time
  rec_last_used_at :: "go_time option"

section \<open>The world\<close>

text \<open>
  The tables, the two clocks (\<open>pg_now\<close> is what SQL \<open>NOW()\<close> reads and \<open>host_now\<close>
  what \<open>time.Now()\<close> reads), the \<open>BIGSERIAL\<close> counter, the number of identifiers the
  \<open>IDGenerator\<close> has handed out, and the counter increments and status reports issued
  so far, latest first.
\<close>

datatype metric_event =
    IncRun string | IncJob string | IncLease string | IncFailure string

record world =
  w_runs :: "run list"
  w_jobs :: "job list"
  w_attempts :: "job_attempt list"
  w_leases :: "lease list"
  w_queue :: "queue_item list"
  w_artifacts :: "artifact list"
  w_explanations :: "failure_explanation list"
  w_triggers :: "run_trigger list"
  w_reports :: "status_report list"
  w_reruns :: "run_rerun list"
  w_dependencies :: "job_dependency list"
  w_specs :: "job_spec_row list"
  w_cache_events :: "cache_event list"
  w_plans :: "run_plan list"
  w_recipes :: "recipe_record list"
  w_serial :: int
  w_ids :: nat
  pg_now :: go_time
  host_now :: go_time
  w_metrics :: "metric_event list"

type_synonym 'a db = "(world, go_error, 'a) prog"

definition empty_world :: world where
  "empty_world = \<lparr>w_runs = [], w_jobs = [], w_attempts = [], w_leases = [], w_queue = [],
     w_artifacts = [], w_explanations = [], w_triggers = [], w_reports = [], w_reruns = [],
     w_dependencies = [], w_specs = [], w_cache_events = [], w_plans = [], w_recipes = [],
     w_serial = 1, w_ids = 0, pg_now = 1, host_now = 1, w_metrics = []\<rparr>"

end
