(* ===== verification/Tables.thy ===== *)
theory Tables
  imports Types "HOL-Library.Char_ord" "HOL-Library.List_Lexorder" "HOL-Library.Product_Lexorder"
begin

text \<open>
  The SQL the store issues, as programs over the world: one insert per table, with the
  constraints that the migrations in \<open>state/migrations\<close> put on it (checks first, then
  unique indexes, then foreign keys), the updates by key, and the joins and orderings of
  the queries. A statement that violates a constraint changes nothing and returns the
  Postgres error. Text compares bytewise (the \<open>C\<close> collation).
\<close>

section \<open>Statements\<close>

definition sql_insert :: "(world \<Rightarrow> go_error option) \<Rightarrow> (world \<Rightarrow> world) \<Rightarrow> unit db" where
  "sql_insert violation ins =
     (\<lambda>w. case violation w of Some e \<Rightarrow> (Inl e, w) | None \<Rightarrow> (Inr (), ins w))"

definition select_by :: "(world \<Rightarrow> 'r list) \<Rightarrow> ('r \<Rightarrow> string) \<Rightarrow> string \<Rightarrow> string \<Rightarrow> 'r db" where
  "select_by rows key k what =
     (\<lambda>w. case find_row key k (rows w) of
            None \<Rightarrow> (Inl (NotFound (what @ '' '' @ k)), w)
          | Some r \<Rightarrow> (Inr r, w))"

definition pg_integer :: "int \<Rightarrow> bool" where
  "pg_integer n = (-2147483648 \<le> n \<and> n \<le> 2147483647)"

definition integer_out_of_range :: go_error where
  "integer_out_of_range = PlainError ''integer out of range''"

section \<open>Runs\<close>

definition run_violation :: "run \<Rightarrow> world \<Rightarrow> go_error option" where
  "run_violation r w =
     (if \<not> containsRunState (run_state r) then Some (CheckViolation ''runs_state_check'')
      else if has_row run_id (run_id r) (w_runs w) then Some (UniqueViolation ''runs_pkey'')
      else None)"

definition insert_run :: "run \<Rightarrow> unit db" where
  "insert_run r = sql_insert (run_violation r) (\<lambda>w. w\<lparr>w_runs := w_runs w @ [r]\<rparr>)"

definition update_run :: "string \<Rightarrow> (run \<Rightarrow> run) \<Rightarrow> unit db" where
  "update_run rid f = modify (\<lambda>w. w\<lparr>w_runs := update_rows run_id rid f (w_runs w)\<rparr>)"

section \<open>Jobs and attempts\<close>

definition job_violation :: "job \<Rightarrow> world \<Rightarrow> go_error option" where
  "job_violation j w =
     (if \<not> containsJobState (job_state j) then Some (CheckViolation ''jobs_state_check'')
      else if has_row job_id (job_id j) (w_jobs w) then Some (UniqueViolation ''jobs_pkey'')
      else if \<not> has_row run_id (job_run_id j) (w_runs w) then Some (ForeignKeyViolation ''jobs_run_id_fkey'')
      else None)"

definition insert_job :: "job \<Rightarrow> unit db" where
  "insert_job j = sql_insert (job_violation j) (\<lambda>w. w\<lparr>w_jobs := w_jobs w @ [j]\<rparr>)"

definition update_job :: "string \<Rightarrow> (job \<Rightarrow> job) \<Rightarrow> unit db" where
  "update_job jid f = modify (\<lambda>w. w\<lparr>w_jobs := update_rows job_id jid f (w_jobs w)\<rparr>)"

definition attempt_violation :: "job_attempt \<Rightarrow> world \<Rightarrow> go_error option" where
  "attempt_violation a w =
     (if \<not> pg_integer (att_number a) then Some integer_out_of_range
      else if att_number a \<le> 0 then Some (CheckViolation ''job_attempts_attempt_number_check'')
      else if \<not> containsJobState (att_state a) then Some (CheckViolation ''job_attempts_state_check'')
      else if has_row att_id (att_id a) (w_attempts w) then Some (UniqueViolation ''job_attempts_pkey'')
      else if has_row (\<lambda>x. (att_job_id x, att_number x)) (att_job_id a, att_number a) (w_attempts w)
      then Some (UniqueViolation ''job_attempts_job_id_attempt_number_idx'')
      else if \<not> has_row job_id (att_job_id a) (w_jobs w)
      then Some (ForeignKeyViolation ''job_attempts_job_id_fkey'')
      else None)"

definition insert_attempt :: "job_attempt \<Rightarrow> unit db" where
  "insert_attempt a =
     sql_insert (attempt_violation a) (\<lambda>w. w\<lparr>w_attempts := w_attempts w @ [a]\<rparr>)"

definition update_attempt :: "string \<Rightarrow> (job_attempt \<Rightarrow> job_attempt) \<Rightarrow> unit db" where
  "update_attempt aid f = modify (\<lambda>w. w\<lparr>w_attempts := update_rows att_id aid f (w_attempts w)\<rparr>)"

section \<open>Leases\<close>

text \<open>The partial unique index \<open>leases_active_per_attempt_idx\<close> covers live leases only.\<close>

definition live_lease_of :: "string \<Rightarrow> lease \<Rightarrow> bool" where
  "live_lease_of aid l = (lease_attempt_id l = aid \<and> lease_live (lease_state l))"

definition lease_violation :: "lease \<Rightarrow> world \<Rightarrow> go_error option" where
  "lease_violation l w =
     (if \<not> pg_integer (lease_ttl l) \<or> \<not> pg_integer (lease_heartbeat l) then Some integer_out_of_range
      else if lease_heartbeat l \<le> 0 then Some (CheckViolation ''leases_heartbeat_interval_seconds_check'')
      else if \<not> containsLeaseState (lease_state l) then Some (CheckViolation ''leases_state_check'')
      else if lease_ttl l \<le> lease_heartbeat l then Some (CheckViolation ''leases_ttl_heartbeat_check'')
      else if lease_ttl l \<le> 0 then Some (CheckViolation ''leases_ttl_seconds_check'')
      else if has_row lease_id (lease_id l) (w_leases w) then Some (UniqueViolation ''leases_pkey'')
      else if lease_live (lease_state l) \<and> (\<exists>x \<in> set (w_leases w). live_lease_of (lease_attempt_id l) x)
      then Some (UniqueViolation ''leases_active_per_attempt_idx'')
      else if \<not> has_row att_id (lease_attempt_id l) (w_attempts w)
      then Some (ForeignKeyViolation ''leases_job_attempt_id_fkey'')
      else None)"

definition insert_lease :: "lease \<Rightarrow> unit db" where
  "insert_lease l = sql_insert (lease_violation l) (\<lambda>w. w\<lparr>w_leases := w_leases w @ [l]\<rparr>)"

definition update_lease :: "string \<Rightarrow> (lease \<Rightarrow> lease) \<Rightarrow> unit db" where
  "update_lease lid f = modify (\<lambda>w. w\<lparr>w_leases := update_rows lease_id lid f (w_leases w)\<rparr>)"

section \<open>Joins\<close>

text \<open>\<open>job_attempts a JOIN jobs j ON j.id = a.job_id JOIN runs r ON r.id = j.run_id\<close>\<close>

definition attempt_job :: "world \<Rightarrow> string \<Rightarrow> (job_attempt \<times> job) option" where
  "attempt_job w aid =
     (case find_row att_id aid (w_attempts w) of
        None \<Rightarrow> None
      | Some a \<Rightarrow> (case find_row job_id (att_job_id a) (w_jobs w) of
            None \<Rightarrow> None
          | Some j \<Rightarrow> Some (a, j)))"

definition attempt_job_run :: "world \<Rightarrow> string \<Rightarrow> (job_attempt \<times> job \<times> run) option" where
  "attempt_job_run w aid =
     (case attempt_job w aid of
        None \<Rightarrow> None
      | Some (a, j) \<Rightarrow> (case find_row run_id (job_run_id j) (w_runs w) of
            None \<Rightarrow> None
          | Some r \<Rightarrow> Some (a, j, r)))"

section \<open>Single-statement facts\<close>

lemma sql_insert_apply:
  "sql_insert v ins w = (case v w of Some e \<Rightarrow> (Inl e, w) | None \<Rightarrow> (Inr (), ins w))"
  by (simp add: sql_insert_def)

lemma select_by_apply:
  "select_by rows key k what w =
     (case find_row key k (rows w) of None \<Rightarrow> (Inl (NotFound (what @ '' '' @ k)), w) | Some r \<Rightarrow> (Inr r, w))"
  by (simp add: select_by_def)

lemma select_by_world [simp]: "world_after (select_by rows key k what) w = w"
  by (simp add: select_by_def split: option.splits)

lemma select_by_Some: "find_row key k (rows w) = Some r \<Longrightarrow> select_by rows key k what w = (Inr r, w)"
  by (simp add: select_by_def)

lemma select_by_None:
  "find_row key k (rows w) = None \<Longrightarrow> select_by rows key k what w = (Inl (NotFound (what @ '' '' @ k)), w)"
  by (simp add: select_by_def)

lemma bindE_select_by:
  "bindE (select_by rows key k what) f w =
     (case find_row key k (rows w) of
        None \<Rightarrow> (Inl (NotFound (what @ '' '' @ k)), w)
      | Some r \<Rightarrow> f r w)"
  by (simp add: bindE_def select_by_def split: option.splits)


end
