(* ===== verification/Store.thy ===== *)
theory Store
  imports Tables
begin

text \<open>
  The store operations of \<open>state/store.go\<close> and \<open>state/queries.go\<close> on runs, jobs,
  attempts and leases. Each is one transaction or one statement, so a handler that
  calls several of them can be interrupted or interleaved between any two.
\<close>

section \<open>State transitions (state/store.go)\<close>

definition store_TransitionRunState :: "string \<Rightarrow> run_state \<Rightarrow> unit db" where
  "store_TransitionRunState rid next = with_tx (
     bindE (select_by w_runs run_id rid ''run'') (\<lambda>r.
     bindE (lift_result (validateRunTransition rid (run_state r) next)) (\<lambda>_.
     bindE (gets pg_now) (\<lambda>now.
     update_run rid (\<lambda>r. r\<lparr>run_state := next, run_updated_at := now\<rparr>)))))"

definition store_TransitionJobState :: "string \<Rightarrow> job_state \<Rightarrow> unit db" where
  "store_TransitionJobState jid next = with_tx (
     bindE (select_by w_jobs job_id jid ''job'') (\<lambda>j.
     bindE (lift_result (validateJobTransition jid (job_state j) next)) (\<lambda>_.
     bindE (gets pg_now) (\<lambda>now.
     update_job jid (\<lambda>j. j\<lparr>job_state := next, job_updated_at := now\<rparr>)))))"

definition store_TransitionJobAttemptState :: "string \<Rightarrow> job_state \<Rightarrow> unit db" where
  "store_TransitionJobAttemptState aid next = with_tx (
     bindE (select_by w_attempts att_id aid ''job attempt'') (\<lambda>a.
     bindE (lift_result (validateJobTransition aid (att_state a) next)) (\<lambda>_.
     bindE (gets pg_now) (\<lambda>now.
     update_attempt aid (\<lambda>a. a\<lparr>att_state := next, att_updated_at := now\<rparr>)))))"

definition store_TransitionLeaseState :: "string \<Rightarrow> lease_state \<Rightarrow> unit db" where
  "store_TransitionLeaseState lid next = with_tx (
     bindE (select_by w_leases lease_id lid ''lease'') (\<lambda>l.
     bindE (lift_result (validateLeaseTransition lid (lease_state l) next)) (\<lambda>_.
     bindE (gets pg_now) (\<lambda>now.
     update_lease lid (\<lambda>l. l\<lparr>lease_state := next, lease_updated_at := now\<rparr>)))))"

section \<open>Lease operations (state/store.go)\<close>

definition store_GrantLease :: "string \<Rightarrow> lease \<Rightarrow> lease db" where
  "store_GrantLease aid l =
     (if lease_id l = '''' then fail (PlainError ''lease id required'')
      else if lease_ttl l \<le> 0 then fail (PlainError ''ttl_seconds must be > 0'')
      else if lease_heartbeat l \<le> 0 then fail (PlainError ''heartbeat_interval_seconds must be > 0'')
      else if lease_ttl l \<le> lease_heartbeat l
      then fail (PlainError ''ttl_seconds must be greater than heartbeat_interval_seconds'')
      else with_tx (
        bindE (select_by w_attempts att_id aid ''job attempt'') (\<lambda>a.
        bindE (select_by w_jobs job_id (att_job_id a) ''job'') (\<lambda>j.
        bindE (lift_result (validateJobTransition aid (att_state a) JobStateLeased)) (\<lambda>_.
        bindE (lift_result (validateJobTransition (job_id j) (job_state j) JobStateLeased)) (\<lambda>_.
        bindE (gets host_now) (\<lambda>hnow.
        bindE (gets pg_now) (\<lambda>now.
        let expires = hnow + lease_ttl l * time_second;
            row = \<lparr>lease_id = lease_id l, lease_attempt_id = aid, lease_runner_id = lease_runner_id l,
                   lease_state = LeaseStateGranted, lease_ttl = lease_ttl l,
                   lease_heartbeat = lease_heartbeat l, lease_granted_at = now,
                   lease_updated_at = now, lease_acknowledged_at = None,
                   lease_last_heartbeat_at = None, lease_expires_at = Some expires,
                   lease_completed_at = None\<rparr> in
        bindE (insert_lease row) (\<lambda>_.
        bindE (update_attempt aid
          (\<lambda>a. a\<lparr>att_lease_id := Some (lease_id l), att_state := JobStateLeased, att_updated_at := now\<rparr>)) (\<lambda>_.
        bindE (update_job (job_id j) (\<lambda>j. j\<lparr>job_state := JobStateLeased, job_updated_at := now\<rparr>)) (\<lambda>_.
        ret (l\<lparr>lease_attempt_id := aid, lease_state := LeaseStateGranted, lease_granted_at := now,
               lease_updated_at := now, lease_expires_at := Some expires\<rparr>))))))))))))"

text \<open>\<open>lease.ExpiresAt != nil && now.After(*lease.ExpiresAt)\<close>\<close>

definition lease_lapsed :: "lease \<Rightarrow> go_time \<Rightarrow> bool" where
  "lease_lapsed l now = (case lease_expires_at l of None \<Rightarrow> False | Some e \<Rightarrow> time_After now e)"

definition lapsed_error :: "string \<Rightarrow> lease \<Rightarrow> go_error" where
  "lapsed_error lid l =
     TransitionError ''lease'' lid (lease_state_string (lease_state l)) (lease_state_string LeaseStateExpired)"

definition store_AcknowledgeLease :: "string \<Rightarrow> string \<Rightarrow> go_time \<Rightarrow> lease db" where
  "store_AcknowledgeLease lid runner now = with_tx (
     bindE (select_by w_leases lease_id lid ''lease'') (\<lambda>l.
     if lease_lapsed l now then fail (lapsed_error lid l)
     else
       bindE (lift_result (validateLeaseTransition lid (lease_state l) LeaseStateActive)) (\<lambda>_.
       let upd = (\<lambda>l. l\<lparr>lease_state := LeaseStateActive, lease_runner_id := Some runner,
                       lease_acknowledged_at := Some now,
                       lease_expires_at := Some (now + lease_ttl l * time_second),
                       lease_updated_at := now\<rparr>) in
       bindE (update_lease lid upd) (\<lambda>_. ret (upd l)))))"

definition store_TouchLeaseHeartbeat :: "string \<Rightarrow> go_time \<Rightarrow> lease db" where
  "store_TouchLeaseHeartbeat lid ts = with_tx (
     bindE (select_by w_leases lease_id lid ''lease'') (\<lambda>l.
     if lease_lapsed l ts then fail (lapsed_error lid l)
     else
       bindE (lift_result (validateLeaseTransition lid (lease_state l) LeaseStateActive)) (\<lambda>_.
       let upd = (\<lambda>l. l\<lparr>lease_state := LeaseStateActive, lease_last_heartbeat_at := Some ts,
                       lease_expires_at := Some (ts + lease_ttl l * time_second),
                       lease_updated_at := ts\<rparr>) in
       bindE (update_lease lid upd) (\<lambda>_. ret (upd l)))))"

definition store_CompleteLease :: "string \<Rightarrow> go_time \<Rightarrow> lease_state \<Rightarrow> lease db" where
  "store_CompleteLease lid now next = with_tx (
     bindE (select_by w_leases lease_id lid ''lease'') (\<lambda>l.
     if lease_lapsed l now then fail (lapsed_error lid l)
     else
       bindE (lift_result (validateLeaseTransition lid (lease_state l) next)) (\<lambda>_.
       let upd = (\<lambda>l. l\<lparr>lease_state := next, lease_completed_at := Some now, lease_updated_at := now\<rparr>) in
       bindE (update_lease lid upd) (\<lambda>_. ret (upd l)))))"

section \<open>Runs and jobs (state/queries.go)\<close>

definition store_CreateRun :: "run \<Rightarrow> run db" where
  "store_CreateRun r =
     bindE (gets pg_now) (\<lambda>now.
     let row = (if run_state r = RunStateOther '''' then r\<lparr>run_state := RunStateCreated\<rparr> else r)
                 \<lparr>run_created_at := now, run_updated_at := now\<rparr> in
     bindE (insert_run row) (\<lambda>_. ret row))"

definition store_GetRun :: "string \<Rightarrow> run db" where
  "store_GetRun rid = select_by w_runs run_id rid ''run''"

definition store_GetJob :: "string \<Rightarrow> job db" where
  "store_GetJob jid = select_by w_jobs job_id jid ''job''"

definition store_CreateJob :: "job \<Rightarrow> job db" where
  "store_CreateJob j =
     bindE (gets pg_now) (\<lambda>now.
     let row = (if job_state j = JobStateOther '''' then j\<lparr>job_state := JobStateCreated\<rparr> else j)
                 \<lparr>job_created_at := now, job_updated_at := now\<rparr> in
     bindE (insert_job row) (\<lambda>_. ret row))"

definition jobs_of_run :: "world \<Rightarrow> string \<Rightarrow> job list" where
  "jobs_of_run w rid =
     sort_key (\<lambda>j. (job_created_at j, job_id j)) (filter (\<lambda>j. job_run_id j = rid) (w_jobs w))"

definition store_ListJobsByRun :: "string \<Rightarrow> job list db" where
  "store_ListJobsByRun rid = gets (\<lambda>w. jobs_of_run w rid)"

definition store_CreateJobAttempt :: "job_attempt \<Rightarrow> job_attempt db" where
  "store_CreateJobAttempt a = with_tx (
     bindE (gets pg_now) (\<lambda>now.
     let a1 = (if att_state a = JobStateOther '''' then a\<lparr>att_state := JobStateCreated\<rparr> else a);
         a2 = (if att_number a1 = 0 then a1\<lparr>att_number := 1\<rparr> else a1);
         row = a2\<lparr>att_created_at := now, att_updated_at := now\<rparr> in
     bindE (insert_attempt row) (\<lambda>_.
     bindE (update_job (att_job_id row)
       (\<lambda>j. j\<lparr>job_attempt_count := max (job_attempt_count j) (att_number row), job_updated_at := now\<rparr>)) (\<lambda>_.
     ret row))))"

definition attempts_of_job :: "world \<Rightarrow> string \<Rightarrow> job_attempt list" where
  "attempts_of_job w jid = sort_key att_number (filter (\<lambda>a. att_job_id a = jid) (w_attempts w))"

definition store_ListJobAttempts :: "string \<Rightarrow> job_attempt list db" where
  "store_ListJobAttempts jid = gets (\<lambda>w. attempts_of_job w jid)"

definition store_GetJobAttempt :: "string \<Rightarrow> job_attempt db" where
  "store_GetJobAttempt aid = select_by w_attempts att_id aid ''job attempt''"

text \<open>\<open>ORDER BY attempt_number DESC LIMIT 1\<close>\<close>

definition store_GetLatestJobAttempt :: "string \<Rightarrow> job_attempt db" where
  "store_GetLatestJobAttempt jid =
     bindE (gets (\<lambda>w. sort_key (\<lambda>a. - att_number a) (filter (\<lambda>a. att_job_id a = jid) (w_attempts w)))) (\<lambda>rows.
     case rows of [] \<Rightarrow> fail (NotFound (''job attempt '' @ jid)) | a # _ \<Rightarrow> ret a)"

definition store_CreateLease :: "lease \<Rightarrow> lease db" where
  "store_CreateLease l =
     (let l1 = (if lease_state l = LeaseStateOther '''' then l\<lparr>lease_state := LeaseStateGranted\<rparr> else l) in
      if lease_ttl l1 = 0 then fail (PlainError ''ttl_seconds must be > 0'')
      else if lease_heartbeat l1 = 0 then fail (PlainError ''heartbeat_interval_seconds must be > 0'')
      else if lease_ttl l1 \<le> lease_heartbeat l1
      then fail (PlainError ''ttl_seconds must be greater than heartbeat_interval_seconds'')
      else bindE (gets pg_now) (\<lambda>now.
        let row = l1\<lparr>lease_granted_at := now, lease_updated_at := now\<rparr> in
        bindE (insert_lease row) (\<lambda>_. ret row)))"

definition store_GetLease :: "string \<Rightarrow> lease db" where
  "store_GetLease lid = select_by w_leases lease_id lid ''lease''"

definition store_MarkJobAttemptStarted :: "string \<Rightarrow> go_time \<Rightarrow> unit db" where
  "store_MarkJobAttemptStarted aid started =
     bindE (gets pg_now) (\<lambda>now.
     update_attempt aid (\<lambda>a. a\<lparr>att_started_at := Some started, att_updated_at := now\<rparr>))"

definition store_MarkJobAttemptCompleted :: "string \<Rightarrow> go_time \<Rightarrow> unit db" where
  "store_MarkJobAttemptCompleted aid completed =
     bindE (gets pg_now) (\<lambda>now.
     update_attempt aid (\<lambda>a. a\<lparr>att_completed_at := Some completed, att_updated_at := now\<rparr>))"

end
