(* ===== verification/Queue.thy ===== *)
theory Queue
  imports Store
begin

text \<open>
  The dispatch queue of \<open>state/queue.go\<close> and the lease sweep of
  \<open>state/lease_expiration.go\<close>. \<open>FOR UPDATE SKIP LOCKED\<close> locks nothing here: the
  transactions of the model run one at a time, in any order.
\<close>

section \<open>The dispatch queue (state/queue.go)\<close>

definition upsert_queue :: "string \<Rightarrow> go_time \<Rightarrow> unit db" where
  "upsert_queue aid available =
     (\<lambda>w. if has_row q_attempt_id aid (w_queue w)
          then (Inr (), w\<lparr>w_queue := update_rows q_attempt_id aid
                   (\<lambda>q. q\<lparr>q_available_at := available, q_inflight_until := None\<rparr>) (w_queue w)\<rparr>)
          else if \<not> has_row att_id aid (w_attempts w)
          then (Inl (ForeignKeyViolation ''job_queue_attempt_id_fkey''), w)
          else (Inr (), w\<lparr>w_queue := w_queue w @ [\<lparr>q_attempt_id = aid, q_available_at = available,
                   q_inflight_until = None, q_delivery_count = 0, q_last_delivered_at = None\<rparr>]\<rparr>))"

definition store_EnqueueJobAttempt :: "string \<Rightarrow> go_time \<Rightarrow> unit db" where
  "store_EnqueueJobAttempt aid available =
     (if aid = '''' then fail (PlainError ''attempt id required'')
      else bindE (gets host_now) (\<lambda>hnow.
        upsert_queue aid (if time_IsZero available then hnow else available)))"

text \<open>
  \<open>r.state IN ('SUCCESS', 'FAILED', 'CANCELED', 'TIMEOUT', 'REPORTED', 'PLAN_FAILED',
  'CANCEL_REQUESTED')\<close>
\<close>

fun undispatchable_run :: "run_state \<Rightarrow> bool" where
  "undispatchable_run RunStateSuccess = True"
| "undispatchable_run RunStateFailed = True"
| "undispatchable_run RunStateCanceled = True"
| "undispatchable_run RunStateTimeout = True"
| "undispatchable_run RunStateReported = True"
| "undispatchable_run RunStatePlanFailed = True"
| "undispatchable_run RunStateCancelRequested = True"
| "undispatchable_run _ = False"

definition queue_item_dead :: "world \<Rightarrow> queue_item \<Rightarrow> bool" where
  "queue_item_dead w q =
     (case attempt_job_run w (q_attempt_id q) of
        None \<Rightarrow> False
      | Some (a, _, r) \<Rightarrow> att_state a \<noteq> JobStateQueued \<or> undispatchable_run (run_state r))"

definition purge_queue :: "unit db" where
  "purge_queue = modify (\<lambda>w. w\<lparr>w_queue := filter (\<lambda>q. \<not> queue_item_dead w q) (w_queue w)\<rparr>)"

definition queue_item_ready :: "world \<Rightarrow> go_time \<Rightarrow> queue_item \<Rightarrow> bool" where
  "queue_item_ready w now q =
     (q_available_at q \<le> now
      \<and> (case q_inflight_until q of None \<Rightarrow> True | Some t \<Rightarrow> t \<le> now)
      \<and> (case attempt_job_run w (q_attempt_id q) of
           None \<Rightarrow> False
         | Some (a, _, r) \<Rightarrow> att_state a = JobStateQueued \<and> \<not> undispatchable_run (run_state r)))"

definition ready_items :: "world \<Rightarrow> go_time \<Rightarrow> queue_item list" where
  "ready_items w now =
     sort_key (\<lambda>q. (q_available_at q, q_attempt_id q)) (filter (queue_item_ready w now) (w_queue w))"

definition store_DequeueJobAttempt :: "go_time \<Rightarrow> int \<Rightarrow> string db" where
  "store_DequeueJobAttempt now0 timeout0 =
     bindE (gets host_now) (\<lambda>hnow.
     let now = (if time_IsZero now0 then hnow else now0);
         timeout = (if timeout0 \<le> 0 then 30 * time_second else timeout0) in
     bindE purge_queue (\<lambda>_.
     with_tx (
       bindE (gets (\<lambda>w. ready_items w now)) (\<lambda>items.
       case items of
         [] \<Rightarrow> fail ErrQueueEmpty
       | q # _ \<Rightarrow>
           bindE (modify (\<lambda>w. w\<lparr>w_queue := update_rows q_attempt_id (q_attempt_id q)
             (\<lambda>q. q\<lparr>q_inflight_until := Some (now + timeout), q_delivery_count := q_delivery_count q + 1,
                    q_last_delivered_at := Some now\<rparr>) (w_queue w)\<rparr>)) (\<lambda>_.
           ret (q_attempt_id q))))))"

definition store_AckJobAttemptDispatch :: "string \<Rightarrow> unit db" where
  "store_AckJobAttemptDispatch aid =
     (if aid = '''' then fail (PlainError ''attempt id required'')
      else bindE (gets (\<lambda>w. has_row q_attempt_id aid (w_queue w))) (\<lambda>found.
        bindE (modify (\<lambda>w. w\<lparr>w_queue := filter (\<lambda>q. q_attempt_id q \<noteq> aid) (w_queue w)\<rparr>)) (\<lambda>_.
        if \<not> found then fail (NotFound (''queue item '' @ aid)) else ret ())))"

section \<open>The lease sweep (state/lease_expiration.go)\<close>

definition lease_expired_by :: "go_time \<Rightarrow> lease \<Rightarrow> bool" where
  "lease_expired_by now l =
     (lease_live (lease_state l) \<and> (case lease_expires_at l of None \<Rightarrow> False | Some e \<Rightarrow> e \<le> now))"

definition expired_leases :: "world \<Rightarrow> go_time \<Rightarrow> lease list" where
  "expired_leases w now =
     sort_key (\<lambda>l. case lease_expires_at l of None \<Rightarrow> 0 | Some e \<Rightarrow> e)
       (filter (\<lambda>l. lease_expired_by now l \<and> attempt_job w (lease_attempt_id l) \<noteq> None) (w_leases w))"

text \<open>
  A refused transition only means that the row stays where it is; any other error of the
  validator aborts the transaction.
\<close>

definition can_queue :: "go_error + unit \<Rightarrow> bool db" where
  "can_queue v =
     (case v of
        Inr _ \<Rightarrow> ret True
      | Inl e \<Rightarrow> if IsTransitionError e then ret False else fail e)"

definition expire_lease_tx :: "go_time \<Rightarrow> unit db" where
  "expire_lease_tx now = with_tx (
     bindE (gets (\<lambda>w. expired_leases w now)) (\<lambda>ls.
     case ls of
       [] \<Rightarrow> fail ErrNoExpiredLeases
     | l # _ \<Rightarrow>
         bindE (select_by w_attempts att_id (lease_attempt_id l) ''job attempt'') (\<lambda>a.
         bindE (select_by w_jobs job_id (att_job_id a) ''job'') (\<lambda>j.
         bindE (lift_result (validateLeaseTransition (lease_id l) (lease_state l) LeaseStateExpired)) (\<lambda>_.
         bindE (can_queue (validateJobTransition (att_id a) (att_state a) JobStateQueued)) (\<lambda>attemptCanQueue.
         bindE (can_queue (validateJobTransition (job_id j) (job_state j) JobStateQueued)) (\<lambda>jobCanQueue.
         bindE (gets pg_now) (\<lambda>pgnow.
         bindE (update_lease (lease_id l)
           (\<lambda>l. l\<lparr>lease_state := LeaseStateExpired, lease_updated_at := pgnow\<rparr>)) (\<lambda>_.
         bindE (if attemptCanQueue
                then update_attempt (att_id a) (\<lambda>a. a\<lparr>att_state := JobStateQueued, att_updated_at := pgnow\<rparr>)
                else skip) (\<lambda>_.
         bindE (if jobCanQueue
                then update_job (job_id j) (\<lambda>j. j\<lparr>job_state := JobStateQueued, job_updated_at := pgnow\<rparr>)
                else skip) (\<lambda>_.
         if attemptCanQueue then upsert_queue (att_id a) now else skip)))))))))))"

text \<open>\<open>for processed < limit\<close>: the budget is what is left of the limit.\<close>

primrec expire_leases_loop :: "nat \<Rightarrow> go_time \<Rightarrow> nat \<Rightarrow> nat db" where
  "expire_leases_loop 0 now processed = ret processed"
| "expire_leases_loop (Suc budget) now processed =
     bindE (try_prog (expire_lease_tx now)) (\<lambda>r.
     case r of
       Inr _ \<Rightarrow> expire_leases_loop budget now (Suc processed)
     | Inl e \<Rightarrow> if e = ErrNoExpiredLeases then ret processed else fail e)"

definition store_ExpireLeases :: "go_time \<Rightarrow> int \<Rightarrow> nat db" where
  "store_ExpireLeases now0 limit0 =
     bindE (gets host_now) (\<lambda>hnow.
     let limit = (if limit0 \<le> 0 then 10 else limit0);
         now = (if time_IsZero now0 then hnow else now0) in
     expire_leases_loop (nat limit) now 0)"

end
