(* ===== verification/Records.thy ===== *)
theory Records
  imports Queue
begin

text \<open>
  The store operations beside the life cycle rows: job dependencies, job specs,
  artifacts, cache events, failure explanations, run plans, recipes, the idempotency
  records of webhooks and reruns, and the status reports (\<open>state/queries.go\<close> from
  \<open>RecordArtifacts\<close> on, and the one-table files of the state package).
\<close>

section \<open>Job dependencies (state/job_dependencies.go)\<close>

definition store_RecordJobDependency :: "string \<Rightarrow> string \<Rightarrow> unit db" where
  "store_RecordJobDependency jid on =
     (if jid = '''' \<or> on = '''' then fail (PlainError ''job and dependency ids required'')
      else (\<lambda>w.
        if jid = on then (Inl (CheckViolation ''job_dependencies_no_self''), w)
        else if \<lparr>dep_job_id = jid, dep_on_job_id = on\<rparr> \<in> set (w_dependencies w) then (Inr (), w)
        else if \<not> has_row job_id jid (w_jobs w)
        then (Inl (ForeignKeyViolation ''job_dependencies_job_id_fkey''), w)
        else if \<not> has_row job_id on (w_jobs w)
        then (Inl (ForeignKeyViolation ''job_dependencies_depends_on_job_id_fkey''), w)
        else (Inr (), w\<lparr>w_dependencies := w_dependencies w @ [\<lparr>dep_job_id = jid, dep_on_job_id = on\<rparr>]\<rparr>)))"

definition dependents_of :: "world \<Rightarrow> string \<Rightarrow> string list" where
  "dependents_of w jid = sort (map dep_job_id (filter (\<lambda>d. dep_on_job_id d = jid) (w_dependencies w)))"

definition dependencies_of :: "world \<Rightarrow> string \<Rightarrow> string list" where
  "dependencies_of w jid = sort (map dep_on_job_id (filter (\<lambda>d. dep_job_id d = jid) (w_dependencies w)))"

definition store_ListJobDependents :: "string \<Rightarrow> string list db" where
  "store_ListJobDependents jid =
     (if jid = '''' then fail (PlainError ''job id required'') else gets (\<lambda>w. dependents_of w jid))"

definition store_ListJobDependencies :: "string \<Rightarrow> string list db" where
  "store_ListJobDependencies jid =
     (if jid = '''' then fail (PlainError ''job id required'') else gets (\<lambda>w. dependencies_of w jid))"

text \<open>
  \<open>SELECT COUNT(*) FROM job_dependencies d JOIN jobs j ON j.id = d.depends_on_job_id
  WHERE d.job_id = $1 AND j.state <> 'SUCCEEDED'\<close>
\<close>

definition remaining_dependencies :: "world \<Rightarrow> string \<Rightarrow> nat" where
  "remaining_dependencies w jid =
     length (filter (\<lambda>d. dep_job_id d = jid \<and>
       (case find_row job_id (dep_on_job_id d) (w_jobs w) of
          None \<Rightarrow> False | Some j \<Rightarrow> job_state j \<noteq> JobStateSucceeded)) (w_dependencies w))"

definition store_DependenciesSatisfied :: "string \<Rightarrow> bool db" where
  "store_DependenciesSatisfied jid =
     (if jid = '''' then fail (PlainError ''job id required'')
      else gets (\<lambda>w. remaining_dependencies w jid = 0))"

section \<open>Job specs (state/job_specs.go)\<close>

definition store_RecordJobSpec :: "string \<Rightarrow> json_doc \<Rightarrow> unit db" where
  "store_RecordJobSpec jid doc =
     (if jid = '''' then fail (PlainError ''job id required'')
      else if doc = JsonEmpty then fail (PlainError ''spec json required'')
      else (\<lambda>w.
        if has_row js_job_id jid (w_specs w) then (Inr (), w)
        else if \<not> has_row job_id jid (w_jobs w)
        then (Inl (ForeignKeyViolation ''job_specs_job_id_fkey''), w)
        else (Inr (), w\<lparr>w_specs := w_specs w @ [\<lparr>js_job_id = jid, js_spec = doc\<rparr>]\<rparr>)))"

definition store_GetJobSpec :: "string \<Rightarrow> json_doc db" where
  "store_GetJobSpec jid =
     bindE (select_by w_specs js_job_id jid ''job spec for job'') (\<lambda>r. ret (js_spec r))"

section \<open>Artifacts and cache events (state/queries.go, state/cache_events.go)\<close>

definition insert_artifact :: "string \<Rightarrow> artifact_ref \<Rightarrow> unit db" where
  "insert_artifact aid x =
     (\<lambda>w.
        if \<exists>a \<in> set (w_artifacts w). art_attempt_id a = aid \<and> art_uri a = aref_uri x then (Inr (), w)
        else if \<not> has_row att_id aid (w_attempts w)
        then (Inl (ForeignKeyViolation ''job_artifacts_job_attempt_id_fkey''), w)
        else (Inr (), w\<lparr>w_artifacts := w_artifacts w @
                 [\<lparr>art_id = w_serial w, art_attempt_id = aid, art_type = aref_type x,
                   art_uri = aref_uri x, art_created_at = pg_now w\<rparr>],
               w_serial := w_serial w + 1\<rparr>))"

definition store_RecordArtifacts :: "string \<Rightarrow> artifact_ref list \<Rightarrow> unit db" where
  "store_RecordArtifacts aid refs =
     (if aid = '''' then fail (PlainError ''attempt id required'')
      else if refs = [] then ret ()
      else with_tx (foreach (\<lambda>x.
        if aref_type x = '''' \<or> aref_uri x = '''' then fail (PlainError ''artifact refs require type and uri'')
        else insert_artifact aid x) refs))"

definition attempt_of_job :: "world \<Rightarrow> string \<Rightarrow> string \<Rightarrow> bool" where
  "attempt_of_job w jid aid =
     (case find_row att_id aid (w_attempts w) of None \<Rightarrow> False | Some a \<Rightarrow> att_job_id a = jid)"

definition store_ListArtifactsByJob :: "string \<Rightarrow> artifact list db" where
  "store_ListArtifactsByJob jid =
     gets (\<lambda>w. sort_key (\<lambda>a. (art_created_at a, art_id a))
       (filter (\<lambda>a. attempt_of_job w jid (art_attempt_id a)) (w_artifacts w)))"

definition insert_cache_event :: "string \<Rightarrow> cache_event \<Rightarrow> unit db" where
  "insert_cache_event aid e =
     (\<lambda>w.
        if \<not> has_row att_id aid (w_attempts w)
        then (Inl (ForeignKeyViolation ''job_cache_events_job_attempt_id_fkey''), w)
        else (Inr (), w\<lparr>w_cache_events := w_cache_events w @
                 [e\<lparr>ce_id := w_serial w, ce_attempt_id := aid\<rparr>], w_serial := w_serial w + 1\<rparr>))"

definition store_RecordCacheEvents :: "string \<Rightarrow> cache_event list \<Rightarrow> unit db" where
  "store_RecordCacheEvents aid es =
     (if aid = '''' then fail (PlainError ''attempt id required'')
      else if es = [] then ret ()
      else with_tx (foreach (\<lambda>e.
        if ce_type e = '''' \<or> ce_key e = '''' then skip else insert_cache_event aid e) es))"

section \<open>Failure explanations (state/queries.go)\<close>

fun known_category :: "failure_category \<Rightarrow> bool" where
  "known_category (FailureCategoryOther _) = False"
| "known_category _ = True"

fun known_confidence :: "failure_confidence \<Rightarrow> bool" where
  "known_confidence (FailureConfidenceOther _) = False"
| "known_confidence _ = True"

definition upsert_explanation :: "failure_explanation \<Rightarrow> unit db" where
  "upsert_explanation e =
     (\<lambda>w.
        if \<not> known_category (fe_category e)
        then (Inl (CheckViolation ''job_failure_explanations_category_check''), w)
        else if \<not> known_confidence (fe_confidence e)
        then (Inl (CheckViolation ''job_failure_explanations_confidence_check''), w)
        else if has_row fe_attempt_id (fe_attempt_id e) (w_explanations w)
        then (Inr (), w\<lparr>w_explanations := update_rows fe_attempt_id (fe_attempt_id e)
               (\<lambda>x. x\<lparr>fe_category := fe_category e, fe_summary := fe_summary e,
                      fe_confidence := fe_confidence e, fe_details := fe_details e,
                      fe_created_at := pg_now w\<rparr>) (w_explanations w)\<rparr>)
        else if \<not> has_row att_id (fe_attempt_id e) (w_attempts w)
        then (Inl (ForeignKeyViolation ''job_failure_explanations_job_attempt_id_fkey''), w)
        else (Inr (), w\<lparr>w_explanations := w_explanations w @
                 [e\<lparr>fe_id := w_serial w, fe_created_at := pg_now w\<rparr>], w_serial := w_serial w + 1\<rparr>))"

definition store_RecordFailureExplanation :: "failure_explanation \<Rightarrow> unit db" where
  "store_RecordFailureExplanation e =
     (if fe_attempt_id e = '''' then fail (PlainError ''job attempt id required'')
      else if fe_category e = FailureCategoryOther '''' then fail (PlainError ''failure category required'')
      else if fe_summary e = '''' then fail (PlainError ''failure summary required'')
      else upsert_explanation
        (if fe_confidence e = FailureConfidenceOther '''' then e\<lparr>fe_confidence := FailureConfidenceLow\<rparr> else e))"

definition store_GetFailureExplanationByAttempt :: "string \<Rightarrow> failure_explanation db" where
  "store_GetFailureExplanationByAttempt aid =
     select_by w_explanations fe_attempt_id aid ''failure explanation for attempt''"

definition store_ListFailureExplanationsByJob :: "string \<Rightarrow> failure_explanation list db" where
  "store_ListFailureExplanationsByJob jid =
     gets (\<lambda>w. sort_key (\<lambda>e. (- fe_created_at e, - fe_id e))
       (filter (\<lambda>e. attempt_of_job w jid (fe_attempt_id e)) (w_explanations w)))"

section \<open>Idempotent run creation (state/run_triggers.go, state/run_reruns.go)\<close>

definition trigger_violation :: "run_trigger \<Rightarrow> world \<Rightarrow> go_error option" where
  "trigger_violation t w =
     (case tr_pr_number t of
        Some n \<Rightarrow> if \<not> pg_integer n then Some integer_out_of_range
                  else if n \<le> 0 then Some (CheckViolation ''run_triggers_pr_number_check'')
                  else None
      | None \<Rightarrow> None)"

definition insert_trigger :: "run_trigger \<Rightarrow> unit db" where
  "insert_trigger t = sql_insert
     (\<lambda>w. case trigger_violation t w of Some e \<Rightarrow> Some e | None \<Rightarrow>
        if has_row tr_run_id (tr_run_id t) (w_triggers w) then Some (UniqueViolation ''run_triggers_pkey'')
        else if has_row (\<lambda>x. (tr_provider x, tr_event_key x)) (tr_provider t, tr_event_key t) (w_triggers w)
        then Some (UniqueViolation ''run_triggers_provider_event_key_idx'')
        else if \<not> has_row run_id (tr_run_id t) (w_runs w)
        then Some (ForeignKeyViolation ''run_triggers_run_id_fkey'')
        else None)
     (\<lambda>w. w\<lparr>w_triggers := w_triggers w @ [t\<lparr>tr_created_at := pg_now w\<rparr>]\<rparr>)"

definition unique_as :: "go_error \<Rightarrow> unit db \<Rightarrow> unit db" where
  "unique_as dup m = wrap_error (\<lambda>e. if isUniqueViolation e then dup else e) m"

definition store_getRunByTriggerKey :: "string \<Rightarrow> string \<Rightarrow> run db" where
  "store_getRunByTriggerKey provider key =
     (if provider = '''' \<or> key = '''' then fail (PlainError ''provider and event_key required'')
      else bindE (gets (\<lambda>w. find_row (\<lambda>x. (tr_provider x, tr_event_key x)) (provider, key) (w_triggers w))) (\<lambda>t.
        case t of
          None \<Rightarrow> fail (NotFound (''run trigger '' @ key))
        | Some t \<Rightarrow> store_GetRun (tr_run_id t)))"

definition store_CreateRunWithTrigger :: "run \<Rightarrow> run_trigger \<Rightarrow> (run \<times> bool) db" where
  "store_CreateRunWithTrigger r t =
     (if tr_provider t = '''' \<or> tr_event_key t = ''''
      then fail (PlainError ''trigger provider and event_key are required'')
      else if tr_event_type t = '''' \<or> tr_repo_id t = '''' \<or> tr_repo_owner t = '''' \<or> tr_repo_name t = ''''
      then fail (PlainError ''trigger event_type and repo metadata required'')
      else bindE (try_prog (with_tx (
             bindE (store_CreateRun r) (\<lambda>row.
             bindE (unique_as ErrDuplicateTrigger (insert_trigger (t\<lparr>tr_run_id := run_id row\<rparr>))) (\<lambda>_.
             ret row))))) (\<lambda>res.
        case res of
          Inr row \<Rightarrow> ret (row, True)
        | Inl e \<Rightarrow>
            if e = ErrDuplicateTrigger
            then bindE (store_getRunByTriggerKey (tr_provider t) (tr_event_key t)) (\<lambda>row. ret (row, False))
            else fail e))"

definition store_GetRunTrigger :: "string \<Rightarrow> run_trigger db" where
  "store_GetRunTrigger rid = select_by w_triggers tr_run_id rid ''run trigger''"

definition insert_rerun :: "run_rerun \<Rightarrow> unit db" where
  "insert_rerun x = sql_insert
     (\<lambda>w. if has_row (\<lambda>y. (rr_original_run_id y, rr_idempotency_key y))
               (rr_original_run_id x, rr_idempotency_key x) (w_reruns w)
          then Some (UniqueViolation ''run_reruns_pkey'')
          else if has_row rr_new_run_id (rr_new_run_id x) (w_reruns w)
          then Some (UniqueViolation ''run_reruns_new_run_id_idx'')
          else if \<not> has_row run_id (rr_original_run_id x) (w_runs w)
          then Some (ForeignKeyViolation ''run_reruns_original_run_id_fkey'')
          else if \<not> has_row run_id (rr_new_run_id x) (w_runs w)
          then Some (ForeignKeyViolation ''run_reruns_new_run_id_fkey'')
          else None)
     (\<lambda>w. w\<lparr>w_reruns := w_reruns w @ [x]\<rparr>)"

definition store_getRerunByKey :: "string \<Rightarrow> string \<Rightarrow> string db" where
  "store_getRerunByKey original key =
     bindE (gets (\<lambda>w. find_row (\<lambda>y. (rr_original_run_id y, rr_idempotency_key y)) (original, key) (w_reruns w))) (\<lambda>x.
     case x of None \<Rightarrow> fail (NotFound (''run rerun '' @ key)) | Some x \<Rightarrow> ret (rr_new_run_id x))"

definition store_CreateRunWithRerun :: "run \<Rightarrow> string \<Rightarrow> string \<Rightarrow> (run \<times> bool) db" where
  "store_CreateRunWithRerun r original key =
     (if original = '''' \<or> key = '''' then fail (PlainError ''original_run_id and idempotency_key required'')
      else bindE (try_prog (with_tx (
             bindE (store_CreateRun r) (\<lambda>row.
             bindE (unique_as ErrDuplicateRerun (insert_rerun
               \<lparr>rr_original_run_id = original, rr_idempotency_key = key, rr_new_run_id = run_id row\<rparr>)) (\<lambda>_.
             ret row))))) (\<lambda>res.
        case res of
          Inr row \<Rightarrow> ret (row, True)
        | Inl e \<Rightarrow>
            if e = ErrDuplicateRerun
            then bindE (store_getRerunByKey original key) (\<lambda>existing.
                 bindE (store_GetRun existing) (\<lambda>row. ret (row, False)))
            else fail e))"

section \<open>Run plans and recipes (state/recipes.go)\<close>

definition store_RecordRunPlan :: "run_plan \<Rightarrow> unit db" where
  "store_RecordRunPlan p =
     (if rp_run_id p = '''' \<or> rp_repo_id p = '''' then fail (PlainError ''run_id and repo_id are required'')
      else if rp_recipe_source p = '''' then fail (PlainError ''recipe_source is required'')
      else (\<lambda>w.
        let rid = (if rp_recipe_id p = Some '''' then None else rp_recipe_id p);
            row = p\<lparr>rp_recipe_id := rid, rp_created_at := pg_now w, rp_updated_at := pg_now w\<rparr> in
        if (case rp_recipe_version p of None \<Rightarrow> False | Some v \<Rightarrow> \<not> pg_integer v)
        then (Inl integer_out_of_range, w)
        else if (case rid of None \<Rightarrow> False | Some x \<Rightarrow> \<not> has_row rec_id x (w_recipes w))
        then (Inl (ForeignKeyViolation ''run_plans_recipe_id_fkey''), w)
        else if has_row rp_run_id (rp_run_id p) (w_plans w)
        then (Inr (), w\<lparr>w_plans := update_rows rp_run_id (rp_run_id p)
               (\<lambda>old. row\<lparr>rp_created_at := rp_created_at old\<rparr>) (w_plans w)\<rparr>)
        else if \<not> has_row run_id (rp_run_id p) (w_runs w)
        then (Inl (ForeignKeyViolation ''run_plans_run_id_fkey''), w)
        else (Inr (), w\<lparr>w_plans := w_plans w @ [row]\<rparr>)))"

definition store_GetRunPlan :: "string \<Rightarrow> run_plan db" where
  "store_GetRunPlan rid =
     (if rid = '''' then fail (PlainError ''run_id is required'')
      else select_by w_plans rp_run_id rid ''run plan'')"

text \<open>
  \<open>ON CONFLICT (repo_id, fingerprint, version) DO NOTHING\<close> returns no row: \<open>None\<close> is
  \<open>(RecipeRecord{}, false)\<close>, \<open>Some row\<close> is \<open>(row, true)\<close>.
\<close>

definition store_CreateRecipe :: "recipe_record \<Rightarrow> recipe_record option db" where
  "store_CreateRecipe x =
     (if rec_id x = '''' then fail (PlainError ''recipe id required'')
      else if rec_repo_id x = '''' \<or> rec_fingerprint x = ''''
      then fail (PlainError ''repo_id and fingerprint are required'')
      else if rec_version x \<le> 0 then fail (PlainError ''recipe version must be > 0'')
      else if rec_source x = '''' then fail (PlainError ''recipe source required'')
      else if rec_json x = JsonEmpty then fail (PlainError ''recipe_json required'')
      else (\<lambda>w.
        if \<not> pg_integer (rec_version x) then (Inl integer_out_of_range, w)
        else if has_row (\<lambda>y. (rec_repo_id y, rec_fingerprint y, rec_version y))
             (rec_repo_id x, rec_fingerprint x, rec_version x) (w_recipes w)
        then (Inr None, w)
        else if has_row rec_id (rec_id x) (w_recipes w) then (Inl (UniqueViolation ''recipes_pkey''), w)
        else let row = x\<lparr>rec_created_at := pg_now w, rec_last_used_at := None\<rparr> in
             (Inr (Some row), w\<lparr>w_recipes := w_recipes w @ [row]\<rparr>)))"

definition store_FindRecipeByFingerprint :: "string \<Rightarrow> string \<Rightarrow> recipe_record option db" where
  "store_FindRecipeByFingerprint repo fp =
     (if repo = '''' \<or> fp = '''' then fail (PlainError ''repo_id and fingerprint are required'')
      else bindE (gets (\<lambda>w. sort_key (\<lambda>x. (- rec_version x, - rec_created_at x))
             (filter (\<lambda>x. rec_repo_id x = repo \<and> rec_fingerprint x = fp) (w_recipes w)))) (\<lambda>rows.
        case rows of [] \<Rightarrow> ret None | x # _ \<Rightarrow> ret (Some x)))"

definition store_TouchRecipeLastUsed :: "string \<Rightarrow> go_time \<Rightarrow> unit db" where
  "store_TouchRecipeLastUsed rid now0 =
     (if rid = '''' then fail (PlainError ''recipe id required'')
      else bindE (gets host_now) (\<lambda>hnow.
        let now = (if time_IsZero now0 then hnow else now0) in
        modify (\<lambda>w. w\<lparr>w_recipes := update_rows rec_id rid
          (\<lambda>x. x\<lparr>rec_last_used_at := Some now\<rparr>) (w_recipes w)\<rparr>)))"

section \<open>Status reports (state/status_reports.go)\<close>

definition store_GetStatusReport :: "string \<Rightarrow> string \<Rightarrow> status_report db" where
  "store_GetStatusReport rid provider =
     bindE (gets (\<lambda>w. find_row (\<lambda>x. (sr_run_id x, sr_provider x)) (rid, provider) (w_reports w))) (\<lambda>x.
     case x of None \<Rightarrow> fail (NotFound (''status report '' @ rid)) | Some x \<Rightarrow> ret x)"

definition coalesce :: "'a option \<Rightarrow> 'a option \<Rightarrow> 'a option" where
  "coalesce x y = (case x of Some v \<Rightarrow> Some v | None \<Rightarrow> y)"

definition store_UpsertStatusReport :: "status_report \<Rightarrow> status_report db" where
  "store_UpsertStatusReport x =
     (if sr_run_id x = '''' \<or> sr_provider x = '''' then fail (PlainError ''run_id and provider required'')
      else (\<lambda>w.
        case find_row (\<lambda>y. (sr_run_id y, sr_provider y)) (sr_run_id x, sr_provider x) (w_reports w) of
          Some old \<Rightarrow>
            let stored = old\<lparr>sr_check_run_id := coalesce (sr_check_run_id x) (sr_check_run_id old),
                             sr_pr_comment_id := coalesce (sr_pr_comment_id x) (sr_pr_comment_id old),
                             sr_last_state := sr_last_state x, sr_updated_at := pg_now w\<rparr> in
            (Inr stored, w\<lparr>w_reports := update_rows (\<lambda>y. (sr_run_id y, sr_provider y))
               (sr_run_id x, sr_provider x) (\<lambda>_. stored) (w_reports w)\<rparr>)
        | None \<Rightarrow>
            if \<not> has_row run_id (sr_run_id x) (w_runs w)
            then (Inl (ForeignKeyViolation ''vcs_status_reports_run_id_fkey''), w)
            else let stored = x\<lparr>sr_created_at := pg_now w, sr_updated_at := pg_now w\<rparr> in
                 (Inr stored, w\<lparr>w_reports := w_reports w @ [stored]\<rparr>)))"

end
