(* ===== verification/Service.thy ===== *)
theory Service
  imports Records GoStrings
begin

text \<open>
  The orchestrator's service (\<open>orchestrator/service.go\<close>, \<open>models.go\<close>, \<open>idgen.go\<close>,
  \<open>dispatcher.go\<close>, \<open>status.go\<close>). A handler is a program that runs store operations,
  each its own transaction: an error return keeps what the earlier ones committed.
  \<open>service\<close> holds the interfaces the Go struct holds; log lines are left out. Neither
  clock advances while a handler runs.
\<close>

section \<open>Requests and views (orchestrator/models.go)\<close>

record create_run_request =
  crr_repo_id :: string
  crr_ref :: string
  crr_commit_sha :: string

record grant_lease_request =
  glr_attempt_id :: string
  glr_runner_id :: string
  glr_ttl_seconds :: int
  glr_heartbeat_seconds :: int
  glr_max_runtime_seconds :: int

record job_detail =
  jd_job :: job
  jd_attempts :: "job_attempt list"
  jd_artifacts :: "artifact list"
  jd_failure_explanations :: "failure_explanation list"

record run_plan_detail =
  rpd_recipe_source :: string
  rpd_recipe_id :: "string option"
  rpd_recipe_version :: "int option"
  rpd_fingerprint :: string
  rpd_explain :: string
  rpd_skipped_jobs :: "skipped_job list"

record run_details =
  rd_run :: run
  rd_jobs :: "job_detail list"
  rd_plan :: "run_plan_detail option"

record failure_input =
  fi_run_id :: string
  fi_job_id :: string
  fi_job_name :: string
  fi_attempt_id :: string
  fi_status :: complete_status
  fi_exit_code :: int
  fi_summary :: string
  fi_artifacts :: "artifact_ref list"

section \<open>The service and its interfaces\<close>

text \<open>
  The planner, dispatcher, id generator, status reporter and failure analyzer are Go
  interfaces, so they are programs; \<open>sv_rand n\<close> is what the \<open>n\<close>-th \<open>rand.Read\<close> of
  the process returns.
\<close>

record service =
  sv_plan :: "plan_request \<Rightarrow> plan_result db"
  sv_enqueue :: "job_attempt \<Rightarrow> unit db"
  sv_RunID :: "string db"
  sv_JobID :: "string db"
  sv_JobAttemptID :: "string db"
  sv_LeaseID :: "string db"
  sv_report :: "string \<Rightarrow> unit db"
  sv_analyze :: "failure_input \<Rightarrow> failure_explanation option db"
  sv_rand :: "nat \<Rightarrow> string option"

definition metric :: "metric_event \<Rightarrow> unit db" where
  "metric e = modify (\<lambda>w. w\<lparr>w_metrics := e # w_metrics w\<rparr>)"

text \<open>\<open>time.Time\<close> counts from year 1, \<open>UnixNano\<close> from 1970.\<close>

definition unix_epoch :: go_time where
  "unix_epoch = 62135596800 * time_second"

definition randomID :: "(nat \<Rightarrow> string option) \<Rightarrow> string \<Rightarrow> string db" where
  "randomID rand prefix =
     (\<lambda>w. (Inr (case rand (w_ids w) of
              None \<Rightarrow> prefix @ ''_'' @ Itoa (host_now w - unix_epoch)
            | Some b \<Rightarrow> prefix @ ''_'' @ hex_encode b),
          w\<lparr>w_ids := Suc (w_ids w)\<rparr>))"

definition QueueDispatcher_EnqueueJobAttempt :: "job_attempt \<Rightarrow> unit db" where
  "QueueDispatcher_EnqueueJobAttempt a =
     bindE (gets host_now) (\<lambda>hnow. store_EnqueueJobAttempt (att_id a) hnow)"

definition NoopDispatcher_EnqueueJobAttempt :: "job_attempt \<Rightarrow> unit db" where
  "NoopDispatcher_EnqueueJobAttempt a = ret ()"

definition NoopStatusReporter_ReportRun :: "string \<Rightarrow> unit db" where
  "NoopStatusReporter_ReportRun rid = ret ()"

section \<open>Shared steps\<close>

fun isRunTerminal :: "run_state \<Rightarrow> bool" where
  "isRunTerminal RunStateSuccess = True"
| "isRunTerminal RunStateFailed = True"
| "isRunTerminal RunStateCanceled = True"
| "isRunTerminal RunStateTimeout = True"
| "isRunTerminal RunStateReported = True"
| "isRunTerminal _ = False"

fun jobMetricState :: "job_state \<Rightarrow> string" where
  "jobMetricState JobStateSucceeded = ''succeeded''"
| "jobMetricState JobStateFailed = ''failed''"
| "jobMetricState JobStateRunning = ''running''"
| "jobMetricState JobStateQueued = ''queued''"
| "jobMetricState JobStateLeased = ''leased''"
| "jobMetricState JobStateStarting = ''starting''"
| "jobMetricState _ = ''other''"

definition cancelDeadlineSeconds :: int where
  "cancelDeadlineSeconds = 30"

text \<open>\<open>if err := ...; err != nil { s.metrics.IncFailure(name); log }\<close>, and on it goes.\<close>

definition counted_failure :: "string \<Rightarrow> 'a db \<Rightarrow> unit db" where
  "counted_failure name m =
     bindE (try_prog m) (\<lambda>r. case r of Inl _ \<Rightarrow> metric (IncFailure name) | Inr _ \<Rightarrow> skip)"

definition svc_reportRun :: "service \<Rightarrow> string \<Rightarrow> unit db" where
  "svc_reportRun S rid =
     (if rid = '''' then skip else counted_failure ''status_report_failed'' (sv_report S rid))"

definition svc_transitionJobAndAttempt :: "string \<Rightarrow> string \<Rightarrow> job_state \<Rightarrow> unit db" where
  "svc_transitionJobAndAttempt jid aid target =
     bindE (store_TransitionJobAttemptState aid target) (\<lambda>_. store_TransitionJobState jid target)"

definition svc_failRun :: "service \<Rightarrow> string \<Rightarrow> unit db" where
  "svc_failRun S rid =
     bindE (try_prog (store_TransitionRunState rid RunStatePlanFailed)) (\<lambda>_.
     bindE (metric (IncRun ''plan_failed'')) (\<lambda>_.
     bindE (metric (IncFailure ''plan_failed'')) (\<lambda>_.
     bindE (try_prog (store_TransitionRunState rid RunStateFailed)) (\<lambda>r.
     bindE (case r of
              Inl e \<Rightarrow> if \<not> IsTransitionError e then fail e else skip
            | Inr _ \<Rightarrow> skip) (\<lambda>_.
     bindE (metric (IncRun ''failed'')) (\<lambda>_.
     svc_reportRun S rid))))))"

definition svc_queueJobAttempt :: "service \<Rightarrow> job \<Rightarrow> job_attempt \<Rightarrow> (job \<times> job_attempt) db" where
  "svc_queueJobAttempt S j a =
     bindE (store_TransitionJobState (job_id j) JobStateQueued) (\<lambda>_.
     let j' = j\<lparr>job_state := JobStateQueued\<rparr> in
     bindE (store_TransitionJobAttemptState (att_id a) JobStateQueued) (\<lambda>_.
     let a' = a\<lparr>att_state := JobStateQueued\<rparr> in
     bindE (metric (IncJob ''queued'')) (\<lambda>_.
     bindE (try_prog (sv_enqueue S a')) (\<lambda>r.
     case r of
       Inl e \<Rightarrow> bindE (metric (IncFailure ''enqueue_failed'')) (\<lambda>_.
                fail (Wrapped (''enqueue attempt '' @ att_id a') e))
     | Inr _ \<Rightarrow> ret (j', a')))))"

section \<open>Reading a run (GetRunDetails)\<close>

definition plan_detail :: "run_plan \<Rightarrow> run_plan_detail" where
  "plan_detail p = \<lparr>rpd_recipe_source = rp_recipe_source p, rpd_recipe_id = rp_recipe_id p,
     rpd_recipe_version = rp_recipe_version p, rpd_fingerprint = rp_fingerprint p,
     rpd_explain = rp_explain p, rpd_skipped_jobs = rp_skipped_jobs p\<rparr>"

definition svc_GetRunDetails :: "string \<Rightarrow> run_details db" where
  "svc_GetRunDetails rid =
     bindE (store_GetRun rid) (\<lambda>r.
     bindE (store_ListJobsByRun rid) (\<lambda>jobs.
     bindE (try_prog (store_GetRunPlan rid)) (\<lambda>p.
     bindE (case p of
              Inl e \<Rightarrow> if \<not> is_not_found e then fail e else ret None
            | Inr plan \<Rightarrow> ret (Some (plan_detail plan))) (\<lambda>planDetail.
     bindE (mapE (\<lambda>j.
        bindE (store_ListJobAttempts (job_id j)) (\<lambda>attempts.
        bindE (store_ListArtifactsByJob (job_id j)) (\<lambda>artifacts.
        bindE (store_ListFailureExplanationsByJob (job_id j)) (\<lambda>explanations.
        ret \<lparr>jd_job = j, jd_attempts = attempts, jd_artifacts = artifacts,
             jd_failure_explanations = explanations\<rparr>)))) jobs) (\<lambda>details.
     ret \<lparr>rd_run = r, rd_jobs = details, rd_plan = planDetail\<rparr>)))))"

section \<open>Creating a run (CreateRun, CreateRunFromTrigger, RerunRun, startRun)\<close>

definition validateCreateRunRequest :: "create_run_request \<Rightarrow> unit db" where
  "validateCreateRunRequest req =
     (if crr_repo_id req = '''' \<or> crr_ref req = '''' \<or> crr_commit_sha req = ''''
      then fail (PlainError ''repo_id, ref, and commit_sha are required'') else skip)"

definition new_run :: "string \<Rightarrow> string \<Rightarrow> string \<Rightarrow> string \<Rightarrow> run" where
  "new_run rid repo ref sha = \<lparr>run_id = rid, run_repo_id = repo, run_ref = ref, run_commit_sha = sha,
     run_state = RunStateCreated, run_created_at = 0, run_updated_at = 0\<rparr>"

definition svc_recordRunPlan :: "run \<Rightarrow> plan_result \<Rightarrow> unit db" where
  "svc_recordRunPlan r plan = store_RecordRunPlan
     \<lparr>rp_run_id = run_id r, rp_repo_id = run_repo_id r, rp_fingerprint = pl_fingerprint plan,
      rp_recipe_id = (if pl_recipe_id plan \<noteq> '''' then Some (pl_recipe_id plan) else None),
      rp_recipe_source = (if pl_recipe_source plan = '''' then ''fallback'' else pl_recipe_source plan),
      rp_recipe_version = (if pl_recipe_version plan > 0 then Some (pl_recipe_version plan) else None),
      rp_explain = pl_explain plan, rp_skipped_jobs = pl_skipped_jobs plan,
      rp_created_at = 0, rp_updated_at = 0\<rparr>"

record planned_job_record =
  pjr_planned :: planned_job
  pjr_job :: job
  pjr_attempt :: job_attempt

definition default_spec :: "string \<Rightarrow> job_spec \<Rightarrow> job_spec" where
  "default_spec name spec = spec
     \<lparr>spec_name := (if spec_name spec = '''' then name else spec_name spec),
      spec_workdir := (if spec_workdir spec = '''' then ''.'' else spec_workdir spec),
      spec_steps := (if spec_steps spec = [] then [''echo \"job spec missing\"''] else spec_steps spec)\<rparr>"

definition new_job :: "string \<Rightarrow> string \<Rightarrow> planned_job \<Rightarrow> job" where
  "new_job jid rid planned = \<lparr>job_id = jid, job_run_id = rid, job_name = pj_name planned,
     job_required = pj_required planned, job_state = JobStateCreated, job_attempt_count = 0,
     job_reason = pj_reason planned, job_created_at = 0, job_updated_at = 0\<rparr>"

definition new_attempt :: "string \<Rightarrow> string \<Rightarrow> job_attempt" where
  "new_attempt aid jid = \<lparr>att_id = aid, att_job_id = jid, att_number = 1, att_state = JobStateCreated,
     att_lease_id = None, att_created_at = 0, att_updated_at = 0, att_started_at = None,
     att_completed_at = None\<rparr>"

definition create_planned_job :: "service \<Rightarrow> run \<Rightarrow> planned_job \<Rightarrow> planned_job_record db" where
  "create_planned_job S r planned =
     bindE (sv_JobID S) (\<lambda>jid.
     bindE (wrap_error (Wrapped (''create job '' @ pj_name planned))
       (store_CreateJob (new_job jid (run_id r) planned))) (\<lambda>j.
     bindE (metric (IncJob ''created'')) (\<lambda>_.
     bindE (wrap_error (Wrapped (''record job spec '' @ job_id j))
       (store_RecordJobSpec (job_id j) (JsonJobSpec (default_spec (job_name j) (pj_spec planned))))) (\<lambda>_.
     bindE (sv_JobAttemptID S) (\<lambda>aid.
     bindE (wrap_error (Wrapped (''create attempt for job '' @ job_id j))
       (store_CreateJobAttempt (new_attempt aid (job_id j)))) (\<lambda>a.
     ret \<lparr>pjr_planned = planned, pjr_job = j\<lparr>job_attempt_count := att_number a\<rparr>, pjr_attempt = a\<rparr>))))))"

fun create_planned_jobs ::
  "service \<Rightarrow> run \<Rightarrow> planned_job_record list \<Rightarrow> planned_job list \<Rightarrow> planned_job_record list db" where
  "create_planned_jobs S r recs [] = ret recs"
| "create_planned_jobs S r recs (planned # rest) =
     (if has_row (\<lambda>x. pj_name (pjr_planned x)) (pj_name planned) recs
      then fail (PlainError (''duplicate job name '' @ pj_name planned @ '' in plan''))
      else bindE (create_planned_job S r planned) (\<lambda>x. create_planned_jobs S r (recs @ [x]) rest))"

definition record_dependencies :: "planned_job_record list \<Rightarrow> planned_job_record \<Rightarrow> unit db" where
  "record_dependencies recs x =
     foreach (\<lambda>dep.
       if dep = pj_name (pjr_planned x)
       then fail (PlainError (''job '' @ dep @ '' cannot depend on itself''))
       else (case find_row (\<lambda>y. pj_name (pjr_planned y)) dep recs of
           None \<Rightarrow> fail (PlainError (''job '' @ pj_name (pjr_planned x) @ '' depends on unknown job '' @ dep))
         | Some y \<Rightarrow>
             wrap_error (Wrapped (''record dependency for job '' @ job_id (pjr_job x)))
               (store_RecordJobDependency (job_id (pjr_job x)) (job_id (pjr_job y)))))
       (pj_depends_on (pjr_planned x))"

definition queue_if_free :: "service \<Rightarrow> planned_job_record \<Rightarrow> planned_job_record db" where
  "queue_if_free S x =
     (if pj_depends_on (pjr_planned x) \<noteq> [] then ret x
      else bindE (svc_queueJobAttempt S (pjr_job x) (pjr_attempt x)) (\<lambda>(j, a).
        ret (x\<lparr>pjr_job := j, pjr_attempt := a\<rparr>)))"

definition record_detail :: "planned_job_record \<Rightarrow> job_detail" where
  "record_detail x = \<lparr>jd_job = pjr_job x, jd_attempts = [pjr_attempt x], jd_artifacts = [],
     jd_failure_explanations = []\<rparr>"

definition svc_startRun :: "service \<Rightarrow> run \<Rightarrow> run_details db" where
  "svc_startRun S r =
     bindE (metric (IncRun ''created'')) (\<lambda>_.
     bindE (store_TransitionRunState (run_id r) RunStatePlanning) (\<lambda>_.
     bindE (metric (IncRun ''planning'')) (\<lambda>_.
     bindE (svc_reportRun S (run_id r)) (\<lambda>_.
     bindE (try_prog (sv_plan S \<lparr>pr_run_id = run_id r, pr_repo_id = run_repo_id r, pr_ref = run_ref r,
                                 pr_commit_sha = run_commit_sha r\<rparr>)) (\<lambda>res.
     case res of
       Inl e \<Rightarrow> bindE (svc_failRun S (run_id r)) (\<lambda>_. fail (Wrapped ''planner failed'' e))
     | Inr plan \<Rightarrow>
         if pl_jobs plan = []
         then bindE (svc_failRun S (run_id r)) (\<lambda>_. fail (PlainError ''planner returned no jobs''))
         else
           bindE (counted_failure ''run_plan_failed'' (svc_recordRunPlan r plan)) (\<lambda>_.
           bindE (create_planned_jobs S r [] (pl_jobs plan)) (\<lambda>recs.
           bindE (foreach (record_dependencies recs) recs) (\<lambda>_.
           bindE (mapE (queue_if_free S) recs) (\<lambda>recs'.
           bindE (store_TransitionRunState (run_id r) RunStateQueued) (\<lambda>_.
           bindE (metric (IncRun ''queued'')) (\<lambda>_.
           bindE (svc_reportRun S (run_id r)) (\<lambda>_.
           bindE (store_GetRun (run_id r)) (\<lambda>r'.
           ret \<lparr>rd_run = r', rd_jobs = map record_detail recs', rd_plan = None\<rparr>)))))))))))))"

definition svc_CreateRun :: "service \<Rightarrow> create_run_request \<Rightarrow> run_details db" where
  "svc_CreateRun S req =
     bindE (validateCreateRunRequest req) (\<lambda>_.
     bindE (sv_RunID S) (\<lambda>rid.
     bindE (wrap_error (Wrapped ''create run'')
       (store_CreateRun (new_run rid (crr_repo_id req) (crr_ref req) (crr_commit_sha req)))) (\<lambda>r.
     svc_startRun S r)))"

definition svc_CreateRunFromTrigger ::
  "service \<Rightarrow> create_run_request \<Rightarrow> run_trigger \<Rightarrow> (run_details \<times> bool) db" where
  "svc_CreateRunFromTrigger S req trigger =
     bindE (validateCreateRunRequest req) (\<lambda>_.
     bindE (sv_RunID S) (\<lambda>rid.
     bindE (store_CreateRunWithTrigger
       (new_run rid (crr_repo_id req) (crr_ref req) (crr_commit_sha req)) trigger) (\<lambda>(r, created).
     if \<not> created then bindE (svc_GetRunDetails (run_id r)) (\<lambda>d. ret (d, False))
     else bindE (svc_startRun S r) (\<lambda>d. ret (d, True)))))"

definition svc_RerunRun :: "service \<Rightarrow> string \<Rightarrow> string \<Rightarrow> (run_details \<times> bool) db" where
  "svc_RerunRun S rid key =
     (if rid = '''' \<or> key = '''' then fail (PlainError ''run_id and idempotency_key are required'')
      else
        bindE (store_GetRun rid) (\<lambda>original.
        bindE (sv_RunID S) (\<lambda>newid.
        bindE (store_CreateRunWithRerun
          (new_run newid (run_repo_id original) (run_ref original) (run_commit_sha original))
          (run_id original) key) (\<lambda>(r, created).
        if \<not> created then bindE (svc_GetRunDetails (run_id r)) (\<lambda>d. ret (d, False))
        else bindE (svc_startRun S r) (\<lambda>d. ret (d, True))))))"

end
