(* ===== verification/LeaseService.thy ===== *)
theory LeaseService
  imports Service
begin

text \<open>
  The handlers of \<open>orchestrator/service.go\<close> that drive a run after it has been planned:
  leases and their acknowledgement, heartbeats and completions, the release of dependent
  jobs, cancellation, and the decision that a run has ended.
\<close>

section \<open>Recipes (persistRecipeIfNeeded)\<close>

definition svc_updateRunPlanRecipe :: "run \<Rightarrow> run_plan \<Rightarrow> string \<Rightarrow> int \<Rightarrow> unit db" where
  "svc_updateRunPlanRecipe r plan recipeID version =
     (if recipeID = '''' then skip
      else store_RecordRunPlan
        \<lparr>rp_run_id = run_id r, rp_repo_id = run_repo_id r, rp_fingerprint = rp_fingerprint plan,
         rp_recipe_id = Some recipeID, rp_recipe_source = rp_recipe_source plan,
         rp_recipe_version = (if version > 0 then Some version else None),
         rp_explain = rp_explain plan, rp_skipped_jobs = rp_skipped_jobs plan,
         rp_created_at = 0, rp_updated_at = 0\<rparr>)"

definition dependency_name :: "job list \<Rightarrow> string \<Rightarrow> string db" where
  "dependency_name jobs dep =
     (case find_row job_id dep jobs of
        None \<Rightarrow> fail (PlainError (''unknown dependency job '' @ dep))
      | Some j \<Rightarrow> ret (job_name j))"

definition recipe_job :: "job list \<Rightarrow> job \<Rightarrow> planned_job db" where
  "recipe_job jobs j =
     bindE (store_GetJobSpec (job_id j)) (\<lambda>doc.
     bindE (lift_result (unmarshal_job_spec doc)) (\<lambda>spec0.
     let spec = (if spec_name spec0 = '''' then spec0\<lparr>spec_name := job_name j\<rparr> else spec0) in
     bindE (store_ListJobDependencies (job_id j)) (\<lambda>deps.
     bindE (mapE (dependency_name jobs) deps) (\<lambda>names.
     ret \<lparr>pj_name = job_name j, pj_required = job_required j, pj_spec = spec, pj_reason = '''',
          pj_depends_on = sort names\<rparr>))))"

definition svc_buildRecipeJobs :: "job list \<Rightarrow> planned_job list db" where
  "svc_buildRecipeJobs jobs =
     bindE (mapE (recipe_job jobs) jobs) (\<lambda>planned. ret (sort_key pj_name planned))"

definition svc_persistRecipeIfNeeded :: "service \<Rightarrow> run \<Rightarrow> unit db" where
  "svc_persistRecipeIfNeeded S r =
     bindE (try_prog (store_GetRunPlan (run_id r))) (\<lambda>p.
     case p of
       Inl e \<Rightarrow> if is_not_found e then skip else fail e
     | Inr plan \<Rightarrow>
         if rp_recipe_source plan \<noteq> ''discovery'' then skip
         else if rp_fingerprint plan = '''' then skip
         else
           bindE (store_ListJobsByRun (run_id r)) (\<lambda>jobs.
           if jobs = [] then skip
           else
             bindE (svc_buildRecipeJobs jobs) (\<lambda>planned.
             bindE (randomID (sv_rand S) ''recipe'') (\<lambda>newid.
             bindE (store_CreateRecipe
               \<lparr>rec_id = newid, rec_repo_id = run_repo_id r, rec_fingerprint = rp_fingerprint plan,
                rec_version = 1, rec_source = rp_recipe_source plan, rec_json = JsonPlannedJobs planned,
                rec_created_at = 0, rec_last_used_at = None\<rparr>) (\<lambda>created.
             case created of
               Some x \<Rightarrow> svc_updateRunPlanRecipe r plan (rec_id x) (rec_version x)
             | None \<Rightarrow>
                 bindE (store_FindRecipeByFingerprint (run_repo_id r) (rp_fingerprint plan)) (\<lambda>found.
                 case found of
                   None \<Rightarrow> skip
                 | Some x \<Rightarrow>
                     bindE (gets host_now) (\<lambda>hnow.
                     bindE (try_prog (store_TouchRecipeLastUsed (rec_id x) hnow)) (\<lambda>_.
                     svc_updateRunPlanRecipe r plan (rec_id x) (rec_version x)))))))))"

section \<open>Ending a run (finalizeRunIfReady, finalizeCancelIfReady)\<close>

datatype verdict = VerdictWait | VerdictFail | VerdictSucceed

text \<open>The loop of \<open>finalizeRunIfReady\<close> over the jobs, in their listed order.\<close>

fun run_verdict :: "job list \<Rightarrow> verdict" where
  "run_verdict [] = VerdictSucceed"
| "run_verdict (j # jobs) =
     (if \<not> job_required j then run_verdict jobs
      else case job_state j of
          JobStateSucceeded \<Rightarrow> run_verdict jobs
        | JobStateFailed \<Rightarrow> VerdictFail
        | JobStateTimedOut \<Rightarrow> VerdictFail
        | JobStateCanceled \<Rightarrow> VerdictFail
        | _ \<Rightarrow> VerdictWait)"

definition svc_finalizeRunIfReady :: "service \<Rightarrow> string \<Rightarrow> unit db" where
  "svc_finalizeRunIfReady S rid =
     bindE (store_GetRun rid) (\<lambda>r.
     if run_state r \<noteq> RunStateRunning then skip
     else
       bindE (store_ListJobsByRun rid) (\<lambda>jobs.
       case run_verdict jobs of
         VerdictWait \<Rightarrow> skip
       | VerdictFail \<Rightarrow>
           bindE (store_TransitionRunState rid RunStateFailed) (\<lambda>_.
           bindE (metric (IncRun ''failed'')) (\<lambda>_.
           svc_reportRun S rid))
       | VerdictSucceed \<Rightarrow>
           bindE (store_TransitionRunState rid RunStateSuccess) (\<lambda>_.
           bindE (metric (IncRun ''success'')) (\<lambda>_.
           bindE (svc_reportRun S rid) (\<lambda>_.
           counted_failure ''recipe_persist_failed'' (svc_persistRecipeIfNeeded S r))))))"

fun blocks_cancel :: "job_state \<Rightarrow> bool" where
  "blocks_cancel JobStateQueued = True"
| "blocks_cancel JobStateLeased = True"
| "blocks_cancel JobStateStarting = True"
| "blocks_cancel JobStateRunning = True"
| "blocks_cancel JobStateCancelRequested = True"
| "blocks_cancel _ = False"

definition svc_finalizeCancelIfReady :: "service \<Rightarrow> string \<Rightarrow> unit db" where
  "svc_finalizeCancelIfReady S rid =
     bindE (store_GetRun rid) (\<lambda>r.
     if run_state r \<noteq> RunStateCancelRequested then skip
     else
       bindE (store_ListJobsByRun rid) (\<lambda>jobs.
       if list_ex (\<lambda>j. blocks_cancel (job_state j)) jobs then skip
       else
         bindE (store_TransitionRunState rid RunStateCanceled) (\<lambda>_.
         bindE (metric (IncRun ''canceled'')) (\<lambda>_.
         svc_reportRun S rid))))"

section \<open>Cancelling a run (CancelRun)\<close>

definition cancel_job :: "go_time \<Rightarrow> job \<Rightarrow> unit db" where
  "cancel_job now j =
     bindE (store_GetLatestJobAttempt (job_id j)) (\<lambda>a.
     case job_state j of
       JobStateQueued \<Rightarrow>
         bindE (svc_transitionJobAndAttempt (job_id j) (att_id a) JobStateCancelRequested) (\<lambda>_.
         bindE (svc_transitionJobAndAttempt (job_id j) (att_id a) JobStateCanceled) (\<lambda>_.
         bindE (store_MarkJobAttemptCompleted (att_id a) now) (\<lambda>_.
         metric (IncJob ''canceled''))))
     | JobStateLeased \<Rightarrow> svc_transitionJobAndAttempt (job_id j) (att_id a) JobStateCancelRequested
     | JobStateStarting \<Rightarrow> svc_transitionJobAndAttempt (job_id j) (att_id a) JobStateCancelRequested
     | JobStateRunning \<Rightarrow> svc_transitionJobAndAttempt (job_id j) (att_id a) JobStateCancelRequested
     | _ \<Rightarrow> skip)"

definition request_cancel :: "service \<Rightarrow> string \<Rightarrow> run_details db" where
  "request_cancel S rid =
     bindE (store_TransitionRunState rid RunStateCancelRequested) (\<lambda>_.
     bindE (metric (IncRun ''cancel_requested'')) (\<lambda>_.
     bindE (svc_reportRun S rid) (\<lambda>_.
     bindE (store_ListJobsByRun rid) (\<lambda>jobs.
     bindE (gets host_now) (\<lambda>now.
     bindE (foreach (cancel_job now) jobs) (\<lambda>_.
     bindE (svc_finalizeCancelIfReady S rid) (\<lambda>_.
     svc_GetRunDetails rid)))))))"

definition already_terminal :: "string \<Rightarrow> run_state \<Rightarrow> go_error" where
  "already_terminal rid st =
     ErrInvalidRunState (''run '' @ rid @ '' is already terminal ('' @ run_state_string st @ '')'')"

definition svc_CancelRun :: "service \<Rightarrow> string \<Rightarrow> run_details db" where
  "svc_CancelRun S rid =
     (if rid = '''' then fail (PlainError ''run_id is required'')
      else
        bindE (store_GetRun rid) (\<lambda>r.
        case run_state r of
          RunStateCancelRequested \<Rightarrow> svc_GetRunDetails rid
        | RunStateCanceled \<Rightarrow> svc_GetRunDetails rid
        | RunStateSuccess \<Rightarrow> fail (already_terminal rid (run_state r))
        | RunStateFailed \<Rightarrow> fail (already_terminal rid (run_state r))
        | RunStateTimeout \<Rightarrow> fail (already_terminal rid (run_state r))
        | RunStateReported \<Rightarrow> fail (already_terminal rid (run_state r))
        | _ \<Rightarrow> request_cancel S rid))"

section \<open>Granting a lease (GrantLease, DequeueJobAttempt, ExpireLeases)\<close>

definition svc_GrantLease :: "service \<Rightarrow> grant_lease_request \<Rightarrow> lease_granted db" where
  "svc_GrantLease S req =
     (if glr_attempt_id req = '''' then fail (PlainError ''attempt_id is required'')
      else
        let ttl = (if glr_ttl_seconds req = 0 then 120 else glr_ttl_seconds req);
            hb = (if glr_heartbeat_seconds req = 0 then 30 else glr_heartbeat_seconds req) in
        if ttl \<le> hb then fail (PlainError ''ttl_seconds must exceed heartbeat_seconds'')
        else
          bindE (store_GetJobAttempt (glr_attempt_id req)) (\<lambda>a.
          bindE (store_GetJob (att_job_id a)) (\<lambda>j.
          bindE (store_GetRun (job_run_id j)) (\<lambda>r.
          if isRunTerminal (run_state r) \<or> run_state r = RunStateCancelRequested
          then fail (PlainError (''run '' @ run_id r @ '' is not leasable ('' @ run_state_string (run_state r) @ '')''))
          else
            bindE (sv_LeaseID S) (\<lambda>lid.
            bindE (store_GrantLease (att_id a)
              \<lparr>lease_id = lid, lease_attempt_id = att_id a,
               lease_runner_id = (if glr_runner_id req \<noteq> '''' then Some (glr_runner_id req) else None),
               lease_state = LeaseStateOther '''', lease_ttl = ttl, lease_heartbeat = hb,
               lease_granted_at = 0, lease_updated_at = 0, lease_acknowledged_at = None,
               lease_last_heartbeat_at = None, lease_expires_at = None, lease_completed_at = None\<rparr>) (\<lambda>l.
            bindE (metric (IncLease ''granted'')) (\<lambda>_.
            bindE (metric (IncJob ''leased'')) (\<lambda>_.
            bindE (try_prog (store_AckJobAttemptDispatch (att_id a))) (\<lambda>acked.
            bindE (case acked of Inl e \<Rightarrow> if \<not> is_not_found e then fail e else skip | Inr _ \<Rightarrow> skip) (\<lambda>_.
            bindE (store_TransitionRunState (run_id r) RunStateRunning) (\<lambda>_.
            bindE (metric (IncRun ''running'')) (\<lambda>_.
            bindE (svc_reportRun S (run_id r)) (\<lambda>_.
            bindE (store_GetJobSpec (job_id j)) (\<lambda>doc.
            bindE (wrap_error (Wrapped (''decode job spec '' @ job_id j)) (lift_result (unmarshal_job_spec doc))) (\<lambda>spec0.
            let spec = spec0\<lparr>spec_name := (if spec_name spec0 = '''' then job_name j else spec_name spec0),
                             spec_workdir := (if spec_workdir spec0 = '''' then ''.'' else spec_workdir spec0)\<rparr> in
            if spec_steps spec = [] then fail (PlainError ''job spec steps required'')
            else ret \<lparr>lg_run_id = run_id r, lg_job_id = job_id j, lg_lease_id = lease_id l,
                      lg_lease_ttl_seconds = lease_ttl l, lg_heartbeat_interval_seconds = lease_heartbeat l,
                      lg_max_runtime_seconds = glr_max_runtime_seconds req, lg_job_spec = spec\<rparr>)))))))))))))))"

definition svc_DequeueJobAttempt :: "int \<Rightarrow> string db" where
  "svc_DequeueJobAttempt visibilityTimeout =
     bindE (gets host_now) (\<lambda>hnow. store_DequeueJobAttempt hnow visibilityTimeout)"

definition svc_ExpireLeases :: "int \<Rightarrow> nat db" where
  "svc_ExpireLeases limit =
     bindE (gets host_now) (\<lambda>hnow.
     bindE (store_ExpireLeases hnow limit) (\<lambda>count.
     bindE (foreach (\<lambda>_. metric (IncLease ''expired'')) [0..<count]) (\<lambda>_.
     ret count)))"

section \<open>Messages from the runner (AckLease, HandleHeartbeat)\<close>

definition or_now :: "go_time \<Rightarrow> go_time db" where
  "or_now t = gets (\<lambda>w. if time_IsZero t then host_now w else t)"

definition svc_AckLease :: "ack_lease_msg \<Rightarrow> unit db" where
  "svc_AckLease msg =
     bindE (or_now (ack_accepted_at msg)) (\<lambda>now.
     bindE (try_prog (store_AcknowledgeLease (ack_lease_id msg) (ack_runner_id msg) now)) (\<lambda>res.
     case res of
       Inl e \<Rightarrow>
         if IsTransitionError e
         then bindE (metric (IncFailure ''stale_lease'')) (\<lambda>_. fail ErrStaleLease)
         else fail e
     | Inr l \<Rightarrow>
         bindE (store_GetJobAttempt (lease_attempt_id l)) (\<lambda>a.
         bindE (svc_transitionJobAndAttempt (att_job_id a) (att_id a) JobStateStarting) (\<lambda>_.
         bindE (store_MarkJobAttemptStarted (att_id a) now) (\<lambda>_.
         bindE (store_GetJob (att_job_id a)) (\<lambda>j.
         bindE (metric (IncLease ''active'')) (\<lambda>_.
         bindE (if att_state a \<noteq> JobStateStarting then metric (IncJob ''starting'') else skip) (\<lambda>_.
         bindE (store_GetRun (job_run_id j)) (\<lambda>r.
         if run_state r = RunStateCancelRequested \<or> isRunTerminal (run_state r) then skip
         else store_TransitionRunState (job_run_id j) RunStateRunning)))))))))"

text \<open>\<open>lease.State != ACTIVE || lease.ExpiresAt != nil && ts.After(*lease.ExpiresAt)\<close>\<close>

definition lease_is_stale :: "lease \<Rightarrow> go_time \<Rightarrow> bool" where
  "lease_is_stale l ts = (lease_state l \<noteq> LeaseStateActive \<or> lease_lapsed l ts)"

definition stale_lease :: "'a db" where
  "stale_lease = bindE (metric (IncFailure ''stale_lease'')) (\<lambda>_. fail ErrStaleLease)"

definition svc_HandleHeartbeat :: "heartbeat_msg \<Rightarrow> heartbeat_ack db" where
  "svc_HandleHeartbeat msg =
     bindE (or_now (hb_ts msg)) (\<lambda>ts.
     bindE (store_GetLease (hb_lease_id msg)) (\<lambda>l.
     if lease_is_stale l ts then stale_lease
     else
       bindE (try_prog (store_TouchLeaseHeartbeat (lease_id l) ts)) (\<lambda>res.
       case res of
         Inl e \<Rightarrow> if IsTransitionError e then stale_lease else fail e
       | Inr _ \<Rightarrow>
           bindE (store_GetJobAttempt (lease_attempt_id l)) (\<lambda>a.
           bindE (store_GetJob (att_job_id a)) (\<lambda>j.
           bindE (store_GetRun (job_run_id j)) (\<lambda>r.
           let cancelRequested = (run_state r = RunStateCancelRequested \<or> job_state j = JobStateCancelRequested) in
           bindE (if att_state a \<noteq> JobStateCancelRequested
                  then bindE (svc_transitionJobAndAttempt (att_job_id a) (att_id a) JobStateRunning) (\<lambda>_.
                       ret (att_state a \<noteq> JobStateRunning))
                  else ret False) (\<lambda>transitionedToRunning.
           bindE (if transitionedToRunning then metric (IncJob ''running'') else skip) (\<lambda>_.
           bindE (if \<not> cancelRequested \<and> \<not> isRunTerminal (run_state r)
                  then store_TransitionRunState (job_run_id j) RunStateRunning else skip) (\<lambda>_.
           ret \<lparr>hba_lease_id = lease_id l, hba_extend_lease = True,
                hba_new_lease_ttl_seconds = lease_ttl l, hba_cancel_requested = cancelRequested,
                hba_cancel_deadline_seconds = (if cancelRequested then cancelDeadlineSeconds else 0)\<rparr>)))))))))"

end
