(* ===== verification/Completion.thy ===== *)
theory Completion
  imports LeaseService
begin

text \<open>
  The end of an attempt in \<open>orchestrator/service.go\<close>: \<open>CompleteLease\<close> with the release
  of the dependent jobs and the failure explanation, and \<open>CancelLease\<close>.
\<close>

section \<open>Failure explanations and dependents\<close>

definition svc_recordFailureExplanation ::
  "service \<Rightarrow> job \<Rightarrow> job_attempt \<Rightarrow> complete_msg \<Rightarrow> artifact_ref list \<Rightarrow> unit db" where
  "svc_recordFailureExplanation S j a msg refs =
     bindE (try_prog (sv_analyze S \<lparr>fi_run_id = job_run_id j, fi_job_id = job_id j, fi_job_name = job_name j,
        fi_attempt_id = att_id a, fi_status = cm_status msg, fi_exit_code = cm_exit_code msg,
        fi_summary = cm_summary msg, fi_artifacts = refs\<rparr>)) (\<lambda>res.
     case res of
       Inl _ \<Rightarrow> metric (IncFailure ''failure_analysis_failed'')
     | Inr None \<Rightarrow> skip
     | Inr (Some explanation) \<Rightarrow>
         counted_failure ''failure_analysis_failed'' (store_RecordFailureExplanation explanation))"

definition latestAttempt :: "job_attempt list \<Rightarrow> job_attempt option" where
  "latestAttempt attempts = (if attempts = [] then None else Some (last attempts))"

definition enqueue_dependent :: "service \<Rightarrow> string \<Rightarrow> unit db" where
  "enqueue_dependent S dep =
     bindE (store_DependenciesSatisfied dep) (\<lambda>ready.
     if \<not> ready then skip
     else
       bindE (store_GetJob dep) (\<lambda>dependent.
       if job_state dependent \<noteq> JobStateCreated then skip
       else
         bindE (store_ListJobAttempts (job_id dependent)) (\<lambda>attempts.
         case latestAttempt attempts of
           None \<Rightarrow> skip
         | Some a \<Rightarrow>
             if att_state a \<noteq> JobStateCreated then skip
             else
               bindE (try_prog (svc_queueJobAttempt S dependent a)) (\<lambda>res.
               case res of
                 Inl e \<Rightarrow> if IsTransitionError e then skip else fail e
               | Inr _ \<Rightarrow> skip))))"

definition svc_enqueueReadyDependents :: "service \<Rightarrow> job \<Rightarrow> unit db" where
  "svc_enqueueReadyDependents S j =
     bindE (store_ListJobDependents (job_id j)) (\<lambda>deps. foreach (enqueue_dependent S) deps)"

section \<open>Completing a lease\<close>

fun completion_target :: "complete_status \<Rightarrow> job_state option" where
  "completion_target CompleteStatusSucceeded = Some JobStateSucceeded"
| "completion_target CompleteStatusFailed = Some JobStateFailed"
| "completion_target (CompleteStatusOther _) = None"

text \<open>
  The moves of the attempt and its job up to the final state: a runner may complete
  without a heartbeat, so the skipped states are passed through.
\<close>

definition finish_attempt :: "job \<Rightarrow> job_attempt \<Rightarrow> complete_status \<Rightarrow> job_state db" where
  "finish_attempt j a status =
     bindE (if att_state a \<noteq> JobStateRunning \<and> att_state a \<noteq> JobStateUploading
            then svc_transitionJobAndAttempt (job_id j) (att_id a) JobStateRunning else skip) (\<lambda>_.
     bindE (if att_state a \<noteq> JobStateUploading
            then svc_transitionJobAndAttempt (job_id j) (att_id a) JobStateUploading else skip) (\<lambda>_.
     case completion_target status of
       None \<Rightarrow> fail (PlainError ''unknown completion status'')
     | Some target \<Rightarrow>
         bindE (svc_transitionJobAndAttempt (job_id j) (att_id a) target) (\<lambda>_. ret target)))"

text \<open>Artifacts and cache events are best effort.\<close>

definition record_outputs :: "job_attempt \<Rightarrow> artifact_ref list \<Rightarrow> cache_event_msg list \<Rightarrow> unit db" where
  "record_outputs a artifacts caches =
     bindE (if artifacts \<noteq> []
            then bindE (try_prog (store_RecordArtifacts (att_id a) artifacts)) (\<lambda>_. skip) else skip) (\<lambda>_.
     if caches \<noteq> []
     then bindE (try_prog (store_RecordCacheEvents (att_id a)
            (map (\<lambda>c. \<lparr>ce_id = 0, ce_attempt_id = att_id a, ce_type = cem_type c, ce_key = cem_key c,
                      ce_hit = cem_hit c, ce_read_only = cem_read_only c\<rparr>) caches))) (\<lambda>_. skip)
     else skip)"

definition finalize_best_effort :: "unit db \<Rightarrow> unit db" where
  "finalize_best_effort m =
     counted_failure ''run_finalize_failed'' m"

definition after_completion :: "service \<Rightarrow> job \<Rightarrow> run \<Rightarrow> job_state \<Rightarrow> unit db" where
  "after_completion S j r target =
     (if run_state r = RunStateCancelRequested
      then finalize_best_effort (svc_finalizeCancelIfReady S (job_run_id j))
      else
        bindE (if target = JobStateSucceeded \<and> \<not> isRunTerminal (run_state r)
               then bindE (try_prog (svc_enqueueReadyDependents S j)) (\<lambda>res.
                 case res of
                   Inl e \<Rightarrow> bindE (metric (IncFailure ''enqueue_dependents_failed'')) (\<lambda>_. fail e)
                 | Inr _ \<Rightarrow> skip)
               else skip) (\<lambda>_.
        finalize_best_effort (svc_finalizeRunIfReady S (job_run_id j))))"

text \<open>Once the attempt has reached its final state the lease is completed and the outputs are kept.\<close>

definition settle_completion ::
  "service \<Rightarrow> complete_msg \<Rightarrow> go_time \<Rightarrow> lease \<Rightarrow> job_attempt \<Rightarrow> job \<Rightarrow> run \<Rightarrow> job_state \<Rightarrow> unit db" where
  "settle_completion S msg now l a j r target =
     bindE (metric (IncJob (jobMetricState target))) (\<lambda>_.
     bindE (metric (IncLease ''completed'')) (\<lambda>_.
     bindE (if target = JobStateFailed then metric (IncFailure ''job_failed'') else skip) (\<lambda>_.
     bindE (store_MarkJobAttemptCompleted (att_id a) now) (\<lambda>_.
     bindE (try_prog (store_CompleteLease (lease_id l) now LeaseStateCompleted)) (\<lambda>res.
     case res of
       Inl e \<Rightarrow> if IsTransitionError e then fail ErrStaleLease else fail e
     | Inr _ \<Rightarrow>
         bindE (record_outputs a (cm_artifacts msg) (cm_caches msg)) (\<lambda>_.
         bindE (if target = JobStateFailed
                then svc_recordFailureExplanation S j a msg (cm_artifacts msg) else skip) (\<lambda>_.
         after_completion S j r target)))))))"

definition complete_attempt :: "service \<Rightarrow> complete_msg \<Rightarrow> go_time \<Rightarrow> lease \<Rightarrow> unit db" where
  "complete_attempt S msg now l =
     bindE (store_GetJobAttempt (lease_attempt_id l)) (\<lambda>a.
     bindE (store_GetJob (att_job_id a)) (\<lambda>j.
     bindE (store_GetRun (job_run_id j)) (\<lambda>r.
     bindE (finish_attempt j a (cm_status msg)) (\<lambda>target.
     settle_completion S msg now l a j r target))))"

definition svc_CompleteLease :: "service \<Rightarrow> complete_msg \<Rightarrow> unit db" where
  "svc_CompleteLease S msg =
     bindE (or_now (cm_finished_at msg)) (\<lambda>now.
     bindE (store_GetLease (cm_lease_id msg)) (\<lambda>l.
     if lease_is_stale l now then stale_lease else complete_attempt S msg now l))"

section \<open>Acknowledging a cancellation\<close>

definition svc_CancelLease :: "service \<Rightarrow> cancel_ack_msg \<Rightarrow> unit db" where
  "svc_CancelLease S msg =
     bindE (or_now (ca_ts msg)) (\<lambda>now.
     if ca_final_status msg \<noteq> CancelFinalStatusCanceled then fail (PlainError ''unsupported cancel status'')
     else
       bindE (store_GetLease (ca_lease_id msg)) (\<lambda>l.
       if lease_is_stale l now then stale_lease
       else
         bindE (store_GetJobAttempt (lease_attempt_id l)) (\<lambda>a.
         bindE (store_GetJob (att_job_id a)) (\<lambda>j.
         if job_state j \<noteq> JobStateCancelRequested then fail ErrStaleLease
         else
           bindE (try_prog (svc_transitionJobAndAttempt (job_id j) (att_id a) JobStateCanceled)) (\<lambda>res.
           case res of
             Inl e \<Rightarrow> if IsTransitionError e then fail ErrStaleLease else fail e
           | Inr _ \<Rightarrow>
               bindE (metric (IncJob ''canceled'')) (\<lambda>_.
               bindE (metric (IncLease ''canceled'')) (\<lambda>_.
               bindE (store_MarkJobAttemptCompleted (att_id a) now) (\<lambda>_.
               bindE (try_prog (store_CompleteLease (lease_id l) now LeaseStateCanceled)) (\<lambda>res.
               case res of
                 Inl e \<Rightarrow> if IsTransitionError e then fail ErrStaleLease else fail e
               | Inr _ \<Rightarrow>
                   bindE (record_outputs a (ca_artifacts msg) []) (\<lambda>_.
                   finalize_best_effort (svc_finalizeCancelIfReady S (job_run_id j))))))))))))"

end
