(* ===== verification/Lawful.thy ===== *)
theory Lawful
  imports Records
begin

text \<open>
  What every store operation keeps, whatever the others do in between: the constraints
  of the schema as an invariant (\<open>wf_world\<close>), and the histories of the rows
  (\<open>evolves\<close>): no run, job, attempt or lease disappears, its identity does not change,
  and its state only moves along the tables of \<open>state/states.go\<close>.
\<close>

section \<open>The schema's constraints as an invariant\<close>

definition wf_runs :: "run list \<Rightarrow> bool" where
  "wf_runs rs \<longleftrightarrow> unique_key run_id rs \<and> (\<forall>r \<in> set rs. containsRunState (run_state r))"

definition wf_jobs :: "run list \<Rightarrow> job list \<Rightarrow> bool" where
  "wf_jobs rs js \<longleftrightarrow> unique_key job_id js
     \<and> (\<forall>j \<in> set js. containsJobState (job_state j) \<and> has_row run_id (job_run_id j) rs)"

definition wf_attempts :: "job list \<Rightarrow> job_attempt list \<Rightarrow> bool" where
  "wf_attempts js as \<longleftrightarrow> unique_key att_id as \<and> unique_key (\<lambda>a. (att_job_id a, att_number a)) as
     \<and> (\<forall>a \<in> set as. containsJobState (att_state a) \<and> att_number a > 0 \<and> has_row job_id (att_job_id a) js)"

definition one_live_lease :: "lease list \<Rightarrow> bool" where
  "one_live_lease ls \<longleftrightarrow> (\<forall>l \<in> set ls. \<forall>m \<in> set ls.
     lease_live (lease_state l) \<and> lease_live (lease_state m) \<and> lease_attempt_id l = lease_attempt_id m
     \<longrightarrow> lease_id l = lease_id m)"

definition wf_leases :: "job_attempt list \<Rightarrow> lease list \<Rightarrow> bool" where
  "wf_leases as ls \<longleftrightarrow> unique_key lease_id ls \<and> one_live_lease ls
     \<and> (\<forall>l \<in> set ls. containsLeaseState (lease_state l) \<and> 0 < lease_heartbeat l
          \<and> lease_heartbeat l < lease_ttl l \<and> has_row att_id (lease_attempt_id l) as)"

definition wf_queue :: "job_attempt list \<Rightarrow> queue_item list \<Rightarrow> bool" where
  "wf_queue as qs \<longleftrightarrow> unique_key q_attempt_id qs \<and> (\<forall>q \<in> set qs. has_row att_id (q_attempt_id q) as)"

definition wf_dependencies :: "job list \<Rightarrow> job_dependency list \<Rightarrow> bool" where
  "wf_dependencies js ds \<longleftrightarrow> distinct ds \<and> (\<forall>d \<in> set ds. dep_job_id d \<noteq> dep_on_job_id d
     \<and> has_row job_id (dep_job_id d) js \<and> has_row job_id (dep_on_job_id d) js)"

definition wf_triggers :: "run list \<Rightarrow> run_trigger list \<Rightarrow> bool" where
  "wf_triggers rs ts \<longleftrightarrow> unique_key tr_run_id ts \<and> unique_key (\<lambda>t. (tr_provider t, tr_event_key t)) ts
     \<and> (\<forall>t \<in> set ts. has_row run_id (tr_run_id t) rs)"

definition wf_reruns :: "run list \<Rightarrow> run_rerun list \<Rightarrow> bool" where
  "wf_reruns rs xs \<longleftrightarrow> unique_key (\<lambda>x. (rr_original_run_id x, rr_idempotency_key x)) xs
     \<and> unique_key rr_new_run_id xs
     \<and> (\<forall>x \<in> set xs. has_row run_id (rr_original_run_id x) rs \<and> has_row run_id (rr_new_run_id x) rs)"

definition wf_world :: "world \<Rightarrow> bool" where
  "wf_world w \<longleftrightarrow> wf_runs (w_runs w) \<and> wf_jobs (w_runs w) (w_jobs w)
     \<and> wf_attempts (w_jobs w) (w_attempts w) \<and> wf_leases (w_attempts w) (w_leases w)
     \<and> wf_queue (w_attempts w) (w_queue w) \<and> wf_dependencies (w_jobs w) (w_dependencies w)
     \<and> wf_triggers (w_runs w) (w_triggers w) \<and> wf_reruns (w_runs w) (w_reruns w)"

lemmas wf_defs = wf_runs_def wf_jobs_def wf_attempts_def wf_leases_def one_live_lease_def wf_queue_def
  wf_dependencies_def wf_triggers_def wf_reruns_def

lemma wf_empty_world: "wf_world empty_world"
  by (simp add: wf_world_def wf_defs empty_world_def)

text \<open>The foreign keys are monotone in the table they refer to.\<close>

definition keys_kept :: "('r \<Rightarrow> 'k) \<Rightarrow> 'r list \<Rightarrow> 'r list \<Rightarrow> bool" where
  "keys_kept key xs ys \<longleftrightarrow> (\<forall>k. has_row key k xs \<longrightarrow> has_row key k ys)"

lemma keys_keptD: "keys_kept key xs ys \<Longrightarrow> has_row key k xs \<Longrightarrow> has_row key k ys"
  by (simp add: keys_kept_def)

lemma wf_jobs_mono: "keys_kept run_id rs rs' \<Longrightarrow> wf_jobs rs js \<Longrightarrow> wf_jobs rs' js"
  by (auto simp: wf_jobs_def dest: keys_keptD)

lemma wf_attempts_mono: "keys_kept job_id js js' \<Longrightarrow> wf_attempts js as \<Longrightarrow> wf_attempts js' as"
  by (auto simp: wf_attempts_def dest: keys_keptD)

lemma wf_leases_mono: "keys_kept att_id as as' \<Longrightarrow> wf_leases as ls \<Longrightarrow> wf_leases as' ls"
  by (auto simp: wf_leases_def dest: keys_keptD)

lemma wf_queue_mono: "keys_kept att_id as as' \<Longrightarrow> wf_queue as qs \<Longrightarrow> wf_queue as' qs"
  by (auto simp: wf_queue_def dest: keys_keptD)

lemma wf_dependencies_mono: "keys_kept job_id js js' \<Longrightarrow> wf_dependencies js ds \<Longrightarrow> wf_dependencies js' ds"
  by (auto simp: wf_dependencies_def dest: keys_keptD)

lemma wf_triggers_mono: "keys_kept run_id rs rs' \<Longrightarrow> wf_triggers rs ts \<Longrightarrow> wf_triggers rs' ts"
  by (auto simp: wf_triggers_def dest: keys_keptD)

lemma wf_reruns_mono: "keys_kept run_id rs rs' \<Longrightarrow> wf_reruns rs xs \<Longrightarrow> wf_reruns rs' xs"
  by (auto simp: wf_reruns_def dest: keys_keptD)

lemmas wf_mono = wf_jobs_mono wf_attempts_mono wf_leases_mono wf_queue_mono wf_dependencies_mono
  wf_triggers_mono wf_reruns_mono

section \<open>Row histories\<close>

definition run_evolves :: "run \<Rightarrow> run \<Rightarrow> bool" where
  "run_evolves r r' \<longleftrightarrow> run_id r' = run_id r \<and> run_repo_id r' = run_repo_id r \<and> run_ref r' = run_ref r
     \<and> run_commit_sha r' = run_commit_sha r \<and> run_step\<^sup>*\<^sup>* (run_state r) (run_state r')"

definition job_evolves :: "job \<Rightarrow> job \<Rightarrow> bool" where
  "job_evolves j j' \<longleftrightarrow> job_id j' = job_id j \<and> job_run_id j' = job_run_id j \<and> job_name j' = job_name j
     \<and> job_required j' = job_required j \<and> job_created_at j' = job_created_at j
     \<and> job_step\<^sup>*\<^sup>* (job_state j) (job_state j')"

definition attempt_evolves :: "job_attempt \<Rightarrow> job_attempt \<Rightarrow> bool" where
  "attempt_evolves a a' \<longleftrightarrow> att_id a' = att_id a \<and> att_job_id a' = att_job_id a
     \<and> att_number a' = att_number a \<and> job_step\<^sup>*\<^sup>* (att_state a) (att_state a')"

definition lease_evolves :: "lease \<Rightarrow> lease \<Rightarrow> bool" where
  "lease_evolves l l' \<longleftrightarrow> lease_id l' = lease_id l \<and> lease_attempt_id l' = lease_attempt_id l
     \<and> lease_ttl l' = lease_ttl l \<and> lease_heartbeat l' = lease_heartbeat l
     \<and> lease_step\<^sup>*\<^sup>* (lease_state l) (lease_state l')"

definition rows_evolve :: "('r \<Rightarrow> 'r \<Rightarrow> bool) \<Rightarrow> 'r list \<Rightarrow> 'r list \<Rightarrow> bool" where
  "rows_evolve rel rows rows' \<longleftrightarrow> (\<forall>r \<in> set rows. \<exists>r' \<in> set rows'. rel r r')"

definition evolves :: "world \<Rightarrow> world \<Rightarrow> bool" where
  "evolves w w' \<longleftrightarrow> rows_evolve run_evolves (w_runs w) (w_runs w')
     \<and> rows_evolve job_evolves (w_jobs w) (w_jobs w')
     \<and> rows_evolve attempt_evolves (w_attempts w) (w_attempts w')
     \<and> rows_evolve lease_evolves (w_leases w) (w_leases w')
     \<and> set (w_dependencies w) \<subseteq> set (w_dependencies w')
     \<and> set (w_triggers w) \<subseteq> set (w_triggers w') \<and> set (w_reruns w) \<subseteq> set (w_reruns w')"

definition lawful :: "world \<Rightarrow> world \<Rightarrow> bool" where
  "lawful w w' \<longleftrightarrow> (wf_world w \<longrightarrow> wf_world w' \<and> evolves w w')"

lemma run_evolves_refl [simp]: "run_evolves r r"
  by (simp add: run_evolves_def)

lemma job_evolves_refl [simp]: "job_evolves r r"
  by (simp add: job_evolves_def)

lemma attempt_evolves_refl [simp]: "attempt_evolves r r"
  by (simp add: attempt_evolves_def)

lemma lease_evolves_refl [simp]: "lease_evolves r r"
  by (simp add: lease_evolves_def)

lemma run_evolves_trans: "run_evolves a b \<Longrightarrow> run_evolves b c \<Longrightarrow> run_evolves a c"
  unfolding run_evolves_def using rtranclp_trans [of run_step] by metis

lemma job_evolves_trans: "job_evolves a b \<Longrightarrow> job_evolves b c \<Longrightarrow> job_evolves a c"
  unfolding job_evolves_def using rtranclp_trans [of job_step] by metis

lemma attempt_evolves_trans: "attempt_evolves a b \<Longrightarrow> attempt_evolves b c \<Longrightarrow> attempt_evolves a c"
  unfolding attempt_evolves_def using rtranclp_trans [of job_step] by metis

lemma lease_evolves_trans: "lease_evolves a b \<Longrightarrow> lease_evolves b c \<Longrightarrow> lease_evolves a c"
  unfolding lease_evolves_def using rtranclp_trans [of lease_step] by metis

lemma rows_evolve_refl: "(\<And>r. rel r r) \<Longrightarrow> rows_evolve rel rows rows"
  by (auto simp: rows_evolve_def)

lemma rows_evolve_trans:
  assumes "\<And>a b c. rel a b \<Longrightarrow> rel b c \<Longrightarrow> rel a c"
    and "rows_evolve rel xs ys" and "rows_evolve rel ys zs"
  shows "rows_evolve rel xs zs"
  using assms unfolding rows_evolve_def by metis

lemma rows_evolve_append: "(\<And>r. rel r r) \<Longrightarrow> rows_evolve rel rows (rows @ [r])"
  by (auto simp: rows_evolve_def)

lemma update_rows_origin:
  assumes "r' \<in> set (update_rows key k f rows)" and "\<And>r. rel r r"
    and "\<And>r. r \<in> set rows \<Longrightarrow> key r = k \<Longrightarrow> rel r (f r)"
  shows "\<exists>r \<in> set rows. rel r r'"
proof -
  from assms(1) obtain r where r: "r \<in> set rows" "r' = (if key r = k then f r else r)"
    by (auto simp: set_update_rows)
  then have "rel r r'" using assms(2,3) by (cases "key r = k") auto
  with r(1) show ?thesis by blast
qed

lemma rows_evolve_update:
  assumes "\<And>r. rel r r" and "\<And>r. r \<in> set rows \<Longrightarrow> key r = k \<Longrightarrow> rel r (f r)"
  shows "rows_evolve rel rows (update_rows key k f rows)"
  unfolding rows_evolve_def
proof
  fix r
  assume r: "r \<in> set rows"
  have "(if key r = k then f r else r) \<in> set (update_rows key k f rows)"
    using r by (simp add: set_update_rows)
  moreover have "rel r (if key r = k then f r else r)"
    using r assms by simp
  ultimately show "\<exists>r' \<in> set (update_rows key k f rows). rel r r'" by blast
qed

lemma evolves_refl [simp]: "evolves w w"
  by (simp add: evolves_def rows_evolve_refl)

lemmas rows_evolve_transitive =
  rows_evolve_trans [of run_evolves, OF run_evolves_trans]
  rows_evolve_trans [of job_evolves, OF job_evolves_trans]
  rows_evolve_trans [of attempt_evolves, OF attempt_evolves_trans]
  rows_evolve_trans [of lease_evolves, OF lease_evolves_trans]

lemma evolves_trans: "evolves w w' \<Longrightarrow> evolves w' w'' \<Longrightarrow> evolves w w''"
  unfolding evolves_def
  by (elim conjE, intro conjI) (rule rows_evolve_transitive, assumption+ | erule (1) order_trans)+

lemma lawful_refl [simp]: "lawful w w"
  by (simp add: lawful_def)

lemma lawful_trans [trans]: "lawful w w' \<Longrightarrow> lawful w' w'' \<Longrightarrow> lawful w w''"
  unfolding lawful_def by (meson evolves_trans)

interpretation lw: world_preorder lawful
  by unfold_locales (auto intro: lawful_trans)

section \<open>Updates and inserts\<close>

lemma closure_known_run: "run_step\<^sup>*\<^sup>* a b \<Longrightarrow> containsRunState a \<Longrightarrow> containsRunState b"
  by (erule rtranclp_closed) (auto dest: run_step_known)

lemma closure_known_job: "job_step\<^sup>*\<^sup>* a b \<Longrightarrow> containsJobState a \<Longrightarrow> containsJobState b"
  by (erule rtranclp_closed) (auto dest: job_step_known)

lemma closure_known_lease: "lease_step\<^sup>*\<^sup>* a b \<Longrightarrow> containsLeaseState a \<Longrightarrow> containsLeaseState b"
  by (erule rtranclp_closed) (auto dest: lease_step_known)

lemma unique_key_update:
  "(\<And>r. r \<in> set rows \<Longrightarrow> key r = k \<Longrightarrow> g (f r) = g r) \<Longrightarrow>
   map g (update_rows key k f rows) = map g rows"
  by (induction rows) auto

lemma has_row_update_id:
  assumes "\<And>r. r \<in> set rows \<Longrightarrow> key r = k \<Longrightarrow> g (f r) = g r"
  shows "has_row g x (update_rows key k f rows) = has_row g x rows"
  using unique_key_update [of rows key k g f] assms
  by (simp add: has_row_iff_image) (metis list.set_map)

lemma keys_kept_evolve:
  assumes "rows_evolve rel xs ys" and "\<And>r r'. rel r r' \<Longrightarrow> key r' = key r"
  shows "keys_kept key xs ys"
  using assms unfolding keys_kept_def rows_evolve_def has_row_def by metis

lemma lawful_set_runs:
  assumes "wf_runs (w_runs w) \<Longrightarrow> wf_runs rs" and ev: "rows_evolve run_evolves (w_runs w) rs"
  shows "lawful w (w\<lparr>w_runs := rs\<rparr>)"
proof -
  have "keys_kept run_id (w_runs w) rs"
    using ev by (rule keys_kept_evolve) (simp add: run_evolves_def)
  then show ?thesis
    using assms by (auto simp: lawful_def wf_world_def evolves_def rows_evolve_refl intro: wf_mono)
qed

lemma lawful_set_jobs:
  assumes "wf_jobs (w_runs w) (w_jobs w) \<Longrightarrow> wf_jobs (w_runs w) js"
    and ev: "rows_evolve job_evolves (w_jobs w) js"
  shows "lawful w (w\<lparr>w_jobs := js\<rparr>)"
proof -
  have "keys_kept job_id (w_jobs w) js"
    using ev by (rule keys_kept_evolve) (simp add: job_evolves_def)
  then show ?thesis
    using assms by (auto simp: lawful_def wf_world_def evolves_def rows_evolve_refl intro: wf_mono)
qed

lemma lawful_set_attempts:
  assumes "wf_attempts (w_jobs w) (w_attempts w) \<Longrightarrow> wf_attempts (w_jobs w) as"
    and ev: "rows_evolve attempt_evolves (w_attempts w) as"
  shows "lawful w (w\<lparr>w_attempts := as\<rparr>)"
proof -
  have "keys_kept att_id (w_attempts w) as"
    using ev by (rule keys_kept_evolve) (simp add: attempt_evolves_def)
  then show ?thesis
    using assms by (auto simp: lawful_def wf_world_def evolves_def rows_evolve_refl intro: wf_mono)
qed

lemma lawful_set_leases:
  assumes "wf_leases (w_attempts w) (w_leases w) \<Longrightarrow> wf_leases (w_attempts w) ls"
    and "rows_evolve lease_evolves (w_leases w) ls"
  shows "lawful w (w\<lparr>w_leases := ls\<rparr>)"
  using assms by (auto simp: lawful_def wf_world_def evolves_def rows_evolve_refl)

lemma lawful_set_queue:
  assumes "wf_queue (w_attempts w) (w_queue w) \<Longrightarrow> wf_queue (w_attempts w) qs"
  shows "lawful w (w\<lparr>w_queue := qs\<rparr>)"
  using assms by (auto simp: lawful_def wf_world_def evolves_def rows_evolve_refl)

lemma lawful_set_dependencies:
  assumes "wf_dependencies (w_jobs w) (w_dependencies w) \<Longrightarrow> wf_dependencies (w_jobs w) ds"
    and "set (w_dependencies w) \<subseteq> set ds"
  shows "lawful w (w\<lparr>w_dependencies := ds\<rparr>)"
  using assms by (auto simp: lawful_def wf_world_def evolves_def rows_evolve_refl)

lemma lawful_set_triggers:
  assumes "wf_triggers (w_runs w) (w_triggers w) \<Longrightarrow> wf_triggers (w_runs w) ts"
    and "set (w_triggers w) \<subseteq> set ts"
  shows "lawful w (w\<lparr>w_triggers := ts\<rparr>)"
  using assms by (auto simp: lawful_def wf_world_def evolves_def rows_evolve_refl)

lemma lawful_set_reruns:
  assumes "wf_reruns (w_runs w) (w_reruns w) \<Longrightarrow> wf_reruns (w_runs w) xs"
    and "set (w_reruns w) \<subseteq> set xs"
  shows "lawful w (w\<lparr>w_reruns := xs\<rparr>)"
  using assms by (auto simp: lawful_def wf_world_def evolves_def rows_evolve_refl)

text \<open>The other tables, the clocks, the counters: nothing lawful speaks of.\<close>

definition same_core :: "world \<Rightarrow> world \<Rightarrow> bool" where
  "same_core w w' \<longleftrightarrow> w_runs w' = w_runs w \<and> w_jobs w' = w_jobs w \<and> w_attempts w' = w_attempts w
     \<and> w_leases w' = w_leases w \<and> w_queue w' = w_queue w \<and> w_dependencies w' = w_dependencies w
     \<and> w_triggers w' = w_triggers w \<and> w_reruns w' = w_reruns w"

lemma lawful_same_core: "same_core w w' \<Longrightarrow> lawful w w'"
  by (simp add: same_core_def lawful_def wf_world_def evolves_def rows_evolve_refl)

lemma lawful_update_run:
  assumes ev: "\<And>r. r \<in> set (w_runs w) \<Longrightarrow> run_id r = rid \<Longrightarrow> run_evolves r (f r)"
  shows "lawful w (w\<lparr>w_runs := update_rows run_id rid f (w_runs w)\<rparr>)"
proof (rule lawful_set_runs)
  have "map run_id (update_rows run_id rid f (w_runs w)) = map run_id (w_runs w)"
    using ev by (intro unique_key_update) (simp add: run_evolves_def)
  moreover have "containsRunState (run_state (f r))"
    if "r \<in> set (w_runs w)" "run_id r = rid" "containsRunState (run_state r)" for r
    using ev [OF that(1,2)] that(3) by (auto simp: run_evolves_def intro: closure_known_run)
  ultimately show "wf_runs (w_runs w) \<Longrightarrow> wf_runs (update_rows run_id rid f (w_runs w))"
    by (auto simp: wf_runs_def set_update_rows)
qed (auto intro!: rows_evolve_update ev)

lemma lawful_update_job:
  assumes ev: "\<And>r. r \<in> set (w_jobs w) \<Longrightarrow> job_id r = jid \<Longrightarrow> job_evolves r (f r)"
  shows "lawful w (w\<lparr>w_jobs := update_rows job_id jid f (w_jobs w)\<rparr>)"
proof (rule lawful_set_jobs)
  have "map job_id (update_rows job_id jid f (w_jobs w)) = map job_id (w_jobs w)"
    using ev by (intro unique_key_update) (simp add: job_evolves_def)
  moreover have "containsJobState (job_state (f r)) \<and> job_run_id (f r) = job_run_id r"
    if "r \<in> set (w_jobs w)" "job_id r = jid" "containsJobState (job_state r)" for r
    using ev [OF that(1,2)] that(3) by (auto simp: job_evolves_def intro: closure_known_job)
  ultimately show "wf_jobs (w_runs w) (w_jobs w) \<Longrightarrow>
      wf_jobs (w_runs w) (update_rows job_id jid f (w_jobs w))"
    by (auto simp: wf_jobs_def set_update_rows)
qed (auto intro!: rows_evolve_update ev)

lemma lawful_update_attempt:
  assumes ev: "\<And>r. r \<in> set (w_attempts w) \<Longrightarrow> att_id r = aid \<Longrightarrow> attempt_evolves r (f r)"
  shows "lawful w (w\<lparr>w_attempts := update_rows att_id aid f (w_attempts w)\<rparr>)"
proof (rule lawful_set_attempts)
  have "map att_id (update_rows att_id aid f (w_attempts w)) = map att_id (w_attempts w)"
    "map (\<lambda>a. (att_job_id a, att_number a)) (update_rows att_id aid f (w_attempts w)) =
     map (\<lambda>a. (att_job_id a, att_number a)) (w_attempts w)"
    using ev by (auto intro!: unique_key_update simp: attempt_evolves_def)
  moreover have "containsJobState (att_state (f r)) \<and> att_job_id (f r) = att_job_id r \<and> att_number (f r) = att_number r"
    if "r \<in> set (w_attempts w)" "att_id r = aid" "containsJobState (att_state r)" for r
    using ev [OF that(1,2)] that(3) by (auto simp: attempt_evolves_def intro: closure_known_job)
  ultimately show "wf_attempts (w_jobs w) (w_attempts w) \<Longrightarrow>
      wf_attempts (w_jobs w) (update_rows att_id aid f (w_attempts w))"
    by (auto simp: wf_attempts_def set_update_rows)
qed (auto intro!: rows_evolve_update ev)

text \<open>A lease that is no longer live stays so, so an update keeps the live lease unique.\<close>

lemma lease_evolves_live: "lease_evolves l l' \<Longrightarrow> lease_live (lease_state l') \<Longrightarrow> lease_live (lease_state l)"
  unfolding lease_evolves_def using lease_dead_closure by metis

lemma one_live_lease_evolve:
  assumes "one_live_lease ls" and "\<And>l'. l' \<in> set ls' \<Longrightarrow> \<exists>l \<in> set ls. lease_evolves l l'"
  shows "one_live_lease ls'"
  unfolding one_live_lease_def
proof (intro ballI impI)
  fix l' m'
  assume l': "l' \<in> set ls'" and m': "m' \<in> set ls'"
    and live: "lease_live (lease_state l') \<and> lease_live (lease_state m') \<and> lease_attempt_id l' = lease_attempt_id m'"
  obtain l m where "l \<in> set ls" "lease_evolves l l'" "m \<in> set ls" "lease_evolves m m'"
    using assms(2) l' m' by metis
  with live assms(1) show "lease_id l' = lease_id m'"
    unfolding one_live_lease_def by (metis lease_evolves_def lease_evolves_live)
qed

lemma lawful_update_lease:
  assumes ev: "\<And>r. r \<in> set (w_leases w) \<Longrightarrow> lease_id r = lid \<Longrightarrow> lease_evolves r (f r)"
  shows "lawful w (w\<lparr>w_leases := update_rows lease_id lid f (w_leases w)\<rparr>)"
proof (rule lawful_set_leases)
  let ?ls = "update_rows lease_id lid f (w_leases w)"
  assume wf: "wf_leases (w_attempts w) (w_leases w)"
  have ids: "map lease_id ?ls = map lease_id (w_leases w)"
    using ev by (intro unique_key_update) (simp add: lease_evolves_def)
  have orig: "\<exists>l \<in> set (w_leases w). lease_evolves l l'" if "l' \<in> set ?ls" for l'
    using that lease_evolves_refl ev by (rule update_rows_origin)
  have ok: "containsLeaseState (lease_state l') \<and> 0 < lease_heartbeat l' \<and> lease_heartbeat l' < lease_ttl l'
      \<and> has_row att_id (lease_attempt_id l') (w_attempts w)" if "l' \<in> set ?ls" for l'
  proof -
    from orig [OF that] obtain l where "l \<in> set (w_leases w)" "lease_evolves l l'" by blast
    with wf show ?thesis by (auto simp: wf_leases_def lease_evolves_def intro: closure_known_lease)
  qed
  have "one_live_lease ?ls"
    using wf orig by (auto simp: wf_leases_def intro: one_live_lease_evolve)
  with ids ok wf show "wf_leases (w_attempts w) ?ls"
    by (simp add: wf_leases_def)
qed (auto intro!: rows_evolve_update ev)

end
