(* ===== verification/LawfulOps.thy ===== *)
theory LawfulOps
  imports Lawful
begin

text \<open>
  Every operation of the store is lawful. The \<open>_apply\<close> lemmas unfold a transaction
  into its branches once, so that later proofs read the outcome instead of the program.
\<close>

section \<open>Inserts\<close>

lemma lawful_insert_run:
  "run_violation r w = None \<Longrightarrow> lawful w (w\<lparr>w_runs := w_runs w @ [r]\<rparr>)"
  by (rule lawful_set_runs)
    (auto simp: run_violation_def wf_runs_def has_row_iff_image rows_evolve_append split: if_splits)

lemma lawful_insert_job:
  "job_violation j w = None \<Longrightarrow> lawful w (w\<lparr>w_jobs := w_jobs w @ [j]\<rparr>)"
  by (rule lawful_set_jobs)
    (auto simp: job_violation_def wf_jobs_def has_row_iff_image rows_evolve_append split: if_splits)

lemma lawful_insert_attempt:
  "attempt_violation a w = None \<Longrightarrow> lawful w (w\<lparr>w_attempts := w_attempts w @ [a]\<rparr>)"
  by (rule lawful_set_attempts)
    (auto simp: attempt_violation_def wf_attempts_def has_row_iff_image rows_evolve_append split: if_splits)

lemma lease_violation_NoneD:
  assumes "lease_violation l w = None"
  shows "0 < lease_heartbeat l" and "lease_heartbeat l < lease_ttl l"
    and "containsLeaseState (lease_state l)" and "\<not> has_row lease_id (lease_id l) (w_leases w)"
    and "has_row att_id (lease_attempt_id l) (w_attempts w)"
    and "lease_live (lease_state l) \<Longrightarrow> x \<in> set (w_leases w) \<Longrightarrow> \<not> live_lease_of (lease_attempt_id l) x"
  using assms by (auto simp: lease_violation_def split: if_splits)

lemma one_live_lease_append:
  assumes "one_live_lease ls"
    and "lease_live (lease_state l) \<Longrightarrow> \<forall>x \<in> set ls. \<not> live_lease_of (lease_attempt_id l) x"
  shows "one_live_lease (ls @ [l])"
  unfolding one_live_lease_def
proof (intro ballI impI)
  fix x y
  assume x: "x \<in> set (ls @ [l])" and y: "y \<in> set (ls @ [l])"
    and live: "lease_live (lease_state x) \<and> lease_live (lease_state y) \<and> lease_attempt_id x = lease_attempt_id y"
  have clash: False if "z \<in> set ls" "lease_live (lease_state z)" "lease_attempt_id z = lease_attempt_id l"
    "lease_live (lease_state l)" for z
    using assms(2) that by (simp add: live_lease_of_def)
  consider "x \<in> set ls" "y \<in> set ls" | "x = l" "y = l" | "x = l" "y \<in> set ls" | "x \<in> set ls" "y = l"
    using x y by auto
  then show "lease_id x = lease_id y"
  proof cases
    case 1
    with assms(1) live show ?thesis unfolding one_live_lease_def by blast
  next
    case 2
    then show ?thesis by simp
  next
    case 3
    with live clash [of y] show ?thesis by simp
  next
    case 4
    with live clash [of x] show ?thesis by simp
  qed
qed

lemma lawful_insert_lease:
  assumes "lease_violation l w = None"
  shows "lawful w (w\<lparr>w_leases := w_leases w @ [l]\<rparr>)"
proof (rule lawful_set_leases)
  note l = lease_violation_NoneD [OF assms]
  assume wf: "wf_leases (w_attempts w) (w_leases w)"
  then have "one_live_lease (w_leases w @ [l])"
    using l(6) by (intro one_live_lease_append) (auto simp: wf_leases_def)
  with wf l(1-5) show "wf_leases (w_attempts w) (w_leases w @ [l])"
    by (simp add: wf_leases_def has_row_iff_image)
qed (simp add: rows_evolve_append)

lemma lawful_append_queue:
  "\<not> has_row q_attempt_id (q_attempt_id q) (w_queue w) \<Longrightarrow> has_row att_id (q_attempt_id q) (w_attempts w) \<Longrightarrow>
   lawful w (w\<lparr>w_queue := w_queue w @ [q]\<rparr>)"
  by (rule lawful_set_queue) (auto simp: wf_queue_def has_row_iff_image)

lemma lawful_update_queue:
  assumes "\<And>q. q_attempt_id (f q) = q_attempt_id q"
  shows "lawful w (w\<lparr>w_queue := update_rows q_attempt_id aid f (w_queue w)\<rparr>)"
  by (rule lawful_set_queue)
    (auto simp: wf_queue_def set_update_rows assms map_update_rows)

lemma lawful_filter_queue: "lawful w (w\<lparr>w_queue := filter p (w_queue w)\<rparr>)"
  by (rule lawful_set_queue) (auto simp: wf_queue_def distinct_map_filter)

section \<open>Unfolded transactions\<close>

lemma bindE_sql_insert:
  "bindE (sql_insert v ins) k w = (case v w of Some e \<Rightarrow> (Inl e, w) | None \<Rightarrow> k () (ins w))"
  by (simp add: bindE_def sql_insert_def split: option.splits)

lemmas program_simps = with_tx_def bindE_select_by bindE_lift_result bindE_sql_insert

lemma TransitionRunState_apply:
  "store_TransitionRunState rid next w =
     (case find_row run_id rid (w_runs w) of
        None \<Rightarrow> (Inl (NotFound (''run '' @ rid)), w)
      | Some r \<Rightarrow> (case validateRunTransition rid (run_state r) next of
            Inl e \<Rightarrow> (Inl e, w)
          | Inr _ \<Rightarrow> (Inr (), w\<lparr>w_runs := update_rows run_id rid
              (\<lambda>r. r\<lparr>run_state := next, run_updated_at := pg_now w\<rparr>) (w_runs w)\<rparr>)))"
  by (simp add: store_TransitionRunState_def program_simps update_run_def split: option.splits sum.splits)

lemma TransitionJobState_apply:
  "store_TransitionJobState jid next w =
     (case find_row job_id jid (w_jobs w) of
        None \<Rightarrow> (Inl (NotFound (''job '' @ jid)), w)
      | Some j \<Rightarrow> (case validateJobTransition jid (job_state j) next of
            Inl e \<Rightarrow> (Inl e, w)
          | Inr _ \<Rightarrow> (Inr (), w\<lparr>w_jobs := update_rows job_id jid
              (\<lambda>j. j\<lparr>job_state := next, job_updated_at := pg_now w\<rparr>) (w_jobs w)\<rparr>)))"
  by (simp add: store_TransitionJobState_def program_simps update_job_def split: option.splits sum.splits)

lemma TransitionJobAttemptState_apply:
  "store_TransitionJobAttemptState aid next w =
     (case find_row att_id aid (w_attempts w) of
        None \<Rightarrow> (Inl (NotFound (''job attempt '' @ aid)), w)
      | Some a \<Rightarrow> (case validateJobTransition aid (att_state a) next of
            Inl e \<Rightarrow> (Inl e, w)
          | Inr _ \<Rightarrow> (Inr (), w\<lparr>w_attempts := update_rows att_id aid
              (\<lambda>a. a\<lparr>att_state := next, att_updated_at := pg_now w\<rparr>) (w_attempts w)\<rparr>)))"
  by (simp add: store_TransitionJobAttemptState_def program_simps update_attempt_def
      split: option.splits sum.splits)

lemma TransitionLeaseState_apply:
  "store_TransitionLeaseState lid next w =
     (case find_row lease_id lid (w_leases w) of
        None \<Rightarrow> (Inl (NotFound (''lease '' @ lid)), w)
      | Some l \<Rightarrow> (case validateLeaseTransition lid (lease_state l) next of
            Inl e \<Rightarrow> (Inl e, w)
          | Inr _ \<Rightarrow> (Inr (), w\<lparr>w_leases := update_rows lease_id lid
              (\<lambda>l. l\<lparr>lease_state := next, lease_updated_at := pg_now w\<rparr>) (w_leases w)\<rparr>)))"
  by (simp add: store_TransitionLeaseState_def program_simps update_lease_def split: option.splits sum.splits)

lemma AcknowledgeLease_apply:
  "store_AcknowledgeLease lid runner now w =
     (case find_row lease_id lid (w_leases w) of
        None \<Rightarrow> (Inl (NotFound (''lease '' @ lid)), w)
      | Some l \<Rightarrow>
          if lease_lapsed l now then (Inl (lapsed_error lid l), w)
          else (case validateLeaseTransition lid (lease_state l) LeaseStateActive of
              Inl e \<Rightarrow> (Inl e, w)
            | Inr _ \<Rightarrow>
                let upd = (\<lambda>l. l\<lparr>lease_state := LeaseStateActive, lease_runner_id := Some runner,
                       lease_acknowledged_at := Some now,
                       lease_expires_at := Some (now + lease_ttl l * time_second),
                       lease_updated_at := now\<rparr>) in
                (Inr (upd l), w\<lparr>w_leases := update_rows lease_id lid upd (w_leases w)\<rparr>)))"
  by (simp add: store_AcknowledgeLease_def program_simps update_lease_def Let_def
      split: option.splits sum.splits)

lemma TouchLeaseHeartbeat_apply:
  "store_TouchLeaseHeartbeat lid ts w =
     (case find_row lease_id lid (w_leases w) of
        None \<Rightarrow> (Inl (NotFound (''lease '' @ lid)), w)
      | Some l \<Rightarrow>
          if lease_lapsed l ts then (Inl (lapsed_error lid l), w)
          else (case validateLeaseTransition lid (lease_state l) LeaseStateActive of
              Inl e \<Rightarrow> (Inl e, w)
            | Inr _ \<Rightarrow>
                let upd = (\<lambda>l. l\<lparr>lease_state := LeaseStateActive, lease_last_heartbeat_at := Some ts,
                       lease_expires_at := Some (ts + lease_ttl l * time_second),
                       lease_updated_at := ts\<rparr>) in
                (Inr (upd l), w\<lparr>w_leases := update_rows lease_id lid upd (w_leases w)\<rparr>)))"
  by (simp add: store_TouchLeaseHeartbeat_def program_simps update_lease_def Let_def
      split: option.splits sum.splits)

lemma CompleteLease_apply:
  "store_CompleteLease lid now next w =
     (case find_row lease_id lid (w_leases w) of
        None \<Rightarrow> (Inl (NotFound (''lease '' @ lid)), w)
      | Some l \<Rightarrow>
          if lease_lapsed l now then (Inl (lapsed_error lid l), w)
          else (case validateLeaseTransition lid (lease_state l) next of
              Inl e \<Rightarrow> (Inl e, w)
            | Inr _ \<Rightarrow>
                let upd = (\<lambda>l. l\<lparr>lease_state := next, lease_completed_at := Some now, lease_updated_at := now\<rparr>) in
                (Inr (upd l), w\<lparr>w_leases := update_rows lease_id lid upd (w_leases w)\<rparr>)))"
  by (simp add: store_CompleteLease_def program_simps update_lease_def Let_def
      split: option.splits sum.splits)

section \<open>Transitions are lawful\<close>

lemma lawful_wf: "(wf_world w \<Longrightarrow> lawful w w') \<Longrightarrow> lawful w w'"
  by (auto simp: lawful_def)

lemma the_run: "wf_world w \<Longrightarrow> find_row run_id rid (w_runs w) = Some r \<Longrightarrow>
  r' \<in> set (w_runs w) \<Longrightarrow> run_id r' = rid \<Longrightarrow> r' = r"
  using find_row_unique [of run_id "w_runs w" r' rid] by (simp add: wf_world_def wf_runs_def)

lemma the_job: "wf_world w \<Longrightarrow> find_row job_id jid (w_jobs w) = Some r \<Longrightarrow>
  r' \<in> set (w_jobs w) \<Longrightarrow> job_id r' = jid \<Longrightarrow> r' = r"
  using find_row_unique [of job_id "w_jobs w" r' jid] by (simp add: wf_world_def wf_jobs_def)

lemma the_attempt: "wf_world w \<Longrightarrow> find_row att_id aid (w_attempts w) = Some r \<Longrightarrow>
  r' \<in> set (w_attempts w) \<Longrightarrow> att_id r' = aid \<Longrightarrow> r' = r"
  using find_row_unique [of att_id "w_attempts w" r' aid] by (simp add: wf_world_def wf_attempts_def)

lemma the_lease: "wf_world w \<Longrightarrow> find_row lease_id lid (w_leases w) = Some r \<Longrightarrow>
  r' \<in> set (w_leases w) \<Longrightarrow> lease_id r' = lid \<Longrightarrow> r' = r"
  using find_row_unique [of lease_id "w_leases w" r' lid] by (simp add: wf_world_def wf_leases_def)

lemma lawful_move_run:
  assumes "find_row run_id rid (w_runs w) = Some r" and "run_evolves r (f r)"
  shows "lawful w (w\<lparr>w_runs := update_rows run_id rid f (w_runs w)\<rparr>)"
  by (rule lawful_wf, rule lawful_update_run) (use assms the_run in blast)

lemma lawful_move_job:
  assumes "find_row job_id jid (w_jobs w) = Some r" and "job_evolves r (f r)"
  shows "lawful w (w\<lparr>w_jobs := update_rows job_id jid f (w_jobs w)\<rparr>)"
  by (rule lawful_wf, rule lawful_update_job) (use assms the_job in blast)

lemma lawful_move_attempt:
  assumes "find_row att_id aid (w_attempts w) = Some r" and "attempt_evolves r (f r)"
  shows "lawful w (w\<lparr>w_attempts := update_rows att_id aid f (w_attempts w)\<rparr>)"
  by (rule lawful_wf, rule lawful_update_attempt) (use assms the_attempt in blast)

lemma lawful_move_lease:
  assumes "find_row lease_id lid (w_leases w) = Some r" and "lease_evolves r (f r)"
  shows "lawful w (w\<lparr>w_leases := update_rows lease_id lid f (w_leases w)\<rparr>)"
  by (rule lawful_wf, rule lawful_update_lease) (use assms the_lease in blast)

lemma valid_run_step: "validateRunTransition i a b = Inr u \<Longrightarrow> run_step\<^sup>*\<^sup>* a b"
  using validateRun_Inr_iff [of i a b] by auto

lemma valid_job_step: "validateJobTransition i a b = Inr u \<Longrightarrow> job_step\<^sup>*\<^sup>* a b"
  using validateJob_Inr_iff [of i a b] by auto

lemma valid_lease_step: "validateLeaseTransition i a b = Inr u \<Longrightarrow> lease_step\<^sup>*\<^sup>* a b"
  using validateLease_Inr_iff [of i a b] by auto

lemmas valid_steps = valid_run_step valid_job_step valid_lease_step

lemma TransitionRunState_lawful [keeps_intros]: "keeps lawful (store_TransitionRunState rid next)"
  by (rule keepsI)
    (auto simp: TransitionRunState_apply run_evolves_def
      intro!: lawful_move_run intro: valid_steps split: option.splits sum.splits)

lemma TransitionJobState_lawful [keeps_intros]: "keeps lawful (store_TransitionJobState jid next)"
  by (rule keepsI)
    (auto simp: TransitionJobState_apply job_evolves_def
      intro!: lawful_move_job intro: valid_steps split: option.splits sum.splits)

lemma TransitionJobAttemptState_lawful [keeps_intros]:
  "keeps lawful (store_TransitionJobAttemptState aid next)"
  by (rule keepsI)
    (auto simp: TransitionJobAttemptState_apply attempt_evolves_def
      intro!: lawful_move_attempt intro: valid_steps split: option.splits sum.splits)

lemma TransitionLeaseState_lawful [keeps_intros]: "keeps lawful (store_TransitionLeaseState lid next)"
  by (rule keepsI)
    (auto simp: TransitionLeaseState_apply lease_evolves_def
      intro!: lawful_move_lease intro: valid_steps split: option.splits sum.splits)

lemma AcknowledgeLease_lawful [keeps_intros]: "keeps lawful (store_AcknowledgeLease lid runner now)"
  by (rule keepsI)
    (auto simp: AcknowledgeLease_apply lease_evolves_def Let_def
      intro!: lawful_move_lease intro: valid_steps split: option.splits sum.splits)

lemma TouchLeaseHeartbeat_lawful [keeps_intros]: "keeps lawful (store_TouchLeaseHeartbeat lid ts)"
  by (rule keepsI)
    (auto simp: TouchLeaseHeartbeat_apply lease_evolves_def Let_def
      intro!: lawful_move_lease intro: valid_steps split: option.splits sum.splits)

lemma CompleteLease_lawful [keeps_intros]: "keeps lawful (store_CompleteLease lid now next)"
  by (rule keepsI)
    (auto simp: CompleteLease_apply lease_evolves_def Let_def
      intro!: lawful_move_lease intro: valid_steps split: option.splits sum.splits)

section \<open>Granting a lease\<close>

text \<open>The row the transaction inserts and the two updates it makes.\<close>

definition granted_row :: "world \<Rightarrow> string \<Rightarrow> lease \<Rightarrow> lease" where
  "granted_row w aid l =
     \<lparr>lease_id = lease_id l, lease_attempt_id = aid, lease_runner_id = lease_runner_id l,
      lease_state = LeaseStateGranted, lease_ttl = lease_ttl l, lease_heartbeat = lease_heartbeat l,
      lease_granted_at = pg_now w, lease_updated_at = pg_now w, lease_acknowledged_at = None,
      lease_last_heartbeat_at = None,
      lease_expires_at = Some (host_now w + lease_ttl l * time_second), lease_completed_at = None\<rparr>"

definition lease_attempt_row :: "world \<Rightarrow> lease \<Rightarrow> job_attempt \<Rightarrow> job_attempt" where
  "lease_attempt_row w l a =
     a\<lparr>att_lease_id := Some (lease_id l), att_state := JobStateLeased, att_updated_at := pg_now w\<rparr>"

definition lease_job_row :: "world \<Rightarrow> job \<Rightarrow> job" where
  "lease_job_row w j = j\<lparr>job_state := JobStateLeased, job_updated_at := pg_now w\<rparr>"

definition grant_params_ok :: "lease \<Rightarrow> bool" where
  "grant_params_ok l \<longleftrightarrow> lease_id l \<noteq> '''' \<and> 0 < lease_heartbeat l \<and> lease_heartbeat l < lease_ttl l"

definition grant_world :: "world \<Rightarrow> string \<Rightarrow> job \<Rightarrow> lease \<Rightarrow> world" where
  "grant_world w aid j l = w\<lparr>w_leases := w_leases w @ [granted_row w aid l],
     w_attempts := update_rows att_id aid (lease_attempt_row w l) (w_attempts w),
     w_jobs := update_rows job_id (job_id j) (lease_job_row w) (w_jobs w)\<rparr>"

lemma grant_rejects: "\<not> grant_params_ok l \<Longrightarrow> \<exists>m. store_GrantLease aid l w = (Inl (PlainError m), w)"
  by (auto simp: store_GrantLease_def grant_params_ok_def)

lemma GrantLease_apply:
  assumes "grant_params_ok l"
  shows "store_GrantLease aid l w =
     (case find_row att_id aid (w_attempts w) of
        None \<Rightarrow> (Inl (NotFound (''job attempt '' @ aid)), w)
      | Some a \<Rightarrow> (case find_row job_id (att_job_id a) (w_jobs w) of
          None \<Rightarrow> (Inl (NotFound (''job '' @ att_job_id a)), w)
        | Some j \<Rightarrow> (case validateJobTransition aid (att_state a) JobStateLeased of
            Inl e \<Rightarrow> (Inl e, w)
          | Inr _ \<Rightarrow> (case validateJobTransition (job_id j) (job_state j) JobStateLeased of
              Inl e \<Rightarrow> (Inl e, w)
            | Inr _ \<Rightarrow> (case lease_violation (granted_row w aid l) w of
                Some e \<Rightarrow> (Inl e, w)
              | None \<Rightarrow> (Inr (l\<lparr>lease_attempt_id := aid, lease_state := LeaseStateGranted,
                    lease_granted_at := pg_now w, lease_updated_at := pg_now w,
                    lease_expires_at := Some (host_now w + lease_ttl l * time_second)\<rparr>),
                  grant_world w aid j l))))))"
  using assms
  unfolding store_GrantLease_def grant_params_ok_def
  by (simp add: program_simps insert_lease_def Let_def
      granted_row_def grant_world_def lease_attempt_row_def [abs_def] lease_job_row_def [abs_def]
      update_attempt_def update_job_def split: option.splits sum.splits)

lemma lawful_grant_world:
  assumes "find_row att_id aid (w_attempts w) = Some a" and "find_row job_id jid (w_jobs w) = Some j"
    and "validateJobTransition aid (att_state a) JobStateLeased = Inr u"
    and "validateJobTransition (job_id j) (job_state j) JobStateLeased = Inr v"
    and "lease_violation (granted_row w aid l) w = None"
  shows "lawful w (grant_world w aid j l)"
proof -
  let ?w1 = "w\<lparr>w_leases := w_leases w @ [granted_row w aid l]\<rparr>"
  let ?w2 = "?w1\<lparr>w_attempts := update_rows att_id aid (lease_attempt_row w l) (w_attempts ?w1)\<rparr>"
  let ?w3 = "?w2\<lparr>w_jobs := update_rows job_id (job_id j) (lease_job_row w) (w_jobs ?w2)\<rparr>"
  have jid: "job_id j = jid" using find_row_SomeD [OF assms(2)] by simp
  have "lawful w ?w1" using assms(5) by (rule lawful_insert_lease)
  also have "lawful ?w1 ?w2"
  proof (rule lawful_move_attempt)
    show "find_row att_id aid (w_attempts ?w1) = Some a" using assms(1) by simp
    show "attempt_evolves a (lease_attempt_row w l a)"
      using valid_job_step [OF assms(3)] by (simp add: attempt_evolves_def lease_attempt_row_def)
  qed
  also have "lawful ?w2 ?w3"
  proof (rule lawful_move_job)
    show "find_row job_id (job_id j) (w_jobs ?w2) = Some j" using assms(2) jid by simp
    show "job_evolves j (lease_job_row w j)"
      using valid_job_step [OF assms(4)] by (simp add: job_evolves_def lease_job_row_def)
  qed
  finally show ?thesis by (simp add: grant_world_def)
qed

lemma GrantLease_lawful [keeps_intros]: "keeps lawful (store_GrantLease aid l)"
proof (rule keepsI)
  fix w
  show "lawful w (world_after (store_GrantLease aid l) w)"
  proof (cases "grant_params_ok l")
    case False
    then obtain m where "store_GrantLease aid l w = (Inl (PlainError m), w)"
      using grant_rejects by blast
    then show ?thesis by simp
  next
    case True
    then show ?thesis
      by (auto simp: GrantLease_apply intro: lawful_grant_world split: option.splits sum.splits)
  qed
qed

section \<open>Creation and bookkeeping\<close>

lemma keeps_sql_insert: "(\<And>w. v w = None \<Longrightarrow> lawful w (ins w)) \<Longrightarrow> keeps lawful (sql_insert v ins)"
  by (auto simp: keeps_def sql_insert_def split: option.splits)

lemma keeps_modify: "(\<And>w. lawful w (f w)) \<Longrightarrow> keeps lawful (modify f)"
  by (simp add: keeps_def)

lemma keeps_select_by [keeps_intros]: "keeps lawful (select_by rows key k what)"
  by (simp add: keeps_def)

lemma insert_run_lawful [keeps_intros]: "keeps lawful (insert_run r)"
  unfolding insert_run_def by (intro keeps_sql_insert lawful_insert_run)

lemma insert_job_lawful [keeps_intros]: "keeps lawful (insert_job r)"
  unfolding insert_job_def by (intro keeps_sql_insert lawful_insert_job)

lemma insert_attempt_lawful [keeps_intros]: "keeps lawful (insert_attempt r)"
  unfolding insert_attempt_def by (intro keeps_sql_insert lawful_insert_attempt)

lemma insert_lease_lawful [keeps_intros]: "keeps lawful (insert_lease r)"
  unfolding insert_lease_def by (intro keeps_sql_insert lawful_insert_lease)

lemma CreateRun_lawful [keeps_intros]: "keeps lawful (store_CreateRun r)"
  unfolding store_CreateRun_def Let_def by (intro lw.keeps_rules keeps_intros)

lemma CreateJob_lawful [keeps_intros]: "keeps lawful (store_CreateJob j)"
  unfolding store_CreateJob_def Let_def by (intro lw.keeps_rules keeps_intros)

lemma update_job_lawful: "(\<And>j. job_evolves j (f j)) \<Longrightarrow> keeps lawful (update_job jid f)"
  unfolding update_job_def by (intro keeps_modify lawful_update_job)

lemma update_attempt_lawful: "(\<And>a. attempt_evolves a (f a)) \<Longrightarrow> keeps lawful (update_attempt aid f)"
  unfolding update_attempt_def by (intro keeps_modify lawful_update_attempt)

lemma CreateJobAttempt_lawful [keeps_intros]: "keeps lawful (store_CreateJobAttempt a)"
  unfolding store_CreateJobAttempt_def Let_def
  by (intro lw.keeps_rules keeps_intros update_job_lawful) (simp add: job_evolves_def)

lemma MarkJobAttemptStarted_lawful [keeps_intros]: "keeps lawful (store_MarkJobAttemptStarted aid t)"
  unfolding store_MarkJobAttemptStarted_def
  by (intro lw.keeps_rules keeps_intros update_attempt_lawful) (simp add: attempt_evolves_def)

lemma MarkJobAttemptCompleted_lawful [keeps_intros]: "keeps lawful (store_MarkJobAttemptCompleted aid t)"
  unfolding store_MarkJobAttemptCompleted_def
  by (intro lw.keeps_rules keeps_intros update_attempt_lawful) (simp add: attempt_evolves_def)

lemma CreateLease_lawful [keeps_intros]: "keeps lawful (store_CreateLease l)"
  unfolding store_CreateLease_def Let_def by (intro lw.keeps_rules keeps_intros)

lemma reads_lawful [keeps_intros]:
  "keeps lawful (store_GetRun rid)" "keeps lawful (store_GetJob jid)"
  "keeps lawful (store_ListJobsByRun rid)" "keeps lawful (store_ListJobAttempts jid)"
  "keeps lawful (store_GetJobAttempt aid)" "keeps lawful (store_GetLease lid)"
  unfolding store_GetRun_def store_GetJob_def store_ListJobsByRun_def store_ListJobAttempts_def
    store_GetJobAttempt_def store_GetLease_def
  by (intro lw.keeps_rules keeps_intros)+

lemma GetLatestJobAttempt_lawful [keeps_intros]: "keeps lawful (store_GetLatestJobAttempt jid)"
  unfolding store_GetLatestJobAttempt_def
  by (rule keepsI) (simp split: list.splits)

section \<open>Queue and sweep\<close>

lemma upsert_queue_lawful [keeps_intros]: "keeps lawful (upsert_queue aid t)"
  by (rule keepsI)
    (auto simp: upsert_queue_def intro!: lawful_update_queue lawful_append_queue)

lemma EnqueueJobAttempt_lawful [keeps_intros]: "keeps lawful (store_EnqueueJobAttempt aid t)"
  unfolding store_EnqueueJobAttempt_def by (intro lw.keeps_rules keeps_intros)

lemma purge_queue_lawful [keeps_intros]: "keeps lawful purge_queue"
  unfolding purge_queue_def by (intro keeps_modify lawful_filter_queue)

lemma keeps_case_list:
  "keeps lawful f \<Longrightarrow> (\<And>x xs. keeps lawful (g x xs)) \<Longrightarrow>
   keeps lawful (case l of [] \<Rightarrow> f | x # xs \<Rightarrow> g x xs)"
  by (cases l) simp_all

lemma DequeueJobAttempt_lawful [keeps_intros]: "keeps lawful (store_DequeueJobAttempt now t)"
  unfolding store_DequeueJobAttempt_def Let_def
  by (intro lw.keeps_rules keeps_intros keeps_case_list keeps_modify lawful_update_queue) simp

lemma AckJobAttemptDispatch_lawful [keeps_intros]: "keeps lawful (store_AckJobAttemptDispatch aid)"
  unfolding store_AckJobAttemptDispatch_def
  by (intro lw.keeps_rules keeps_modify lawful_filter_queue)

text \<open>
  The sweep of one lease: what the transaction does to the oldest lapsed lease. Whether
  the attempt or the job goes back to the queue depends on its own state only.
\<close>

definition may_requeue :: "job_state \<Rightarrow> bool" where
  "may_requeue st \<longleftrightarrow> job_step st JobStateQueued"

definition swept_lease :: "world \<Rightarrow> lease \<Rightarrow> lease" where
  "swept_lease w l = l\<lparr>lease_state := LeaseStateExpired, lease_updated_at := pg_now w\<rparr>"

definition requeued_attempt :: "world \<Rightarrow> job_attempt \<Rightarrow> job_attempt" where
  "requeued_attempt w a = a\<lparr>att_state := JobStateQueued, att_updated_at := pg_now w\<rparr>"

definition requeued_job :: "world \<Rightarrow> job \<Rightarrow> job" where
  "requeued_job w j = j\<lparr>job_state := JobStateQueued, job_updated_at := pg_now w\<rparr>"

definition swept_world :: "world \<Rightarrow> lease \<Rightarrow> job_attempt \<Rightarrow> job \<Rightarrow> world" where
  "swept_world w l a j =
     w\<lparr>w_leases := update_rows lease_id (lease_id l) (swept_lease w) (w_leases w),
       w_attempts := (if may_requeue (att_state a)
         then update_rows att_id (att_id a) (requeued_attempt w) (w_attempts w) else w_attempts w),
       w_jobs := (if may_requeue (job_state j)
         then update_rows job_id (job_id j) (requeued_job w) (w_jobs w) else w_jobs w)\<rparr>"

lemma can_queue_known:
  assumes "containsJobState st"
  shows "can_queue (validateJobTransition i st JobStateQueued) = ret (may_requeue st)"
proof (cases "validateJobTransition i st JobStateQueued")
  case (Inr u)
  then show ?thesis
    using validateJob_Inr_iff [of i st JobStateQueued] by (simp add: can_queue_def may_requeue_def)
next
  case (Inl e)
  then have "\<not> job_step st JobStateQueued"
    using validateJob_Inr_iff [of i st JobStateQueued] by auto
  moreover have "IsTransitionError e"
    using Inl assms
    by (auto simp: validateJobTransition_def containsJobState_def split: option.splits if_splits)
  ultimately show ?thesis using Inl by (simp add: can_queue_def may_requeue_def)
qed

lemma validateLease_to_expired:
  "lease_live st \<Longrightarrow> validateLeaseTransition i st LeaseStateExpired = Inr ()"
  by (cases st) (auto simp: validateLeaseTransition_def containsLeaseState_def)

lemma expired_leases_member:
  assumes "expired_leases w now = l # ls"
  shows "l \<in> set (w_leases w)" and "lease_expired_by now l"
    and "attempt_job w (lease_attempt_id l) \<noteq> None"
proof -
  have "l \<in> set (expired_leases w now)" using assms by simp
  then show "l \<in> set (w_leases w)" "lease_expired_by now l" "attempt_job w (lease_attempt_id l) \<noteq> None"
    by (auto simp: expired_leases_def)
qed

lemma attempt_job_Some:
  "attempt_job w aid = Some (a, j) \<longleftrightarrow>
   find_row att_id aid (w_attempts w) = Some a \<and> find_row job_id (att_job_id a) (w_jobs w) = Some j"
  by (auto simp: attempt_job_def split: option.splits)

lemma expire_lease_tx_empty:
  "expired_leases w now = [] \<Longrightarrow> expire_lease_tx now w = (Inl ErrNoExpiredLeases, w)"
  by (simp add: expire_lease_tx_def with_tx_def)

lemma expire_lease_tx_apply:
  assumes wf: "wf_world w" and ls: "expired_leases w now = l # ls"
    and aj: "attempt_job w (lease_attempt_id l) = Some (a, j)"
  shows "expire_lease_tx now w =
    (if may_requeue (att_state a) then upsert_queue (att_id a) now (swept_world w l a j)
     else (Inr (), swept_world w l a j))"
proof -
  have fa: "find_row att_id (lease_attempt_id l) (w_attempts w) = Some a"
    and fj: "find_row job_id (att_job_id a) (w_jobs w) = Some j"
    using aj by (simp_all add: attempt_job_Some)
  have "a \<in> set (w_attempts w)" "j \<in> set (w_jobs w)"
    using find_row_SomeD [OF fa] find_row_SomeD [OF fj] by simp_all
  then have known: "containsJobState (att_state a)" "containsJobState (job_state j)"
    using wf by (auto simp: wf_world_def wf_attempts_def wf_jobs_def)
  have live: "validateLeaseTransition (lease_id l) (lease_state l) LeaseStateExpired = Inr ()"
    using expired_leases_member(2) [OF ls] by (simp add: lease_expired_by_def validateLease_to_expired)
  have ids: "has_row att_id (att_id a) (w_attempts w)"
    using find_row_SomeD [OF fa] by (auto simp: has_row_def)
  have same: "att_id (requeued_attempt w x) = att_id x" for x
    by (simp add: requeued_attempt_def)
  have up: "\<exists>w'. upsert_queue (att_id a) now (swept_world w l a j) = (Inr (), w')"
    using ids by (auto simp: upsert_queue_def swept_world_def same)
  show ?thesis
    using up unfolding expire_lease_tx_def
    by (auto simp: with_tx_def ls bindE_select_by fa fj bindE_lift_result live can_queue_known [OF known(1)]
        can_queue_known [OF known(2)] update_lease_def update_attempt_def update_job_def
        swept_world_def swept_lease_def [abs_def] requeued_attempt_def [abs_def] requeued_job_def [abs_def])
qed

lemma expired_leases_cases:
  obtains (None) "expired_leases w now = []"
  | (Some) l ls a j where "expired_leases w now = l # ls"
      and "attempt_job w (lease_attempt_id l) = Some (a, j)"
proof (cases "expired_leases w now")
  case Nil
  then show ?thesis by (rule None)
next
  case (Cons l ls)
  then obtain a j where "attempt_job w (lease_attempt_id l) = Some (a, j)"
    using expired_leases_member(3) [OF Cons] by auto
  with Cons show ?thesis by (rule Some)
qed

section \<open>The sweep is lawful\<close>

lemma lawful_swept_world:
  assumes wf: "wf_world w" and l: "l \<in> set (w_leases w)" "lease_live (lease_state l)"
    and aj: "attempt_job w (lease_attempt_id l) = Some (a, j)"
  shows "lawful w (swept_world w l a j)"
proof -
  let ?w1 = "w\<lparr>w_leases := update_rows lease_id (lease_id l) (swept_lease w) (w_leases w)\<rparr>"
  let ?w2 = "if may_requeue (att_state a)
    then ?w1\<lparr>w_attempts := update_rows att_id (att_id a) (requeued_attempt w) (w_attempts ?w1)\<rparr> else ?w1"
  let ?w3 = "if may_requeue (job_state j)
    then ?w2\<lparr>w_jobs := update_rows job_id (job_id j) (requeued_job w) (w_jobs ?w2)\<rparr> else ?w2"
  have fa: "find_row att_id (att_id a) (w_attempts w) = Some a"
    and fj: "find_row job_id (job_id j) (w_jobs w) = Some j"
    using aj by (simp_all add: attempt_job_Some) (metis find_row_SomeD)+
  have "lease_step (lease_state l) LeaseStateExpired"
    using l(2) by (cases "lease_state l") (auto simp: lease_step_simps)
  then have "lease_evolves l (swept_lease w l)"
    by (auto simp: lease_evolves_def swept_lease_def)
  moreover have "find_row lease_id (lease_id l) (w_leases w) = Some l"
    using wf l(1) by (intro find_row_unique) (auto simp: wf_world_def wf_leases_def)
  ultimately have "lawful w ?w1" by (intro lawful_move_lease)
  also have "lawful ?w1 ?w2"
  proof (cases "may_requeue (att_state a)")
    case True
    then have "attempt_evolves a (requeued_attempt w a)"
      by (auto simp: attempt_evolves_def requeued_attempt_def may_requeue_def)
    then have "lawful ?w1 (?w1\<lparr>w_attempts := update_rows att_id (att_id a) (requeued_attempt w) (w_attempts ?w1)\<rparr>)"
      by (intro lawful_move_attempt) (simp_all add: fa)
    with True show ?thesis by simp
  qed simp
  also have "lawful ?w2 ?w3"
  proof (cases "may_requeue (job_state j)")
    case True
    then have "job_evolves j (requeued_job w j)"
      by (auto simp: job_evolves_def requeued_job_def may_requeue_def)
    then have "lawful ?w2 (?w2\<lparr>w_jobs := update_rows job_id (job_id j) (requeued_job w) (w_jobs ?w2)\<rparr>)"
      by (intro lawful_move_job) (simp_all add: fj)
    with True show ?thesis by simp
  qed simp
  also have "?w3 = swept_world w l a j" by (simp add: swept_world_def)
  finally show ?thesis .
qed

lemma expire_lease_tx_lawful [keeps_intros]: "keeps lawful (expire_lease_tx now)"
proof (rule keepsI, rule lawful_wf)
  fix w
  assume wf: "wf_world w"
  show "lawful w (world_after (expire_lease_tx now) w)"
  proof (cases rule: expired_leases_cases [of w now])
    case None
    then show ?thesis by (simp add: expire_lease_tx_empty)
  next
    case (Some l ls a j)
    have sw: "lawful w (swept_world w l a j)"
      using wf expired_leases_member [OF Some(1)] Some(2)
      by (intro lawful_swept_world) (simp_all add: lease_expired_by_def)
    also have "lawful (swept_world w l a j) (world_after (upsert_queue (att_id a) now) (swept_world w l a j))"
      by (rule keepsD [OF upsert_queue_lawful])
    finally show ?thesis using sw by (simp add: expire_lease_tx_apply [OF wf Some])
  qed
qed

lemma expire_leases_loop_lawful [keeps_intros]: "keeps lawful (expire_leases_loop n now k)"
  by (induction n arbitrary: k) (auto intro!: lw.keeps_rules keeps_intros)

lemma ExpireLeases_lawful [keeps_intros]: "keeps lawful (store_ExpireLeases now limit)"
  unfolding store_ExpireLeases_def Let_def by (intro lw.keeps_rules keeps_intros)

section \<open>The other tables\<close>

lemma keeps_lawful_core: "(\<And>w. same_core w (world_after m w)) \<Longrightarrow> keeps lawful m"
  by (simp add: keeps_def lawful_same_core)

lemma RecordJobDependency_lawful [keeps_intros]: "keeps lawful (store_RecordJobDependency jid on)"
  unfolding store_RecordJobDependency_def
  by (rule keepsI)
    (auto intro!: lawful_set_dependencies simp: wf_dependencies_def)

lemma dependency_reads_lawful [keeps_intros]:
  "keeps lawful (store_ListJobDependents jid)" "keeps lawful (store_ListJobDependencies jid)"
  "keeps lawful (store_DependenciesSatisfied jid)"
  by (auto simp: keeps_def store_ListJobDependents_def store_ListJobDependencies_def
      store_DependenciesSatisfied_def)

lemma RecordJobSpec_lawful [keeps_intros]: "keeps lawful (store_RecordJobSpec jid doc)"
  by (rule keeps_lawful_core) (simp add: store_RecordJobSpec_def same_core_def)

lemma GetJobSpec_lawful [keeps_intros]: "keeps lawful (store_GetJobSpec jid)"
  unfolding store_GetJobSpec_def by (intro lw.keeps_rules keeps_intros)

lemma insert_artifact_lawful [keeps_intros]: "keeps lawful (insert_artifact aid x)"
  by (rule keeps_lawful_core) (simp add: insert_artifact_def same_core_def)

lemma RecordArtifacts_lawful [keeps_intros]: "keeps lawful (store_RecordArtifacts aid refs)"
  unfolding store_RecordArtifacts_def by (intro lw.keeps_rules keeps_intros)

lemma insert_cache_event_lawful [keeps_intros]: "keeps lawful (insert_cache_event aid e)"
  by (rule keeps_lawful_core) (simp add: insert_cache_event_def same_core_def)

lemma RecordCacheEvents_lawful [keeps_intros]: "keeps lawful (store_RecordCacheEvents aid es)"
  unfolding store_RecordCacheEvents_def by (intro lw.keeps_rules keeps_intros)

lemma upsert_explanation_lawful [keeps_intros]: "keeps lawful (upsert_explanation e)"
  by (rule keeps_lawful_core) (simp add: upsert_explanation_def same_core_def)

lemma RecordFailureExplanation_lawful [keeps_intros]: "keeps lawful (store_RecordFailureExplanation e)"
  unfolding store_RecordFailureExplanation_def by (intro lw.keeps_rules keeps_intros)

lemma record_reads_lawful [keeps_intros]:
  "keeps lawful (store_ListArtifactsByJob jid)" "keeps lawful (store_ListFailureExplanationsByJob jid)"
  "keeps lawful (store_GetFailureExplanationByAttempt aid)" "keeps lawful (store_GetRunTrigger rid)"
  unfolding store_ListArtifactsByJob_def store_ListFailureExplanationsByJob_def
    store_GetFailureExplanationByAttempt_def store_GetRunTrigger_def
  by (intro lw.keeps_rules keeps_intros)+

lemma insert_trigger_lawful [keeps_intros]: "keeps lawful (insert_trigger t)"
  unfolding insert_trigger_def
  by (rule keeps_sql_insert, rule lawful_set_triggers)
    (auto simp: wf_triggers_def has_row_iff_image split: option.splits if_splits)

lemma insert_rerun_lawful [keeps_intros]: "keeps lawful (insert_rerun x)"
  unfolding insert_rerun_def
  by (rule keeps_sql_insert, rule lawful_set_reruns)
    (auto simp: wf_reruns_def has_row_iff_image split: if_splits)

lemma unique_as_lawful [keeps_intros]: "keeps lawful m \<Longrightarrow> keeps lawful (unique_as dup m)"
  unfolding unique_as_def by (rule lw.keeps_wrap_error)

lemma getRunByTriggerKey_lawful [keeps_intros]: "keeps lawful (store_getRunByTriggerKey p k)"
  unfolding store_getRunByTriggerKey_def by (intro lw.keeps_rules keeps_intros)

lemma getRerunByKey_lawful [keeps_intros]: "keeps lawful (store_getRerunByKey p k)"
  unfolding store_getRerunByKey_def by (intro lw.keeps_rules keeps_intros)

lemma CreateRunWithTrigger_lawful [keeps_intros]: "keeps lawful (store_CreateRunWithTrigger r t)"
  unfolding store_CreateRunWithTrigger_def by (intro lw.keeps_rules keeps_intros)

lemma CreateRunWithRerun_lawful [keeps_intros]: "keeps lawful (store_CreateRunWithRerun r i k)"
  unfolding store_CreateRunWithRerun_def by (intro lw.keeps_rules keeps_intros)

lemma RecordRunPlan_lawful [keeps_intros]: "keeps lawful (store_RecordRunPlan p)"
  by (rule keeps_lawful_core) (simp add: store_RecordRunPlan_def same_core_def Let_def)

lemma GetRunPlan_lawful [keeps_intros]: "keeps lawful (store_GetRunPlan rid)"
  unfolding store_GetRunPlan_def by (intro lw.keeps_rules keeps_intros)

lemma CreateRecipe_lawful [keeps_intros]: "keeps lawful (store_CreateRecipe x)"
  by (rule keeps_lawful_core) (simp add: store_CreateRecipe_def same_core_def Let_def)

lemma FindRecipeByFingerprint_lawful [keeps_intros]: "keeps lawful (store_FindRecipeByFingerprint r f)"
  unfolding store_FindRecipeByFingerprint_def by (intro lw.keeps_rules keeps_case_list)

lemma TouchRecipeLastUsed_lawful [keeps_intros]: "keeps lawful (store_TouchRecipeLastUsed r t)"
  by (rule keeps_lawful_core) (simp add: store_TouchRecipeLastUsed_def same_core_def Let_def)

lemma GetStatusReport_lawful [keeps_intros]: "keeps lawful (store_GetStatusReport r p)"
  unfolding store_GetStatusReport_def by (intro lw.keeps_rules)

lemma UpsertStatusReport_lawful [keeps_intros]: "keeps lawful (store_UpsertStatusReport x)"
  by (rule keeps_lawful_core)
    (simp add: store_UpsertStatusReport_def same_core_def Let_def split: option.splits)

end
