(* ===== verification/ServiceLawful.thy ===== *)
theory ServiceLawful
  imports Completion LawfulOps
begin

text \<open>
  The service's interfaces as locales, and the handlers' part of the schema invariant:
  whatever planner, dispatcher, id generator, reporter and analyzer are plugged in, as
  long as they touch the database through lawful programs, every handler is lawful.
\<close>

section \<open>The interfaces\<close>

text \<open>
  A dispatcher writes the queue and nothing else of the life cycle, and never drops an
  item. A reporter may record that a settled run has been reported, and leaves the jobs alone. An id generator
  hands out non-empty ids.
\<close>

definition queue_grows :: "world \<Rightarrow> world \<Rightarrow> bool" where
  "queue_grows w w' \<longleftrightarrow> w_runs w' = w_runs w \<and> w_jobs w' = w_jobs w \<and> w_attempts w' = w_attempts w
     \<and> w_leases w' = w_leases w \<and> w_dependencies w' = w_dependencies w
     \<and> w_triggers w' = w_triggers w \<and> w_reruns w' = w_reruns w
     \<and> (\<forall>i. has_row q_attempt_id i (w_queue w) \<longrightarrow> has_row q_attempt_id i (w_queue w'))"

definition reported_run :: "run \<Rightarrow> run \<Rightarrow> bool" where
  "reported_run r r' \<longleftrightarrow> run_id r' = run_id r
     \<and> (run_state r' = run_state r \<or> run_settled (run_state r) \<and> run_state r' = RunStateReported)"

definition runs_reported :: "world \<Rightarrow> world \<Rightarrow> bool" where
  "runs_reported w w' \<longleftrightarrow> list_all2 reported_run (w_runs w) (w_runs w') \<and> w_jobs w' = w_jobs w
     \<and> w_attempts w' = w_attempts w \<and> w_leases w' = w_leases w \<and> w_queue w' = w_queue w
     \<and> w_dependencies w' = w_dependencies w"

locale dispatcher_contract =
  fixes enqueue :: "job_attempt \<Rightarrow> unit db"
  assumes enqueue_lawful: "keeps lawful (enqueue a)"
    and enqueue_grows: "queue_grows w (world_after (enqueue a) w)"

locale reliable_dispatcher = dispatcher_contract +
  assumes delivers: "att_id a \<noteq> '''' \<Longrightarrow> has_row att_id (att_id a) (w_attempts w) \<Longrightarrow>
    \<exists>w'. enqueue a w = (Inr (), w') \<and> has_row q_attempt_id (att_id a) (w_queue w')"

locale reporter_contract =
  fixes report :: "string \<Rightarrow> unit db"
  assumes report_lawful: "keeps lawful (report rid)"
    and report_frame: "wf_world w \<Longrightarrow> runs_reported w (world_after (report rid) w)"
    and report_jobs: "w_jobs (world_after (report rid) w) = w_jobs w"

locale id_source =
  fixes next_id :: "string db"
  assumes next_id_core: "same_core w (world_after next_id w)"
    and next_id_nonempty: "outcome_of next_id w = Inr i \<Longrightarrow> i \<noteq> ''''"
begin

lemma next_id_lawful: "keeps lawful next_id"
  by (simp add: keeps_def lawful_same_core next_id_core)

end

lemma reported_run_refl [simp]: "reported_run r r"
  by (simp add: reported_run_def)

lemma runs_reported_refl [simp]: "runs_reported w w"
  by (simp add: runs_reported_def list.rel_refl)

lemma keeps_modify_core: "(\<And>w. same_core w (f w)) \<Longrightarrow> keeps lawful (modify f)"
  by (rule keeps_modify) (rule lawful_same_core)

lemma metric_lawful [keeps_intros]: "keeps lawful (metric e)"
  unfolding metric_def by (rule keeps_modify_core) (simp add: same_core_def)

lemma counted_failure_lawful [keeps_intros]: "keeps lawful m \<Longrightarrow> keeps lawful (counted_failure n m)"
  unfolding counted_failure_def by (intro lw.keeps_rules metric_lawful)

lemma randomID_lawful [keeps_intros]: "keeps lawful (randomID rand prefix)"
  by (rule keeps_lawful_core) (simp add: randomID_def same_core_def)

lemma QueueDispatcher_lawful [keeps_intros]: "keeps lawful (QueueDispatcher_EnqueueJobAttempt a)"
  unfolding QueueDispatcher_EnqueueJobAttempt_def by (intro lw.keeps_rules keeps_intros)

interpretation queue_dispatcher: reliable_dispatcher QueueDispatcher_EnqueueJobAttempt
proof
  show "keeps lawful (QueueDispatcher_EnqueueJobAttempt a)" for a
    by (rule QueueDispatcher_lawful)
  show "queue_grows w (world_after (QueueDispatcher_EnqueueJobAttempt a) w)" for a w
    by (simp add: QueueDispatcher_EnqueueJobAttempt_def store_EnqueueJobAttempt_def upsert_queue_def
        queue_grows_def)
  show "\<exists>w'. QueueDispatcher_EnqueueJobAttempt a w = (Inr (), w') \<and>
      has_row q_attempt_id (att_id a) (w_queue w')"
    if "att_id a \<noteq> ''''" "has_row att_id (att_id a) (w_attempts w)" for a w
    using that
    by (simp add: QueueDispatcher_EnqueueJobAttempt_def store_EnqueueJobAttempt_def upsert_queue_def)
qed

interpretation noop_dispatcher: dispatcher_contract NoopDispatcher_EnqueueJobAttempt
  by unfold_locales (simp_all add: NoopDispatcher_EnqueueJobAttempt_def lw.keeps_ret queue_grows_def)

interpretation noop_reporter: reporter_contract NoopStatusReporter_ReportRun
  by unfold_locales (simp_all add: NoopStatusReporter_ReportRun_def lw.keeps_ret)

interpretation random_id: id_source "randomID rand prefix"
  by unfold_locales (auto simp: randomID_def same_core_def split: option.splits)

locale service_env =
  fixes S :: service
  assumes disp: "dispatcher_contract (sv_enqueue S)"
    and rep: "reporter_contract (sv_report S)"
    and ids: "id_source (sv_RunID S)" "id_source (sv_JobID S)" "id_source (sv_JobAttemptID S)"
      "id_source (sv_LeaseID S)"
    and plan_core: "same_core w (world_after (sv_plan S req) w)"
    and analyze_core: "same_core w (world_after (sv_analyze S input) w)"
begin

lemma plan_lawful: "keeps lawful (sv_plan S req)"
  by (simp add: keeps_def lawful_same_core plan_core)

lemma analyze_lawful: "keeps lawful (sv_analyze S input)"
  by (simp add: keeps_def lawful_same_core analyze_core)

lemmas interface_lawful =
  dispatcher_contract.enqueue_lawful [OF disp] reporter_contract.report_lawful [OF rep]
  ids [THEN id_source.next_id_lawful] plan_lawful analyze_lawful

end

section \<open>Handlers that use no interface\<close>

lemma transitionJobAndAttempt_lawful [keeps_intros]: "keeps lawful (svc_transitionJobAndAttempt j a t)"
  unfolding svc_transitionJobAndAttempt_def by (intro lw.keeps_rules keeps_intros)

lemma GetRunDetails_lawful [keeps_intros]: "keeps lawful (svc_GetRunDetails rid)"
  unfolding svc_GetRunDetails_def by (intro lw.keeps_rules keeps_intros)

lemma validateCreateRunRequest_lawful [keeps_intros]: "keeps lawful (validateCreateRunRequest req)"
  unfolding validateCreateRunRequest_def by (intro lw.keeps_rules)

lemma recordRunPlan_lawful [keeps_intros]: "keeps lawful (svc_recordRunPlan r p)"
  unfolding svc_recordRunPlan_def by (intro keeps_intros)

lemma record_dependencies_lawful [keeps_intros]: "keeps lawful (record_dependencies recs x)"
  unfolding record_dependencies_def by (intro lw.keeps_rules keeps_intros)

lemma updateRunPlanRecipe_lawful [keeps_intros]: "keeps lawful (svc_updateRunPlanRecipe r p i v)"
  unfolding svc_updateRunPlanRecipe_def by (intro lw.keeps_rules keeps_intros)

lemma dependency_name_lawful [keeps_intros]: "keeps lawful (dependency_name jobs d)"
  unfolding dependency_name_def by (intro lw.keeps_rules)

lemma recipe_job_lawful [keeps_intros]: "keeps lawful (recipe_job jobs j)"
  unfolding recipe_job_def Let_def by (intro lw.keeps_rules keeps_intros)

lemma buildRecipeJobs_lawful [keeps_intros]: "keeps lawful (svc_buildRecipeJobs jobs)"
  unfolding svc_buildRecipeJobs_def by (intro lw.keeps_rules keeps_intros)

lemma persistRecipeIfNeeded_lawful [keeps_intros]: "keeps lawful (svc_persistRecipeIfNeeded S r)"
  unfolding svc_persistRecipeIfNeeded_def by (intro lw.keeps_rules keeps_intros)

lemma keeps_case_job_state [keeps_intros]:
  "\<lbrakk>keeps lawful q; keeps lawful l; keeps lawful s; keeps lawful r; keeps lawful d\<rbrakk> \<Longrightarrow>
   keeps lawful (case st of JobStateQueued \<Rightarrow> q | JobStateLeased \<Rightarrow> l | JobStateStarting \<Rightarrow> s
     | JobStateRunning \<Rightarrow> r | _ \<Rightarrow> d)"
  by (cases st) simp_all

lemma cancel_job_lawful [keeps_intros]: "keeps lawful (cancel_job now j)"
  unfolding cancel_job_def by (intro lw.keeps_rules keeps_intros)

lemma or_now_lawful [keeps_intros]: "keeps lawful (or_now t)"
  unfolding or_now_def by (intro lw.keeps_rules)

lemma stale_lease_lawful [keeps_intros]: "keeps lawful stale_lease"
  unfolding stale_lease_def by (intro lw.keeps_rules keeps_intros)

lemma svc_AckLease_lawful [keeps_intros]: "keeps lawful (svc_AckLease msg)"
  unfolding svc_AckLease_def by (intro lw.keeps_rules keeps_intros)

lemma HandleHeartbeat_lawful [keeps_intros]: "keeps lawful (svc_HandleHeartbeat msg)"
  unfolding svc_HandleHeartbeat_def Let_def by (intro lw.keeps_rules keeps_intros)

lemma svc_DequeueJobAttempt_lawful [keeps_intros]: "keeps lawful (svc_DequeueJobAttempt t)"
  unfolding svc_DequeueJobAttempt_def by (intro lw.keeps_rules keeps_intros)

lemma svc_ExpireLeases_lawful [keeps_intros]: "keeps lawful (svc_ExpireLeases n)"
  unfolding svc_ExpireLeases_def by (intro lw.keeps_rules keeps_intros)

lemma finish_attempt_lawful [keeps_intros]: "keeps lawful (finish_attempt j a s)"
  unfolding finish_attempt_def by (intro lw.keeps_rules keeps_intros)

lemma record_outputs_lawful [keeps_intros]: "keeps lawful (record_outputs a x c)"
  unfolding record_outputs_def by (intro lw.keeps_rules keeps_intros)

lemma finalize_best_effort_lawful [keeps_intros]: "keeps lawful m \<Longrightarrow> keeps lawful (finalize_best_effort m)"
  unfolding finalize_best_effort_def by (intro lw.keeps_rules keeps_intros)

section \<open>Handlers that use the interfaces\<close>

context service_env
begin

lemma reportRun_lawful: "keeps lawful (svc_reportRun S rid)"
  unfolding svc_reportRun_def by (intro lw.keeps_rules keeps_intros interface_lawful)

lemma failRun_lawful: "keeps lawful (svc_failRun S rid)"
  unfolding svc_failRun_def by (intro lw.keeps_rules keeps_intros reportRun_lawful)

lemma queueJobAttempt_lawful: "keeps lawful (svc_queueJobAttempt S j a)"
  unfolding svc_queueJobAttempt_def Let_def by (intro lw.keeps_rules keeps_intros interface_lawful)

lemma create_planned_job_lawful: "keeps lawful (create_planned_job S r p)"
  unfolding create_planned_job_def by (intro lw.keeps_rules keeps_intros interface_lawful)

lemma create_planned_jobs_lawful: "keeps lawful (create_planned_jobs S r recs ps)"
  by (induction ps arbitrary: recs) (simp_all add: lw.keeps_rules create_planned_job_lawful)

lemma queue_if_free_lawful: "keeps lawful (queue_if_free S x)"
  unfolding queue_if_free_def by (intro lw.keeps_rules queueJobAttempt_lawful)

lemmas step_lawful = reportRun_lawful failRun_lawful queueJobAttempt_lawful create_planned_jobs_lawful
  queue_if_free_lawful

lemma startRun_lawful: "keeps lawful (svc_startRun S r)"
  unfolding svc_startRun_def by (intro lw.keeps_rules keeps_intros step_lawful interface_lawful)

lemma svc_CreateRun_lawful: "keeps lawful (svc_CreateRun S req)"
  unfolding svc_CreateRun_def by (intro lw.keeps_rules keeps_intros startRun_lawful interface_lawful)

lemma CreateRunFromTrigger_lawful: "keeps lawful (svc_CreateRunFromTrigger S req t)"
  unfolding svc_CreateRunFromTrigger_def
  by (intro lw.keeps_rules keeps_intros startRun_lawful interface_lawful)

lemma RerunRun_lawful: "keeps lawful (svc_RerunRun S rid key)"
  unfolding svc_RerunRun_def by (intro lw.keeps_rules keeps_intros startRun_lawful interface_lawful)

lemma finalizeRunIfReady_lawful: "keeps lawful (svc_finalizeRunIfReady S rid)"
  unfolding svc_finalizeRunIfReady_def
  by (intro lw.keeps_rules keeps_intros reportRun_lawful) (auto intro!: lw.keeps_rules keeps_intros reportRun_lawful split: verdict.splits)

lemma finalizeCancelIfReady_lawful: "keeps lawful (svc_finalizeCancelIfReady S rid)"
  unfolding svc_finalizeCancelIfReady_def by (intro lw.keeps_rules keeps_intros reportRun_lawful)

lemma request_cancel_lawful: "keeps lawful (request_cancel S rid)"
  unfolding request_cancel_def
  by (intro lw.keeps_rules keeps_intros reportRun_lawful finalizeCancelIfReady_lawful)

lemma CancelRun_lawful: "keeps lawful (svc_CancelRun S rid)"
  unfolding svc_CancelRun_def
  by (auto intro!: lw.keeps_rules keeps_intros request_cancel_lawful split: run_state.splits)

lemma svc_GrantLease_lawful: "keeps lawful (svc_GrantLease S req)"
  unfolding svc_GrantLease_def Let_def
  by (intro lw.keeps_rules keeps_intros interface_lawful reportRun_lawful)

lemma recordFailureExplanation_lawful: "keeps lawful (svc_recordFailureExplanation S j a m x)"
  unfolding svc_recordFailureExplanation_def by (intro lw.keeps_rules keeps_intros interface_lawful)

lemma enqueue_dependent_lawful: "keeps lawful (enqueue_dependent S d)"
  unfolding enqueue_dependent_def by (intro lw.keeps_rules keeps_intros queueJobAttempt_lawful)

lemma enqueueReadyDependents_lawful: "keeps lawful (svc_enqueueReadyDependents S j)"
  unfolding svc_enqueueReadyDependents_def by (intro lw.keeps_rules keeps_intros enqueue_dependent_lawful)

lemma after_completion_lawful: "keeps lawful (after_completion S j r t)"
  unfolding after_completion_def
  by (intro lw.keeps_rules keeps_intros enqueueReadyDependents_lawful finalizeRunIfReady_lawful
      finalizeCancelIfReady_lawful)

lemma svc_CompleteLease_lawful: "keeps lawful (svc_CompleteLease S msg)"
  unfolding svc_CompleteLease_def complete_attempt_def settle_completion_def
  by (intro lw.keeps_rules keeps_intros recordFailureExplanation_lawful after_completion_lawful)

lemma CancelLease_lawful: "keeps lawful (svc_CancelLease S msg)"
  unfolding svc_CancelLease_def
  by (intro lw.keeps_rules keeps_intros finalizeCancelIfReady_lawful)

end

end
