(* ===== verification/FailureAnalyzer.thy ===== *)
theory FailureAnalyzer
  imports Service
begin

text \<open>
  The rule-based failure analyzer (\<open>orchestrator/failure_analyzer.go\<close>). The advisor is
  an interface without an implementation in the repository, so it is an argument:
  \<open>None\<close> when none is plugged in.
\<close>

definition defaultMaxFailureSummaryLen :: int where
  "defaultMaxFailureSummaryLen = 160"

definition defaultMaxFailureDetailsLen :: int where
  "defaultMaxFailureDetailsLen = 512"

definition truncateText :: "string \<Rightarrow> int \<Rightarrow> string" where
  "truncateText value maxLen =
     (if maxLen \<le> 0 \<or> int (length value) \<le> maxLen then value
      else if maxLen \<le> 3 then take (nat maxLen) value
      else take (nat (maxLen - 3)) value @ ''...'')"

definition sanitizeText :: "string \<Rightarrow> int \<Rightarrow> string" where
  "sanitizeText value maxLen =
     (let v1 = ReplaceChar (CHR 0x0A) (CHR '' '') value;
          v2 = ReplaceChar (CHR 0x0D) (CHR '' '') v1;
          v3 = TrimSpace v2;
          v4 = Join (Fields v3) '' '' in
      truncateText v4 maxLen)"

definition isGenericSummary :: "string \<Rightarrow> bool" where
  "isGenericSummary summary = HasPrefix (ToLower summary) ''exit status ''"

definition containsAny :: "string \<Rightarrow> string list \<Rightarrow> bool" where
  "containsAny value needles = list_ex (Contains value) needles"

definition appendDetail :: "string \<Rightarrow> string \<Rightarrow> int \<Rightarrow> string" where
  "appendDetail existing next0 maxLen =
     (let next = TrimSpace next0 in
      if next = '''' then existing
      else if existing = '''' then truncateText next maxLen
      else truncateText (existing @ '' | '' @ next) maxLen)"

definition with_exit_code :: "string \<Rightarrow> int \<Rightarrow> string" where
  "with_exit_code what exitCode = what @ '' (exit code '' @ Itoa exitCode @ '').''"

definition classifyFailure :: "string \<Rightarrow> string \<Rightarrow> int \<Rightarrow> failure_category \<times> failure_confidence \<times> string" where
  "classifyFailure jobName summary exitCode =
     (let name = ToLower jobName; lower = ToLower summary in
      if containsAny lower [''timed out'', ''timeout'', ''deadline exceeded''] \<or> exitCode = 124
      then (FailureCategoryInfra, FailureConfidenceMedium, with_exit_code ''Job timed out'' exitCode)
      else if containsAny lower
        [''out of memory'', ''no space'', ''disk full'', ''signal: killed'', ''killed'']
      then (FailureCategoryInfra, FailureConfidenceHigh, with_exit_code ''Resource exhaustion detected'' exitCode)
      else if containsAny lower
        [''dial tcp'', ''connection refused'', ''i/o timeout'', ''temporary failure'', ''tls handshake timeout'']
      then (FailureCategoryInfra, FailureConfidenceHigh, with_exit_code ''Network error detected'' exitCode)
      else if containsAny lower
        [''command not found'', ''executable file not found'', ''no such file or directory'']
      then (FailureCategoryTooling, FailureConfidenceHigh, with_exit_code ''Missing tool or script'' exitCode)
      else if containsAny lower [''permission denied'']
      then (FailureCategoryTooling, FailureConfidenceMedium, with_exit_code ''Permission error detected'' exitCode)
      else if Contains name ''lint'' \<or> Contains name ''vet''
      then (FailureCategoryUser, FailureConfidenceMedium, with_exit_code ''Lint step failed'' exitCode)
      else if Contains name ''test''
      then (FailureCategoryUser, FailureConfidenceMedium, with_exit_code ''Test step failed'' exitCode)
      else if Contains name ''build''
      then (FailureCategoryUser, FailureConfidenceMedium, with_exit_code ''Build step failed'' exitCode)
      else (FailureCategoryUser, FailureConfidenceLow, with_exit_code ''Job failed'' exitCode))"

definition buildFailureDetails :: "failure_input \<Rightarrow> string \<Rightarrow> int \<Rightarrow> string" where
  "buildFailureDetails input summary maxLen =
     (let d1 = (if summary \<noteq> '''' \<and> \<not> isGenericSummary summary
                then appendDetail '''' (''Observed: '' @ summary) maxLen else '''');
          d2 = (if fi_exit_code input \<noteq> 0
                then appendDetail d1 (''Exit code: '' @ Itoa (fi_exit_code input)) maxLen else d1) in
      case find (\<lambda>x. EqualFold (aref_type x) ''log'') (fi_artifacts input) of
        None \<Rightarrow> d2
      | Some x \<Rightarrow> appendDetail d2 (''Log: '' @ sanitizeText (aref_uri x) maxLen) maxLen)"

text \<open>\<open>EnableAI && Advisor != nil\<close> is an argument of its own.\<close>

record rule_based_analyzer =
  ra_max_summary_len :: int
  ra_max_details_len :: int
  ra_advisor :: "(failure_input \<Rightarrow> string db) option"
  ra_enable_ai :: bool

definition NewRuleBasedFailureAnalyzer :: rule_based_analyzer where
  "NewRuleBasedFailureAnalyzer = \<lparr>ra_max_summary_len = defaultMaxFailureSummaryLen,
     ra_max_details_len = defaultMaxFailureDetailsLen, ra_advisor = None, ra_enable_ai = False\<rparr>"

definition advised_details :: "rule_based_analyzer \<Rightarrow> failure_input \<Rightarrow> string \<Rightarrow> string db" where
  "advised_details A input details =
     (case ra_advisor A of
        None \<Rightarrow> ret details
      | Some advisor \<Rightarrow>
          if \<not> ra_enable_ai A then ret details
          else bindE (try_prog (advisor input)) (\<lambda>r.
            case r of
              Inl _ \<Rightarrow> ret details
            | Inr advice \<Rightarrow>
                let aiSummary = sanitizeText advice (ra_max_details_len A) in
                ret (if aiSummary \<noteq> ''''
                     then appendDetail details (''AI advisory: '' @ aiSummary) (ra_max_details_len A)
                     else details)))"

definition RuleBased_Analyze :: "rule_based_analyzer \<Rightarrow> failure_input \<Rightarrow> failure_explanation option db" where
  "RuleBased_Analyze A input =
     (if fi_attempt_id input = '''' then fail (PlainError ''attempt id required for failure analysis'')
      else if fi_status input \<noteq> CompleteStatusFailed then ret None
      else
        let summary = sanitizeText (fi_summary input) (ra_max_summary_len A);
            (category, confidence, concise) = classifyFailure (fi_job_name input) summary (fi_exit_code input);
            details = buildFailureDetails input summary (ra_max_details_len A) in
        bindE (advised_details A (input\<lparr>fi_summary := summary\<rparr>) details) (\<lambda>details'.
        ret (Some \<lparr>fe_id = 0, fe_attempt_id = fi_attempt_id input, fe_category = category,
                   fe_summary = concise, fe_confidence = confidence, fe_details = details',
                   fe_created_at = 0\<rparr>)))"

definition NoopFailureAnalyzer_Analyze :: "failure_input \<Rightarrow> failure_explanation option db" where
  "NoopFailureAnalyzer_Analyze input = ret None"

section \<open>Bounds\<close>

lemma truncateText_length: "0 < n \<Longrightarrow> int (length (truncateText s n)) \<le> n"
  by (auto simp: truncateText_def)

lemma truncateText_short: "int (length s) \<le> n \<Longrightarrow> truncateText s n = s"
  by (simp add: truncateText_def)

lemma sanitizeText_length: "0 < n \<Longrightarrow> int (length (sanitizeText s n)) \<le> n"
  by (simp add: sanitizeText_def Let_def truncateText_length)

lemma appendDetail_length:
  "0 < n \<Longrightarrow> int (length d) \<le> n \<Longrightarrow> int (length (appendDetail d x n)) \<le> n"
  by (simp add: appendDetail_def Let_def truncateText_length)

lemma buildFailureDetails_length: "0 < n \<Longrightarrow> int (length (buildFailureDetails i s n)) \<le> n"
  by (auto simp: buildFailureDetails_def Let_def appendDetail_length split: option.splits)

lemma classifyFailure_user:
  "fst (classifyFailure n s c) \<in> {FailureCategoryInfra, FailureCategoryTooling, FailureCategoryUser}"
  by (simp add: classifyFailure_def Let_def)

lemma classifyFailure_confident:
  "fst (snd (classifyFailure n s c)) \<in> {FailureConfidenceLow, FailureConfidenceMedium, FailureConfidenceHigh}"
  by (simp add: classifyFailure_def Let_def)

lemma classifyFailure_summary: "snd (snd (classifyFailure n s c)) \<noteq> ''''"
  by (simp add: classifyFailure_def Let_def with_exit_code_def)

end
