(* ===== verification/StaticPlan.thy ===== *)
theory StaticPlan
  imports Types
begin

text \<open>
  The planner contract and the fixed planner of \<open>planner/planner.go\<close>. A planner is a
  program, because the diff planner reads the recipe tables.
\<close>

definition PlanSourceConfig :: string where "PlanSourceConfig = ''config''"
definition PlanSourceRecipe :: string where "PlanSourceRecipe = ''recipe''"
definition PlanSourceDiscovery :: string where "PlanSourceDiscovery = ''discovery''"
definition PlanSourceFallback :: string where "PlanSourceFallback = ''fallback''"

definition simple_job :: "string \<Rightarrow> bool \<Rightarrow> string \<Rightarrow> string \<Rightarrow> planned_job" where
  "simple_job name required step reason =
     \<lparr>pj_name = name, pj_required = required,
      pj_spec = \<lparr>spec_name = name, spec_workdir = ''.'', spec_steps = [step], spec_env = [], spec_caches = []\<rparr>,
      pj_reason = reason, pj_depends_on = []\<rparr>"

definition StaticPlanner_Plan :: "planned_job list \<Rightarrow> plan_request \<Rightarrow> plan_result db" where
  "StaticPlanner_Plan jobs req =
     (if jobs \<noteq> []
      then ret \<lparr>pl_jobs = jobs, pl_explain = ''static planner configured'', pl_skipped_jobs = [],
                pl_fingerprint = '''', pl_recipe_source = '''', pl_recipe_id = '''', pl_recipe_version = 0\<rparr>
      else ret \<lparr>pl_jobs = [simple_job ''build'' True ''go build ./...'' ''default build job'',
                           simple_job ''test'' True ''go test ./...'' ''default test job'',
                           simple_job ''lint'' False ''go vet ./...'' ''default lint job''],
                pl_explain = ''static planner default (no diff analysis available)'',
                pl_skipped_jobs = [], pl_fingerprint = '''', pl_recipe_source = '''', pl_recipe_id = '''',
                pl_recipe_version = 0\<rparr>)"

end
