(* ===== verification/System.thy ===== *)
theory System
  imports ServiceLawful FailureAnalyzer StaticPlan
begin

text \<open>
  The orchestrator as one system: the API calls of the HTTP layer and the command's
  loops, served one after the other in any order, with time passing in between.
\<close>

section \<open>The service with its defaults (NewService)\<close>

text \<open>\<open>None\<close> is a nil interface, which \<open>NewService\<close> replaces.\<close>

definition NewService ::
  "(plan_request \<Rightarrow> plan_result db) option \<Rightarrow> (job_attempt \<Rightarrow> unit db) option \<Rightarrow>
   (string db \<times> string db \<times> string db \<times> string db) option \<Rightarrow> (string \<Rightarrow> unit db) option \<Rightarrow>
   (failure_input \<Rightarrow> failure_explanation option db) option \<Rightarrow> (nat \<Rightarrow> string option) \<Rightarrow> service" where
  "NewService plan dispatcher ids reporter analyzer rand =
     \<lparr>sv_plan = (case plan of None \<Rightarrow> StaticPlanner_Plan [] | Some p \<Rightarrow> p),
      sv_enqueue = (case dispatcher of None \<Rightarrow> NoopDispatcher_EnqueueJobAttempt | Some d \<Rightarrow> d),
      sv_RunID = (case ids of None \<Rightarrow> randomID rand ''run'' | Some (a, _, _, _) \<Rightarrow> a),
      sv_JobID = (case ids of None \<Rightarrow> randomID rand ''job'' | Some (_, b, _, _) \<Rightarrow> b),
      sv_JobAttemptID = (case ids of None \<Rightarrow> randomID rand ''attempt'' | Some (_, _, c, _) \<Rightarrow> c),
      sv_LeaseID = (case ids of None \<Rightarrow> randomID rand ''lease'' | Some (_, _, _, d) \<Rightarrow> d),
      sv_report = (case reporter of None \<Rightarrow> NoopStatusReporter_ReportRun | Some r \<Rightarrow> r),
      sv_analyze = (case analyzer of None \<Rightarrow> RuleBased_Analyze NewRuleBasedFailureAnalyzer | Some a \<Rightarrow> a),
      sv_rand = rand\<rparr>"

lemma StaticPlanner_core: "same_core w (world_after (StaticPlanner_Plan jobs req) w)"
  by (simp add: StaticPlanner_Plan_def same_core_def)

lemma default_analyzer_core:
  "same_core w (world_after (RuleBased_Analyze NewRuleBasedFailureAnalyzer input) w)"
  by (simp add: RuleBased_Analyze_def NewRuleBasedFailureAnalyzer_def advised_details_def same_core_def
      Let_def split: prod.splits)

interpretation default_env: service_env "NewService None None None None None rand"
  by (rule service_env.intro)
    (simp_all add: NewService_def noop_dispatcher.dispatcher_contract_axioms
      noop_reporter.reporter_contract_axioms random_id.id_source_axioms StaticPlanner_core
      default_analyzer_core)

interpretation queue_env:
  service_env "NewService None (Some QueueDispatcher_EnqueueJobAttempt) None None None rand"
  by (rule service_env.intro)
    (simp_all add: NewService_def queue_dispatcher.dispatcher_contract_axioms
      noop_reporter.reporter_contract_axioms random_id.id_source_axioms StaticPlanner_core
      default_analyzer_core)

section \<open>Calls\<close>

datatype api_call =
    CallCreateRun create_run_request
  | CallCreateRunFromTrigger create_run_request run_trigger
  | CallRerunRun string string
  | CallCancelRun string
  | CallGrantLease grant_lease_request
  | CallDequeueJobAttempt int
  | CallExpireLeases int
  | CallAckLease ack_lease_msg
  | CallHeartbeat heartbeat_msg
  | CallCompleteLease complete_msg
  | CallCancelLease cancel_ack_msg
  | ClockTick go_time go_time

fun serve :: "service \<Rightarrow> api_call \<Rightarrow> world \<Rightarrow> world" where
  "serve S (CallCreateRun req) w = world_after (svc_CreateRun S req) w"
| "serve S (CallCreateRunFromTrigger req t) w = world_after (svc_CreateRunFromTrigger S req t) w"
| "serve S (CallRerunRun rid key) w = world_after (svc_RerunRun S rid key) w"
| "serve S (CallCancelRun rid) w = world_after (svc_CancelRun S rid) w"
| "serve S (CallGrantLease req) w = world_after (svc_GrantLease S req) w"
| "serve S (CallDequeueJobAttempt t) w = world_after (svc_DequeueJobAttempt t) w"
| "serve S (CallExpireLeases n) w = world_after (svc_ExpireLeases n) w"
| "serve S (CallAckLease m) w = world_after (svc_AckLease m) w"
| "serve S (CallHeartbeat m) w = world_after (svc_HandleHeartbeat m) w"
| "serve S (CallCompleteLease m) w = world_after (svc_CompleteLease S m) w"
| "serve S (CallCancelLease m) w = world_after (svc_CancelLease S m) w"
| "serve S (ClockTick pg host) w = w\<lparr>pg_now := pg, host_now := host\<rparr>"

text \<open>A system step serves one call; the clocks may jump to any reading, also backwards.\<close>

inductive serves :: "service \<Rightarrow> world \<Rightarrow> world \<Rightarrow> bool" for S where
  "w' = serve S c w \<Longrightarrow> serves S w w'"

inductive_cases serves_cases: "serves S w w'"

context service_env
begin

lemma tick_lawful: "lawful w (w\<lparr>pg_now := pg, host_now := host\<rparr>)"
  by (rule lawful_same_core) (simp add: same_core_def)

lemma serve_lawful: "lawful w (serve S c w)"
  by (cases c)
    (simp_all add: tick_lawful keepsD [OF svc_CreateRun_lawful] keepsD [OF CreateRunFromTrigger_lawful]
      keepsD [OF RerunRun_lawful] keepsD [OF CancelRun_lawful] keepsD [OF svc_GrantLease_lawful]
      keepsD [OF svc_CompleteLease_lawful] keepsD [OF CancelLease_lawful] keepsD [OF svc_AckLease_lawful]
      keepsD [OF HandleHeartbeat_lawful] keepsD [OF svc_DequeueJobAttempt_lawful]
      keepsD [OF svc_ExpireLeases_lawful])

lemma serves_lawful: "(serves S)\<^sup>*\<^sup>* w w' \<Longrightarrow> lawful w w'"
  by (induction rule: rtranclp_induct) (auto elim!: serves_cases intro: lawful_trans serve_lawful)

end

end
