(* ===== verification/Invariants.thy ===== *)
theory Invariants
  imports System
begin

text \<open>
  What holds between any two handlers, beyond the constraints of the schema: a job and
  its attempt are in the same state, a job has left \<open>CREATED\<close> only when the jobs it
  depends on have succeeded, an attempt under a live lease is not waiting in the queue, a
  successful run has only successful required jobs, and with a reliable dispatcher no
  queued attempt is lost from the queue.
\<close>

section \<open>The invariant\<close>

definition single_attempts :: "job_attempt list \<Rightarrow> bool" where
  "single_attempts as \<longleftrightarrow> (\<forall>a \<in> set as. att_number a = 1 \<and> att_id a \<noteq> '''')"

definition synced :: "job list \<Rightarrow> job_attempt list \<Rightarrow> bool" where
  "synced js as \<longleftrightarrow> (\<forall>a \<in> set as. \<forall>j \<in> set js. job_id j = att_job_id a \<longrightarrow> job_state j = att_state a)"

definition gated :: "job list \<Rightarrow> job_dependency list \<Rightarrow> bool" where
  "gated js ds \<longleftrightarrow> (\<forall>d \<in> set ds. \<forall>j \<in> set js. \<forall>k \<in> set js.
     job_id j = dep_job_id d \<and> job_id k = dep_on_job_id d \<and> job_state j \<noteq> JobStateCreated
     \<longrightarrow> job_state k = JobStateSucceeded)"

definition busy :: "job_attempt list \<Rightarrow> lease list \<Rightarrow> bool" where
  "busy as ls \<longleftrightarrow> (\<forall>l \<in> set ls. \<forall>a \<in> set as. lease_live (lease_state l) \<and> att_id a = lease_attempt_id l
     \<longrightarrow> att_state a \<noteq> JobStateCreated \<and> att_state a \<noteq> JobStateQueued)"

definition green :: "run list \<Rightarrow> job list \<Rightarrow> bool" where
  "green rs js \<longleftrightarrow> (\<forall>r \<in> set rs. \<forall>j \<in> set js. run_state r = RunStateSuccess \<and> job_run_id j = run_id r
     \<and> job_required j \<longrightarrow> job_state j = JobStateSucceeded)"

definition dispatchable :: "run list \<Rightarrow> job list \<Rightarrow> job_attempt \<Rightarrow> bool" where
  "dispatchable rs js a \<longleftrightarrow> (\<exists>j \<in> set js. \<exists>r \<in> set rs. job_id j = att_job_id a \<and> run_id r = job_run_id j
     \<and> \<not> undispatchable_run (run_state r))"

definition none_lost :: "run list \<Rightarrow> job list \<Rightarrow> job_attempt list \<Rightarrow> queue_item list \<Rightarrow> bool" where
  "none_lost rs js as qs \<longleftrightarrow> (\<forall>a \<in> set as. att_state a = JobStateQueued \<and> dispatchable rs js a
     \<longrightarrow> has_row q_attempt_id (att_id a) qs)"

definition work_ok :: "bool \<Rightarrow> world \<Rightarrow> bool" where
  "work_ok q w \<longleftrightarrow> single_attempts (w_attempts w) \<and> synced (w_jobs w) (w_attempts w)
     \<and> gated (w_jobs w) (w_dependencies w) \<and> busy (w_attempts w) (w_leases w)
     \<and> green (w_runs w) (w_jobs w)
     \<and> (q \<longrightarrow> none_lost (w_runs w) (w_jobs w) (w_attempts w) (w_queue w))"

definition inv :: "bool \<Rightarrow> world \<Rightarrow> bool" where
  "inv q w \<longleftrightarrow> wf_world w \<and> work_ok q w"

lemma inv_wf: "inv q w \<Longrightarrow> wf_world w"
  by (simp add: inv_def)

lemma inv_work: "inv q w \<Longrightarrow> work_ok q w"
  by (simp add: inv_def)

lemma inv_empty: "inv q empty_world"
  using wf_empty_world
  by (simp add: inv_def work_ok_def single_attempts_def synced_def gated_def busy_def green_def
      none_lost_def empty_world_def)

lemma inv_same_core: "same_core w w' \<Longrightarrow> inv q w \<Longrightarrow> inv q w'"
  by (simp add: same_core_def inv_def work_ok_def wf_world_def)

text \<open>In a well-formed world the keys decide which row is meant.\<close>

lemma job_unique: "wf_world w \<Longrightarrow> j \<in> set (w_jobs w) \<Longrightarrow> k \<in> set (w_jobs w) \<Longrightarrow> job_id j = job_id k \<Longrightarrow> j = k"
  using the_job [of w "job_id k"] find_row_unique [of job_id "w_jobs w" k]
  by (metis wf_jobs_def wf_world_def)

lemma run_unique: "wf_world w \<Longrightarrow> j \<in> set (w_runs w) \<Longrightarrow> k \<in> set (w_runs w) \<Longrightarrow> run_id j = run_id k \<Longrightarrow> j = k"
  using the_run [of w "run_id k"] find_row_unique [of run_id "w_runs w" k]
  by (metis wf_runs_def wf_world_def)

lemma attempt_unique:
  "wf_world w \<Longrightarrow> a \<in> set (w_attempts w) \<Longrightarrow> b \<in> set (w_attempts w) \<Longrightarrow> att_id a = att_id b \<Longrightarrow> a = b"
  using the_attempt [of w "att_id b"] find_row_unique [of att_id "w_attempts w" b]
  by (metis wf_attempts_def wf_world_def)

lemma attempt_of_job_unique:
  assumes "inv q w" and a: "a \<in> set (w_attempts w)" and b: "b \<in> set (w_attempts w)"
    and "att_job_id a = att_job_id b"
  shows "a = b"
proof -
  have "att_number a = att_number b"
    using assms by (simp add: inv_def work_ok_def single_attempts_def)
  moreover have "unique_key (\<lambda>a. (att_job_id a, att_number a)) (w_attempts w)"
    using assms(1) by (simp add: inv_def wf_world_def wf_attempts_def)
  ultimately show ?thesis
    using a b assms(4) find_row_unique [of "\<lambda>a. (att_job_id a, att_number a)" "w_attempts w"]
    by (metis option.inject)
qed

lemma job_of_attempt:
  assumes "wf_world w" and "a \<in> set (w_attempts w)"
  obtains j where "j \<in> set (w_jobs w)" and "job_id j = att_job_id a"
  using assms by (auto simp: wf_world_def wf_attempts_def has_row_def)

section \<open>Moving a job together with its attempt\<close>

text \<open>
  The rows of job \<open>j\<close> and its attempt \<open>a\<close> take the state \<open>st\<close>; the leases and the queue
  may change along.
\<close>

definition pair_moved :: "bool \<Rightarrow> world \<Rightarrow> world \<Rightarrow> job_attempt \<Rightarrow> job \<Rightarrow> job_state \<Rightarrow> bool" where
  "pair_moved q w w' a j st \<longleftrightarrow> inv q w \<and> wf_world w'
     \<and> a \<in> set (w_attempts w) \<and> j \<in> set (w_jobs w) \<and> job_id j = att_job_id a
     \<and> (\<exists>fa. (\<forall>x. att_id (fa x) = att_id x \<and> att_job_id (fa x) = att_job_id x
           \<and> att_number (fa x) = att_number x \<and> att_state (fa x) = st)
         \<and> w_attempts w' = update_rows att_id (att_id a) fa (w_attempts w))
     \<and> (\<exists>fj. (\<forall>x. job_id (fj x) = job_id x \<and> job_run_id (fj x) = job_run_id x
           \<and> job_required (fj x) = job_required x \<and> job_state (fj x) = st)
         \<and> w_jobs w' = update_rows job_id (job_id j) fj (w_jobs w))
     \<and> w_runs w' = w_runs w \<and> w_dependencies w' = w_dependencies w
     \<and> job_step (att_state a) st \<and> st \<noteq> JobStateCreated"

text \<open>The move is also justified: the gate is open, the leases and the queue agree.\<close>

definition pair_allowed :: "bool \<Rightarrow> world \<Rightarrow> world \<Rightarrow> job_attempt \<Rightarrow> job \<Rightarrow> job_state \<Rightarrow> bool" where
  "pair_allowed q w w' a j st \<longleftrightarrow>
     (\<forall>d \<in> set (w_dependencies w). \<forall>k \<in> set (w_jobs w). dep_job_id d = job_id j \<and> job_id k = dep_on_job_id d
        \<and> att_state a = JobStateCreated \<longrightarrow> job_state k = JobStateSucceeded)
     \<and> (\<forall>l \<in> set (w_leases w'). lease_live (lease_state l) \<longrightarrow>
          (lease_attempt_id l = att_id a \<and> st \<noteq> JobStateQueued) \<or>
          (lease_attempt_id l \<noteq> att_id a \<and>
            (\<exists>m \<in> set (w_leases w). lease_live (lease_state m) \<and> lease_attempt_id m = lease_attempt_id l)))
     \<and> (q \<longrightarrow> (\<forall>i. has_row q_attempt_id i (w_queue w) \<and> i \<noteq> att_id a \<longrightarrow> has_row q_attempt_id i (w_queue w'))
          \<and> (st = JobStateQueued \<longrightarrow> has_row q_attempt_id (att_id a) (w_queue w')))"

lemma pair_movedD:
  assumes "pair_moved q w w' a j st"
  shows "inv q w" and "wf_world w'" and "a \<in> set (w_attempts w)" and "j \<in> set (w_jobs w)"
    and "job_id j = att_job_id a" and "w_runs w' = w_runs w" and "w_dependencies w' = w_dependencies w"
    and "job_step (att_state a) st" and "st \<noteq> JobStateCreated" and "job_state j = att_state a"
proof -
  show "inv q w" and "a \<in> set (w_attempts w)" and "j \<in> set (w_jobs w)" and "job_id j = att_job_id a"
    using assms unfolding pair_moved_def by blast+
  then show "job_state j = att_state a" by (auto simp: inv_def work_ok_def synced_def)
qed (use assms in \<open>unfold pair_moved_def, blast\<close>)+

lemma pair_moved_attempt:
  assumes m: "pair_moved q w w' a j st" and x': "x' \<in> set (w_attempts w')"
  obtains (Moved) "att_id x' = att_id a" "att_job_id x' = att_job_id a" "att_number x' = att_number a"
      "att_state x' = st"
    | (Kept) "x' \<in> set (w_attempts w)" and "att_id x' \<noteq> att_id a"
proof -
  obtain fa where fa: "\<forall>x. att_id (fa x) = att_id x \<and> att_job_id (fa x) = att_job_id x
      \<and> att_number (fa x) = att_number x \<and> att_state (fa x) = st"
    and up: "w_attempts w' = update_rows att_id (att_id a) fa (w_attempts w)"
    using m unfolding pair_moved_def by blast
  obtain x where x: "x \<in> set (w_attempts w)" "x' = (if att_id x = att_id a then fa x else x)"
    using x' by (auto simp: up set_update_rows)
  show ?thesis
  proof (cases "att_id x = att_id a")
    case True
    then have "x = a"
      using attempt_unique [OF inv_wf [OF pair_movedD(1) [OF m]] x(1) pair_movedD(3) [OF m]] by simp
    with x(2) fa show ?thesis using Moved by simp
  next
    case False
    with x show ?thesis using Kept by simp
  qed
qed

lemma pair_moved_job:
  assumes m: "pair_moved q w w' a j st" and x': "x' \<in> set (w_jobs w')"
  obtains (Moved) "job_id x' = job_id j" "job_run_id x' = job_run_id j" "job_required x' = job_required j"
      "job_state x' = st"
    | (Kept) "x' \<in> set (w_jobs w)" and "job_id x' \<noteq> job_id j"
proof -
  obtain fj where fj: "\<forall>x. job_id (fj x) = job_id x \<and> job_run_id (fj x) = job_run_id x
      \<and> job_required (fj x) = job_required x \<and> job_state (fj x) = st"
    and up: "w_jobs w' = update_rows job_id (job_id j) fj (w_jobs w)"
    using m unfolding pair_moved_def by blast
  obtain x where x: "x \<in> set (w_jobs w)" "x' = (if job_id x = job_id j then fj x else x)"
    using x' by (auto simp: up set_update_rows)
  show ?thesis
  proof (cases "job_id x = job_id j")
    case True
    then have "x = j"
      using job_unique [OF inv_wf [OF pair_movedD(1) [OF m]] x(1) pair_movedD(4) [OF m]] by simp
    with x(2) fj show ?thesis using Moved by simp
  next
    case False
    with x show ?thesis using Kept by simp
  qed
qed

lemma pair_moved_single:
  assumes m: "pair_moved q w w' a j st"
  shows "single_attempts (w_attempts w')"
  unfolding single_attempts_def
proof
  fix x
  assume "x \<in> set (w_attempts w')"
  with m show "att_number x = 1 \<and> att_id x \<noteq> ''''"
    by (cases rule: pair_moved_attempt)
      (use pair_movedD(1,3) [OF m] in \<open>auto simp: inv_def work_ok_def single_attempts_def\<close>)
qed

lemma pair_moved_synced:
  assumes m: "pair_moved q w w' a j st"
  shows "synced (w_jobs w') (w_attempts w')"
  unfolding synced_def
proof (intro ballI impI)
  fix x y
  assume x: "x \<in> set (w_attempts w')" and y: "y \<in> set (w_jobs w')" and eq: "job_id y = att_job_id x"
  note f = pair_movedD [OF m]
  show "job_state y = att_state x"
    using m x
  proof (cases rule: pair_moved_attempt)
    case Moved
    show ?thesis using m y by (cases rule: pair_moved_job) (use Moved eq f(5) in auto)
  next
    case Kept
    have ne: "att_job_id x \<noteq> job_id j"
      using attempt_of_job_unique [OF f(1) Kept(1) f(3)] Kept(2) f(5) by auto
    have old: "z \<in> set (w_jobs w) \<Longrightarrow> job_id z = att_job_id x \<Longrightarrow> job_state z = att_state x" for z
      using f(1) Kept(1) by (auto simp: inv_def work_ok_def synced_def)
    show ?thesis using m y by (cases rule: pair_moved_job) (use eq ne old in auto)

  qed
qed

lemma succeeded_stays: "job_step JobStateSucceeded st \<Longrightarrow> st = JobStateSucceeded"
  by (simp add: job_step_simps)

lemma gatedD:
  "inv q w \<Longrightarrow> d \<in> set (w_dependencies w) \<Longrightarrow> i \<in> set (w_jobs w) \<Longrightarrow> k \<in> set (w_jobs w) \<Longrightarrow>
   job_id i = dep_job_id d \<Longrightarrow> job_id k = dep_on_job_id d \<Longrightarrow> job_state i \<noteq> JobStateCreated \<Longrightarrow>
   job_state k = JobStateSucceeded"
  unfolding inv_def work_ok_def gated_def by blast

lemma pair_moved_gate_open:
  assumes m: "pair_moved q w w' a j st" and ok: "pair_allowed q w w' a j st"
    and d: "d \<in> set (w_dependencies w)" and dj: "dep_job_id d = job_id j"
    and k: "k \<in> set (w_jobs w)" "job_id k = dep_on_job_id d"
  shows "job_state k = JobStateSucceeded"
proof (cases "att_state a = JobStateCreated")
  case True
  with ok d dj k show ?thesis unfolding pair_allowed_def by blast
next
  case False
  note f = pair_movedD [OF m]
  show ?thesis by (rule gatedD [OF f(1) d f(4) k(1)]) (use False f(10) dj k in simp_all)
qed

lemma pair_moved_gated:
  assumes m: "pair_moved q w w' a j st" and ok: "pair_allowed q w w' a j st"
  shows "gated (w_jobs w') (w_dependencies w')"
  unfolding gated_def
proof (intro ballI impI)
  fix d x y
  assume d: "d \<in> set (w_dependencies w')" and x: "x \<in> set (w_jobs w')" and y: "y \<in> set (w_jobs w')"
    and eq: "job_id x = dep_job_id d \<and> job_id y = dep_on_job_id d \<and> job_state x \<noteq> JobStateCreated"
  note f = pair_movedD [OF m]
  have d0: "d \<in> set (w_dependencies w)" using d f(7) by simp
  have dep_done: "job_state k = JobStateSucceeded" if k: "k \<in> set (w_jobs w)" "job_id k = dep_on_job_id d" for k
    using m x
  proof (cases rule: pair_moved_job)
    case Moved
    with eq show ?thesis by (intro pair_moved_gate_open [OF m ok d0 _ k]) simp
  next
    case Kept
    show ?thesis by (rule gatedD [OF f(1) d0 Kept(1) k(1)]) (use eq k in simp_all)
  qed
  show "job_state y = JobStateSucceeded"
    using m y
  proof (cases rule: pair_moved_job)
    case Moved
    then have "job_state j = JobStateSucceeded" using eq dep_done [OF f(4)] by simp
    with Moved f(8,10) show ?thesis using succeeded_stays by simp
  next
    case Kept
    with eq show ?thesis using dep_done by simp
  qed
qed

lemma pair_moved_busy:
  assumes m: "pair_moved q w w' a j st" and ok: "pair_allowed q w w' a j st"
  shows "busy (w_attempts w') (w_leases w')"
  unfolding busy_def
proof (intro ballI impI)
  fix l x
  assume l: "l \<in> set (w_leases w')" and x: "x \<in> set (w_attempts w')"
    and eq: "lease_live (lease_state l) \<and> att_id x = lease_attempt_id l"
  note f = pair_movedD [OF m]
  have ok_l: "(lease_attempt_id l = att_id a \<and> st \<noteq> JobStateQueued) \<or> (lease_attempt_id l \<noteq> att_id a \<and>
      (\<exists>n \<in> set (w_leases w). lease_live (lease_state n) \<and> lease_attempt_id n = lease_attempt_id l))"
    using ok l eq unfolding pair_allowed_def by blast
  show "att_state x \<noteq> JobStateCreated \<and> att_state x \<noteq> JobStateQueued"
    using m x
  proof (cases rule: pair_moved_attempt)
    case Moved
    with ok_l eq f(9) show ?thesis by auto
  next
    case Kept
    with ok_l eq obtain n where "n \<in> set (w_leases w)" "lease_live (lease_state n)"
      "lease_attempt_id n = att_id x" by auto
    with Kept(1) f(1) show ?thesis by (auto simp: inv_def work_ok_def busy_def)
  qed
qed

lemma pair_moved_green:
  assumes m: "pair_moved q w w' a j st"
  shows "green (w_runs w') (w_jobs w')"
  unfolding green_def
proof (intro ballI impI)
  fix r x
  assume r: "r \<in> set (w_runs w')" and x: "x \<in> set (w_jobs w')"
    and eq: "run_state r = RunStateSuccess \<and> job_run_id x = run_id r \<and> job_required x"
  note f = pair_movedD [OF m]
  have old: "job_state i = JobStateSucceeded"
    if "i \<in> set (w_jobs w)" "job_run_id i = run_id r" "job_required i" for i
    using f(1,6) r eq that by (auto simp: inv_def work_ok_def green_def)
  show "job_state x = JobStateSucceeded"
    using m x
  proof (cases rule: pair_moved_job)
    case Moved
    with eq have "job_state j = JobStateSucceeded" by (intro old [OF f(4)]) simp_all
    with Moved f(8,10) show ?thesis using succeeded_stays by simp
  next
    case Kept
    with eq show ?thesis using old by simp
  qed
qed

lemma pair_moved_dispatchable:
  assumes m: "pair_moved q w w' a j st" and "dispatchable (w_runs w') (w_jobs w') x"
  shows "dispatchable (w_runs w) (w_jobs w) x"
proof -
  note f = pair_movedD [OF m]
  obtain y r where y: "y \<in> set (w_jobs w')" and r: "r \<in> set (w_runs w)" "job_id y = att_job_id x"
    "run_id r = job_run_id y" "\<not> undispatchable_run (run_state r)"
    using assms f(6) unfolding dispatchable_def by auto
  from m y obtain i where "i \<in> set (w_jobs w)" "job_id i = job_id y" "job_run_id i = job_run_id y"
    by (cases rule: pair_moved_job) (use f(4) in auto)
  with r show ?thesis unfolding dispatchable_def by metis
qed

lemma pair_moved_none_lost:
  assumes m: "pair_moved q w w' a j st" and ok: "pair_allowed q w w' a j st" and q: q
  shows "none_lost (w_runs w') (w_jobs w') (w_attempts w') (w_queue w')"
  unfolding none_lost_def
proof (intro ballI impI)
  fix x
  assume x: "x \<in> set (w_attempts w')"
    and eq: "att_state x = JobStateQueued \<and> dispatchable (w_runs w') (w_jobs w') x"
  show "has_row q_attempt_id (att_id x) (w_queue w')"
    using m x
  proof (cases rule: pair_moved_attempt)
    case Moved
    with q eq ok show ?thesis unfolding pair_allowed_def by auto
  next
    case Kept
    then have "has_row q_attempt_id (att_id x) (w_queue w)"
      using pair_movedD(1) [OF m] q eq pair_moved_dispatchable [OF m]
      by (auto simp: inv_def work_ok_def none_lost_def)
    with q Kept(2) ok show ?thesis unfolding pair_allowed_def by blast
  qed
qed

lemma inv_pair_moved:
  assumes m: "pair_moved q w w' a j st" and ok: "pair_allowed q w w' a j st"
  shows "inv q w'"
  using pair_movedD(2) [OF m] pair_moved_single [OF m] pair_moved_synced [OF m] pair_moved_gated [OF m ok]
    pair_moved_busy [OF m ok] pair_moved_green [OF m] pair_moved_none_lost [OF m ok]
  by (simp add: inv_def work_ok_def)

end
