(* ===== verification/InvariantOps.thy ===== *)
theory InvariantOps
  imports Invariants
begin

text \<open>
  The store operations and the shared steps of the service keep the invariant; the
  ones that may only be used in some situations do so from the worlds of that situation.
\<close>

named_theorems inv_intros

section \<open>Worlds related by a step that keeps the invariant\<close>

definition guarded :: "bool \<Rightarrow> world \<Rightarrow> world \<Rightarrow> bool" where
  "guarded q w w' \<longleftrightarrow> (inv q w \<longrightarrow> inv q w' \<and> evolves w w')"

interpretation gd: world_preorder "guarded q" for q
  by unfold_locales (auto simp: guarded_def intro: evolves_trans)

lemma guardedI: "lawful w w' \<Longrightarrow> (inv q w \<Longrightarrow> wf_world w' \<Longrightarrow> work_ok q w') \<Longrightarrow> guarded q w w'"
  by (auto simp: guarded_def lawful_def inv_def)

lemma guardedI': "lawful w w' \<Longrightarrow> (inv q w \<Longrightarrow> inv q w') \<Longrightarrow> guarded q w w'"
  by (auto simp: guarded_def lawful_def inv_def)

lemma guarded_refl [simp]: "guarded q w w"
  by (simp add: guarded_def)

lemma guarded_same_core: "same_core w w' \<Longrightarrow> guarded q w w'"
  by (rule guardedI') (auto intro: lawful_same_core inv_same_core)

lemma keeps_guarded: "keeps lawful m \<Longrightarrow> (\<And>w. inv q w \<Longrightarrow> inv q (world_after m w)) \<Longrightarrow> keeps (guarded q) m"
  by (auto simp: keeps_def intro: guardedI')

lemma keeps_guarded_core: "(\<And>w. same_core w (world_after m w)) \<Longrightarrow> keeps (guarded q) m"
  by (simp add: keeps_def guarded_same_core)

lemma keeps_guarded_read: "(\<And>w. world_after m w = w) \<Longrightarrow> keeps (guarded q) m"
  by (simp add: keeps_def)

section \<open>Changes that do not move a job\<close>

lemma inv_with_runs:
  assumes inv: "inv q w" and wf': "wf_world w'"
    and same: "w_jobs w' = w_jobs w" "w_attempts w' = w_attempts w" "w_leases w' = w_leases w"
      "w_queue w' = w_queue w" "w_dependencies w' = w_dependencies w"
    and green: "green (w_runs w') (w_jobs w)"
    and disp: "\<And>r' j. r' \<in> set (w_runs w') \<Longrightarrow> j \<in> set (w_jobs w) \<Longrightarrow> job_run_id j = run_id r' \<Longrightarrow>
      \<not> undispatchable_run (run_state r') \<Longrightarrow>
      \<exists>r \<in> set (w_runs w). run_id r = run_id r' \<and> \<not> undispatchable_run (run_state r)"
  shows "inv q w'"
proof -
  have "dispatchable (w_runs w) (w_jobs w) x" if x: "dispatchable (w_runs w') (w_jobs w) x" for x
  proof -
    obtain j r' where "j \<in> set (w_jobs w)" "r' \<in> set (w_runs w')" "job_id j = att_job_id x"
      "run_id r' = job_run_id j" "\<not> undispatchable_run (run_state r')"
      using x unfolding dispatchable_def by blast
    moreover from this obtain r where "r \<in> set (w_runs w)" "run_id r = run_id r'"
      "\<not> undispatchable_run (run_state r)"
      using disp [of r' j] by auto
    ultimately show ?thesis unfolding dispatchable_def by metis
  qed
  then have "q \<Longrightarrow> none_lost (w_runs w') (w_jobs w) (w_attempts w) (w_queue w)"
    using inv by (auto simp: inv_def work_ok_def none_lost_def)
  with inv wf' green show ?thesis by (simp add: inv_def work_ok_def same)
qed

lemma inv_with_queue:
  assumes inv: "inv q w" and wf': "wf_world w'"
    and same: "w_runs w' = w_runs w" "w_jobs w' = w_jobs w" "w_attempts w' = w_attempts w"
      "w_leases w' = w_leases w" "w_dependencies w' = w_dependencies w"
    and kept: "\<And>a. q \<Longrightarrow> a \<in> set (w_attempts w) \<Longrightarrow> att_state a = JobStateQueued \<Longrightarrow>
      dispatchable (w_runs w) (w_jobs w) a \<Longrightarrow> has_row q_attempt_id (att_id a) (w_queue w) \<Longrightarrow>
      has_row q_attempt_id (att_id a) (w_queue w')"
  shows "inv q w'"
  using inv wf' kept by (simp add: inv_def work_ok_def same none_lost_def)

lemma inv_with_leases:
  assumes inv: "inv q w" and wf': "wf_world w'"
    and same: "w_runs w' = w_runs w" "w_jobs w' = w_jobs w" "w_attempts w' = w_attempts w"
      "w_queue w' = w_queue w" "w_dependencies w' = w_dependencies w"
    and old: "\<And>l. l \<in> set (w_leases w') \<Longrightarrow> lease_live (lease_state l) \<Longrightarrow>
      \<exists>m \<in> set (w_leases w). lease_live (lease_state m) \<and> lease_attempt_id m = lease_attempt_id l"
  shows "inv q w'"
proof -
  have "busy (w_attempts w) (w_leases w')"
    unfolding busy_def
  proof (intro ballI impI)
    fix l a
    assume l: "l \<in> set (w_leases w')" and a: "a \<in> set (w_attempts w)"
      and eq: "lease_live (lease_state l) \<and> att_id a = lease_attempt_id l"
    obtain m where "m \<in> set (w_leases w)" "lease_live (lease_state m)" "lease_attempt_id m = att_id a"
      using old [OF l] eq by auto
    with a inv show "att_state a \<noteq> JobStateCreated \<and> att_state a \<noteq> JobStateQueued"
      by (auto simp: inv_def work_ok_def busy_def)
  qed
  with inv wf' show ?thesis by (simp add: inv_def work_ok_def same)
qed

text \<open>Updates of an attempt or a job that leave identity and state alone.\<close>

lemma inv_same_views:
  assumes inv: "inv q w" and wf': "wf_world w'"
    and same: "w_runs w' = w_runs w" "w_leases w' = w_leases w" "w_queue w' = w_queue w"
      "w_dependencies w' = w_dependencies w"
    and as: "map (\<lambda>a. (att_id a, att_job_id a, att_number a, att_state a)) (w_attempts w') =
      map (\<lambda>a. (att_id a, att_job_id a, att_number a, att_state a)) (w_attempts w)"
    and js: "map (\<lambda>j. (job_id j, job_run_id j, job_required j, job_state j)) (w_jobs w') =
      map (\<lambda>j. (job_id j, job_run_id j, job_required j, job_state j)) (w_jobs w)"
  shows "inv q w'"
proof -
  have a: "\<exists>a \<in> set (w_attempts w). att_id a = att_id a' \<and> att_job_id a = att_job_id a'
      \<and> att_number a = att_number a' \<and> att_state a = att_state a'" if "a' \<in> set (w_attempts w')" for a'
  proof -
    have "(att_id a', att_job_id a', att_number a', att_state a') \<in>
        set (map (\<lambda>a. (att_id a, att_job_id a, att_number a, att_state a)) (w_attempts w'))"
      using that by force
    then show ?thesis unfolding as by auto
  qed
  have j: "\<exists>j \<in> set (w_jobs w). job_id j = job_id j' \<and> job_run_id j = job_run_id j'
      \<and> job_required j = job_required j' \<and> job_state j = job_state j'" if "j' \<in> set (w_jobs w')" for j'
  proof -
    have "(job_id j', job_run_id j', job_required j', job_state j') \<in>
        set (map (\<lambda>j. (job_id j, job_run_id j, job_required j, job_state j)) (w_jobs w'))"
      using that by force
    then show ?thesis unfolding js by auto
  qed
  have ok: "work_ok q w" using inv by (rule inv_work)
  have "single_attempts (w_attempts w')"
    using ok a unfolding work_ok_def single_attempts_def by metis
  moreover have "synced (w_jobs w') (w_attempts w')"
    using ok a j unfolding work_ok_def synced_def by metis
  moreover have "gated (w_jobs w') (w_dependencies w')"
    using ok j unfolding work_ok_def gated_def same by metis
  moreover have "busy (w_attempts w') (w_leases w')"
    using ok a unfolding work_ok_def busy_def same by metis
  moreover have "green (w_runs w') (w_jobs w')"
    using ok j unfolding work_ok_def green_def same by metis
  moreover have "none_lost (w_runs w') (w_jobs w') (w_attempts w') (w_queue w')" if q
  proof -
    have d: "dispatchable (w_runs w) (w_jobs w) a" if "att_job_id a = att_job_id a'" "dispatchable (w_runs w') (w_jobs w') a'" for a a'
      using that j unfolding dispatchable_def same by metis
    have "none_lost (w_runs w) (w_jobs w) (w_attempts w) (w_queue w)"
      using ok that by (simp add: work_ok_def)
    with a d show ?thesis unfolding none_lost_def same by metis
  qed
  ultimately show ?thesis using wf' by (simp add: inv_def work_ok_def)
qed

lemma map_update_rows_view:
  "(\<And>r. g (f r) = g r) \<Longrightarrow> map g (update_rows key k f rows) = map g rows"
  by (rule map_update_rows)

section \<open>Reads and bookkeeping\<close>

lemma reads_guarded [inv_intros]:
  "keeps (guarded q) (store_GetRun rid)" "keeps (guarded q) (store_GetJob jid)"
  "keeps (guarded q) (store_ListJobsByRun rid)" "keeps (guarded q) (store_ListJobAttempts jid)"
  "keeps (guarded q) (store_GetJobAttempt aid)" "keeps (guarded q) (store_GetLease lid)"
  "keeps (guarded q) (store_ListArtifactsByJob jid)" "keeps (guarded q) (store_ListFailureExplanationsByJob jid)"
  "keeps (guarded q) (store_GetJobSpec jid)"
  "keeps (guarded q) (store_ListJobDependents jid)" "keeps (guarded q) (store_ListJobDependencies jid)"
  "keeps (guarded q) (store_DependenciesSatisfied jid)" "keeps (guarded q) (store_GetRunPlan rid)"
  "keeps (guarded q) (or_now t)" "keeps (guarded q) (validateCreateRunRequest req)"
  by (simp_all add: keeps_def store_GetRun_def store_GetJob_def store_ListJobsByRun_def
      store_ListJobAttempts_def store_GetJobAttempt_def store_GetLease_def store_ListArtifactsByJob_def
      store_ListFailureExplanationsByJob_def store_GetJobSpec_def store_ListJobDependents_def
      store_ListJobDependencies_def store_DependenciesSatisfied_def store_GetRunPlan_def or_now_def
      validateCreateRunRequest_def bindE_select_by split: option.splits)

lemma GetLatestJobAttempt_guarded [inv_intros]: "keeps (guarded q) (store_GetLatestJobAttempt jid)"
  by (simp add: keeps_def store_GetLatestJobAttempt_def split: list.splits)

lemma FindRecipe_guarded [inv_intros]: "keeps (guarded q) (store_FindRecipeByFingerprint r f)"
  by (simp add: keeps_def store_FindRecipeByFingerprint_def split: list.splits)

lemma bookkeeping_guarded [inv_intros]:
  "keeps (guarded q) (metric e)" "keeps (guarded q) (randomID rand prefix)"
  "keeps (guarded q) (store_RecordJobSpec jid doc)" "keeps (guarded q) (insert_artifact aid x)"
  "keeps (guarded q) (insert_cache_event aid ev)" "keeps (guarded q) (upsert_explanation ex)"
  "keeps (guarded q) (store_RecordRunPlan p)" "keeps (guarded q) (store_CreateRecipe rc)"
  "keeps (guarded q) (store_TouchRecipeLastUsed rid t)"
  by (rule keeps_guarded_core, simp add: same_core_def metric_def randomID_def store_RecordJobSpec_def
      insert_artifact_def insert_cache_event_def upsert_explanation_def store_RecordRunPlan_def
      store_CreateRecipe_def store_TouchRecipeLastUsed_def Let_def)+

lemma counted_failure_guarded [inv_intros]: "keeps (guarded q) m \<Longrightarrow> keeps (guarded q) (counted_failure n m)"
  unfolding counted_failure_def by (intro gd.keeps_rules inv_intros)

lemma records_guarded [inv_intros]:
  "keeps (guarded q) (store_RecordArtifacts aid refs)"
  "keeps (guarded q) (store_RecordCacheEvents aid es)"
  "keeps (guarded q) (store_RecordFailureExplanation e)"
  "keeps (guarded q) (svc_recordRunPlan r p)"
  unfolding store_RecordArtifacts_def store_RecordCacheEvents_def store_RecordFailureExplanation_def
    svc_recordRunPlan_def
  by (intro gd.keeps_rules inv_intros)+

lemma recipes_guarded [inv_intros]:
  "keeps (guarded q) (svc_updateRunPlanRecipe r p i v)"
  "keeps (guarded q) (dependency_name jobs d)"
  unfolding svc_updateRunPlanRecipe_def dependency_name_def by (intro gd.keeps_rules inv_intros)+

lemma recipe_job_guarded [inv_intros]: "keeps (guarded q) (recipe_job jobs j)"
  unfolding recipe_job_def Let_def by (intro gd.keeps_rules inv_intros)

lemma persistRecipe_guarded [inv_intros]: "keeps (guarded q) (svc_persistRecipeIfNeeded S r)"
  unfolding svc_persistRecipeIfNeeded_def svc_buildRecipeJobs_def by (intro gd.keeps_rules inv_intros)

lemma GetRunDetails_guarded [inv_intros]: "keeps (guarded q) (svc_GetRunDetails rid)"
  unfolding svc_GetRunDetails_def by (intro gd.keeps_rules inv_intros)

lemma stale_lease_guarded [inv_intros]: "keeps (guarded q) stale_lease"
  unfolding stale_lease_def by (intro gd.keeps_rules inv_intros)

lemma record_outputs_guarded [inv_intros]: "keeps (guarded q) (record_outputs a x c)"
  unfolding record_outputs_def by (intro gd.keeps_rules inv_intros)

lemma best_effort_guarded: "keeps (guarded q) m \<Longrightarrow> keeps (guarded q) (finalize_best_effort m)"
  unfolding finalize_best_effort_def by (intro gd.keeps_rules inv_intros)

lemma keeps_guarded_wf:
  assumes "keeps lawful m" and "\<And>w. inv q w \<Longrightarrow> wf_world (world_after m w) \<Longrightarrow> inv q (world_after m w)"
  shows "keeps (guarded q) m"
  using assms by (auto simp: keeps_def guarded_def lawful_def dest: inv_wf)

lemma MarkStarted_guarded [inv_intros]: "keeps (guarded q) (store_MarkJobAttemptStarted aid t)"
  by (rule keeps_guarded_wf [OF MarkJobAttemptStarted_lawful], erule inv_same_views)
    (simp_all add: store_MarkJobAttemptStarted_def update_attempt_def map_update_rows_view)

lemma MarkCompleted_guarded [inv_intros]: "keeps (guarded q) (store_MarkJobAttemptCompleted aid t)"
  by (rule keeps_guarded_wf [OF MarkJobAttemptCompleted_lawful], erule inv_same_views)
    (simp_all add: store_MarkJobAttemptCompleted_def update_attempt_def map_update_rows_view)

section \<open>Runs\<close>

lemma undispatchable_step: "run_step a b \<Longrightarrow> undispatchable_run a \<Longrightarrow> undispatchable_run b"
  by (cases a) (auto simp: run_step_simps)

text \<open>Moving a run, except to \<open>SUCCESS\<close> before its required jobs have succeeded.\<close>

definition run_green :: "string \<Rightarrow> world \<Rightarrow> bool" where
  "run_green rid w \<longleftrightarrow> (\<forall>j \<in> set (w_jobs w). job_run_id j = rid \<and> job_required j \<longrightarrow> job_state j = JobStateSucceeded)"

lemma inv_move_run:
  assumes inv: "inv q w" and r: "find_row run_id rid (w_runs w) = Some r" and step: "run_step (run_state r) next"
    and ok: "next = RunStateSuccess \<Longrightarrow> run_green rid w"
    and f: "\<And>x. run_id (f x) = run_id x" "\<And>x. run_state (f x) = next"
    and wf': "wf_world (w\<lparr>w_runs := update_rows run_id rid f (w_runs w)\<rparr>)"
  shows "inv q (w\<lparr>w_runs := update_rows run_id rid f (w_runs w)\<rparr>)"
proof (rule inv_with_runs [OF inv wf'])
  have moved: "x' = f r \<or> x' \<in> set (w_runs w)" if "x' \<in> set (update_rows run_id rid f (w_runs w))" for x'
    using that the_run [OF inv_wf [OF inv] r] by (auto simp: set_update_rows)
  have r_in: "r \<in> set (w_runs w)" "run_id r = rid" using find_row_SomeD [OF r] by simp_all
  have old: "green (w_runs w) (w_jobs w)" using inv by (simp add: inv_def work_ok_def)
  show "green (w_runs (w\<lparr>w_runs := update_rows run_id rid f (w_runs w)\<rparr>)) (w_jobs w)"
    unfolding green_def
  proof (intro ballI impI)
    fix x j
    assume x: "x \<in> set (w_runs (w\<lparr>w_runs := update_rows run_id rid f (w_runs w)\<rparr>))" and j: "j \<in> set (w_jobs w)"
      and eq: "run_state x = RunStateSuccess \<and> job_run_id j = run_id x \<and> job_required j"
    show "job_state j = JobStateSucceeded"
    proof (cases "x \<in> set (w_runs w)")
      case True
      with old j eq show ?thesis unfolding green_def by blast
    next
      case False
      with moved [of x] x have "x = f r" by simp
      with ok eq j f r_in show ?thesis by (auto simp: run_green_def)
    qed
  qed
  show "\<exists>y \<in> set (w_runs w). run_id y = run_id x \<and> \<not> undispatchable_run (run_state y)"
    if "x \<in> set (w_runs (w\<lparr>w_runs := update_rows run_id rid f (w_runs w)\<rparr>))"
      "\<not> undispatchable_run (run_state x)" for x
  proof (cases "x \<in> set (w_runs w)")
    case True
    with that show ?thesis by blast
  next
    case False
    with moved [of x] that have "x = f r" by simp
    with that f r_in step show ?thesis using undispatchable_step by metis
  qed
qed simp_all

lemma TransitionRunState_inv:
  assumes "inv q w" and "next = RunStateSuccess \<Longrightarrow> run_green rid w"
  shows "inv q (world_after (store_TransitionRunState rid next) w)"
proof -
  have "wf_world (world_after (store_TransitionRunState rid next) w)"
    using keepsD [OF TransitionRunState_lawful] inv_wf [OF assms(1)] unfolding lawful_def by blast
  note wf' = this
  show ?thesis
  proof (cases "find_row run_id rid (w_runs w)")
    case None
    with assms(1) show ?thesis by (simp add: TransitionRunState_apply)
  next
    case (Some r)
    show ?thesis
    proof (cases "validateRunTransition rid (run_state r) next")
      case (Inl e)
      with Some assms(1) show ?thesis by (simp add: TransitionRunState_apply)
    next
      case (Inr u)
      then have "run_step (run_state r) next" using validateRun_Inr_iff [of rid] by simp
      with Some Inr wf' show ?thesis
        using inv_move_run [OF assms(1) Some _ assms(2)] by (simp add: TransitionRunState_apply)
    qed
  qed
qed

lemma TransitionRunState_guarded [inv_intros]:
  "next \<noteq> RunStateSuccess \<Longrightarrow> keeps (guarded q) (store_TransitionRunState rid next)"
  by (rule keeps_guarded [OF TransitionRunState_lawful], rule TransitionRunState_inv) simp_all

lemma CreateRun_inv: "inv q w \<Longrightarrow> run_state r = RunStateCreated \<Longrightarrow> inv q (world_after (store_CreateRun r) w)"
proof -
  assume inv: "inv q w" and r: "run_state r = RunStateCreated"
  let ?row = "r\<lparr>run_created_at := pg_now w, run_updated_at := pg_now w\<rparr>"
  have unf: "store_CreateRun r w = (case run_violation ?row w of
      Some e \<Rightarrow> (Inl e, w) | None \<Rightarrow> (Inr ?row, w\<lparr>w_runs := w_runs w @ [?row]\<rparr>))"
    using r by (simp add: store_CreateRun_def insert_run_def bindE_sql_insert Let_def split: option.splits)
  show ?thesis
  proof (cases "run_violation ?row w")
    case (Some e)
    with inv show ?thesis by (simp add: unf)
  next
    case None
    have lw: "lawful w (w\<lparr>w_runs := w_runs w @ [?row]\<rparr>)" using None by (rule lawful_insert_run)
    have new: "\<not> has_row run_id (run_id r) (w_runs w)"
      using None by (auto simp: run_violation_def split: if_splits)
    have fk: "has_row run_id (job_run_id j) (w_runs w)" if "j \<in> set (w_jobs w)" for j
      using inv that by (auto simp: inv_def wf_world_def wf_jobs_def)
    have "inv q (w\<lparr>w_runs := w_runs w @ [?row]\<rparr>)"
    proof (rule inv_with_runs [OF inv])
      show "wf_world (w\<lparr>w_runs := w_runs w @ [?row]\<rparr>)" using lw inv by (simp add: lawful_def inv_def)
      show "green (w_runs (w\<lparr>w_runs := w_runs w @ [?row]\<rparr>)) (w_jobs w)"
        using inv r by (auto simp: inv_def work_ok_def green_def)
    next
      fix x j
      assume "x \<in> set (w_runs (w\<lparr>w_runs := w_runs w @ [?row]\<rparr>))" "j \<in> set (w_jobs w)"
        "job_run_id j = run_id x" "\<not> undispatchable_run (run_state x)"
      with new fk [of j] show "\<exists>y \<in> set (w_runs w). run_id y = run_id x \<and> \<not> undispatchable_run (run_state y)"
        by auto
    qed simp_all
    with None show ?thesis by (simp add: unf)
  qed
qed

lemma insert_trigger_guarded [inv_intros]: "keeps (guarded q) (insert_trigger t)"
  by (rule keeps_guarded_wf [OF insert_trigger_lawful])
    (auto simp: insert_trigger_def sql_insert_def inv_def work_ok_def split: option.splits)

lemma insert_rerun_guarded [inv_intros]: "keeps (guarded q) (insert_rerun x)"
  by (rule keeps_guarded_wf [OF insert_rerun_lawful])
    (auto simp: insert_rerun_def sql_insert_def inv_def work_ok_def split: option.splits)

lemma CreateRun_guarded [inv_intros]:
  "run_state r = RunStateCreated \<Longrightarrow> keeps (guarded q) (store_CreateRun r)"
  by (rule keeps_guarded [OF CreateRun_lawful]) (rule CreateRun_inv)

lemma unique_as_guarded [inv_intros]: "keeps (guarded q) m \<Longrightarrow> keeps (guarded q) (unique_as dup m)"
  unfolding unique_as_def by (rule gd.keeps_wrap_error)

lemma keys_guarded [inv_intros]:
  "keeps (guarded q) (store_getRunByTriggerKey p k)" "keeps (guarded q) (store_getRerunByKey p k)"
  unfolding store_getRunByTriggerKey_def store_getRerunByKey_def by (intro gd.keeps_rules inv_intros)+

lemma CreateRunWithTrigger_guarded [inv_intros]:
  "run_state r = RunStateCreated \<Longrightarrow> keeps (guarded q) (store_CreateRunWithTrigger r t)"
  unfolding store_CreateRunWithTrigger_def by (intro gd.keeps_rules inv_intros)

lemma CreateRunWithRerun_guarded [inv_intros]:
  "run_state r = RunStateCreated \<Longrightarrow> keeps (guarded q) (store_CreateRunWithRerun r i k)"
  unfolding store_CreateRunWithRerun_def by (intro gd.keeps_rules inv_intros)

section \<open>Leases\<close>

lemma inv_move_lease:
  assumes inv: "inv q w" and l: "find_row lease_id lid (w_leases w) = Some l" and ev: "lease_evolves l (f l)"
  shows "inv q (w\<lparr>w_leases := update_rows lease_id lid f (w_leases w)\<rparr>)"
proof (rule inv_with_leases [OF inv])
  show "wf_world (w\<lparr>w_leases := update_rows lease_id lid f (w_leases w)\<rparr>)"
    using lawful_move_lease [of lid w l f, OF l ev] inv by (simp add: lawful_def inv_def)
next
  fix m
  assume "m \<in> set (w_leases (w\<lparr>w_leases := update_rows lease_id lid f (w_leases w)\<rparr>))" and live: "lease_live (lease_state m)"
  then have "m = f l \<or> m \<in> set (w_leases w)"
    using the_lease [OF inv_wf [OF inv] l] by (auto simp: set_update_rows)
  then show "\<exists>n \<in> set (w_leases w). lease_live (lease_state n) \<and> lease_attempt_id n = lease_attempt_id m"
  proof
    assume m: "m = f l"
    with live ev have "lease_live (lease_state l)" using lease_evolves_live by blast
    moreover have "lease_attempt_id l = lease_attempt_id m" using ev m by (simp add: lease_evolves_def)
    ultimately show ?thesis using find_row_SomeD [OF l] by blast
  qed (use live in blast)
qed simp_all

lemma inv_valid_lease:
  assumes "inv q w" and "find_row lease_id lid (w_leases w) = Some l"
    and "validateLeaseTransition i (lease_state l) next = Inr u"
    and "lease_state (f l) = next" and "lease_id (f l) = lease_id l"
    and "lease_attempt_id (f l) = lease_attempt_id l" and "lease_ttl (f l) = lease_ttl l"
    and "lease_heartbeat (f l) = lease_heartbeat l"
  shows "inv q (w\<lparr>w_leases := update_rows lease_id lid f (w_leases w)\<rparr>)"
  using assms by (intro inv_move_lease) (auto simp: lease_evolves_def intro: valid_lease_step)

lemma AcknowledgeLease_guarded [inv_intros]: "keeps (guarded q) (store_AcknowledgeLease lid runner now)"
proof (rule keeps_guarded [OF AcknowledgeLease_lawful])
  fix w
  assume inv: "inv q w"
  show "inv q (world_after (store_AcknowledgeLease lid runner now) w)"
  proof (cases "find_row lease_id lid (w_leases w)")
    case (Some l)
    then show ?thesis
      using inv inv_valid_lease [OF inv Some]
      by (cases "validateLeaseTransition lid (lease_state l) LeaseStateActive")
        (simp_all add: AcknowledgeLease_apply Let_def)
  qed (use inv in \<open>simp add: AcknowledgeLease_apply\<close>)
qed

lemma TouchLeaseHeartbeat_guarded [inv_intros]: "keeps (guarded q) (store_TouchLeaseHeartbeat lid ts)"
proof (rule keeps_guarded [OF TouchLeaseHeartbeat_lawful])
  fix w
  assume inv: "inv q w"
  show "inv q (world_after (store_TouchLeaseHeartbeat lid ts) w)"
  proof (cases "find_row lease_id lid (w_leases w)")
    case (Some l)
    then show ?thesis
      using inv inv_valid_lease [OF inv Some]
      by (cases "validateLeaseTransition lid (lease_state l) LeaseStateActive")
        (simp_all add: TouchLeaseHeartbeat_apply Let_def)
  qed (use inv in \<open>simp add: TouchLeaseHeartbeat_apply\<close>)
qed

lemma CompleteLease_guarded [inv_intros]: "keeps (guarded q) (store_CompleteLease lid now next)"
proof (rule keeps_guarded [OF CompleteLease_lawful])
  fix w
  assume inv: "inv q w"
  show "inv q (world_after (store_CompleteLease lid now next) w)"
  proof (cases "find_row lease_id lid (w_leases w)")
    case (Some l)
    then show ?thesis
      using inv inv_valid_lease [OF inv Some]
      by (cases "validateLeaseTransition lid (lease_state l) next")
        (simp_all add: CompleteLease_apply Let_def)
  qed (use inv in \<open>simp add: CompleteLease_apply\<close>)
qed

section \<open>The queue\<close>

lemma attempt_job_run_Some:
  "attempt_job_run w aid = Some (a, j, r) \<longleftrightarrow> find_row att_id aid (w_attempts w) = Some a \<and>
   find_row job_id (att_job_id a) (w_jobs w) = Some j \<and> find_row run_id (job_run_id j) (w_runs w) = Some r"
  by (auto simp: attempt_job_run_def attempt_job_def split: option.splits)

lemma attempt_job_run_dispatchable:
  assumes inv: "inv q w" and a: "a \<in> set (w_attempts w)" and d: "dispatchable (w_runs w) (w_jobs w) a"
  obtains j r where "attempt_job_run w (att_id a) = Some (a, j, r)" and "\<not> undispatchable_run (run_state r)"
proof -
  obtain j r where jr: "j \<in> set (w_jobs w)" "r \<in> set (w_runs w)" "job_id j = att_job_id a"
    "run_id r = job_run_id j" "\<not> undispatchable_run (run_state r)"
    using d unfolding dispatchable_def by blast
  have "unique_key att_id (w_attempts w)" "unique_key job_id (w_jobs w)" "unique_key run_id (w_runs w)"
    using inv by (simp_all add: inv_def wf_world_def wf_attempts_def wf_jobs_def wf_runs_def)
  then have "attempt_job_run w (att_id a) = Some (a, j, r)"
    using a jr by (simp add: attempt_job_run_Some find_row_iff)
  with jr(5) that show ?thesis by blast
qed

lemma live_item_not_dead:
  assumes "inv q w" and "a \<in> set (w_attempts w)" and "dispatchable (w_runs w) (w_jobs w) a"
    and "att_state a = JobStateQueued" and "q_attempt_id i = att_id a"
  shows "\<not> queue_item_dead w i"
  using assms(1-3) by (rule attempt_job_run_dispatchable) (use assms(4,5) in \<open>simp add: queue_item_dead_def\<close>)

lemma has_row_filter: "has_row key k xs \<Longrightarrow> (\<And>x. x \<in> set xs \<Longrightarrow> key x = k \<Longrightarrow> p x) \<Longrightarrow> has_row key k (filter p xs)"
  unfolding has_row_def by auto

lemma purge_guarded [inv_intros]: "keeps (guarded q) purge_queue"
proof (rule keeps_guarded_wf [OF purge_queue_lawful])
  fix w
  assume inv: "inv q w" and wf': "wf_world (world_after purge_queue w)"
  show "inv q (world_after purge_queue w)"
    by (rule inv_with_queue [OF inv wf'])
      (auto simp: purge_queue_def intro!: has_row_filter dest: live_item_not_dead [OF inv])
qed

lemma queue_update_guarded:
  assumes "\<And>x. q_attempt_id (f x) = q_attempt_id x"
  shows "keeps (guarded q) (modify (\<lambda>w. w\<lparr>w_queue := update_rows q_attempt_id aid f (w_queue w)\<rparr>))"
proof (rule keepsI)
  fix w :: world
  let ?w' = "w\<lparr>w_queue := update_rows q_attempt_id aid f (w_queue w)\<rparr>"
  have lw: "lawful w ?w'" using assms by (rule lawful_update_queue)
  have "inv q ?w'" if inv: "inv q w"
  proof (rule inv_with_queue [OF inv])
    show "wf_world ?w'" using lw inv by (simp add: lawful_def inv_def)
  qed (simp_all add: assms)
  with lw show "guarded q w (world_after (modify (\<lambda>w. w\<lparr>w_queue := update_rows q_attempt_id aid f (w_queue w)\<rparr>)) w)"
    by (simp add: guardedI')
qed

lemma keeps_case_list_guarded:
  "keeps (guarded q) f \<Longrightarrow> (\<And>x xs. keeps (guarded q) (g x xs)) \<Longrightarrow>
   keeps (guarded q) (case l of [] \<Rightarrow> f | x # xs \<Rightarrow> g x xs)"
  by (cases l) simp_all

lemma Dequeue_guarded [inv_intros]: "keeps (guarded q) (store_DequeueJobAttempt now t)"
  unfolding store_DequeueJobAttempt_def Let_def
  by (intro gd.keeps_rules inv_intros keeps_case_list_guarded queue_update_guarded) simp

text \<open>A dispatch is acknowledged for an attempt that no longer waits.\<close>

lemma AckDispatch_inv:
  assumes inv: "inv q w" and "\<And>a. a \<in> set (w_attempts w) \<Longrightarrow> att_id a = aid \<Longrightarrow> att_state a \<noteq> JobStateQueued"
  shows "inv q (world_after (store_AckJobAttemptDispatch aid) w)"
proof (cases "aid = ''''")
  case False
  let ?w' = "w\<lparr>w_queue := filter (\<lambda>x. q_attempt_id x \<noteq> aid) (w_queue w)\<rparr>"
  have "wf_world ?w'" using lawful_filter_queue inv by (auto simp: lawful_def inv_def)
  then have "inv q ?w'"
  proof (rule inv_with_queue [OF inv])
    fix a
    assume "a \<in> set (w_attempts w)" "att_state a = JobStateQueued" "has_row q_attempt_id (att_id a) (w_queue w)"
    with assms(2) show "has_row q_attempt_id (att_id a) (w_queue ?w')"
      by (auto intro!: has_row_filter)
  qed simp_all
  with False show ?thesis by (simp add: store_AckJobAttemptDispatch_def)
qed (use inv in \<open>simp add: store_AckJobAttemptDispatch_def\<close>)

section \<open>Reporting\<close>

lemma runs_reported_inv:
  assumes inv: "inv q w" and wf': "wf_world w'" and rep: "runs_reported w w'"
  shows "inv q w'"
proof -
  have same: "w_jobs w' = w_jobs w" "w_attempts w' = w_attempts w" "w_leases w' = w_leases w"
      "w_queue w' = w_queue w" "w_dependencies w' = w_dependencies w"
    and rows: "list_all2 reported_run (w_runs w) (w_runs w')"
    using rep by (simp_all add: runs_reported_def)
  have orig: "\<exists>r \<in> set (w_runs w). reported_run r r'" if "r' \<in> set (w_runs w')" for r'
    using rows that by (metis in_set_conv_nth list_all2_conv_all_nth)
  show ?thesis
  proof (rule inv_with_runs [OF inv wf' same])
    show "green (w_runs w') (w_jobs w)"
      unfolding green_def
    proof (intro ballI impI)
      fix r' j
      assume r': "r' \<in> set (w_runs w')" and j: "j \<in> set (w_jobs w)"
        and eq: "run_state r' = RunStateSuccess \<and> job_run_id j = run_id r' \<and> job_required j"
      from orig [OF r'] eq obtain r where "r \<in> set (w_runs w)" "run_id r = run_id r'" "run_state r = RunStateSuccess"
        by (auto simp: reported_run_def)
      with j eq inv show "job_state j = JobStateSucceeded"
        by (auto simp: inv_def work_ok_def green_def)
    qed
  next
    fix r' j
    assume r': "r' \<in> set (w_runs w')" and "\<not> undispatchable_run (run_state r')"
    with orig [OF r'] show "\<exists>r \<in> set (w_runs w). run_id r = run_id r' \<and> \<not> undispatchable_run (run_state r)"
      by (auto simp: reported_run_def)
  qed
qed

context service_env
begin

lemma report_guarded: "keeps (guarded q) (sv_report S rid)"
  by (rule keeps_guarded_wf [OF reporter_contract.report_lawful [OF rep]])
    (rule runs_reported_inv [OF _ _ reporter_contract.report_frame [OF rep inv_wf]], assumption+)

lemma ids_guarded:
  "keeps (guarded q) (sv_RunID S)" "keeps (guarded q) (sv_JobID S)" "keeps (guarded q) (sv_JobAttemptID S)"
  "keeps (guarded q) (sv_LeaseID S)"
  by (rule keeps_guarded_core, rule id_source.next_id_core, rule ids)+

lemma plan_guarded: "keeps (guarded q) (sv_plan S req)"
  by (rule keeps_guarded_core) (rule plan_core)

lemma analyze_guarded: "keeps (guarded q) (sv_analyze S input)"
  by (rule keeps_guarded_core) (rule analyze_core)

lemma reportRun_guarded: "keeps (guarded q) (svc_reportRun S rid)"
  unfolding svc_reportRun_def by (intro gd.keeps_rules inv_intros report_guarded)

lemma failRun_guarded: "keeps (guarded q) (svc_failRun S rid)"
  unfolding svc_failRun_def by (intro gd.keeps_rules inv_intros reportRun_guarded) simp_all

lemma recordFailureExplanation_guarded: "keeps (guarded q) (svc_recordFailureExplanation S j a m x)"
  unfolding svc_recordFailureExplanation_def by (intro gd.keeps_rules inv_intros analyze_guarded)

lemmas env_guarded = ids_guarded plan_guarded analyze_guarded reportRun_guarded failRun_guarded
  recordFailureExplanation_guarded

end

end
