(* ===== verification/InvariantSteps.thy ===== *)
theory InvariantSteps
  imports InvariantOps
begin

text \<open>
  The steps that move a job together with its attempt keep the invariant: the paired
  transitions, queueing, granting a lease and the sweep of an expired one.
\<close>

section \<open>Facts that handlers learn by reading\<close>

definition linked :: "string \<Rightarrow> string \<Rightarrow> world \<Rightarrow> bool" where
  "linked aid jid w \<longleftrightarrow> (\<exists>a \<in> set (w_attempts w). att_id a = aid \<and> att_job_id a = jid)"

definition known :: "bool \<Rightarrow> (world \<Rightarrow> bool) \<Rightarrow> world \<Rightarrow> bool" where
  "known q P w \<longleftrightarrow> inv q w \<and> P w"

lemma linked_evolves: "linked aid jid w \<Longrightarrow> evolves w w' \<Longrightarrow> linked aid jid w'"
  unfolding linked_def evolves_def rows_evolve_def attempt_evolves_def by metis

lemma known_stable: "(\<And>w w'. P w \<Longrightarrow> evolves w w' \<Longrightarrow> P w') \<Longrightarrow> stable (guarded q) (known q P)"
  by (auto simp: stable_def guarded_def known_def)

lemma linked_stable: "stable (guarded q) (known q (linked aid jid))"
  by (rule known_stable) (rule linked_evolves)

lemma keeps_from_inv: "keeps_from (guarded q) (known q (\<lambda>_. True)) m \<Longrightarrow> keeps (guarded q) m"
  by (auto simp: keeps_from_def keeps_def known_def guarded_def)

lemma keeps_from_known: "(\<And>w. inv q w \<Longrightarrow> P w \<Longrightarrow> guarded q w (world_after m w)) \<Longrightarrow> keeps_from (guarded q) (known q P) m"
  by (simp add: keeps_from_def known_def)

section \<open>Paired transitions\<close>

definition moved_pair :: "string \<Rightarrow> string \<Rightarrow> job_state \<Rightarrow> world \<Rightarrow> world" where
  "moved_pair aid jid st w =
     w\<lparr>w_attempts := update_rows att_id aid (\<lambda>a. a\<lparr>att_state := st, att_updated_at := pg_now w\<rparr>) (w_attempts w),
       w_jobs := update_rows job_id jid (\<lambda>j. j\<lparr>job_state := st, job_updated_at := pg_now w\<rparr>) (w_jobs w)\<rparr>"

text \<open>In a world that satisfies the invariant, an attempt and its job are found together.\<close>

lemma linked_rows:
  assumes inv: "inv q w" and l: "linked aid jid w"
  obtains a j where "a \<in> set (w_attempts w)" "att_id a = aid" "att_job_id a = jid"
    "j \<in> set (w_jobs w)" "job_id j = jid" "job_state j = att_state a"
    "find_row att_id aid (w_attempts w) = Some a" "find_row job_id jid (w_jobs w) = Some j"
    "containsJobState (att_state a)"
proof -
  obtain a where a: "a \<in> set (w_attempts w)" "att_id a = aid" "att_job_id a = jid"
    using l by (auto simp: linked_def)
  obtain j where j: "j \<in> set (w_jobs w)" "job_id j = jid"
    using job_of_attempt [OF inv_wf [OF inv] a(1)] a(3) by auto
  have "job_state j = att_state a"
    using inv a j by (auto simp: inv_def work_ok_def synced_def)
  moreover have "unique_key att_id (w_attempts w)" "unique_key job_id (w_jobs w)" "containsJobState (att_state a)"
    using inv a(1) by (auto simp: inv_def wf_world_def wf_attempts_def wf_jobs_def)
  ultimately show ?thesis using a j that by (simp add: find_row_iff)
qed

lemma pair_transition:
  assumes inv: "inv q w" and l: "linked aid jid w"
  obtains (Refused) e where "svc_transitionJobAndAttempt jid aid st w = (Inl e, w)"
    | (Moved) a j where "a \<in> set (w_attempts w)" "att_id a = aid" "att_job_id a = jid"
      "j \<in> set (w_jobs w)" "job_id j = jid" "job_step (att_state a) st"
      "svc_transitionJobAndAttempt jid aid st w = (Inr (), moved_pair aid jid st w)"
proof -
  obtain a j where a: "a \<in> set (w_attempts w)" "att_id a = aid" "att_job_id a = jid"
    and j: "j \<in> set (w_jobs w)" "job_id j = jid" "job_state j = att_state a"
    and f: "find_row att_id aid (w_attempts w) = Some a" "find_row job_id jid (w_jobs w) = Some j"
    using linked_rows [OF inv l] by metis
  show ?thesis
  proof (cases "validateJobTransition aid (att_state a) st")
    case (Inl e)
    then have "svc_transitionJobAndAttempt jid aid st w = (Inl e, w)"
      by (simp add: svc_transitionJobAndAttempt_def bindE_def TransitionJobAttemptState_apply f)
    then show ?thesis by (rule Refused)
  next
    case (Inr u)
    then have step: "job_step (att_state a) st" using validateJob_Inr_iff [of aid] by simp
    then have "validateJobTransition jid (job_state j) st = Inr ()"
      using validateJob_Inr_iff [of jid] j(3) by simp
    with Inr have "svc_transitionJobAndAttempt jid aid st w = (Inr (), moved_pair aid jid st w)"
      by (simp add: svc_transitionJobAndAttempt_def bindE_def TransitionJobAttemptState_apply
          TransitionJobState_apply f moved_pair_def)
    with a j step show ?thesis using Moved by blast
  qed
qed

lemma moved_pair_wf:
  assumes inv: "inv q w" and m: "svc_transitionJobAndAttempt jid aid st w = (Inr (), moved_pair aid jid st w)"
  shows "lawful w (moved_pair aid jid st w)" and "wf_world (moved_pair aid jid st w)"
proof -
  show "lawful w (moved_pair aid jid st w)"
    using keepsD [OF transitionJobAndAttempt_lawful, of w jid aid st] m by simp
  then show "wf_world (moved_pair aid jid st w)" using inv by (simp add: lawful_def inv_def)
qed

text \<open>Whatever else the step does to the leases and the queue.\<close>

lemma pair_moved_to:
  assumes inv: "inv q w" and wf': "wf_world w'"
    and a: "a \<in> set (w_attempts w)" and j: "j \<in> set (w_jobs w)" "job_id j = att_job_id a"
    and step: "job_step (att_state a) st" "st \<noteq> JobStateCreated"
    and fa: "\<And>x. att_id (fa x) = att_id x \<and> att_job_id (fa x) = att_job_id x \<and> att_number (fa x) = att_number x
      \<and> att_state (fa x) = st"
    and fj: "\<And>x. job_id (fj x) = job_id x \<and> job_run_id (fj x) = job_run_id x \<and> job_required (fj x) = job_required x
      \<and> job_state (fj x) = st"
    and w': "w_attempts w' = update_rows att_id (att_id a) fa (w_attempts w)"
      "w_jobs w' = update_rows job_id (job_id j) fj (w_jobs w)" "w_runs w' = w_runs w"
      "w_dependencies w' = w_dependencies w"
  shows "pair_moved q w w' a j st"
  unfolding pair_moved_def
proof (intro conjI)
  show "\<exists>fa. (\<forall>x. att_id (fa x) = att_id x \<and> att_job_id (fa x) = att_job_id x \<and> att_number (fa x) = att_number x
      \<and> att_state (fa x) = st) \<and> w_attempts w' = update_rows att_id (att_id a) fa (w_attempts w)"
    using fa w'(1) by blast
  show "\<exists>fj. (\<forall>x. job_id (fj x) = job_id x \<and> job_run_id (fj x) = job_run_id x \<and> job_required (fj x) = job_required x
      \<and> job_state (fj x) = st) \<and> w_jobs w' = update_rows job_id (job_id j) fj (w_jobs w)"
    using fj w'(2) by blast
qed (use assms in simp_all)

lemma leaves_created: "job_step JobStateCreated st \<Longrightarrow> st = JobStateCreated \<or> st = JobStateQueued"
  by (auto simp: job_step_simps)

text \<open>A move to any state but \<open>CREATED\<close> and \<open>QUEUED\<close> is always allowed.\<close>

lemma pair_allowed_running:
  assumes m: "pair_moved q w w' a j st" and st: "st \<noteq> JobStateQueued"
    and leases: "\<And>l. l \<in> set (w_leases w') \<Longrightarrow> lease_attempt_id l \<noteq> att_id a \<Longrightarrow> l \<in> set (w_leases w)"
    and queue: "w_queue w' = w_queue w"
  shows "pair_allowed q w w' a j st"
proof -
  have "att_state a \<noteq> JobStateCreated"
    using pair_movedD(8,9) [OF m] st leaves_created by metis
  with leases st queue show ?thesis unfolding pair_allowed_def by auto
qed

lemma transitionJobAndAttempt_from:
  assumes st: "st \<noteq> JobStateCreated" "st \<noteq> JobStateQueued"
  shows "keeps_from (guarded q) (known q (linked aid jid)) (svc_transitionJobAndAttempt jid aid st)"
proof (rule keeps_from_known)
  fix w
  assume inv: "inv q w" and l: "linked aid jid w"
  show "guarded q w (world_after (svc_transitionJobAndAttempt jid aid st) w)"
    using inv l
  proof (cases rule: pair_transition [of q w aid jid st])
    case (Refused e)
    then show ?thesis by simp
  next
    case (Moved a j)
    note wf = moved_pair_wf [OF inv Moved(7)]
    have "pair_moved q w (moved_pair aid jid st w) a j st"
      by (rule pair_moved_to [OF inv wf(2) Moved(1) Moved(4) _ Moved(6) st(1)])
        (use Moved in \<open>auto simp: moved_pair_def\<close>)
    then have "inv q (moved_pair aid jid st w)"
      by (rule inv_pair_moved, intro pair_allowed_running) (simp_all add: st moved_pair_def)
    with wf(1) Moved(7) show ?thesis by (simp add: guardedI')
  qed
qed

section \<open>Queueing\<close>

text \<open>The jobs that \<open>jid\<close> waits for have succeeded.\<close>

definition deps_done :: "string \<Rightarrow> world \<Rightarrow> bool" where
  "deps_done jid w \<longleftrightarrow> (\<forall>d \<in> set (w_dependencies w). \<forall>k \<in> set (w_jobs w).
     dep_job_id d = jid \<and> job_id k = dep_on_job_id d \<longrightarrow> job_state k = JobStateSucceeded)"

definition unqueued :: "string \<Rightarrow> string \<Rightarrow> world \<Rightarrow> bool" where
  "unqueued aid jid w \<longleftrightarrow> (\<exists>a \<in> set (w_attempts w). att_id a = aid \<and> att_job_id a = jid \<and> att_state a = JobStateCreated)"

locale work_env = service_env +
  fixes q :: bool
  assumes reliable: "q \<Longrightarrow> reliable_dispatcher (sv_enqueue S)"
begin

lemma queueJobAttempt_inv:
  assumes inv: "inv q w" and un: "unqueued (att_id a0) (job_id j0) w" and gate: "deps_done (job_id j0) w"
  shows "inv q (world_after (svc_queueJobAttempt S j0 a0) w)"
proof -
  let ?aid = "att_id a0" and ?jid = "job_id j0"
  obtain a where a: "a \<in> set (w_attempts w)" "att_id a = ?aid" "att_job_id a = ?jid" "att_state a = JobStateCreated"
    using un by (auto simp: unqueued_def)
  have link: "linked ?aid ?jid w" using a by (auto simp: linked_def)
  obtain b j where b: "b \<in> set (w_attempts w)" "att_id b = ?aid"
    and j: "j \<in> set (w_jobs w)" "job_id j = ?jid" "job_state j = att_state b"
    and f: "find_row att_id ?aid (w_attempts w) = Some b" "find_row job_id ?jid (w_jobs w) = Some j"
    using linked_rows [OF inv link] by metis
  have ba: "b = a" using attempt_unique [OF inv_wf [OF inv] b(1) a(1)] b(2) a(2) by simp
  have step: "job_step JobStateCreated JobStateQueued" by (simp add: job_step_simps)
  have valid: "validateJobTransition i JobStateCreated JobStateQueued = Inr ()" for i
    using step validateJob_Inr_iff by blast
  let ?w1 = "(moved_pair ?aid ?jid JobStateQueued w)\<lparr>w_metrics := IncJob ''queued'' # w_metrics w\<rparr>"
  let ?a' = "a0\<lparr>att_state := JobStateQueued\<rparr>"
  let ?w2 = "world_after (sv_enqueue S ?a') ?w1"
  have grows: "queue_grows ?w1 ?w2" using dispatcher_contract.enqueue_grows [OF disp] .
  let ?wj = "w\<lparr>w_jobs := update_rows job_id ?jid (\<lambda>j. j\<lparr>job_state := JobStateQueued, job_updated_at := pg_now w\<rparr>) (w_jobs w)\<rparr>"
  have e1: "store_TransitionJobState ?jid JobStateQueued w = (Inr (), ?wj)"
    by (simp add: TransitionJobState_apply f(2) j(3) ba a(4) valid)
  have e2: "store_TransitionJobAttemptState ?aid JobStateQueued ?wj = (Inr (), moved_pair ?aid ?jid JobStateQueued w)"
    using f(1) by (simp add: TransitionJobAttemptState_apply ba a(4) valid moved_pair_def)
  have run: "world_after (svc_queueJobAttempt S j0 a0) w = world_after (bindE (try_prog (sv_enqueue S ?a'))
      (\<lambda>r. case r of Inl e \<Rightarrow> bindE (metric (IncFailure ''enqueue_failed''))
             (\<lambda>_. fail (Wrapped (''enqueue attempt '' @ att_id ?a') e))
           | Inr _ \<Rightarrow> ret (j0\<lparr>job_state := JobStateQueued\<rparr>, ?a'))) ?w1"
    unfolding svc_queueJobAttempt_def Let_def 
      bindE_Inr [of "store_TransitionJobState ?jid JobStateQueued" w, OF e1]
      bindE_Inr [of "store_TransitionJobAttemptState ?aid JobStateQueued" ?wj, OF e2] metric_def bindE_modify
    by (simp add: moved_pair_def)
  have after: "\<exists>ms. world_after (svc_queueJobAttempt S j0 a0) w = ?w2\<lparr>w_metrics := ms\<rparr>"
  proof (cases "outcome_of (sv_enqueue S ?a') ?w1")
    case (Inl e)
    then show ?thesis unfolding run bindE_try_prog by (auto simp: metric_def)
  next
    case (Inr u)
    then have "world_after (svc_queueJobAttempt S j0 a0) w = ?w2" unfolding run bindE_try_prog by simp
    then have "world_after (svc_queueJobAttempt S j0 a0) w = ?w2\<lparr>w_metrics := w_metrics ?w2\<rparr>" by simp
    then show ?thesis by blast
  qed

  have wf2: "wf_world ?w2"
  proof -
    have "lawful w (world_after (svc_queueJobAttempt S j0 a0) w)" by (rule keepsD [OF queueJobAttempt_lawful])
    with inv after show ?thesis by (auto simp: lawful_def inv_def wf_world_def)
  qed
  have m: "pair_moved q w ?w2 a j JobStateQueued"
    by (rule pair_moved_to [OF inv wf2 a(1) j(1)])
      (use a j step grows in \<open>auto simp: moved_pair_def queue_grows_def\<close>)
  have nolease: "lease_attempt_id l \<noteq> att_id a" if "l \<in> set (w_leases w)" "lease_live (lease_state l)" for l
    using inv a that by (auto simp: inv_def work_ok_def busy_def)
  have del: "has_row q_attempt_id ?aid (w_queue ?w2)" if q: q
  proof -
    have "?aid \<noteq> ''''" using inv a by (auto simp: inv_def work_ok_def single_attempts_def)
    moreover have "has_row att_id (att_id ?a') (w_attempts ?w1)"
    proof -
      have "has_row att_id ?aid (w_attempts w)" using a by (auto simp: has_row_def)
      then show ?thesis by (simp add: moved_pair_def)
    qed
    ultimately obtain w' where "sv_enqueue S ?a' ?w1 = (Inr (), w')" "has_row q_attempt_id ?aid (w_queue w')"
      using reliable_dispatcher.delivers [OF reliable [OF q], of ?a' ?w1] by auto
    then show ?thesis by simp
  qed
  have "pair_allowed q w ?w2 a j JobStateQueued"
    using gate j nolease del a grows
    by (auto simp: pair_allowed_def deps_done_def queue_grows_def moved_pair_def)
  with m have "inv q ?w2" by (rule inv_pair_moved)
  with after show ?thesis by (auto simp: inv_def work_ok_def wf_world_def)
qed

end

section \<open>Granting a lease\<close>

lemma GrantLease_inv: "inv q w \<Longrightarrow> inv q (world_after (store_GrantLease aid l) w)"
proof (cases "grant_params_ok l")
  case False
  then obtain m where "store_GrantLease aid l w = (Inl (PlainError m), w)" using grant_rejects by blast
  then show "inv q w \<Longrightarrow> inv q (world_after (store_GrantLease aid l) w)" by simp
next
  case ok: True
  assume inv: "inv q w"
  have granted: "inv q (grant_world w aid j l)"
    if f: "find_row att_id aid (w_attempts w) = Some a" "find_row job_id (att_job_id a) (w_jobs w) = Some j"
      and v: "validateJobTransition aid (att_state a) JobStateLeased = Inr u"
        "validateJobTransition (job_id j) (job_state j) JobStateLeased = Inr u'"
        "lease_violation (granted_row w aid l) w = None" for a j u u'
  proof -
    have lw: "lawful w (grant_world w aid j l)" using f v by (rule lawful_grant_world)
    have aj: "a \<in> set (w_attempts w)" "att_id a = aid" "j \<in> set (w_jobs w)" "job_id j = att_job_id a"
      using find_row_SomeD [OF f(1)] find_row_SomeD [OF f(2)] by simp_all
    have step: "job_step (att_state a) JobStateLeased" using v(1) validateJob_Inr_iff [of aid] by simp
    have m: "pair_moved q w (grant_world w aid j l) a j JobStateLeased"
      by (rule pair_moved_to [OF inv _ aj(1,3,4) step])
        (use lw inv aj in \<open>auto simp: grant_world_def lease_attempt_row_def lease_job_row_def lawful_def inv_def\<close>)
    have "pair_allowed q w (grant_world w aid j l) a j JobStateLeased"
      by (rule pair_allowed_running [OF m]) (use aj in \<open>auto simp: grant_world_def granted_row_def\<close>)
    with m show ?thesis by (rule inv_pair_moved)
  qed
  show ?thesis
    using inv granted by (auto simp: GrantLease_apply [OF ok] split: option.splits sum.splits)
qed

lemma GrantLease_guarded [inv_intros]: "keeps (guarded q) (store_GrantLease aid l)"
  by (rule keeps_guarded [OF GrantLease_lawful]) (rule GrantLease_inv)

section \<open>The sweep\<close>

lemma expired_lease_known:
  assumes inv: "inv q w" and ls: "expired_leases w now = l # ls"
    and aj: "attempt_job w (lease_attempt_id l) = Some (a, j)"
  shows "l \<in> set (w_leases w)" "lease_live (lease_state l)" "a \<in> set (w_attempts w)" "att_id a = lease_attempt_id l"
    "j \<in> set (w_jobs w)" "job_id j = att_job_id a" "job_state j = att_state a"
    "att_state a \<noteq> JobStateCreated" "att_state a \<noteq> JobStateQueued"
proof -
  show l: "l \<in> set (w_leases w)" "lease_live (lease_state l)"
    using expired_leases_member [OF ls] by (simp_all add: lease_expired_by_def)
  have f: "find_row att_id (lease_attempt_id l) (w_attempts w) = Some a"
    "find_row job_id (att_job_id a) (w_jobs w) = Some j"
    using aj by (simp_all add: attempt_job_Some)
  show a: "a \<in> set (w_attempts w)" "att_id a = lease_attempt_id l"
    and j: "j \<in> set (w_jobs w)" "job_id j = att_job_id a"
    using find_row_SomeD [OF f(1)] find_row_SomeD [OF f(2)] by simp_all
  show "job_state j = att_state a" using inv a j by (auto simp: inv_def work_ok_def synced_def)
  show "att_state a \<noteq> JobStateCreated" "att_state a \<noteq> JobStateQueued"
    using inv l a by (auto simp: inv_def work_ok_def busy_def)
qed

lemma swept_lease_evolves: "lease_live (lease_state l) \<Longrightarrow> lease_evolves l (swept_lease w l)"
  by (cases "lease_state l") (auto simp: lease_evolves_def swept_lease_def lease_step_simps intro: r_into_rtranclp)

lemma swept_leases_live:
  assumes wf: "wf_world w" and l: "l \<in> set (w_leases w)" "lease_live (lease_state l)"
    and x: "x \<in> set (update_rows lease_id (lease_id l) (swept_lease w) (w_leases w))" "lease_live (lease_state x)"
  shows "x \<in> set (w_leases w)" and "lease_attempt_id x \<noteq> lease_attempt_id l"
proof -
  have dead: "\<not> lease_live (lease_state (swept_lease w y))" for y by (simp add: swept_lease_def)
  have x': "x \<in> set (w_leases w) \<and> lease_id x \<noteq> lease_id l"
    using x dead by (auto simp: set_update_rows split: if_splits)
  then show "x \<in> set (w_leases w)" ..
  have "one_live_lease (w_leases w)" using wf by (simp add: wf_world_def wf_leases_def)
  with x' x(2) l show "lease_attempt_id x \<noteq> lease_attempt_id l" unfolding one_live_lease_def by blast
qed

lemma expire_lease_tx_inv:
  assumes inv: "inv q w"
  shows "inv q (world_after (expire_lease_tx now) w)"
proof (cases rule: expired_leases_cases [of w now])
  case None
  with inv show ?thesis by (simp add: expire_lease_tx_empty)
next
  case (Some l ls a j)
  note wf = inv_wf [OF inv]
  note k = expired_lease_known [OF inv Some]
  note unf = expire_lease_tx_apply [OF wf Some]
  have wf': "wf_world (world_after (expire_lease_tx now) w)"
    using keepsD [OF expire_lease_tx_lawful, of w now] wf by (simp add: lawful_def)
  show ?thesis
  proof (cases "may_requeue (att_state a)")
    case False
    have "find_row lease_id (lease_id l) (w_leases w) = Some l"
      using wf k(1) by (intro find_row_unique) (auto simp: wf_world_def wf_leases_def)
    from inv_move_lease [where f = "swept_lease w", OF inv this swept_lease_evolves [OF k(2)]] show ?thesis
      using False k(7) by (simp add: unf swept_world_def)
  next
    case True
    let ?w' = "world_after (expire_lease_tx now) w"
    have w': "w_attempts ?w' = update_rows att_id (att_id a) (requeued_attempt w) (w_attempts w)"
      "w_jobs ?w' = update_rows job_id (job_id j) (requeued_job w) (w_jobs w)" "w_runs ?w' = w_runs w"
      "w_dependencies ?w' = w_dependencies w"
      "w_leases ?w' = update_rows lease_id (lease_id l) (swept_lease w) (w_leases w)"
      using True k(7) by (simp_all add: unf swept_world_def upsert_queue_def)
    have "has_row att_id (att_id a) (w_attempts w)" using k(3) by (auto simp: has_row_def)
    then have ids: "has_row att_id (att_id a) (w_attempts (swept_world w l a j))"
      by (simp add: swept_world_def requeued_attempt_def)

    have q': "has_row q_attempt_id (att_id a) (w_queue ?w')"
      "has_row q_attempt_id i (w_queue w) \<Longrightarrow> has_row q_attempt_id i (w_queue ?w')" for i
      using True ids by (simp_all add: unf upsert_queue_def) (simp_all add: swept_world_def)
    have m: "pair_moved q w ?w' a j JobStateQueued"
      by (rule pair_moved_to [OF inv wf' k(3,5,6) _ _ _ _ w'(1-4)])
        (use True in \<open>auto simp: may_requeue_def requeued_attempt_def requeued_job_def\<close>)
    have "pair_allowed q w ?w' a j JobStateQueued"
      unfolding pair_allowed_def
      using q' k(4,8) swept_leases_live [OF wf k(1,2)] by (auto simp: w'(5))
    with m show ?thesis by (rule inv_pair_moved)
  qed
qed

lemma expire_lease_tx_guarded [inv_intros]: "keeps (guarded q) (expire_lease_tx now)"
  by (rule keeps_guarded [OF expire_lease_tx_lawful]) (rule expire_lease_tx_inv)

lemma expire_leases_loop_guarded [inv_intros]: "keeps (guarded q) (expire_leases_loop n now k)"
  by (induction n arbitrary: k) (auto intro!: gd.keeps_rules inv_intros)

lemma ExpireLeases_guarded [inv_intros]: "keeps (guarded q) (store_ExpireLeases now limit)"
  unfolding store_ExpireLeases_def Let_def by (intro gd.keeps_rules inv_intros)

end
