(* ===== verification/InvariantHandlers.thy ===== *)
theory InvariantHandlers
  imports InvariantSteps
begin

text \<open>
  Every handler of the service keeps the invariant. A handler that moves a job has read
  the attempt first, so it knows that the two are linked; a handler that queues a
  dependent has just seen that its dependencies have succeeded.
\<close>

section \<open>Reading before moving\<close>

abbreviation from_link :: "bool \<Rightarrow> string \<Rightarrow> string \<Rightarrow> 'a db \<Rightarrow> bool" where
  "from_link q aid jid \<equiv> keeps_from (guarded q) (known q (linked aid jid))"

lemmas from_link_bind = gd.from_bindE [OF linked_stable]

lemma read_attempt:
  assumes "\<And>a. from_link q (att_id a) (att_job_id a) (k a)"
  shows "keeps (guarded q) (bindE (store_GetJobAttempt aid) k)"
proof (rule keeps_from_inv, rule gd.from_read)
  show "sees (known q (\<lambda>_. True)) (store_GetJobAttempt aid) (\<lambda>a. linked (att_id a) (att_job_id a))"
    by (rule seesI)
      (auto simp: store_GetJobAttempt_def select_by_apply linked_def dest: find_row_SomeD split: option.splits)
  show "keeps_from (guarded q) (\<lambda>s. known q (\<lambda>_. True) s \<and> linked (att_id a) (att_job_id a) s) (k a)" for a
    by (rule gd.from_weaken [OF assms]) (simp add: known_def)
qed

lemma read_latest_attempt:
  assumes "\<And>a. from_link q (att_id a) jid (k a)"
  shows "keeps (guarded q) (bindE (store_GetLatestJobAttempt jid) k)"
proof (rule keeps_from_inv, rule gd.from_read)
  show "sees (known q (\<lambda>_. True)) (store_GetLatestJobAttempt jid) (\<lambda>a. linked (att_id a) jid)"
  proof (rule seesI)
    fix w a
    assume "outcome_of (store_GetLatestJobAttempt jid) w = Inr a"
    then obtain rest where "sort_key (\<lambda>a. - att_number a) (filter (\<lambda>a. att_job_id a = jid) (w_attempts w)) = a # rest"
      by (auto simp: store_GetLatestJobAttempt_def split: list.splits)
    then have "a \<in> set (filter (\<lambda>a. att_job_id a = jid) (w_attempts w))"
      by (metis list.set_intros(1) set_sort)
    then show "linked (att_id a) jid w" by (auto simp: linked_def)

  qed (simp add: store_GetLatestJobAttempt_def split: list.splits)
  show "keeps_from (guarded q) (\<lambda>s. known q (\<lambda>_. True) s \<and> linked (att_id a) jid s) (k a)" for a
    by (rule gd.from_weaken [OF assms]) (simp add: known_def)
qed

lemma read_job:
  assumes "\<And>j. job_id j = jid \<Longrightarrow> from_link q aid jid' (k j)"
  shows "from_link q aid jid' (bindE (store_GetJob jid) k)"
proof (rule gd.from_read)
  show "sees (known q (linked aid jid')) (store_GetJob jid) (\<lambda>j w. job_id j = jid)"
    by (rule seesI) (auto simp: store_GetJob_def select_by_apply dest: find_row_SomeD split: option.splits)
  show "keeps_from (guarded q) (\<lambda>w. known q (linked aid jid') w \<and> job_id j = jid) (k j)" for j
    using assms [of j] by (cases "job_id j = jid") (simp_all add: keeps_from_def)
qed

lemmas link_rules = from_link_bind gd.from_try_prog gd.from_if gd.from_case_sum gd.from_case_option

lemma move_linked:
  "st \<noteq> JobStateCreated \<Longrightarrow> st \<noteq> JobStateQueued \<Longrightarrow> from_link q aid jid (svc_transitionJobAndAttempt jid aid st)"
  by (rule transitionJobAndAttempt_from)

section \<open>Runner messages\<close>

lemma svc_AckLease_guarded [inv_intros]: "keeps (guarded q) (svc_AckLease msg)"
  unfolding svc_AckLease_def
  by (intro gd.keeps_rules inv_intros read_attempt;
      intro from_link_bind move_linked gd.from_keeps gd.keeps_rules inv_intros) simp_all

lemma HandleHeartbeat_guarded [inv_intros]: "keeps (guarded q) (svc_HandleHeartbeat msg)"
  unfolding svc_HandleHeartbeat_def Let_def
  by (intro gd.keeps_rules inv_intros read_attempt;
      intro from_link_bind gd.from_if move_linked gd.from_keeps gd.keeps_rules inv_intros) simp_all

lemma finish_attempt_from:
  assumes "job_id j = att_job_id a"
  shows "from_link q (att_id a) (att_job_id a) (finish_attempt j a status)"
  unfolding finish_attempt_def assms
  by (intro from_link_bind gd.from_if gd.from_case_option move_linked gd.from_keeps gd.keeps_rules)
    (auto elim: completion_target.elims)

section \<open>Ending and cancelling a run\<close>

lemma guarded_then:
  assumes "guarded q w (world_after m w)" and "\<And>a. keeps (guarded q) (k a)"
  shows "guarded q w (world_after (bindE m k) w)"
  using assms(1) gd.trans [OF assms(1) keepsD [OF assms(2)]]
  by (cases "m w"; cases "fst (m w)") (auto simp: bindE_def)

lemma run_verdict_green:
  "run_verdict jobs = VerdictSucceed \<Longrightarrow> j \<in> set jobs \<Longrightarrow> job_required j \<Longrightarrow> job_state j = JobStateSucceeded"
  by (induction jobs) (auto split: if_splits job_state.splits)

lemma jobs_of_run_set: "set (jobs_of_run w rid) = {j \<in> set (w_jobs w). job_run_id j = rid}"
  by (auto simp: jobs_of_run_def)

context service_env
begin

lemma finalizeCancelIfReady_guarded: "keeps (guarded q) (svc_finalizeCancelIfReady S rid)"
  unfolding svc_finalizeCancelIfReady_def
  by (intro gd.keeps_rules inv_intros reportRun_guarded) simp_all

lemma finalizeRunIfReady_guarded: "keeps (guarded q) (svc_finalizeRunIfReady S rid)"
proof (rule keepsI)
  fix w
  have tail: "keeps (guarded q) (bindE (metric (IncRun ''success'')) (\<lambda>_. bindE (svc_reportRun S rid) (\<lambda>_.
    counted_failure ''recipe_persist_failed'' (svc_persistRecipeIfNeeded S r))))" for r
    by (intro gd.keeps_rules inv_intros reportRun_guarded)
  have fail_tail: "keeps (guarded q) (bindE (store_TransitionRunState rid RunStateFailed) (\<lambda>_.
    bindE (metric (IncRun ''failed'')) (\<lambda>_. svc_reportRun S rid)))"
    by (intro gd.keeps_rules inv_intros reportRun_guarded) simp
  show "guarded q w (world_after (svc_finalizeRunIfReady S rid) w)"
  proof (cases "run_verdict (jobs_of_run w rid)")
    case VerdictSucceed
    then have green: "run_green rid w"
      using run_verdict_green [OF VerdictSucceed] by (auto simp: run_green_def jobs_of_run_set)
    have "guarded q w (world_after (store_TransitionRunState rid RunStateSuccess) w)"
      by (rule guardedI' [OF keepsD [OF TransitionRunState_lawful]]) (simp add: TransitionRunState_inv green)
    then have "guarded q w (world_after (bindE (store_TransitionRunState rid RunStateSuccess) (\<lambda>_.
        bindE (metric (IncRun ''success'')) (\<lambda>_. bindE (svc_reportRun S rid) (\<lambda>_.
        counted_failure ''recipe_persist_failed'' (svc_persistRecipeIfNeeded S r))))) w)" for r
      by (rule guarded_then) (rule tail)
    then show ?thesis
      using VerdictSucceed by (simp add: svc_finalizeRunIfReady_def store_GetRun_def bindE_select_by
          store_ListJobsByRun_def split: option.splits)
  qed (use keepsD [OF fail_tail] in \<open>simp_all add: svc_finalizeRunIfReady_def store_GetRun_def bindE_select_by
        store_ListJobsByRun_def split: option.splits\<close>)
qed

lemma cancel_job_guarded: "keeps (guarded q) (cancel_job now j)"
  unfolding cancel_job_def
  by (rule read_latest_attempt)
    (auto intro!: from_link_bind move_linked intro: gd.from_keeps gd.keeps_ret inv_intros
      split: job_state.splits)

lemma request_cancel_guarded: "keeps (guarded q) (request_cancel S rid)"
  unfolding request_cancel_def
  by (intro gd.keeps_rules inv_intros reportRun_guarded finalizeCancelIfReady_guarded cancel_job_guarded) simp

lemma CancelRun_guarded: "keeps (guarded q) (svc_CancelRun S rid)"
  unfolding svc_CancelRun_def
  by (auto intro!: gd.keeps_rules inv_intros request_cancel_guarded split: run_state.splits)

end

section \<open>Granting a lease\<close>

text \<open>The dispatch is acknowledged when the attempt has just left the queue.\<close>

lemma update_rows_member:
  "x \<in> set (update_rows key k f rows) \<Longrightarrow> \<exists>r \<in> set rows. x = (if key r = k then f r else r)"
  by (auto simp: set_update_rows)

lemma grant_then_ack:
  assumes k: "\<And>l r. keeps (guarded q) (k l r)"
  shows "keeps (guarded q) (bindE (store_GrantLease aid x) (\<lambda>l. bindE (metric m) (\<lambda>_. bindE (metric n) (\<lambda>_.
    bindE (try_prog (store_AckJobAttemptDispatch aid)) (k l)))))"
proof (rule keepsI)
  fix w
  have g: "guarded q w (world_after (store_GrantLease aid x) w)" by (rule keepsD [OF GrantLease_guarded])
  obtain r w1 where gr: "store_GrantLease aid x w = (r, w1)" by (cases "store_GrantLease aid x w") auto
  show "guarded q w (world_after (bindE (store_GrantLease aid x) (\<lambda>l. bindE (metric m) (\<lambda>_. bindE (metric n) (\<lambda>_.
    bindE (try_prog (store_AckJobAttemptDispatch aid)) (k l))))) w)"
  proof (cases r)
    case (Inl e)
    with g gr show ?thesis by (simp add: bindE_def)
  next
    case (Inr l)
    let ?w2 = "w1\<lparr>w_metrics := n # m # w_metrics w1\<rparr>"
    have leased: "att_state a \<noteq> JobStateQueued" if "a \<in> set (w_attempts w1)" "att_id a = aid" for a
    proof -
      have "grant_params_ok x"
        using grant_rejects [of x aid w] gr Inr by (cases "grant_params_ok x") auto
      then have "w_attempts w1 = update_rows att_id aid (lease_attempt_row w x) (w_attempts w)"
        using gr Inr by (auto simp: GrantLease_apply grant_world_def split: option.splits sum.splits)
      with that(1) obtain b where b: "a = (if att_id b = aid then lease_attempt_row w x b else b)"
        using update_rows_member [of a att_id aid] by metis
      with that(2) show ?thesis by (cases "att_id b = aid") (simp_all add: lease_attempt_row_def)
    qed
    have "guarded q w1 ?w2" by (rule guarded_same_core) (simp add: same_core_def)
    also have "guarded q ?w2 (world_after (store_AckJobAttemptDispatch aid) ?w2)"
      by (rule guardedI' [OF keepsD [OF AckJobAttemptDispatch_lawful]], rule AckDispatch_inv)
        (use leased in auto)
    finally (gd.trans) have "guarded q w1 (world_after (store_AckJobAttemptDispatch aid) ?w2)" .
    then have "guarded q w (world_after (store_AckJobAttemptDispatch aid) ?w2)"
      using g gr gd.trans [of q w w1] by simp
    then have "guarded q w (world_after (bindE (try_prog (store_AckJobAttemptDispatch aid)) (k l)) ?w2)"
      using gd.trans keepsD [OF k] by (auto simp: bindE_try_prog)
    with gr Inr show ?thesis by (simp add: bindE_def [of "store_GrantLease aid x"] metric_def)
  qed
qed

context service_env
begin

lemma svc_GrantLease_guarded: "keeps (guarded q) (svc_GrantLease S req)"
  unfolding svc_GrantLease_def Let_def
  by (intro gd.keeps_rules inv_intros ids_guarded reportRun_guarded grant_then_ack) simp

end

section \<open>Creating the jobs of a run\<close>

lemma inv_new_job:
  assumes inv: "inv q w" and v: "job_violation j w = None" and st: "job_state j = JobStateCreated"
    and run: "\<And>r. r \<in> set (w_runs w) \<Longrightarrow> run_id r = job_run_id j \<Longrightarrow> run_state r \<noteq> RunStateSuccess"
  shows "inv q (w\<lparr>w_jobs := w_jobs w @ [j]\<rparr>)"
proof -
  have wf': "wf_world (w\<lparr>w_jobs := w_jobs w @ [j]\<rparr>)"
    using lawful_insert_job [OF v] inv by (simp add: lawful_def inv_def)
  have new: "\<not> has_row job_id (job_id j) (w_jobs w)"
    using v by (auto simp: job_violation_def split: if_splits)
  have old_a: "att_job_id a \<noteq> job_id j" if "a \<in> set (w_attempts w)" for a
    using inv that new by (auto simp: inv_def wf_world_def wf_attempts_def)
  have old_d: "dep_job_id d \<noteq> job_id j" "dep_on_job_id d \<noteq> job_id j" if "d \<in> set (w_dependencies w)" for d
    using inv that new by (auto simp: inv_def wf_world_def wf_dependencies_def)
  have ok: "work_ok q w" using inv by (rule inv_work)
  have "dispatchable (w_runs w) (w_jobs w @ [j]) a = dispatchable (w_runs w) (w_jobs w) a"
    if "a \<in> set (w_attempts w)" for a
    using old_a [OF that] by (auto simp: dispatchable_def)
  with ok have "q \<Longrightarrow> none_lost (w_runs w) (w_jobs w @ [j]) (w_attempts w) (w_queue w)"
    by (simp add: work_ok_def none_lost_def)
  moreover have "synced (w_jobs w @ [j]) (w_attempts w)"
    using ok by (auto simp: work_ok_def synced_def dest: old_a)
  moreover have "gated (w_jobs w @ [j]) (w_dependencies w)"
    unfolding gated_def by (auto intro: gatedD [OF inv] dest: old_d)
  moreover have "green (w_runs w) (w_jobs w @ [j])"
    using ok run by (auto simp: work_ok_def green_def)
  ultimately show ?thesis using wf' ok by (simp add: inv_def work_ok_def)
qed

lemma inv_new_attempt:
  assumes inv: "inv q w" and v: "attempt_violation a w = None"
    and a: "att_state a = JobStateCreated" "att_number a = 1" "att_id a \<noteq> ''''"
    and job: "\<And>j. j \<in> set (w_jobs w) \<Longrightarrow> job_id j = att_job_id a \<Longrightarrow> job_state j = JobStateCreated"
  shows "inv q (w\<lparr>w_attempts := w_attempts w @ [a]\<rparr>)"
proof -
  have wf': "wf_world (w\<lparr>w_attempts := w_attempts w @ [a]\<rparr>)"
    using lawful_insert_attempt [OF v] inv by (simp add: lawful_def inv_def)
  have new: "\<not> has_row att_id (att_id a) (w_attempts w)"
    using v by (auto simp: attempt_violation_def split: if_splits)
  have old_l: "lease_attempt_id l \<noteq> att_id a" if "l \<in> set (w_leases w)" for l
    using inv that new by (auto simp: inv_def wf_world_def wf_leases_def)
  have ok: "work_ok q w" using inv by (rule inv_work)
  have "synced (w_jobs w) (w_attempts w @ [a])"
    using ok job a by (auto simp: work_ok_def synced_def)
  moreover have "busy (w_attempts w @ [a]) (w_leases w)"
    using ok by (auto simp: work_ok_def busy_def dest: old_l)
  ultimately show ?thesis
    using wf' ok a by (auto simp: inv_def work_ok_def single_attempts_def none_lost_def)
qed

lemma inv_new_dependency:
  assumes inv: "inv q w" and "\<And>j. j \<in> set (w_jobs w) \<Longrightarrow> job_id j = jid \<Longrightarrow> job_state j = JobStateCreated"
  shows "inv q (world_after (store_RecordJobDependency jid on) w)"
proof -
  have "wf_world (world_after (store_RecordJobDependency jid on) w)"
    using keepsD [OF RecordJobDependency_lawful] inv_wf [OF inv] unfolding lawful_def by blast
  moreover have "gated (w_jobs w) (w_dependencies w @ [\<lparr>dep_job_id = jid, dep_on_job_id = on\<rparr>])"
    unfolding gated_def using gatedD [OF inv] assms(2) by auto
  ultimately show ?thesis
    using inv by (auto simp: store_RecordJobDependency_def inv_def work_ok_def)
qed

end
