(* ===== verification/StartRun.thy ===== *)
theory StartRun
  imports InvariantHandlers
begin

text \<open>
  Starting a run keeps the invariant: the jobs and attempts are created in \<open>CREATED\<close>,
  the dependencies are recorded while both ends still are, and only jobs without
  dependencies are queued. \<open>ensures q P m Q\<close> follows the situation through the steps.
\<close>

section \<open>Following a situation through a program\<close>

definition ensures :: "bool \<Rightarrow> (world \<Rightarrow> bool) \<Rightarrow> 'a db \<Rightarrow> ('a \<Rightarrow> world \<Rightarrow> bool) \<Rightarrow> bool" where
  "ensures q P m Q \<longleftrightarrow> (\<forall>w. inv q w \<and> P w \<longrightarrow> inv q (world_after m w) \<and>
     (\<forall>a. outcome_of m w = Inr a \<longrightarrow> Q a (world_after m w)))"

definition core_fact :: "(world \<Rightarrow> bool) \<Rightarrow> bool" where
  "core_fact P \<longleftrightarrow> (\<forall>w w'. same_core w w' \<and> P w \<longrightarrow> P w')"

lemma ensuresI:
  assumes "\<And>w. inv q w \<Longrightarrow> P w \<Longrightarrow> inv q (world_after m w)"
    and "\<And>w a. inv q w \<Longrightarrow> P w \<Longrightarrow> outcome_of m w = Inr a \<Longrightarrow> Q a (world_after m w)"
  shows "ensures q P m Q"
  using assms by (simp add: ensures_def)

lemma ensures_bind:
  assumes m: "ensures q P m Q" and k: "\<And>a. ensures q (Q a) (k a) R"
  shows "ensures q P (bindE m k) R"
  unfolding ensures_def
proof (intro allI impI)
  fix w
  assume w: "inv q w \<and> P w"
  obtain r w1 where mw: "m w = (r, w1)" by (cases "m w") auto
  show "inv q (world_after (bindE m k) w) \<and>
      (\<forall>a. outcome_of (bindE m k) w = Inr a \<longrightarrow> R a (world_after (bindE m k) w))"
  proof (cases r)
    case (Inl e)
    with m w mw show ?thesis by (auto simp: ensures_def bindE_def)
  next
    case (Inr a)
    have "inv q w1 \<and> Q a w1"
      using m w mw Inr unfolding ensures_def by (metis fst_conv snd_conv)
    with k [of a] have "inv q (world_after (k a) w1) \<and> (\<forall>b. outcome_of (k a) w1 = Inr b \<longrightarrow> R b (world_after (k a) w1))"
      unfolding ensures_def by blast
    with mw Inr show ?thesis by (simp add: bindE_def)
  qed
qed

lemma ensures_ret: "(\<And>w. P w \<Longrightarrow> Q a w) \<Longrightarrow> ensures q P (ret a) Q"
  by (simp add: ensures_def)

lemma ensures_fail: "ensures q P (fail e) Q"
  by (simp add: ensures_def)

lemma ensures_pre: "ensures q P m Q \<Longrightarrow> (\<And>w. P' w \<Longrightarrow> P w) \<Longrightarrow> ensures q P' m Q"
  by (simp add: ensures_def)

lemma ensures_post: "ensures q P m Q \<Longrightarrow> (\<And>a w. Q a w \<Longrightarrow> Q' a w) \<Longrightarrow> ensures q P m Q'"
  by (simp add: ensures_def)

lemma ensures_if: "(b \<Longrightarrow> ensures q P m Q) \<Longrightarrow> (\<not> b \<Longrightarrow> ensures q P n Q) \<Longrightarrow> ensures q P (if b then m else n) Q"
  by simp

lemma ensures_wrap: "ensures q P m Q \<Longrightarrow> ensures q P (wrap_error f m) Q"
  unfolding ensures_def wrap_error_def
  by (auto split: prod.splits sum.splits)

lemma ensures_core:
  "core_fact P \<Longrightarrow> (\<And>w. same_core w (world_after m w)) \<Longrightarrow> ensures q P m (\<lambda>_. P)"
  unfolding ensures_def core_fact_def using inv_same_core by blast

lemma ensures_keeps: "keeps (guarded q) m \<Longrightarrow> ensures q P m (\<lambda>_ _. True)"
  by (simp add: ensures_def keeps_def guarded_def)

lemma ensures_guarded:
  "keeps lawful m \<Longrightarrow> ensures q (\<lambda>_. True) m Q \<Longrightarrow> keeps (guarded q) m"
  by (rule keeps_guarded) (simp_all add: ensures_def)

lemma ensures_foreach:
  "(\<And>x. x \<in> set xs \<Longrightarrow> ensures q P (f x) (\<lambda>_. P)) \<Longrightarrow> ensures q P (foreach f xs) (\<lambda>_. P)"
  by (induction xs) (auto intro!: ensures_ret ensures_bind)

section \<open>The situations while a run is started\<close>

definition planning :: "string \<Rightarrow> world \<Rightarrow> bool" where
  "planning rid w \<longleftrightarrow> (\<forall>r \<in> set (w_runs w). run_id r = rid \<longrightarrow> run_state r = RunStatePlanning)"

definition fresh_record :: "planned_job_record \<Rightarrow> world \<Rightarrow> bool" where
  "fresh_record x w \<longleftrightarrow> unqueued (att_id (pjr_attempt x)) (job_id (pjr_job x)) w"

definition no_deps :: "string \<Rightarrow> world \<Rightarrow> bool" where
  "no_deps jid w \<longleftrightarrow> (\<forall>d \<in> set (w_dependencies w). dep_job_id d \<noteq> jid)"

definition distinct_records :: "planned_job_record list \<Rightarrow> bool" where
  "distinct_records recs \<longleftrightarrow> distinct (map (\<lambda>x. job_id (pjr_job x)) recs)
     \<and> distinct (map (\<lambda>x. att_id (pjr_attempt x)) recs)"

text \<open>While the jobs are created, nothing depends on anything yet.\<close>

definition creating :: "string \<Rightarrow> planned_job_record list \<Rightarrow> world \<Rightarrow> bool" where
  "creating rid recs w \<longleftrightarrow> planning rid w \<and> distinct_records recs
     \<and> (\<forall>x \<in> set recs. fresh_record x w \<and> no_deps (job_id (pjr_job x)) w)"

text \<open>While dependencies are recorded and jobs queued, the jobs still to come are free or wait.\<close>

definition arranged :: "planned_job_record list \<Rightarrow> world \<Rightarrow> bool" where
  "arranged recs w \<longleftrightarrow> distinct_records recs \<and> (\<forall>x \<in> set recs. fresh_record x w
     \<and> (pj_depends_on (pjr_planned x) = [] \<longrightarrow> no_deps (job_id (pjr_job x)) w))"

lemma creating_arranged: "creating rid recs w \<Longrightarrow> arranged recs w"
  by (simp add: creating_def arranged_def)

lemma core_facts: "core_fact (planning rid)" "core_fact (creating rid recs)" "core_fact (arranged recs)"
  by (auto simp: core_fact_def same_core_def planning_def creating_def arranged_def fresh_record_def
      unqueued_def no_deps_def)

lemma metric_core: "same_core w (world_after (metric e) w)"
  by (simp add: metric_def same_core_def)

lemma counted_failure_core:
  "(\<And>w. same_core w (world_after m w)) \<Longrightarrow> same_core w (world_after (counted_failure n m) w)"
  by (simp add: counted_failure_def bindE_try_prog metric_def same_core_def split: sum.splits)

lemma recordRunPlan_core: "same_core w (world_after (svc_recordRunPlan r p) w)"
  by (simp add: svc_recordRunPlan_def store_RecordRunPlan_def same_core_def Let_def)

lemma RecordJobSpec_core: "same_core w (world_after (store_RecordJobSpec jid doc) w)"
  by (simp add: store_RecordJobSpec_def same_core_def)

section \<open>Creating the jobs\<close>

lemma CreateJob_apply:
  assumes "job_state j = JobStateCreated"
  shows "store_CreateJob j w = (let row = j\<lparr>job_created_at := pg_now w, job_updated_at := pg_now w\<rparr> in
     case job_violation row w of Some e \<Rightarrow> (Inl e, w) | None \<Rightarrow> (Inr row, w\<lparr>w_jobs := w_jobs w @ [row]\<rparr>))"
  using assms by (simp add: store_CreateJob_def insert_job_def bindE_sql_insert Let_def split: option.splits)

lemma unqueued_job:
  assumes "wf_world w" and "unqueued aid jid w"
  shows "has_row job_id jid (w_jobs w)"
proof -
  obtain a where "a \<in> set (w_attempts w)" "att_job_id a = jid"
    using assms(2) by (auto simp: unqueued_def)
  with job_of_attempt [OF assms(1)] show ?thesis unfolding has_row_def by metis
qed

lemma new_job_created: "job_state (new_job jid rid planned) = JobStateCreated"
  by (simp add: new_job_def)

definition job_created :: "string \<Rightarrow> planned_job_record list \<Rightarrow> job \<Rightarrow> world \<Rightarrow> bool" where
  "job_created rid recs j w \<longleftrightarrow> creating rid recs w \<and> job_id j \<notin> set (map (\<lambda>x. job_id (pjr_job x)) recs)
     \<and> no_deps (job_id j) w \<and> (\<forall>k \<in> set (w_jobs w). job_id k = job_id j \<longrightarrow> job_state k = JobStateCreated)"

lemma job_created_core: "core_fact (job_created rid recs j)"
  using core_facts(2) by (auto simp: core_fact_def job_created_def same_core_def no_deps_def)

lemma CreateJob_ensures:
  "ensures q (creating rid recs) (store_CreateJob (new_job jid rid planned)) (job_created rid recs)"
proof (rule ensuresI)
  fix w :: world
  let ?row = "(new_job jid rid planned)\<lparr>job_created_at := pg_now w, job_updated_at := pg_now w\<rparr>"
  have unf: "store_CreateJob (new_job jid rid planned) w = (case job_violation ?row w of
      Some e \<Rightarrow> (Inl e, w) | None \<Rightarrow> (Inr ?row, w\<lparr>w_jobs := w_jobs w @ [?row]\<rparr>))"
    using CreateJob_apply [OF new_job_created] by (simp add: Let_def)
  assume inv: "inv q w" and c: "creating rid recs w"
  show "inv q (world_after (store_CreateJob (new_job jid rid planned)) w)"
  proof (cases "job_violation ?row w")
    case None
    have "inv q (w\<lparr>w_jobs := w_jobs w @ [?row]\<rparr>)"
      by (rule inv_new_job [OF inv None])
        (use c in \<open>auto simp: new_job_def creating_def planning_def\<close>)
    with None show ?thesis by (simp add: unf)
  qed (use inv in \<open>simp add: unf\<close>)
  fix j
  assume "outcome_of (store_CreateJob (new_job jid rid planned)) w = Inr j"
  then have v: "job_violation ?row w = None" and j: "j = ?row"
    by (auto simp: unf split: option.splits)
  have new: "\<not> has_row job_id jid (w_jobs w)"
    using v by (auto simp: job_violation_def new_job_def split: if_splits)
  have "dep_job_id d \<noteq> jid" if "d \<in> set (w_dependencies w)" for d
    using inv that new by (auto simp: inv_def wf_world_def wf_dependencies_def)
  have "job_id (pjr_job x) \<noteq> jid" if "x \<in> set recs" for x
  proof -
    have "has_row job_id (job_id (pjr_job x)) (w_jobs w)"
      using c that by (intro unqueued_job [OF inv_wf [OF inv]]) (auto simp: creating_def fresh_record_def)
    with new show ?thesis by auto
  qed
  have "job_id k \<noteq> jid" if "k \<in> set (w_jobs w)" for k
    using new that by (auto simp: has_row_def)
  show "job_created rid recs j (world_after (store_CreateJob (new_job jid rid planned)) w)"
  proof -
    have after: "world_after (store_CreateJob (new_job jid rid planned)) w = w\<lparr>w_jobs := w_jobs w @ [?row]\<rparr>"
      by (simp add: unf v)
    have row: "job_id ?row = jid" "job_state ?row = JobStateCreated" by (simp_all add: new_job_def)
    show ?thesis unfolding after j
      using c
        \<open>\<And>d. d \<in> set (w_dependencies w) \<Longrightarrow> dep_job_id d \<noteq> jid\<close>
        \<open>\<And>x. x \<in> set recs \<Longrightarrow> job_id (pjr_job x) \<noteq> jid\<close>
        \<open>\<And>k. k \<in> set (w_jobs w) \<Longrightarrow> job_id k \<noteq> jid\<close>
      by (auto simp: job_created_def creating_def planning_def fresh_record_def unqueued_def no_deps_def row
          simp del: job.update_convs)
  qed
qed

lemma CreateJobAttempt_apply:
  assumes "att_state a = JobStateCreated" and "att_number a = 1"
  shows "store_CreateJobAttempt a w = (let row = a\<lparr>att_created_at := pg_now w, att_updated_at := pg_now w\<rparr> in
     case attempt_violation row w of
       Some e \<Rightarrow> (Inl e, w)
     | None \<Rightarrow> (Inr row, w\<lparr>w_attempts := w_attempts w @ [row],
         w_jobs := update_rows job_id (att_job_id a) (\<lambda>j. j\<lparr>job_attempt_count := max (job_attempt_count j) 1,
           job_updated_at := pg_now w\<rparr>) (w_jobs w)\<rparr>))"
  using assms
  by (simp add: store_CreateJobAttempt_def insert_attempt_def bindE_sql_insert update_job_def with_tx_def Let_def
      split: option.splits)

lemma CreateJobAttempt_ensures:
  assumes aid: "aid \<noteq> ''''"
  shows "ensures q (job_created rid recs j) (store_CreateJobAttempt (new_attempt aid (job_id j)))
    (\<lambda>a. creating rid (recs @ [\<lparr>pjr_planned = planned, pjr_job = j\<lparr>job_attempt_count := att_number a\<rparr>, pjr_attempt = a\<rparr>]))"
proof (rule ensuresI)
  fix w :: world
  let ?row = "(new_attempt aid (job_id j))\<lparr>att_created_at := pg_now w, att_updated_at := pg_now w\<rparr>"
  let ?w1 = "w\<lparr>w_attempts := w_attempts w @ [?row]\<rparr>"
  let ?js = "update_rows job_id (job_id j) (\<lambda>j. j\<lparr>job_attempt_count := max (job_attempt_count j) 1,
    job_updated_at := pg_now w\<rparr>) (w_jobs w)"
  have row: "att_state (new_attempt aid jid) = JobStateCreated" "att_number (new_attempt aid jid) = 1"
    "att_job_id (new_attempt aid jid) = jid" "att_id (new_attempt aid jid) = aid" for jid
    by (simp_all add: new_attempt_def)
  have unf: "store_CreateJobAttempt (new_attempt aid (job_id j)) w = (case attempt_violation ?row w of
      Some e \<Rightarrow> (Inl e, w) | None \<Rightarrow> (Inr ?row, ?w1\<lparr>w_jobs := ?js\<rparr>))"
    using CreateJobAttempt_apply [of "new_attempt aid (job_id j)" w] unfolding Let_def row by simp
  assume inv: "inv q w" and c: "job_created rid recs j w"
  have wf': "wf_world (world_after (store_CreateJobAttempt (new_attempt aid (job_id j))) w)"
    using keepsD [OF CreateJobAttempt_lawful] inv_wf [OF inv] unfolding lawful_def by blast
  show "inv q (world_after (store_CreateJobAttempt (new_attempt aid (job_id j))) w)"
  proof (cases "attempt_violation ?row w")
    case None
    have "inv q ?w1"
      by (rule inv_new_attempt [OF inv None]) (use c aid in \<open>auto simp: row job_created_def\<close>)
    moreover have "wf_world (?w1\<lparr>w_jobs := ?js\<rparr>)" using wf' None by (simp add: unf)
    ultimately have "inv q (?w1\<lparr>w_jobs := ?js\<rparr>)"
      by (rule inv_same_views) (simp_all add: map_update_rows_view)
    with None show ?thesis by (simp add: unf)
  qed (use inv in \<open>simp add: unf\<close>)
  fix a
  assume "outcome_of (store_CreateJobAttempt (new_attempt aid (job_id j))) w = Inr a"
  then have v: "attempt_violation ?row w = None" and a: "a = ?row"
    by (auto simp: unf split: option.splits)
  have new: "\<not> has_row att_id aid (w_attempts w)"
    using v by (auto simp: attempt_violation_def row split: if_splits)
  have "att_id (pjr_attempt x) \<noteq> aid" if "x \<in> set recs" for x
    using c that new by (auto simp: job_created_def creating_def fresh_record_def unqueued_def has_row_def)
  then have "distinct_records (recs @ [\<lparr>pjr_planned = planned, pjr_job = j\<lparr>job_attempt_count := att_number a\<rparr>, pjr_attempt = a\<rparr>])"
    using c a by (auto simp: distinct_records_def job_created_def creating_def row)
  then show "creating rid (recs @ [\<lparr>pjr_planned = planned, pjr_job = j\<lparr>job_attempt_count := att_number a\<rparr>, pjr_attempt = a\<rparr>])
    (world_after (store_CreateJobAttempt (new_attempt aid (job_id j))) w)"
    using c v a
    by (auto simp: unf creating_def job_created_def planning_def fresh_record_def unqueued_def no_deps_def row)
qed

context service_env
begin

lemma id_ensures: "id_source m \<Longrightarrow> core_fact P \<Longrightarrow> ensures q P m (\<lambda>i w. P w \<and> i \<noteq> '''')"
  using id_source.next_id_core id_source.next_id_nonempty inv_same_core
  unfolding ensures_def core_fact_def by blast

lemma create_planned_job_ensures:
  "ensures q (creating (run_id r) recs) (create_planned_job S r planned) (\<lambda>x. creating (run_id r) (recs @ [x]))"
  unfolding create_planned_job_def
proof (rule ensures_bind [OF id_ensures [OF ids(2) core_facts(2)]], rule ensures_bind [OF ensures_wrap])
  fix jid
  show "ensures q (\<lambda>w. creating (run_id r) recs w \<and> jid \<noteq> '''') (store_CreateJob (new_job jid (run_id r) planned))
      (job_created (run_id r) recs)"
    by (rule ensures_pre [OF CreateJob_ensures]) simp
  fix j
  note core = job_created_core [of "run_id r" recs j]
  show "ensures q (job_created (run_id r) recs j)
    (bindE (metric (IncJob ''created'')) (\<lambda>_.
     bindE (wrap_error (Wrapped (''record job spec '' @ job_id j))
       (store_RecordJobSpec (job_id j) (JsonJobSpec (default_spec (job_name j) (pj_spec planned))))) (\<lambda>_.
     bindE (sv_JobAttemptID S) (\<lambda>aid.
     bindE (wrap_error (Wrapped (''create attempt for job '' @ job_id j))
       (store_CreateJobAttempt (new_attempt aid (job_id j)))) (\<lambda>a.
     ret \<lparr>pjr_planned = planned, pjr_job = j\<lparr>job_attempt_count := att_number a\<rparr>, pjr_attempt = a\<rparr>)))))
    (\<lambda>x. creating (run_id r) (recs @ [x]))"
  proof (rule ensures_bind [OF ensures_core [OF core metric_core]],
      rule ensures_bind [OF ensures_wrap [OF ensures_core [OF core RecordJobSpec_core]]],
      rule ensures_bind [OF id_ensures [OF ids(3) core]])
    fix aid
    have "ensures q (\<lambda>w. job_created (run_id r) recs j w \<and> aid \<noteq> '''')
      (wrap_error (Wrapped (''create attempt for job '' @ job_id j)) (store_CreateJobAttempt (new_attempt aid (job_id j))))
      (\<lambda>a. creating (run_id r) (recs @ [\<lparr>pjr_planned = planned, pjr_job = j\<lparr>job_attempt_count := att_number a\<rparr>, pjr_attempt = a\<rparr>]))"
      by (cases "aid = ''''") (simp add: ensures_def, simp add: CreateJobAttempt_ensures ensures_wrap)
    then show "ensures q (\<lambda>w. job_created (run_id r) recs j w \<and> aid \<noteq> '''')
      (bindE (wrap_error (Wrapped (''create attempt for job '' @ job_id j))
       (store_CreateJobAttempt (new_attempt aid (job_id j)))) (\<lambda>a.
       ret \<lparr>pjr_planned = planned, pjr_job = j\<lparr>job_attempt_count := att_number a\<rparr>, pjr_attempt = a\<rparr>))
      (\<lambda>x. creating (run_id r) (recs @ [x]))"
      by (rule ensures_bind) (rule ensures_ret)
  qed
qed

lemma create_planned_jobs_ensures:
  "ensures q (creating (run_id r) recs) (create_planned_jobs S r recs ps) (creating (run_id r))"
  by (induction ps arbitrary: recs)
    (auto intro!: ensures_ret ensures_fail ensures_bind [OF create_planned_job_ensures])

end


section \<open>Recording the dependencies\<close>

lemma arranged_created:
  assumes inv: "inv q w" and arr: "arranged recs w" and x: "x \<in> set recs"
    and j: "j \<in> set (w_jobs w)" "job_id j = job_id (pjr_job x)"
  shows "job_state j = JobStateCreated"
proof -
  have "fresh_record x w" using arr x by (auto simp: arranged_def)
  then obtain a where "a \<in> set (w_attempts w)" "att_job_id a = job_id j" "att_state a = JobStateCreated"
    using j(2) by (auto simp: fresh_record_def unqueued_def)
  with inv j(1) show ?thesis by (auto simp: inv_def work_ok_def synced_def)
qed

lemma distinct_records_job:
  "distinct_records recs \<Longrightarrow> x \<in> set recs \<Longrightarrow> y \<in> set recs \<Longrightarrow> job_id (pjr_job x) = job_id (pjr_job y) \<Longrightarrow> x = y"
  by (auto simp: distinct_records_def distinct_map dest: inj_onD)

lemma RecordJobDependency_frame:
  "w_attempts (world_after (store_RecordJobDependency jid on) w) = w_attempts w
   \<and> set (w_dependencies (world_after (store_RecordJobDependency jid on) w))
     \<subseteq> insert \<lparr>dep_job_id = jid, dep_on_job_id = on\<rparr> (set (w_dependencies w))"
  by (auto simp: store_RecordJobDependency_def)

lemma record_dependency_ensures:
  assumes x: "x \<in> set recs" and dep: "pj_depends_on (pjr_planned x) \<noteq> []"
  shows "ensures q (arranged recs) (store_RecordJobDependency (job_id (pjr_job x)) on) (\<lambda>_. arranged recs)"
proof (rule ensuresI)
  fix w :: world
  let ?w' = "world_after (store_RecordJobDependency (job_id (pjr_job x)) on) w"
  assume inv: "inv q w" and arr: "arranged recs w"
  show "inv q ?w'" by (rule inv_new_dependency [OF inv arranged_created [OF inv arr x]])
  show "arranged recs ?w'"
    unfolding arranged_def
  proof (intro conjI ballI impI)
    show "distinct_records recs" using arr by (simp add: arranged_def)
    fix y
    assume y: "y \<in> set recs"
    show "fresh_record y ?w'"
      using arr y RecordJobDependency_frame [of "job_id (pjr_job x)" on w]
      by (auto simp: arranged_def fresh_record_def unqueued_def)
    assume free: "pj_depends_on (pjr_planned y) = []"
    have "job_id (pjr_job y) \<noteq> job_id (pjr_job x)"
      using arr distinct_records_job [OF _ x y] dep free by (auto simp: arranged_def)
    with free show "no_deps (job_id (pjr_job y)) ?w'"
      using arr y RecordJobDependency_frame [of "job_id (pjr_job x)" on w]
      by (auto simp: arranged_def no_deps_def)
  qed
qed

lemma record_dependencies_ensures:
  assumes x: "x \<in> set recs"
  shows "ensures q (arranged recs) (record_dependencies all x) (\<lambda>_. arranged recs)"
  unfolding record_dependencies_def
proof (rule ensures_foreach)
  fix dep
  assume "dep \<in> set (pj_depends_on (pjr_planned x))"
  then have "pj_depends_on (pjr_planned x) \<noteq> []" by auto
  then show "ensures q (arranged recs)
    (if dep = pj_name (pjr_planned x)
     then fail (PlainError (''job '' @ dep @ '' cannot depend on itself''))
     else (case find_row (\<lambda>y. pj_name (pjr_planned y)) dep all of
         None \<Rightarrow> fail (PlainError (''job '' @ pj_name (pjr_planned x) @ '' depends on unknown job '' @ dep))
       | Some y \<Rightarrow>
           wrap_error (Wrapped (''record dependency for job '' @ job_id (pjr_job x)))
             (store_RecordJobDependency (job_id (pjr_job x)) (job_id (pjr_job y)))))
    (\<lambda>_. arranged recs)"
    by (auto intro!: ensures_fail ensures_wrap record_dependency_ensures [OF x] split: option.splits)
qed

section \<open>Queueing the free jobs\<close>

text \<open>Queueing an attempt leaves the other attempts and all dependencies alone.\<close>

definition others_kept :: "string \<Rightarrow> world \<Rightarrow> world \<Rightarrow> bool" where
  "others_kept aid w w' \<longleftrightarrow> w_dependencies w' = w_dependencies w
     \<and> (\<forall>a \<in> set (w_attempts w). att_id a \<noteq> aid \<longrightarrow> a \<in> set (w_attempts w'))"

interpretation ok: world_preorder "others_kept aid"
  by unfold_locales (auto simp: others_kept_def)

lemma arranged_tail: "arranged (x # xs) w \<Longrightarrow> others_kept (att_id (pjr_attempt x)) w w' \<Longrightarrow> arranged xs w'"
  unfolding arranged_def others_kept_def fresh_record_def unqueued_def no_deps_def distinct_records_def
  by (auto 0 3)

context service_env
begin

lemma queueJobAttempt_others: "keeps (others_kept (att_id a)) (svc_queueJobAttempt S j a)"
proof -
  have "keeps (others_kept i) (store_TransitionJobState jid st)" for i jid st
    by (rule keepsI)
      (auto simp: TransitionJobState_apply others_kept_def split: option.splits sum.splits)
  moreover have "keeps (others_kept i) (store_TransitionJobAttemptState i st)" for i st
    by (rule keepsI)
      (auto simp: TransitionJobAttemptState_apply others_kept_def set_update_rows split: option.splits sum.splits)
  moreover have "keeps (others_kept i) (metric e)" for i e
    by (rule keepsI) (simp add: metric_def others_kept_def)
  moreover have "keeps (others_kept i) (sv_enqueue S b)" for i b
    using dispatcher_contract.enqueue_grows [OF disp]
    by (auto simp: keeps_def others_kept_def queue_grows_def)
  ultimately show ?thesis
    unfolding svc_queueJobAttempt_def Let_def by (intro ok.keeps_rules)
qed

lemma queue_if_free_others: "keeps (others_kept (att_id (pjr_attempt x))) (queue_if_free S x)"
  unfolding queue_if_free_def by (intro ok.keeps_rules queueJobAttempt_others)

end

context work_env
begin

lemma queue_if_free_ensures: "ensures q (arranged (x # xs)) (queue_if_free S x) (\<lambda>_. arranged xs)"
proof (rule ensuresI)
  fix w :: world
  assume inv: "inv q w" and arr: "arranged (x # xs) w"
  show "arranged xs (world_after (queue_if_free S x) w)"
    by (rule arranged_tail [OF arr]) (rule keepsD [OF queue_if_free_others])
  show "inv q (world_after (queue_if_free S x) w)"
  proof (cases "pj_depends_on (pjr_planned x) = []")
    case True
    have "inv q (world_after (svc_queueJobAttempt S (pjr_job x) (pjr_attempt x)) w)"
      by (rule queueJobAttempt_inv [OF inv])
        (use arr True in \<open>auto simp: arranged_def fresh_record_def no_deps_def deps_done_def\<close>)
    then show ?thesis using True by (auto simp: queue_if_free_def bindE_def split: prod.splits sum.splits)
  qed (use inv in \<open>simp add: queue_if_free_def\<close>)
qed

lemma queue_all_ensures: "ensures q (arranged recs) (mapE (queue_if_free S) recs) (\<lambda>_ _. True)"
proof (induction recs)
  case Nil
  show ?case by (simp add: ensures_def)
next
  case (Cons x recs)
  show ?case
    unfolding mapE.simps
    by (rule ensures_bind [OF queue_if_free_ensures], rule ensures_bind [OF Cons.IH], rule ensures_ret) simp
qed

end


section \<open>Starting and creating a run\<close>

definition stays_planning :: "string \<Rightarrow> world \<Rightarrow> world \<Rightarrow> bool" where
  "stays_planning rid w w' \<longleftrightarrow> (wf_world w \<and> planning rid w \<longrightarrow> wf_world w' \<and> planning rid w')"

interpretation sp: world_preorder "stays_planning rid"
  by unfold_locales (auto simp: stays_planning_def)

lemma stays_planning_core: "(\<And>w. same_core w (world_after m w)) \<Longrightarrow> keeps (stays_planning rid) m"
  using core_facts(1) lawful_same_core unfolding core_fact_def keeps_def stays_planning_def lawful_def by blast

lemma ensures_stays:
  "keeps (guarded q) m \<Longrightarrow> keeps (stays_planning rid) m \<Longrightarrow> ensures q (planning rid) m (\<lambda>_. planning rid)"
  by (auto simp: ensures_def keeps_def guarded_def stays_planning_def dest: inv_wf)

lemma runs_reported_planning:
  assumes "runs_reported w w'" and "planning rid w"
  shows "planning rid w'"
  unfolding planning_def
proof (intro ballI impI)
  fix r'
  assume "r' \<in> set (w_runs w')" and rid: "run_id r' = rid"
  then obtain i where i: "i < length (w_runs w')" "r' = w_runs w' ! i" by (auto simp: in_set_conv_nth)
  then have "w_runs w ! i \<in> set (w_runs w)" "reported_run (w_runs w ! i) r'"
    using assms(1) by (simp_all add: runs_reported_def list_all2_conv_all_nth)
  with assms(2) rid show "run_state r' = RunStatePlanning"
    by (auto simp: planning_def reported_run_def)
qed

lemma begin_planning: "ensures q (\<lambda>_. True) (store_TransitionRunState rid RunStatePlanning) (\<lambda>_. planning rid)"
proof (rule ensuresI)
  fix w :: world and u
  assume inv: "inv q w"
  show "inv q (world_after (store_TransitionRunState rid RunStatePlanning) w)"
    by (rule TransitionRunState_inv [OF inv]) simp
  assume "outcome_of (store_TransitionRunState rid RunStatePlanning) w = Inr u"
  then have after: "world_after (store_TransitionRunState rid RunStatePlanning) w =
      w\<lparr>w_runs := update_rows run_id rid (\<lambda>r. r\<lparr>run_state := RunStatePlanning, run_updated_at := pg_now w\<rparr>) (w_runs w)\<rparr>"
    unfolding TransitionRunState_apply
    by (cases "find_row run_id rid (w_runs w)"; simp;
        cases "validateRunTransition rid (run_state (the (find_row run_id rid (w_runs w)))) RunStatePlanning"; simp)
  show "planning rid (world_after (store_TransitionRunState rid RunStatePlanning) w)"
    unfolding after planning_def
  proof (intro ballI impI)
    fix r
    assume "r \<in> set (w_runs (w\<lparr>w_runs := update_rows run_id rid
      (\<lambda>r. r\<lparr>run_state := RunStatePlanning, run_updated_at := pg_now w\<rparr>) (w_runs w)\<rparr>))" and rid: "run_id r = rid"
    then obtain s where "r = (if run_id s = rid then s\<lparr>run_state := RunStatePlanning, run_updated_at := pg_now w\<rparr> else s)"
      using update_rows_member by fastforce
    with rid show "run_state r = RunStatePlanning" by (cases "run_id s = rid") simp_all
  qed
qed

lemma creating_Nil: "planning rid w \<Longrightarrow> creating rid [] w"
  by (simp add: creating_def distinct_records_def)

context service_env
begin

lemma reportRun_planning: "ensures q (planning rid) (svc_reportRun S i) (\<lambda>_. planning rid)"
proof (rule ensures_stays [OF reportRun_guarded])
  have "keeps (stays_planning rid) (sv_report S i)"
    using runs_reported_planning [OF reporter_contract.report_frame [OF rep]]
      keepsD [OF reporter_contract.report_lawful [OF rep]]
    by (auto simp: keeps_def stays_planning_def lawful_def)
  then show "keeps (stays_planning rid) (svc_reportRun S i)"
    unfolding svc_reportRun_def counted_failure_def
    by (intro sp.keeps_rules stays_planning_core [where m = "metric e" for e] metric_core)
qed

lemma plan_planning: "core_fact P \<Longrightarrow> ensures q P (try_prog (sv_plan S req)) (\<lambda>_. P)"
  by (rule ensures_core) (simp_all add: try_prog_apply plan_core)

end

context work_env
begin

lemma arrange_and_queue:
  "ensures q (creating rid recs) (bindE (foreach (record_dependencies recs) recs) (\<lambda>_. mapE (queue_if_free S) recs))
     (\<lambda>_ _. True)"
  by (rule ensures_bind [OF ensures_pre [OF ensures_foreach]], rule record_dependencies_ensures, assumption,
      rule creating_arranged, assumption, rule queue_all_ensures)

lemma startRun_ensures: "ensures q (\<lambda>_. True) (svc_startRun S r) (\<lambda>_ _. True)"
proof -
  note planning_core = core_facts(1) [of "run_id r"]
  have failing: "ensures q (planning (run_id r)) (bindE (svc_failRun S (run_id r)) (\<lambda>_. fail e)) (\<lambda>_ _. True)" for e
    by (rule ensures_bind [OF ensures_pre [OF ensures_keeps [OF failRun_guarded]]]) (simp_all add: ensures_fail)
  have tail: "ensures q (\<lambda>_. True) (bindE (store_TransitionRunState (run_id r) RunStateQueued) (\<lambda>_.
      bindE (metric (IncRun ''queued'')) (\<lambda>_. bindE (svc_reportRun S (run_id r)) (\<lambda>_.
      bindE (store_GetRun (run_id r)) (\<lambda>r'. ret \<lparr>rd_run = r', rd_jobs = map record_detail recs', rd_plan = None\<rparr>)))))
      (\<lambda>_ _. True)" for recs'
    by (rule ensures_pre [OF ensures_keeps]) (intro gd.keeps_rules inv_intros reportRun_guarded, simp_all)
  have work: "ensures q (planning (run_id r)) (bindE (counted_failure ''run_plan_failed'' (svc_recordRunPlan r plan)) (\<lambda>_.
      bindE (create_planned_jobs S r [] (pl_jobs plan)) (\<lambda>recs.
      bindE (foreach (record_dependencies recs) recs) (\<lambda>_.
      bindE (mapE (queue_if_free S) recs) (\<lambda>recs'.
      bindE (store_TransitionRunState (run_id r) RunStateQueued) (\<lambda>_.
      bindE (metric (IncRun ''queued'')) (\<lambda>_.
      bindE (svc_reportRun S (run_id r)) (\<lambda>_.
      bindE (store_GetRun (run_id r)) (\<lambda>r'.
      ret \<lparr>rd_run = r', rd_jobs = map record_detail recs', rd_plan = None\<rparr>)))))))))
      (\<lambda>_ _. True)" for plan
    by (intro ensures_bind [OF ensures_core [OF planning_core counted_failure_core [OF recordRunPlan_core]]]
        ensures_bind [OF ensures_pre [OF create_planned_jobs_ensures creating_Nil]]
        ensures_bind [OF arrange_and_queue tail, unfolded bindE_assoc])
  show ?thesis
    unfolding svc_startRun_def
    by (rule ensures_bind [OF ensures_pre [OF ensures_keeps]], rule inv_intros, simp,
        rule ensures_bind [OF begin_planning],
        rule ensures_bind [OF ensures_core [OF planning_core metric_core]],
        rule ensures_bind [OF reportRun_planning],
        rule ensures_bind [OF plan_planning [OF planning_core]])
      (auto intro!: failing work split: sum.splits)
qed

lemma startRun_guarded: "keeps (guarded q) (svc_startRun S r)"
  by (rule ensures_guarded [OF startRun_lawful startRun_ensures])

lemma new_run_created: "run_state (new_run rid a b c) = RunStateCreated"
  by (simp add: new_run_def)

lemma svc_CreateRun_guarded: "keeps (guarded q) (svc_CreateRun S req)"
  unfolding svc_CreateRun_def validateCreateRunRequest_def
  by (intro gd.keeps_rules inv_intros ids_guarded startRun_guarded new_run_created)

lemma CreateRunFromTrigger_guarded: "keeps (guarded q) (svc_CreateRunFromTrigger S req t)"
  unfolding svc_CreateRunFromTrigger_def validateCreateRunRequest_def
  by (intro gd.keeps_rules inv_intros ids_guarded startRun_guarded new_run_created)

lemma RerunRun_guarded: "keeps (guarded q) (svc_RerunRun S rid key)"
  unfolding svc_RerunRun_def
  by (intro gd.keeps_rules inv_intros ids_guarded startRun_guarded new_run_created)

end

end
