(* ===== verification/WorkInvariant.thy ===== *)
theory WorkInvariant
  imports StartRun
begin

text \<open>
  The end of an attempt and the whole system keep the invariant: a dependent is queued
  only after the read of its dependencies has found them all succeeded, and every call
  of the API leads from a world that satisfies the invariant to another.
\<close>

section \<open>Releasing the dependents\<close>

lemma satisfied_deps_done:
  assumes wf: "wf_world w" and "outcome_of (store_DependenciesSatisfied dep) w = Inr True"
  shows "deps_done dep w"
  unfolding deps_done_def
proof (intro ballI impI)
  fix d k
  assume d: "d \<in> set (w_dependencies w)" and k: "k \<in> set (w_jobs w)"
    and eq: "dep_job_id d = dep \<and> job_id k = dep_on_job_id d"
  have "remaining_dependencies w dep = 0"
    using assms(2) by (simp add: store_DependenciesSatisfied_def split: if_splits)
  moreover have "find_row job_id (dep_on_job_id d) (w_jobs w) = Some k"
    using wf k eq by (intro find_row_unique) (simp_all add: wf_world_def wf_jobs_def)
  ultimately show "job_state k = JobStateSucceeded"
    using d eq by (auto simp: remaining_dependencies_def filter_empty_conv)
qed

lemma latest_unqueued:
  assumes "outcome_of (store_ListJobAttempts jid) w = Inr as" and "latestAttempt as = Some a"
    and "att_state a = JobStateCreated"
  shows "unqueued (att_id a) jid w"
proof -
  have "a \<in> set as" using assms(2) by (auto simp: latestAttempt_def split: if_splits)
  then have "a \<in> set (w_attempts w)" "att_job_id a = jid"
    using assms(1) by (auto simp: store_ListJobAttempts_def attempts_of_job_def)
  with assms(3) show ?thesis by (auto simp: unqueued_def)
qed

lemma move_linked_job:
  "job_id j = jid \<Longrightarrow> st \<noteq> JobStateCreated \<Longrightarrow> st \<noteq> JobStateQueued \<Longrightarrow>
   from_link q aid jid (try_prog (svc_transitionJobAndAttempt (job_id j) aid st))"
  by (intro gd.from_try_prog) (simp add: move_linked)

context work_env
begin

abbreviation gate_open :: "string \<Rightarrow> world \<Rightarrow> bool" where
  "gate_open dep w \<equiv> inv q w \<and> deps_done dep w"

lemma queue_dependent:
  assumes "inv q w" and "deps_done (job_id j) w" and "unqueued (att_id a) (job_id j) w"
  shows "guarded q w (world_after (svc_queueJobAttempt S j a) w)"
  by (rule guardedI' [OF keepsD [OF queueJobAttempt_lawful]]) (use assms queueJobAttempt_inv in blast)

lemma enqueue_attempt_of:
  "keeps_from (guarded q) (gate_open (job_id j))
    (bindE (store_ListJobAttempts (job_id j)) (\<lambda>attempts.
      case latestAttempt attempts of
        None \<Rightarrow> skip
      | Some a \<Rightarrow>
          if att_state a \<noteq> JobStateCreated then skip
          else bindE (try_prog (svc_queueJobAttempt S j a)) (\<lambda>res.
            case res of Inl e \<Rightarrow> if IsTransitionError e then skip else fail e | Inr _ \<Rightarrow> skip)))"
proof (rule gd.from_read)
  show "sees (gate_open (job_id j)) (store_ListJobAttempts (job_id j))
      (\<lambda>as w. outcome_of (store_ListJobAttempts (job_id j)) w = Inr as)"
    by (rule seesI) (simp_all add: store_ListJobAttempts_def)
  fix attempts
  have rest: "keeps (guarded q) (case res of Inl e \<Rightarrow> if IsTransitionError e then skip else fail e | Inr _ \<Rightarrow> skip)"
    for res :: "go_error + job \<times> job_attempt"
    by (intro gd.keeps_rules)
  show "keeps_from (guarded q)
      (\<lambda>w. gate_open (job_id j) w \<and> outcome_of (store_ListJobAttempts (job_id j)) w = Inr attempts)
      (case latestAttempt attempts of
        None \<Rightarrow> skip
      | Some a \<Rightarrow>
          if att_state a \<noteq> JobStateCreated then skip
          else bindE (try_prog (svc_queueJobAttempt S j a)) (\<lambda>res.
            case res of Inl e \<Rightarrow> if IsTransitionError e then skip else fail e | Inr _ \<Rightarrow> skip))"
    by (intro gd.from_case_option gd.from_if gd.from_keeps [OF gd.keeps_ret] keeps_fromI guarded_then rest)
      (auto simp: try_prog_apply intro: queue_dependent latest_unqueued)
qed

lemma enqueue_dependent_guarded: "keeps (guarded q) (enqueue_dependent S dep)"
  unfolding enqueue_dependent_def
proof (rule keeps_from_inv, rule gd.from_read)
  show "sees (known q (\<lambda>_. True)) (store_DependenciesSatisfied dep) (\<lambda>ready w. ready \<longrightarrow> deps_done dep w)"
    by (rule seesI) (auto simp: store_DependenciesSatisfied_def known_def inv_def
        intro: satisfied_deps_done [unfolded store_DependenciesSatisfied_def])
  fix ready
  show "keeps_from (guarded q) (\<lambda>w. known q (\<lambda>_. True) w \<and> (ready \<longrightarrow> deps_done dep w))
    (if \<not> ready then skip
     else
       bindE (store_GetJob dep) (\<lambda>dependent.
       if job_state dependent \<noteq> JobStateCreated then skip
       else
         bindE (store_ListJobAttempts (job_id dependent)) (\<lambda>attempts.
         case latestAttempt attempts of
           None \<Rightarrow> skip
         | Some a \<Rightarrow>
             if att_state a \<noteq> JobStateCreated then skip
             else
               bindE (try_prog (svc_queueJobAttempt S dependent a)) (\<lambda>res.
               case res of
                 Inl e \<Rightarrow> if IsTransitionError e then skip else fail e
               | Inr _ \<Rightarrow> skip))))"
  proof (rule gd.from_if, rule gd.from_keeps [OF gd.keeps_ret], rule gd.from_read)
    show "sees (\<lambda>w. known q (\<lambda>_. True) w \<and> (ready \<longrightarrow> deps_done dep w)) (store_GetJob dep) (\<lambda>j w. job_id j = dep)"
      by (rule seesI) (auto simp: store_GetJob_def select_by_apply dest: find_row_SomeD split: option.splits)
    assume "\<not> \<not> ready"
    then show "keeps_from (guarded q) (\<lambda>w. (known q (\<lambda>_. True) w \<and> (ready \<longrightarrow> deps_done dep w)) \<and> job_id j = dep)
      (if job_state j \<noteq> JobStateCreated then skip
       else bindE (store_ListJobAttempts (job_id j)) (\<lambda>attempts.
         case latestAttempt attempts of
           None \<Rightarrow> skip
         | Some a \<Rightarrow>
             if att_state a \<noteq> JobStateCreated then skip
             else
               bindE (try_prog (svc_queueJobAttempt S j a)) (\<lambda>res.
               case res of
                 Inl e \<Rightarrow> if IsTransitionError e then skip else fail e
               | Inr _ \<Rightarrow> skip)))" for j
      by (intro gd.from_if gd.from_keeps [OF gd.keeps_ret] gd.from_weaken [OF enqueue_attempt_of])
        (auto simp: known_def)
  qed
qed

lemma enqueueReadyDependents_guarded: "keeps (guarded q) (svc_enqueueReadyDependents S j)"
  unfolding svc_enqueueReadyDependents_def
  by (intro gd.keeps_rules inv_intros enqueue_dependent_guarded)

section \<open>Completing and cancelling a lease\<close>

lemma after_completion_guarded: "keeps (guarded q) (after_completion S j r t)"
  unfolding after_completion_def
  by (intro gd.keeps_rules inv_intros enqueueReadyDependents_guarded finalizeRunIfReady_guarded
      finalizeCancelIfReady_guarded best_effort_guarded)

lemma svc_CompleteLease_guarded: "keeps (guarded q) (svc_CompleteLease S msg)"
  unfolding svc_CompleteLease_def complete_attempt_def settle_completion_def
  by (intro gd.keeps_rules inv_intros read_attempt read_job;
      intro from_link_bind finish_attempt_from gd.from_keeps gd.keeps_rules inv_intros
        recordFailureExplanation_guarded after_completion_guarded) simp_all

lemma CancelLease_guarded: "keeps (guarded q) (svc_CancelLease S msg)"
  unfolding svc_CancelLease_def
  by (intro gd.keeps_rules inv_intros read_attempt read_job;
      intro gd.from_if from_link_bind move_linked_job gd.from_keeps gd.keeps_case_sum gd.keeps_rules inv_intros
        best_effort_guarded finalizeCancelIfReady_guarded) simp_all

end


section \<open>The whole system\<close>

lemma read_only_calls: "keeps (guarded q) (svc_DequeueJobAttempt t)" "keeps (guarded q) (svc_ExpireLeases n)"
  unfolding svc_DequeueJobAttempt_def svc_ExpireLeases_def by (intro gd.keeps_rules inv_intros)+

context work_env
begin

lemma serve_guarded: "guarded q w (serve S c w)"
proof (cases c)
  case (ClockTick pg host)
  then show ?thesis by (simp add: guarded_same_core same_core_def)
qed (simp_all add: keepsD [OF svc_CreateRun_guarded] keepsD [OF CreateRunFromTrigger_guarded]
    keepsD [OF RerunRun_guarded] keepsD [OF CancelRun_guarded] keepsD [OF svc_GrantLease_guarded]
    keepsD [OF svc_CompleteLease_guarded] keepsD [OF CancelLease_guarded] keepsD [OF svc_AckLease_guarded]
    keepsD [OF HandleHeartbeat_guarded] keepsD [OF read_only_calls(1)] keepsD [OF read_only_calls(2)])

lemma serves_guarded: "(serves S)\<^sup>*\<^sup>* w w' \<Longrightarrow> guarded q w w'"
  by (induction rule: rtranclp_induct) (auto elim!: serves_cases intro: gd.trans serve_guarded)

lemma reachable_inv: "(serves S)\<^sup>*\<^sup>* empty_world w \<Longrightarrow> inv q w"
  using serves_guarded inv_empty by (auto simp: guarded_def)

end

text \<open>Any service satisfies the contract without the promise about the queue.\<close>

lemma work_env_any: "service_env S \<Longrightarrow> work_env S False"
  by (simp add: work_env_def work_env_axioms_def)

lemma work_env_reliable: "service_env S \<Longrightarrow> reliable_dispatcher (sv_enqueue S) \<Longrightarrow> work_env S True"
  by (simp add: work_env_def work_env_axioms_def)

interpretation default_work: work_env "NewService None None None None None rand" False
  by (rule work_env_any) (rule default_env.service_env_axioms)

interpretation queue_work:
  work_env "NewService None (Some QueueDispatcher_EnqueueJobAttempt) None None None rand" True
  by (rule work_env_reliable [OF queue_env.service_env_axioms])
    (simp add: NewService_def queue_dispatcher.reliable_dispatcher_axioms)

end
