(* ===== verification/Outcomes.thy ===== *)
theory Outcomes
  imports WorkInvariant
begin

text \<open>
  What a successful call has established. \<open>yields P m Q\<close>: when \<open>m\<close> is run in a world that
  satisfies \<open>P\<close> and returns a value, the value and the next world satisfy \<open>Q\<close>. Facts that
  every lawful step preserves are carried past the rest of a handler.
\<close>

section \<open>Successful outcomes\<close>

definition yields :: "(world \<Rightarrow> bool) \<Rightarrow> 'a db \<Rightarrow> ('a \<Rightarrow> world \<Rightarrow> bool) \<Rightarrow> bool" where
  "yields P m Q \<longleftrightarrow> (\<forall>w a w'. P w \<and> m w = (Inr a, w') \<longrightarrow> Q a w')"

lemma yieldsI: "(\<And>w a w'. P w \<Longrightarrow> m w = (Inr a, w') \<Longrightarrow> Q a w') \<Longrightarrow> yields P m Q"
  unfolding yields_def by blast

lemma yieldsD: "yields P m Q \<Longrightarrow> P w \<Longrightarrow> m w = (Inr a, w') \<Longrightarrow> Q a w'"
  by (simp add: yields_def)

lemma yields_bind:
  "yields P m Q \<Longrightarrow> (\<And>a. yields (Q a) (k a) R) \<Longrightarrow> yields P (bindE m k) R"
  unfolding yields_def bindE_Inr_iff by blast

lemma yields_ret: "(\<And>w. P w \<Longrightarrow> Q a w) \<Longrightarrow> yields P (ret a) Q"
  by (simp add: yields_def)

lemma yields_fail: "yields P (fail e) Q"
  by (simp add: yields_def)

lemma yields_if: "(b \<Longrightarrow> yields P m Q) \<Longrightarrow> (\<not> b \<Longrightarrow> yields P n Q) \<Longrightarrow> yields P (if b then m else n) Q"
  by simp

lemma yields_pre: "yields P m Q \<Longrightarrow> (\<And>w. P' w \<Longrightarrow> P w) \<Longrightarrow> yields P' m Q"
  by (auto simp: yields_def)

lemma yields_post: "yields P m Q \<Longrightarrow> (\<And>a w. Q a w \<Longrightarrow> Q' a w) \<Longrightarrow> yields P m Q'"
  by (auto simp: yields_def)

lemma yields_sum:
  "(\<And>e. r = Inl e \<Longrightarrow> yields P (f e) Q) \<Longrightarrow> (\<And>a. r = Inr a \<Longrightarrow> yields P (g a) Q) \<Longrightarrow>
   yields P (case r of Inl e \<Rightarrow> f e | Inr a \<Rightarrow> g a) Q"
  by (cases r) simp_all

lemma yields_option:
  "(x = None \<Longrightarrow> yields P f Q) \<Longrightarrow> (\<And>a. x = Some a \<Longrightarrow> yields P (g a) Q) \<Longrightarrow>
   yields P (case x of None \<Rightarrow> f | Some a \<Rightarrow> g a) Q"
  by (cases x) simp_all

text \<open>A step that has been tried: its success is known only through its result.\<close>

lemma yields_try:
  assumes m: "yields P m Q" and k: "\<And>w. P w \<Longrightarrow> E (world_after m w)"
  shows "yields P (try_prog m) (\<lambda>r w. case r of Inl _ \<Rightarrow> E w | Inr a \<Rightarrow> Q a w)"
proof (rule yieldsI)
  fix w r w'
  assume "P w" and "try_prog m w = (Inr r, w')"
  then have "m w = (r, w')" and "P w" by (auto simp: try_prog_apply prod_eq_iff)
  then show "case r of Inl _ \<Rightarrow> E w' | Inr a \<Rightarrow> Q a w'"
    using yieldsD [OF m] k [of w] by (cases r) auto
qed

section \<open>Lasting facts\<close>

text \<open>A fact lasts when no lawful step can undo it.\<close>

definition lasting :: "(world \<Rightarrow> bool) \<Rightarrow> bool" where
  "lasting F \<longleftrightarrow> (\<forall>w w'. wf_world w \<and> F w \<and> lawful w w' \<longrightarrow> F w')"

abbreviation holds :: "(world \<Rightarrow> bool) \<Rightarrow> world \<Rightarrow> bool" where
  "holds F w \<equiv> wf_world w \<and> F w"

lemma lastingD: "lasting F \<Longrightarrow> wf_world w \<Longrightarrow> F w \<Longrightarrow> lawful w w' \<Longrightarrow> F w'"
  by (auto simp: lasting_def)

lemma holds_lawful: "lasting F \<Longrightarrow> holds F w \<Longrightarrow> lawful w w' \<Longrightarrow> holds F w'"
  by (auto simp: lasting_def lawful_def)

lemma lasting_True: "lasting (\<lambda>_. True)"
  by (simp add: lasting_def)

lemma lasting_conj: "lasting F \<Longrightarrow> lasting G \<Longrightarrow> lasting (\<lambda>w. F w \<and> G w)"
  by (auto simp: lasting_def)

lemma lasting_imp: "(b \<Longrightarrow> lasting F) \<Longrightarrow> lasting (\<lambda>w. b \<longrightarrow> F w)"
  by (cases b) (simp_all add: lasting_def)

lemma yields_keeps: "keeps lawful m \<Longrightarrow> lasting F \<Longrightarrow> yields (holds F) m (\<lambda>_. holds F)"
  by (rule yieldsI) (metis holds_lawful keepsD snd_conv)

lemma yields_adds:
  assumes "keeps lawful m" and "lasting F" and "\<And>w a w'. wf_world w \<Longrightarrow> m w = (Inr a, w') \<Longrightarrow> G a w'"
  shows "yields (holds F) m (\<lambda>a. holds (\<lambda>w. F w \<and> G a w))"
proof (rule yieldsI)
  fix w a w'
  assume h: "holds F w" and m: "m w = (Inr a, w')"
  have "lawful w w'" using keepsD [OF assms(1), of w] m by simp
  with h m assms(2,3) show "holds (\<lambda>w. F w \<and> G a w) w'" using holds_lawful by metis
qed

definition attempt_settled :: "string \<Rightarrow> job_state \<Rightarrow> world \<Rightarrow> bool" where
  "attempt_settled aid st w \<longleftrightarrow> (\<exists>a \<in> set (w_attempts w). att_id a = aid \<and> att_state a = st \<and> job_final st)"

definition lease_settled :: "string \<Rightarrow> lease_state \<Rightarrow> world \<Rightarrow> bool" where
  "lease_settled lid st w \<longleftrightarrow> (\<exists>l \<in> set (w_leases w). lease_id l = lid \<and> lease_state l = st \<and> \<not> lease_live st)"

lemma attempt_settled_lasting: "lasting (attempt_settled aid st)"
  unfolding lasting_def lawful_def evolves_def rows_evolve_def attempt_settled_def attempt_evolves_def
  using job_final_closure by metis

lemma lease_settled_lasting: "lasting (lease_settled lid st)"
  unfolding lasting_def lawful_def evolves_def rows_evolve_def lease_settled_def lease_evolves_def
  using lease_dead_closure by metis

end
