(* ===== verification/Scenario.thy ===== *)
theory Scenario
  imports WorkInvariant
begin

text \<open>
  A database in the middle of a run, written out row by row: the first of three jobs has
  finished, the second is running under an active lease that its runner acknowledged, and
  the third waits for the second. The properties are applied to it and to its variants.
\<close>

definition scene_run :: run where
  "scene_run = \<lparr>run_id = ''r'', run_repo_id = ''acme/app'', run_ref = ''main'', run_commit_sha = ''c0ffee'',
     run_state = RunStateRunning, run_created_at = 1, run_updated_at = 1\<rparr>"

definition scene_job :: "string \<Rightarrow> job_state \<Rightarrow> job" where
  "scene_job jid st = \<lparr>job_id = jid, job_run_id = ''r'', job_name = jid, job_required = True, job_state = st,
     job_attempt_count = 1, job_reason = '''', job_created_at = 1, job_updated_at = 1\<rparr>"

definition scene_attempt :: "string \<Rightarrow> string \<Rightarrow> job_state \<Rightarrow> job_attempt" where
  "scene_attempt aid jid st = \<lparr>att_id = aid, att_job_id = jid, att_number = 1, att_state = st,
     att_lease_id = None, att_created_at = 1, att_updated_at = 1, att_started_at = None,
     att_completed_at = None\<rparr>"

definition scene_lease :: "string \<Rightarrow> string \<Rightarrow> lease_state \<Rightarrow> go_time \<Rightarrow> lease" where
  "scene_lease lid aid st expires = \<lparr>lease_id = lid, lease_attempt_id = aid, lease_runner_id = Some ''runner-1'',
     lease_state = st, lease_ttl = 120, lease_heartbeat = 30, lease_granted_at = 1, lease_updated_at = 1,
     lease_acknowledged_at = None, lease_last_heartbeat_at = None, lease_expires_at = Some expires,
     lease_completed_at = None\<rparr>"

definition scene_queued :: "string \<Rightarrow> go_time \<Rightarrow> queue_item" where
  "scene_queued aid available = \<lparr>q_attempt_id = aid, q_available_at = available, q_inflight_until = None,
     q_delivery_count = 0, q_last_delivered_at = None\<rparr>"

text \<open>The jobs \<open>a\<close>, \<open>b\<close> and \<open>c\<close> with their attempts \<open>a1\<close>, \<open>b1\<close> and \<open>c1\<close>.\<close>

definition scene :: "job_state \<Rightarrow> job_state \<Rightarrow> job_state \<Rightarrow> lease list \<Rightarrow> queue_item list \<Rightarrow> world" where
  "scene sa sb sc ls qs = empty_world\<lparr>w_runs := [scene_run],
     w_jobs := [scene_job ''a'' sa, scene_job ''b'' sb, scene_job ''c'' sc],
     w_attempts := [scene_attempt ''a1'' ''a'' sa, scene_attempt ''b1'' ''b'' sb, scene_attempt ''c1'' ''c'' sc],
     w_leases := ls, w_queue := qs,
     w_dependencies := [\<lparr>dep_job_id = ''c'', dep_on_job_id = ''b''\<rparr>],
     pg_now := 50, host_now := 50\<rparr>"

lemmas scene_defs = scene_def scene_run_def scene_job_def scene_attempt_def scene_lease_def scene_queued_def
  empty_world_def

text \<open>The lease of \<open>a1\<close> is completed, that of \<open>b1\<close> is active until 100.\<close>

definition scene_running :: world where
  "scene_running = scene JobStateSucceeded JobStateRunning JobStateCreated
     [scene_lease ''la'' ''a1'' LeaseStateCompleted 100, scene_lease ''lb'' ''b1'' LeaseStateActive 100] []"

text \<open>The runner of \<open>b1\<close> has not been heard of: \<open>a1\<close> and \<open>b1\<close> wait in the queue.\<close>

definition scene_waiting :: world where
  "scene_waiting = scene JobStateQueued JobStateQueued JobStateCreated []
     [scene_queued ''b1'' 7, scene_queued ''a1'' 3]"

lemma scene_wf:
  "wf_world (scene JobStateSucceeded JobStateRunning JobStateCreated
     [scene_lease ''la'' ''a1'' LeaseStateCompleted 100, scene_lease ''lb'' ''b1'' LeaseStateActive 100] [])"
  "wf_world (scene JobStateQueued JobStateQueued JobStateCreated [] [scene_queued ''b1'' 7, scene_queued ''a1'' 3])"
  by (simp_all add: scene_defs wf_world_def wf_defs containsRunState_def containsJobState_def containsLeaseState_def)

lemma scene_inv: "inv True scene_running" "inv True scene_waiting"
  using scene_wf
  by (simp_all add: scene_running_def scene_waiting_def inv_def work_ok_def)
    (simp_all add: scene_defs single_attempts_def synced_def gated_def busy_def green_def none_lost_def)

end
