(* ===== verification/Evaluation.thy ===== *)
theory Evaluation
  imports System
begin

text \<open>
  Running the model on concrete worlds inside the logic. The congruence rules make the
  simplifier evaluate a program step by step: the continuation of a \<open>bindE\<close> is touched
  only once the step before it has been reduced to its result and the next world.
\<close>

lemma bindE_step_cong: "s = s' \<Longrightarrow> bindE m k s = bindE m k s'"
  by simp

lemma try_step_cong: "s = s' \<Longrightarrow> try_prog m s = try_prog m s'"
  by simp

lemma wrap_step_cong: "s = s' \<Longrightarrow> wrap_error f m s = wrap_error f m s'"
  by simp

lemma tx_step_cong: "s = s' \<Longrightarrow> with_tx m s = with_tx m s'"
  by simp

lemmas eval_congs = bindE_step_cong try_step_cong wrap_step_cong tx_step_cong

lemma bindE_step: "m s = (r, s') \<Longrightarrow>
   bindE m k s = (case r of Inl e \<Rightarrow> (Inl e, s') | Inr a \<Rightarrow> k a s')"
  by (simp add: bindE_def)

lemma try_prog_step: "m s = (r, s') \<Longrightarrow> try_prog m s = (Inr r, s')"
  by (simp add: try_prog_def)

lemma wrap_error_step: "m s = (r, s') \<Longrightarrow>
   wrap_error f m s = (case r of Inl e \<Rightarrow> (Inl (f e), s') | Inr a \<Rightarrow> (Inr a, s'))"
  by (simp add: wrap_error_def)

lemma with_tx_step: "m s = (r, s') \<Longrightarrow>
   with_tx m s = (case r of Inl e \<Rightarrow> (Inl e, s) | Inr a \<Rightarrow> (Inr a, s'))"
  by (cases r) (simp_all add: with_tx_def)

lemmas eval_steps = bindE_step try_prog_step wrap_error_step with_tx_step Let_def
  time_IsZero_def time_After_def time_second_def

lemmas eval_store =
  containsRunState_def containsJobState_def containsLeaseState_def validateRunTransition_def
  validateJobTransition_def validateLeaseTransition_def sql_insert_def select_by_def pg_integer_def
  integer_out_of_range_def run_violation_def insert_run_def update_run_def job_violation_def
  insert_job_def update_job_def attempt_violation_def insert_attempt_def update_attempt_def
  live_lease_of_def lease_violation_def insert_lease_def update_lease_def attempt_job_def
  attempt_job_run_def store_TransitionRunState_def store_TransitionJobState_def
  store_TransitionJobAttemptState_def store_TransitionLeaseState_def store_GrantLease_def
  lease_lapsed_def lapsed_error_def store_AcknowledgeLease_def store_TouchLeaseHeartbeat_def
  store_CompleteLease_def store_CreateRun_def store_GetRun_def store_GetJob_def store_CreateJob_def
  jobs_of_run_def store_ListJobsByRun_def store_CreateJobAttempt_def attempts_of_job_def
  store_ListJobAttempts_def store_GetJobAttempt_def store_GetLatestJobAttempt_def store_CreateLease_def
  store_GetLease_def store_MarkJobAttemptStarted_def store_MarkJobAttemptCompleted_def upsert_queue_def
  store_EnqueueJobAttempt_def queue_item_dead_def purge_queue_def queue_item_ready_def ready_items_def
  store_DequeueJobAttempt_def store_AckJobAttemptDispatch_def lease_expired_by_def expired_leases_def
  can_queue_def expire_lease_tx_def store_ExpireLeases_def store_RecordJobDependency_def
  dependents_of_def dependencies_of_def store_ListJobDependents_def store_ListJobDependencies_def
  remaining_dependencies_def store_DependenciesSatisfied_def store_RecordJobSpec_def
  store_GetJobSpec_def insert_artifact_def store_RecordArtifacts_def attempt_of_job_def
  store_ListArtifactsByJob_def insert_cache_event_def store_RecordCacheEvents_def upsert_explanation_def
  store_RecordFailureExplanation_def store_GetFailureExplanationByAttempt_def
  store_ListFailureExplanationsByJob_def trigger_violation_def insert_trigger_def unique_as_def
  store_getRunByTriggerKey_def store_CreateRunWithTrigger_def store_GetRunTrigger_def insert_rerun_def
  store_getRerunByKey_def store_CreateRunWithRerun_def store_RecordRunPlan_def store_GetRunPlan_def
  store_CreateRecipe_def store_FindRecipeByFingerprint_def store_TouchRecipeLastUsed_def
  store_GetStatusReport_def coalesce_def store_UpsertStatusReport_def

lemmas eval_service =
  metric_def unix_epoch_def randomID_def QueueDispatcher_EnqueueJobAttempt_def
  NoopDispatcher_EnqueueJobAttempt_def NoopStatusReporter_ReportRun_def cancelDeadlineSeconds_def
  counted_failure_def svc_reportRun_def svc_transitionJobAndAttempt_def svc_failRun_def
  svc_queueJobAttempt_def plan_detail_def svc_GetRunDetails_def validateCreateRunRequest_def new_run_def
  svc_recordRunPlan_def default_spec_def new_job_def new_attempt_def create_planned_job_def
  record_dependencies_def queue_if_free_def record_detail_def svc_startRun_def svc_CreateRun_def
  svc_CreateRunFromTrigger_def svc_RerunRun_def svc_updateRunPlanRecipe_def dependency_name_def
  recipe_job_def svc_buildRecipeJobs_def svc_persistRecipeIfNeeded_def svc_finalizeRunIfReady_def
  svc_finalizeCancelIfReady_def cancel_job_def request_cancel_def already_terminal_def svc_CancelRun_def
  svc_GrantLease_def svc_DequeueJobAttempt_def svc_ExpireLeases_def or_now_def svc_AckLease_def
  lease_is_stale_def stale_lease_def svc_HandleHeartbeat_def svc_recordFailureExplanation_def
  latestAttempt_def enqueue_dependent_def svc_enqueueReadyDependents_def finish_attempt_def
  record_outputs_def finalize_best_effort_def after_completion_def settle_completion_def
  complete_attempt_def svc_CompleteLease_def svc_CancelLease_def defaultMaxFailureSummaryLen_def
  defaultMaxFailureDetailsLen_def truncateText_def sanitizeText_def isGenericSummary_def containsAny_def
  appendDetail_def with_exit_code_def classifyFailure_def buildFailureDetails_def
  NewRuleBasedFailureAnalyzer_def advised_details_def RuleBased_Analyze_def
  NoopFailureAnalyzer_Analyze_def PlanSourceConfig_def PlanSourceRecipe_def PlanSourceDiscovery_def
  PlanSourceFallback_def simple_job_def StaticPlanner_Plan_def NewService_def

lemmas eval_strings =
  Itoa_def digit_char_def

lemmas eval_run = eval_steps eval_store eval_service eval_strings

end
