(* ===== verification/SystemProperties.thy ===== *)
theory SystemProperties
  imports WorkInvariant
begin

text \<open>
  What the whole system guarantees, whatever the calls, their order and the clocks: the
  schema and the histories of the rows, the gate in front of a dependent job, the
  agreement of a job with its attempt, the exclusive lease, the meaning of a successful
  run and the delivery of queued attempts.
\<close>

section \<open>A sample history\<close>

definition sample_rand :: "nat \<Rightarrow> string option" where
  "sample_rand n = Some [char_of (n mod 256), char_of (n div 256 mod 256)]"

text \<open>A build and a deployment that waits for it.\<close>

definition sample_jobs :: "planned_job list" where
  "sample_jobs = [simple_job ''build'' True ''go build ./...'' ''build first'',
     (simple_job ''deploy'' True ''make deploy'' ''after the build'')\<lparr>pj_depends_on := [''build'']\<rparr>]"

definition sample_service :: service where
  "sample_service = NewService (Some (StaticPlanner_Plan sample_jobs))
     (Some QueueDispatcher_EnqueueJobAttempt) None None None sample_rand"

text \<open>
  The build is leased, acknowledged and completed, which releases the deployment; the
  deployment is leased by a runner that vanishes, and the sweep queues it again.
\<close>

definition sample_calls :: "api_call list" where
  "sample_calls =
     [CallCreateRun \<lparr>crr_repo_id = ''acme/app'', crr_ref = ''main'', crr_commit_sha = ''c0ffee''\<rparr>,
      ClockTick 5000000000 5000000000, CallDequeueJobAttempt 0,
      CallGrantLease \<lparr>glr_attempt_id = ''attempt_0200'', glr_runner_id = ''runner-1'', glr_ttl_seconds = 120,
        glr_heartbeat_seconds = 30, glr_max_runtime_seconds = 600\<rparr>,
      CallAckLease \<lparr>ack_job_id = ''job_0100'', ack_lease_id = ''lease_0500'', ack_runner_id = ''runner-1'',
        ack_accepted_at = 6000000000\<rparr>,
      CallHeartbeat \<lparr>hb_lease_id = ''lease_0500'', hb_runner_id = ''runner-1'', hb_ts = 7000000000\<rparr>,
      CallCompleteLease \<lparr>cm_lease_id = ''lease_0500'', cm_runner_id = ''runner-1'',
        cm_status = CompleteStatusSucceeded, cm_exit_code = 0, cm_finished_at = 8000000000,
        cm_summary = ''ok'', cm_artifacts = [], cm_caches = []\<rparr>,
      CallDequeueJobAttempt 0,
      CallGrantLease \<lparr>glr_attempt_id = ''attempt_0400'', glr_runner_id = ''runner-2'', glr_ttl_seconds = 120,
        glr_heartbeat_seconds = 30, glr_max_runtime_seconds = 600\<rparr>,
      ClockTick 900000000000 900000000000, CallExpireLeases 10]"

definition sample_world :: world where
  "sample_world = foldl (\<lambda>w c. serve sample_service c w) empty_world sample_calls"

lemma serves_foldl: "(serves S)\<^sup>*\<^sup>* w (foldl (\<lambda>w c. serve S c w) w cs)"
proof (induction cs arbitrary: w)
  case (Cons c cs)
  have "serves S w (serve S c w)" by (rule serves.intros) simp
  with Cons.IH [of "serve S c w"] show ?case by (simp add: converse_rtranclp_into_rtranclp)
qed simp

lemma sample_reachable: "(serves sample_service)\<^sup>*\<^sup>* empty_world sample_world"
  unfolding sample_world_def by (rule serves_foldl)

lemma sample_env: "service_env sample_service"
  unfolding sample_service_def
  by (rule service_env.intro)
    (simp_all add: NewService_def queue_dispatcher.dispatcher_contract_axioms
      noop_reporter.reporter_contract_axioms random_id.id_source_axioms StaticPlanner_core
      default_analyzer_core)

lemma sample_reliable: "reliable_dispatcher (sv_enqueue sample_service)"
  unfolding sample_service_def NewService_def by (simp add: queue_dispatcher.reliable_dispatcher_axioms)

lemma reachable_work: "service_env S \<Longrightarrow> (serves S)\<^sup>*\<^sup>* empty_world w \<Longrightarrow> inv False w"
  using work_env.reachable_inv [OF work_env_any] .

section \<open>Guarantees\<close>

text \<open>
  C7: Whatever sequence of API calls the service serves, with any planner, dispatcher,
  id generator, reporter and analyzer that respect their interfaces, the constraints of
  the schema hold, no run, job, attempt, lease, dependency, trigger or rerun record is
  lost, no identity changes and every state moves only along the transition tables.
\<close>

theorem schema_and_histories:
  assumes "service_env S" and "wf_world w" and "(serves S)\<^sup>*\<^sup>* w w'"
  shows "wf_world w' \<and> evolves w w'"
  using service_env.serves_lawful [OF assms(1,3)] assms(2) by (simp add: lawful_def)

theorem schema_and_histories_witness:
  "wf_world sample_world \<and> evolves empty_world sample_world"
  by (rule schema_and_histories [OF sample_env wf_empty_world sample_reachable])

text \<open>
  C1: The dependency gate. In every world the system reaches from an empty database, a
  job that has left \<open>CREATED\<close> depends only on jobs that have \<open>SUCCEEDED\<close>: no job is
  queued, leased or run before the jobs it depends on have finished successfully.
\<close>

theorem dependency_gate:
  assumes "service_env S" and "(serves S)\<^sup>*\<^sup>* empty_world w"
  shows "gated (w_jobs w) (w_dependencies w)"
  using reachable_work [OF assms] by (simp add: inv_def work_ok_def)

theorem dependency_gate_witness: "gated (w_jobs sample_world) (w_dependencies sample_world)"
  by (rule dependency_gate [OF sample_env sample_reachable])



text \<open>
  C3: The exclusive lease. In every reachable world an attempt has at most one lease that
  is granted or active, and an attempt under such a lease is neither waiting to be created
  nor in the queue, so no second runner can be given the same attempt.
\<close>

theorem exclusive_lease:
  assumes "service_env S" and "(serves S)\<^sup>*\<^sup>* empty_world w"
  shows "one_live_lease (w_leases w) \<and> busy (w_attempts w) (w_leases w)"
  using reachable_work [OF assms] by (simp add: inv_def wf_world_def wf_leases_def work_ok_def)

theorem exclusive_lease_witness:
  "one_live_lease (w_leases sample_world) \<and> busy (w_attempts sample_world) (w_leases sample_world)"
  by (rule exclusive_lease [OF sample_env sample_reachable])

text \<open>
  C5: A run that is \<open>SUCCESS\<close> has only \<open>SUCCEEDED\<close> required jobs, now and in every world
  that the system reaches later.
\<close>

theorem green_run:
  assumes "service_env S" and "(serves S)\<^sup>*\<^sup>* empty_world w"
  shows "green (w_runs w) (w_jobs w)"
  using reachable_work [OF assms] by (simp add: inv_def work_ok_def)

theorem green_run_witness: "green (w_runs sample_world) (w_jobs sample_world)"
  by (rule green_run [OF sample_env sample_reachable])

text \<open>
  C2: No queued attempt is lost. With the queue dispatcher (or any that delivers), every
  attempt in state \<open>QUEUED\<close> whose run still accepts work has its item in the dispatch
  queue, through enqueueing, delivery, leasing, cancellation and the sweep of expired
  leases, so a runner that keeps polling will be offered it.
\<close>

theorem no_attempt_lost:
  assumes "service_env S" and "reliable_dispatcher (sv_enqueue S)" and "(serves S)\<^sup>*\<^sup>* empty_world w"
  shows "none_lost (w_runs w) (w_jobs w) (w_attempts w) (w_queue w)"
  using work_env.reachable_inv [OF work_env_reliable [OF assms(1,2)] assms(3)]
  by (simp add: inv_def work_ok_def)

theorem no_attempt_lost_witness:
  "none_lost (w_runs sample_world) (w_jobs sample_world) (w_attempts sample_world) (w_queue sample_world)"
  by (rule no_attempt_lost [OF sample_env sample_reliable sample_reachable])

end
