(* ===== verification/LeaseProperties.thy ===== *)
theory LeaseProperties
  imports Outcomes Scenario Evaluation SystemProperties
begin

text \<open>
  The lease protocol between the orchestrator and its runners: fencing of stale messages,
  the effect of a completion and of its repetition, and the grant of a lease.
\<close>

section \<open>Fencing\<close>

definition message_time :: "go_time \<Rightarrow> world \<Rightarrow> go_time" where
  "message_time t w = (if time_IsZero t then host_now w else t)"

text \<open>A message that arrives at \<open>t\<close> for lease \<open>lid\<close> is too late.\<close>

definition fenced :: "string \<Rightarrow> go_time \<Rightarrow> world \<Rightarrow> bool" where
  "fenced lid t w \<longleftrightarrow> (\<exists>l \<in> set (w_leases w). lease_id l = lid
     \<and> (\<not> lease_live (lease_state l) \<or> lease_lapsed l (message_time t w)))"

definition stale_reply :: "world \<Rightarrow> (go_error + 'a) \<times> world" where
  "stale_reply w = (Inl ErrStaleLease, w\<lparr>w_metrics := IncFailure ''stale_lease'' # w_metrics w\<rparr>)"

lemma fenced_row:
  assumes "wf_world w" and "fenced lid t w"
  obtains l where "find_row lease_id lid (w_leases w) = Some l" "lease_id l = lid"
    "\<not> lease_live (lease_state l) \<or> lease_lapsed l (message_time t w)" "containsLeaseState (lease_state l)"
proof -
  obtain l where l: "l \<in> set (w_leases w)" "lease_id l = lid"
    "\<not> lease_live (lease_state l) \<or> lease_lapsed l (message_time t w)"
    using assms(2) by (auto simp: fenced_def)
  moreover have "find_row lease_id lid (w_leases w) = Some l"
    using assms(1) l(1,2) by (intro find_row_unique) (auto simp: wf_world_def wf_leases_def)
  moreover have "containsLeaseState (lease_state l)"
    using assms(1) l(1) by (auto simp: wf_world_def wf_leases_def)
  ultimately show ?thesis using that by blast
qed

lemma or_now_apply: "bindE (or_now t) k w = k (message_time t w) w"
  by (simp add: or_now_def message_time_def)

lemma stale_lease_apply: "stale_lease w = stale_reply w"
  by (simp add: stale_lease_def stale_reply_def metric_def)

lemma dead_is_stale: "\<not> lease_live (lease_state l) \<or> lease_lapsed l t \<Longrightarrow> lease_is_stale l t"
  by (auto simp: lease_is_stale_def)

lemma dead_cannot_activate:
  "\<not> lease_live st \<Longrightarrow> containsLeaseState st \<Longrightarrow>
   \<exists>e. validateLeaseTransition i st LeaseStateActive = Inl e \<and> IsTransitionError e"
  by (cases st) (auto simp: validateLeaseTransition_def containsLeaseState_def)

lemma fenced_ack:
  assumes "wf_world w" and "fenced (ack_lease_id m) (ack_accepted_at m) w"
  shows "svc_AckLease m w = stale_reply w"
proof -
  obtain l where l: "find_row lease_id (ack_lease_id m) (w_leases w) = Some l"
    "\<not> lease_live (lease_state l) \<or> lease_lapsed l (message_time (ack_accepted_at m) w)"
    "containsLeaseState (lease_state l)"
    using fenced_row [OF assms] by metis
  obtain e where "store_AcknowledgeLease (ack_lease_id m) (ack_runner_id m) (message_time (ack_accepted_at m) w) w = (Inl e, w)"
    "IsTransitionError e"
  proof (cases "lease_lapsed l (message_time (ack_accepted_at m) w)")
    case True
    with l(1) that show ?thesis by (simp add: AcknowledgeLease_apply lapsed_error_def)
  next
    case False
    with l dead_cannot_activate [of "lease_state l" "ack_lease_id m"] that show ?thesis
      by (auto simp: AcknowledgeLease_apply)
  qed
  then show ?thesis
    by (simp add: svc_AckLease_def or_now_apply bindE_try_prog metric_def stale_reply_def)
qed

lemma fenced_read:
  assumes "wf_world w" and "fenced lid t w"
  shows "bindE (store_GetLease lid) (\<lambda>l. if lease_is_stale l (message_time t w) then stale_lease else k l) w = stale_reply w"
proof -
  obtain l where "find_row lease_id lid (w_leases w) = Some l" "lease_is_stale l (message_time t w)"
    using fenced_row [OF assms] dead_is_stale by metis
  then show ?thesis by (simp add: store_GetLease_def bindE_select_by stale_lease_apply)
qed

lemma fenced_heartbeat:
  "wf_world w \<Longrightarrow> fenced (hb_lease_id m) (hb_ts m) w \<Longrightarrow> svc_HandleHeartbeat m w = stale_reply w"
  unfolding svc_HandleHeartbeat_def or_now_apply by (rule fenced_read)

lemma fenced_complete:
  "wf_world w \<Longrightarrow> fenced (cm_lease_id m) (cm_finished_at m) w \<Longrightarrow> svc_CompleteLease S m w = stale_reply w"
  unfolding svc_CompleteLease_def or_now_apply by (rule fenced_read)

lemma fenced_cancel:
  assumes "wf_world w" and "fenced (ca_lease_id m) (ca_ts m) w" and "ca_final_status m = CancelFinalStatusCanceled"
  shows "svc_CancelLease S m w = stale_reply w"
  unfolding svc_CancelLease_def or_now_apply by (simp only: assms(3) not_True_eq_False if_False simp_thms)
    (rule fenced_read [OF assms(1,2)])

text \<open>
  C8: Fencing. Once a lease is settled (expired, completed, canceled, revoked) or its
  expiry lies before the time of a message, an acknowledgement, a heartbeat, a
  completion or a cancellation for it is answered \<open>ErrStaleLease\<close>, and nothing in the
  database changes: a runner that lost its lease cannot influence the attempt any more.
\<close>

theorem stale_messages_are_fenced:
  assumes "wf_world w"
  shows "(fenced (ack_lease_id a) (ack_accepted_at a) w \<longrightarrow> svc_AckLease a w = stale_reply w)
    \<and> (fenced (hb_lease_id h) (hb_ts h) w \<longrightarrow> svc_HandleHeartbeat h w = stale_reply w)
    \<and> (fenced (cm_lease_id m) (cm_finished_at m) w \<longrightarrow> svc_CompleteLease S m w = stale_reply w)
    \<and> (fenced (ca_lease_id c) (ca_ts c) w \<and> ca_final_status c = CancelFinalStatusCanceled
        \<longrightarrow> svc_CancelLease S c w = stale_reply w)"
  using fenced_ack fenced_heartbeat fenced_complete fenced_cancel assms by blast

theorem stale_messages_are_fenced_witness:
  "svc_HandleHeartbeat \<lparr>hb_lease_id = ''la'', hb_runner_id = ''runner-1'', hb_ts = 60\<rparr> scene_running
     = stale_reply scene_running
   \<and> svc_CompleteLease sample_service \<lparr>cm_lease_id = ''lb'', cm_runner_id = ''runner-1'',
        cm_status = CompleteStatusSucceeded, cm_exit_code = 0, cm_finished_at = 101, cm_summary = ''late'',
        cm_artifacts = [], cm_caches = []\<rparr> scene_running = stale_reply scene_running"
proof -
  have "fenced ''la'' 60 scene_running" "fenced ''lb'' 101 scene_running"
    by (simp_all add: fenced_def scene_running_def scene_defs lease_lapsed_def message_time_def
        time_IsZero_def time_After_def)
  then show ?thesis
    using stale_messages_are_fenced [OF inv_wf [OF scene_inv(1)],
        where h = "\<lparr>hb_lease_id = ''la'', hb_runner_id = ''runner-1'', hb_ts = 60\<rparr>"
        and m = "\<lparr>cm_lease_id = ''lb'', cm_runner_id = ''runner-1'',
          cm_status = CompleteStatusSucceeded, cm_exit_code = 0, cm_finished_at = 101, cm_summary = ''late'',
          cm_artifacts = [], cm_caches = []\<rparr>" and S = sample_service]
    by simp
qed

section \<open>Completing a lease\<close>

lemma transition_pair_attempt:
  assumes "svc_transitionJobAndAttempt jid aid st w = (Inr u, w')"
  shows "\<exists>a \<in> set (w_attempts w'). att_id a = aid \<and> att_state a = st"
proof -
  obtain u1 w1 where w1: "store_TransitionJobAttemptState aid st w = (Inr u1, w1)"
    and w2: "store_TransitionJobState jid st w1 = (Inr u, w')"
    using assms by (auto simp: svc_transitionJobAndAttempt_def bindE_Inr_iff)
  obtain a where a: "find_row att_id aid (w_attempts w) = Some a"
    and "w1 = w\<lparr>w_attempts := update_rows att_id aid (\<lambda>a. a\<lparr>att_state := st, att_updated_at := pg_now w\<rparr>) (w_attempts w)\<rparr>"
    using w1 by (auto simp: TransitionJobAttemptState_apply split: option.splits sum.splits)
  then have "w_attempts w1 = update_rows att_id aid (\<lambda>a. a\<lparr>att_state := st, att_updated_at := pg_now w\<rparr>) (w_attempts w)"
    by simp
  moreover have "w_attempts w' = w_attempts w1"
    using w2 by (auto simp: TransitionJobState_apply split: option.splits sum.splits)
  ultimately have "a\<lparr>att_state := st, att_updated_at := pg_now w\<rparr> \<in> set (w_attempts w')"
    using find_row_SomeD [OF a] by (force simp: set_update_rows)
  then show ?thesis using find_row_SomeD [OF a] by (intro bexI) auto
qed

lemma finish_attempt_result:
  assumes "finish_attempt j a status w = (Inr t, w')"
  shows "completion_target status = Some t \<and> (t = JobStateSucceeded \<longrightarrow> attempt_settled (att_id a) t w')"
proof -
  obtain w1 u where "completion_target status = Some t"
    and "svc_transitionJobAndAttempt (job_id j) (att_id a) t w1 = (Inr u, w')"
    using assms unfolding finish_attempt_def
    by (auto simp: bindE_Inr_iff split: option.splits)
  then show ?thesis
    using transition_pair_attempt by (fastforce simp: attempt_settled_def)
qed

lemma store_CompleteLease_result:
  assumes "store_CompleteLease lid now LeaseStateCompleted w = (Inr l, w')"
  shows "lease_settled lid LeaseStateCompleted w'"
proof -
  let ?upd = "\<lambda>l. l\<lparr>lease_state := LeaseStateCompleted, lease_completed_at := Some now, lease_updated_at := now\<rparr>"
  obtain x where x: "find_row lease_id lid (w_leases w) = Some x"
    and "w' = w\<lparr>w_leases := update_rows lease_id lid ?upd (w_leases w)\<rparr>"
    using assms by (auto simp: CompleteLease_apply Let_def split: option.splits sum.splits if_splits)
  then have "w_leases w' = update_rows lease_id lid ?upd (w_leases w)" by simp
  then have "?upd x \<in> set (w_leases w')" using find_row_SomeD [OF x] by (force simp: set_update_rows)
  then show ?thesis
    unfolding lease_settled_def using find_row_SomeD [OF x] by (intro bexI [of _ "?upd x"]) simp_all
qed


text \<open>What the rest of the handler establishes once the lease \<open>l\<close> has been read.\<close>

definition completed :: "complete_msg \<Rightarrow> lease \<Rightarrow> world \<Rightarrow> bool" where
  "completed msg l w \<longleftrightarrow> cm_status msg \<in> {CompleteStatusSucceeded, CompleteStatusFailed}
     \<and> (cm_status msg = CompleteStatusSucceeded \<longrightarrow> attempt_settled (lease_attempt_id l) JobStateSucceeded w)
     \<and> lease_settled (lease_id l) LeaseStateCompleted w"

lemma completed_lasting: "lasting (completed msg l)"
  using attempt_settled_lasting lease_settled_lasting unfolding completed_def lasting_def by meson

definition target_reached :: "string \<Rightarrow> complete_status \<Rightarrow> job_state \<Rightarrow> world \<Rightarrow> bool" where
  "target_reached aid status t w \<longleftrightarrow> completion_target status = Some t
     \<and> (t = JobStateSucceeded \<longrightarrow> attempt_settled aid t w)"

lemma target_reached_lasting: "lasting (target_reached aid status t)"
  using attempt_settled_lasting unfolding target_reached_def lasting_def by meson

lemma finish_attempt_yields:
  "yields (holds (\<lambda>_. True)) (finish_attempt j a status) (\<lambda>t. holds (target_reached (att_id a) status t))"
  by (rule yields_post [OF yields_adds [OF finish_attempt_lawful lasting_True, where G = "target_reached (att_id a) status"]])
    (use finish_attempt_result in \<open>auto simp: target_reached_def\<close>)

lemma complete_store_yields:
  "lasting F \<Longrightarrow> yields (holds F) (store_CompleteLease lid now LeaseStateCompleted)
     (\<lambda>_. holds (\<lambda>w. F w \<and> lease_settled lid LeaseStateCompleted w))"
  by (rule yields_adds [OF CompleteLease_lawful]) (auto intro: store_CompleteLease_result)

lemma target_completed:
  "target_reached (lease_attempt_id l) (cm_status msg) t w \<Longrightarrow> lease_settled (lease_id l) LeaseStateCompleted w \<Longrightarrow>
   completed msg l w"
  by (cases "cm_status msg") (auto simp: target_reached_def completed_def)

lemma yields_same: "lasting F \<Longrightarrow> keeps lawful m \<Longrightarrow> yields (holds F) m (\<lambda>_. holds F)"
  by (rule yields_keeps)

context service_env
begin

lemma settle_completion_yields:
  "yields (holds (target_reached (lease_attempt_id l) (cm_status msg) t)) (settle_completion S msg now l a j r t)
     (\<lambda>_. holds (completed msg l))"
proof -
  have rest: "yields (holds (completed msg l)) (bindE (record_outputs a (cm_artifacts msg) (cm_caches msg)) (\<lambda>_.
      bindE (if t = JobStateFailed then svc_recordFailureExplanation S j a msg (cm_artifacts msg) else skip) (\<lambda>_.
      after_completion S j r t))) (\<lambda>_. holds (completed msg l))"
    by (intro yields_keeps [OF _ completed_lasting] lw.keeps_rules keeps_intros
        recordFailureExplanation_lawful after_completion_lawful)
  note step = yields_bind [OF yields_keeps [OF _ target_reached_lasting]]
  show ?thesis
    unfolding settle_completion_def
    by (rule step [OF metric_lawful], rule step [OF metric_lawful],
        rule step [OF lw.keeps_if [OF metric_lawful lw.keeps_ret]], rule step [OF MarkJobAttemptCompleted_lawful],
        rule yields_bind [OF yields_try [OF complete_store_yields [OF target_reached_lasting],
            where E = "\<lambda>_. True", OF TrueI]], rule yields_sum, intro yields_if yields_fail,
        rule yields_pre [OF rest]) (auto dest: target_completed)
qed

lemma complete_attempt_yields:
  "yields (holds (\<lambda>_. True)) (complete_attempt S msg now l) (\<lambda>_. holds (completed msg l))"
  unfolding complete_attempt_def
proof (rule yields_bind)
  show "yields (holds (\<lambda>_. True)) (store_GetJobAttempt (lease_attempt_id l))
      (\<lambda>a w. wf_world w \<and> att_id a = lease_attempt_id l)"
    by (rule yieldsI)
      (auto simp: store_GetJobAttempt_def select_by_apply dest: find_row_SomeD split: option.splits)
  fix a
  have "yields (holds (\<lambda>_. True)) (bindE (store_GetJob (att_job_id a)) (\<lambda>j.
      bindE (store_GetRun (job_run_id j)) (\<lambda>r.
      bindE (finish_attempt j a (cm_status msg)) (settle_completion S msg now l a j r)))) (\<lambda>_. holds (completed msg l))"
    if aid: "att_id a = lease_attempt_id l"
    by (intro yields_bind [OF yields_keeps [OF _ lasting_True]]
        yields_bind [OF finish_attempt_yields [where a = a, unfolded aid]] settle_completion_yields keeps_intros)
  then show "yields (\<lambda>w. wf_world w \<and> att_id a = lease_attempt_id l) (bindE (store_GetJob (att_job_id a)) (\<lambda>j.
      bindE (store_GetRun (job_run_id j)) (\<lambda>r.
      bindE (finish_attempt j a (cm_status msg)) (settle_completion S msg now l a j r)))) (\<lambda>_. holds (completed msg l))"
    by (auto simp: yields_def)
qed

text \<open>The lease that a successful completion has found, and what it has left behind.\<close>

lemma CompleteLease_result:
  assumes wf: "wf_world w" and ok: "svc_CompleteLease S msg w = (Inr u, w')"
  shows "wf_world w' \<and> (\<exists>l \<in> set (w_leases w). lease_id l = cm_lease_id msg
    \<and> \<not> lease_is_stale l (message_time (cm_finished_at msg) w) \<and> completed msg l w')"
proof -
  let ?now = "message_time (cm_finished_at msg) w"
  obtain l where l: "find_row lease_id (cm_lease_id msg) (w_leases w) = Some l" "\<not> lease_is_stale l ?now"
    and rest: "complete_attempt S msg ?now l w = (Inr u, w')"
    using ok by (auto simp: svc_CompleteLease_def or_now_apply store_GetLease_def bindE_select_by
        stale_lease_apply stale_reply_def split: option.splits if_splits)
  have "holds (completed msg l) w'" using yieldsD [OF complete_attempt_yields _ rest] wf by simp
  with l find_row_SomeD [OF l(1)] show ?thesis by blast
qed

end


definition scene_done :: complete_msg where
  "scene_done = \<lparr>cm_lease_id = ''lb'', cm_runner_id = ''runner-1'', cm_status = CompleteStatusSucceeded,
     cm_exit_code = 0, cm_finished_at = 60, cm_summary = ''ok'', cm_artifacts = [], cm_caches = []\<rparr>"

lemma scene_done_succeeds:
  "svc_CompleteLease sample_service scene_done scene_running =
     (Inr (), world_after (svc_CompleteLease sample_service scene_done) scene_running)"
  by (simp add: eval_run scene_done_def sample_service_def scene_running_def scene_defs cong: eval_congs)

text \<open>
  C9: A completion that is accepted was sent for an active lease that had not expired,
  with one of the two known statuses; it leaves the lease \<open>COMPLETED\<close>, and a reported
  success leaves the attempt of that lease \<open>SUCCEEDED\<close>. Both hold in every world that
  the system reaches afterwards.
\<close>

theorem completion_settles_the_lease:
  assumes "service_env S" and "wf_world w" and "svc_CompleteLease S msg w = (Inr (), w')"
    and "(serves S)\<^sup>*\<^sup>* w' w''"
  shows "\<exists>l \<in> set (w_leases w). lease_id l = cm_lease_id msg
    \<and> lease_state l = LeaseStateActive \<and> \<not> lease_lapsed l (message_time (cm_finished_at msg) w)
    \<and> completed msg l w''"
proof -
  obtain l where l: "l \<in> set (w_leases w)" "lease_id l = cm_lease_id msg"
    "\<not> lease_is_stale l (message_time (cm_finished_at msg) w)" "completed msg l w'" and wf': "wf_world w'"
    using service_env.CompleteLease_result [OF assms(1-3)] by blast
  have "completed msg l w''"
    using lastingD [OF completed_lasting wf' l(4) service_env.serves_lawful [OF assms(1,4)]] .
  with l show ?thesis by (auto simp: lease_is_stale_def)
qed

theorem completion_settles_the_lease_witness:
  "\<exists>l \<in> set (w_leases scene_running). lease_id l = ''lb'' \<and> lease_state l = LeaseStateActive
    \<and> \<not> lease_lapsed l (message_time 60 scene_running)
    \<and> completed scene_done l (serve sample_service (CallExpireLeases 10)
        (world_after (svc_CompleteLease sample_service scene_done) scene_running))"
proof -
  let ?w' = "world_after (svc_CompleteLease sample_service scene_done) scene_running"
  have "(serves sample_service)\<^sup>*\<^sup>* ?w' (serve sample_service (CallExpireLeases 10) ?w')"
    by (rule r_into_rtranclp, rule serves.intros) (rule refl)
  from completion_settles_the_lease [OF sample_env inv_wf [OF scene_inv(1)] scene_done_succeeds this]
  show ?thesis by (simp add: scene_done_def)
qed

text \<open>
  C10: Completions are idempotent. After an accepted completion, any further completion
  for the same lease, whatever it reports and whatever has happened in between, is
  answered \<open>ErrStaleLease\<close> and changes nothing: a result is recorded once.
\<close>

theorem completion_is_recorded_once:
  assumes "service_env S" and "wf_world w" and "svc_CompleteLease S msg w = (Inr (), w')"
    and "(serves S)\<^sup>*\<^sup>* w' w''" and "cm_lease_id msg' = cm_lease_id msg"
  shows "svc_CompleteLease S msg' w'' = stale_reply w''"
proof -
  obtain l where l: "lease_id l = cm_lease_id msg" "completed msg l w'" and wf': "wf_world w'"
    using service_env.CompleteLease_result [OF assms(1-3)] by blast
  have ll: "lawful w' w''" by (rule service_env.serves_lawful [OF assms(1,4)])
  have "completed msg l w''" by (rule lastingD [OF completed_lasting wf' l(2) ll])
  with l(1) assms(5) have "fenced (cm_lease_id msg') (cm_finished_at msg') w''"
    by (auto simp: completed_def lease_settled_def fenced_def)
  moreover have "wf_world w''" using wf' ll by (simp add: lawful_def)
  ultimately show ?thesis by (intro fenced_complete)
qed

theorem completion_is_recorded_once_witness:
  "svc_CompleteLease sample_service (scene_done\<lparr>cm_status := CompleteStatusFailed, cm_exit_code := 1\<rparr>)
     (world_after (svc_CompleteLease sample_service scene_done) scene_running)
   = stale_reply (world_after (svc_CompleteLease sample_service scene_done) scene_running)"
  by (rule completion_is_recorded_once [OF sample_env inv_wf [OF scene_inv(1)] scene_done_succeeds rtranclp.rtrancl_refl])
    (simp add: scene_done_def)

section \<open>Granting a lease\<close>

text \<open>What a grant does to the three rows it touches, and to nothing else.\<close>

definition lease_granted_to :: "string \<Rightarrow> lease \<Rightarrow> world \<Rightarrow> world \<Rightarrow> bool" where
  "lease_granted_to aid l w w' \<longleftrightarrow>
     (\<exists>a \<in> set (w_attempts w). \<exists>j \<in> set (w_jobs w). att_id a = aid \<and> job_id j = att_job_id a
        \<and> job_step (att_state a) JobStateLeased \<and> job_step (job_state j) JobStateLeased
        \<and> grant_params_ok l \<and> lease_violation (granted_row w aid l) w = None
        \<and> w' = w\<lparr>w_leases := w_leases w @ [granted_row w aid l],
             w_attempts := update_rows att_id aid (lease_attempt_row w l) (w_attempts w),
             w_jobs := update_rows job_id (job_id j) (lease_job_row w) (w_jobs w)\<rparr>)"

text \<open>
  C11: A grant is all or nothing. \<open>Store.GrantLease\<close> either fails and leaves the database
  exactly as it was, or it succeeds with valid parameters on an attempt and a job that may
  both become \<open>LEASED\<close> and have no live lease, and then it adds one \<open>GRANTED\<close> lease that
  expires its time to live from now, and moves exactly this attempt and its job.
\<close>

theorem grant_is_atomic:
  "case store_GrantLease aid l w of
     (Inl e, w') \<Rightarrow> w' = w
   | (Inr l', w') \<Rightarrow> lease_granted_to aid l w w' \<and> lease_state l' = LeaseStateGranted
       \<and> lease_attempt_id l' = aid \<and> lease_expires_at l' = Some (host_now w + lease_ttl l * time_second)"
proof (cases "grant_params_ok l")
  case False
  then obtain m where "store_GrantLease aid l w = (Inl (PlainError m), w)" using grant_rejects by blast
  then show ?thesis by simp
next
  case True
  have row: "find_row att_id aid (w_attempts w) = Some a \<Longrightarrow> a \<in> set (w_attempts w) \<and> att_id a = aid"
    "find_row job_id jid (w_jobs w) = Some j \<Longrightarrow> j \<in> set (w_jobs w) \<and> job_id j = jid" for a j jid
    by (auto dest: find_row_SomeD)
  have step: "validateJobTransition i st JobStateLeased = Inr u \<Longrightarrow> job_step st JobStateLeased" for i st u
    using validateJob_Inr_iff [of i] by simp
  show ?thesis
    using True row step unfolding GrantLease_apply [OF True] lease_granted_to_def grant_world_def
    by (fastforce split: option.splits sum.splits)
qed

end
