(* ===== verification/QueueProperties.thy ===== *)
theory QueueProperties
  imports LeaseProperties
begin

text \<open>
  The dispatch queue and the sweep: which attempt is offered to a runner and for how long
  it is hidden from the others, what the sweep does to an expired lease, and how much of
  the work one call of \<open>ExpireLeases\<close> gets through.
\<close>

section \<open>Delivery\<close>

definition visibility :: "int \<Rightarrow> int" where
  "visibility timeout = (if timeout \<le> 0 then 30 * time_second else timeout)"

lemma visibility_positive: "0 < visibility timeout"
  by (simp add: visibility_def time_second_def)

lemma purged_tables:
  "attempt_job_run (w\<lparr>w_queue := qs\<rparr>) aid = attempt_job_run w aid"
  by (simp add: attempt_job_run_def attempt_job_def cong: option.case_cong)

lemma purge_keeps_ready:
  "filter (queue_item_ready w now) (filter (\<lambda>q. \<not> queue_item_dead w q) (w_queue w)) =
   filter (queue_item_ready w now) (w_queue w)"
  by (rule trans [OF filter_filter], rule filter_cong)
    (auto simp: queue_item_ready_def queue_item_dead_def split: option.splits)

text \<open>The items that are ready do not change when the dead ones are purged.\<close>

lemma Dequeue_apply:
  "store_DequeueJobAttempt now timeout w =
     (let t = message_time now w; w1 = w\<lparr>w_queue := filter (\<lambda>q. \<not> queue_item_dead w q) (w_queue w)\<rparr> in
      case ready_items w t of
        [] \<Rightarrow> (Inl ErrQueueEmpty, w1)
      | q # _ \<Rightarrow> (Inr (q_attempt_id q), w1\<lparr>w_queue := update_rows q_attempt_id (q_attempt_id q)
          (\<lambda>q. q\<lparr>q_inflight_until := Some (t + visibility timeout), q_delivery_count := q_delivery_count q + 1,
                 q_last_delivered_at := Some t\<rparr>) (w_queue w1)\<rparr>))"
proof -
  have "ready_items (w\<lparr>w_queue := filter (\<lambda>q. \<not> queue_item_dead w q) (w_queue w)\<rparr>) t = ready_items w t" for t
    unfolding ready_items_def queue_item_ready_def purged_tables
    using purge_keeps_ready by (simp add: queue_item_ready_def [abs_def])
  then show ?thesis
    by (simp add: store_DequeueJobAttempt_def message_time_def visibility_def Let_def purge_queue_def with_tx_def
        split: list.splits)
qed

lemma ready_items_member: "q \<in> set (ready_items w t) \<longleftrightarrow> q \<in> set (w_queue w) \<and> queue_item_ready w t q"
  by (auto simp: ready_items_def)

lemma ready_items_first:
  assumes "ready_items w t = q # qs" and "p \<in> set (ready_items w t)"
  shows "(q_available_at q, q_attempt_id q) \<le> (q_available_at p, q_attempt_id p)"
proof -
  have "sorted (map (\<lambda>q. (q_available_at q, q_attempt_id q)) (ready_items w t))"
    unfolding ready_items_def by (rule sorted_sort_key)
  with assms show ?thesis by auto
qed

text \<open>
  C12: Delivery. \<open>DequeueJobAttempt\<close> answers that the queue is empty only when no item is
  ready, that is, available, not in flight, and of a queued attempt whose run accepts
  work. Otherwise it hands out the ready item that has been available longest, ties
  broken by the attempt id, and hides it until the visibility timeout has passed: until
  then no item of that attempt is ready.
\<close>

theorem dequeue_offers_the_oldest:
  "case store_DequeueJobAttempt now timeout w of
     (Inl e, w') \<Rightarrow> e = ErrQueueEmpty \<and> (\<forall>q \<in> set (w_queue w). \<not> queue_item_ready w (message_time now w) q)
   | (Inr aid, w') \<Rightarrow> (\<exists>q \<in> set (w_queue w). q_attempt_id q = aid \<and> queue_item_ready w (message_time now w) q
       \<and> (\<forall>p \<in> set (w_queue w). queue_item_ready w (message_time now w) p
            \<longrightarrow> (q_available_at q, aid) \<le> (q_available_at p, q_attempt_id p)))
       \<and> (\<forall>t q. t < message_time now w + visibility timeout \<and> q \<in> set (w_queue w') \<and> q_attempt_id q = aid
            \<longrightarrow> \<not> queue_item_ready w' t q)"
proof (cases "ready_items w (message_time now w)")
  case Nil
  then have "\<forall>q \<in> set (w_queue w). \<not> queue_item_ready w (message_time now w) q"
    using ready_items_member [of _ w "message_time now w"] by auto
  with Nil show ?thesis by (simp add: Dequeue_apply Let_def)
next
  case (Cons q qs)
  let ?t = "message_time now w"
  have q: "q \<in> set (w_queue w)" "queue_item_ready w ?t q"
    using Cons ready_items_member [of q w ?t] by auto
  have first: "\<forall>p \<in> set (w_queue w). queue_item_ready w ?t p
      \<longrightarrow> (q_available_at q, q_attempt_id q) \<le> (q_available_at p, q_attempt_id p)"
    using ready_items_first [OF Cons] ready_items_member [of _ w ?t] by blast
  let ?w' = "world_after (store_DequeueJobAttempt now timeout) w"
  have run: "store_DequeueJobAttempt now timeout w = (Inr (q_attempt_id q), ?w')"
    by (simp add: Dequeue_apply Let_def Cons)
  have hidden: "q_inflight_until p = Some (?t + visibility timeout)"
    if "p \<in> set (w_queue ?w')" "q_attempt_id p = q_attempt_id q" for p
    using that by (auto simp: Dequeue_apply Let_def Cons set_update_rows split: if_splits)
  have "\<forall>t p. t < ?t + visibility timeout \<and> p \<in> set (w_queue ?w') \<and> q_attempt_id p = q_attempt_id q
      \<longrightarrow> \<not> queue_item_ready ?w' t p"
    using hidden by (auto simp: queue_item_ready_def)
  with q first show ?thesis by (subst run) auto
qed

theorem dequeue_offers_the_oldest_witness:
  "\<exists>w' q. store_DequeueJobAttempt 10 60 scene_waiting = (Inr ''a1'', w') \<and> q \<in> set (w_queue w')
    \<and> q_attempt_id q = ''a1'' \<and> \<not> queue_item_ready w' 11 q"
proof -
  have "\<exists>w' q. store_DequeueJobAttempt 10 60 scene_waiting = (Inr ''a1'', w') \<and> q \<in> set (w_queue w')
    \<and> q_attempt_id q = ''a1''"
    by (simp add: eval_run scene_waiting_def scene_defs cong: eval_congs) force
  then obtain w' q where w: "store_DequeueJobAttempt 10 60 scene_waiting = (Inr ''a1'', w')"
    "q \<in> set (w_queue w')" "q_attempt_id q = ''a1''" by blast
  have "11 < message_time 10 scene_waiting + visibility 60"
    by (simp add: message_time_def time_IsZero_def visibility_def)
  with dequeue_offers_the_oldest [of scene_waiting 10 60] w show ?thesis by auto
qed

section \<open>The sweep of one lease\<close>

lemma expired_listed:
  assumes wf: "wf_world w" and l: "l \<in> set (w_leases w)" and ex: "lease_expired_by now l"
  shows "l \<in> set (expired_leases w now)"
proof -
  have "has_row att_id (lease_attempt_id l) (w_attempts w)"
    using wf l by (auto simp: wf_world_def wf_leases_def)
  then obtain a where a: "find_row att_id (lease_attempt_id l) (w_attempts w) = Some a"
    using find_row_None_iff [of att_id "lease_attempt_id l" "w_attempts w"] by auto
  then have "has_row job_id (att_job_id a) (w_jobs w)"
    using wf find_row_SomeD [OF a] by (auto simp: wf_world_def wf_attempts_def)
  then obtain j where "find_row job_id (att_job_id a) (w_jobs w) = Some j"
    using find_row_None_iff [of job_id "att_job_id a" "w_jobs w"] by auto
  with a have "attempt_job w (lease_attempt_id l) \<noteq> None" by (simp add: attempt_job_def)
  with ex l show ?thesis by (auto simp: expired_leases_def)
qed

lemma expired_leases_Nil_iff:
  "wf_world w \<Longrightarrow> expired_leases w now = [] \<longleftrightarrow> (\<forall>l \<in> set (w_leases w). \<not> lease_expired_by now l)"
  using expired_listed [of w _ now] expired_leases_member [of w now] by (cases "expired_leases w now") auto

lemma expired_leases_first:
  assumes wf: "wf_world w" and ls: "expired_leases w now = l # ls"
    and m: "m \<in> set (w_leases w)" "lease_expired_by now m"
  shows "the (lease_expires_at l) \<le> the (lease_expires_at m)"
proof -
  have "sorted (map (\<lambda>l. case lease_expires_at l of None \<Rightarrow> 0 | Some e \<Rightarrow> e) (expired_leases w now))"
    unfolding expired_leases_def by (rule sorted_sort_key)
  moreover have "m \<in> set (expired_leases w now)" using expired_listed [OF wf m] .
  ultimately have "(case lease_expires_at l of None \<Rightarrow> 0 | Some e \<Rightarrow> e) \<le> (case lease_expires_at m of None \<Rightarrow> 0 | Some e \<Rightarrow> e)"
    using ls by auto
  with m(2) expired_leases_member(2) [OF ls] show ?thesis
    by (auto simp: lease_expired_by_def split: option.splits)
qed

text \<open>The lease that the sweep takes, its attempt and its job.\<close>

definition sweep_candidate :: "go_time \<Rightarrow> world \<Rightarrow> lease \<Rightarrow> job_attempt \<Rightarrow> job \<Rightarrow> bool" where
  "sweep_candidate now w l a j \<longleftrightarrow> l \<in> set (w_leases w) \<and> a \<in> set (w_attempts w) \<and> j \<in> set (w_jobs w)
     \<and> lease_expired_by now l \<and> att_id a = lease_attempt_id l \<and> job_id j = att_job_id a
     \<and> (\<forall>m \<in> set (w_leases w). lease_expired_by now m \<longrightarrow> the (lease_expires_at l) \<le> the (lease_expires_at m))"

text \<open>
  C13: The sweep of one lease. In a consistent database the transaction of
  \<open>ExpireLeases\<close> reports that there is nothing to do exactly when no live lease has
  reached its expiry. Otherwise it takes the one that expired first, marks it
  \<open>EXPIRED\<close>, and puts its attempt and its job back to \<open>QUEUED\<close> when their states allow it,
  with a queue item that is available at once; it never fails and touches no other row.
\<close>

theorem sweep_requeues_the_attempt:
  assumes wf: "wf_world w"
  shows "case expire_lease_tx now w of
     (Inl e, w') \<Rightarrow> e = ErrNoExpiredLeases \<and> w' = w \<and> (\<forall>l \<in> set (w_leases w). \<not> lease_expired_by now l)
   | (Inr _, w') \<Rightarrow> \<exists>l a j. sweep_candidate now w l a j
       \<and> (if may_requeue (att_state a) then upsert_queue (att_id a) now (swept_world w l a j) = (Inr (), w')
          else w' = swept_world w l a j)"
proof (cases rule: expired_leases_cases [of w now])
  case None
  with expired_leases_Nil_iff [OF wf] show ?thesis by (simp add: expire_lease_tx_empty)
next
  case (Some l ls a j)
  have aj: "find_row att_id (lease_attempt_id l) (w_attempts w) = Some a"
    "find_row job_id (att_job_id a) (w_jobs w) = Some j"
    using Some(2) by (simp_all add: attempt_job_Some)
  have cand: "sweep_candidate now w l a j"
    unfolding sweep_candidate_def
    using expired_leases_member [OF Some(1)] find_row_SomeD [OF aj(1)] find_row_SomeD [OF aj(2)]
      expired_leases_first [OF wf Some(1)] by blast
  have "has_row att_id (att_id a) (w_attempts w)" using find_row_SomeD [OF aj(1)] by (auto simp: has_row_def)
  then have "has_row att_id (att_id a) (w_attempts (swept_world w l a j))"
    by (simp add: swept_world_def requeued_attempt_def)
  then have "\<exists>w'. upsert_queue (att_id a) now (swept_world w l a j) = (Inr (), w')"
    by (simp add: upsert_queue_def)
  then obtain w' where "upsert_queue (att_id a) now (swept_world w l a j) = (Inr (), w')" by blast
  with cand show ?thesis by (auto simp: expire_lease_tx_apply [OF wf Some])
qed

theorem sweep_requeues_the_attempt_witness:
  "\<exists>w'. expire_lease_tx 100 scene_running = (Inr (), w')
    \<and> (\<exists>l a j. sweep_candidate 100 scene_running l a j
       \<and> (if may_requeue (att_state a) then upsert_queue (att_id a) 100 (swept_world scene_running l a j) = (Inr (), w')
          else w' = swept_world scene_running l a j))"
proof -
  obtain w' where "expire_lease_tx 100 scene_running = (Inr (), w')"
    by (simp add: eval_run scene_running_def scene_defs cong: eval_congs)
  with sweep_requeues_the_attempt [OF inv_wf [OF scene_inv(1)], of 100] show ?thesis by auto
qed

section \<open>A whole sweep\<close>

definition live_leases :: "world \<Rightarrow> nat" where
  "live_leases w = length (filter (\<lambda>l. lease_live (lease_state l)) (w_leases w))"

lemma sweep_one:
  assumes wf: "wf_world w"
  obtains (Nothing) "expire_lease_tx now w = (Inl ErrNoExpiredLeases, w)" "\<forall>l \<in> set (w_leases w). \<not> lease_expired_by now l"
    | (Swept) w' where "expire_lease_tx now w = (Inr (), w')" "wf_world w'" "live_leases w = Suc (live_leases w')"
proof (cases rule: expired_leases_cases [of w now])
  case None
  with expired_leases_Nil_iff [OF wf] show ?thesis by (intro Nothing) (simp_all add: expire_lease_tx_empty)
next
  case (Some l ls a j)
  obtain w' where w': "expire_lease_tx now w = (Inr (), w')" "w_leases w' = update_rows lease_id (lease_id l) (swept_lease w) (w_leases w)"
  proof -
    have f: "find_row att_id (lease_attempt_id l) (w_attempts w) = Some a"
      using Some(2) by (simp add: attempt_job_Some)
    have "has_row att_id (att_id a) (w_attempts w)" using find_row_SomeD [OF f] by (auto simp: has_row_def)
    then have "has_row att_id (att_id a) (w_attempts (swept_world w l a j))"
      by (simp add: swept_world_def requeued_attempt_def)
    then have "\<exists>w'. expire_lease_tx now w = (Inr (), w') \<and> w_leases w' = w_leases (swept_world w l a j)"
      by (auto simp: expire_lease_tx_apply [OF wf Some] upsert_queue_def)
    then show ?thesis using that by (auto simp: swept_world_def)
  qed
  have "wf_world w'"
    using keepsD [OF expire_lease_tx_lawful, of w now] w'(1) wf by (simp add: lawful_def)
  moreover have "live_leases w = Suc (live_leases w')"
  proof -
    have l: "l \<in> set (w_leases w)" "lease_live (lease_state l)"
      using expired_leases_member [OF Some(1)] by (simp_all add: lease_expired_by_def)
    have "unique_key lease_id (w_leases w)" using wf by (simp add: wf_world_def wf_leases_def)
    then have "length (filter (\<lambda>x. lease_live (lease_state x)) rows) =
        Suc (length (filter (\<lambda>x. lease_live (lease_state x)) (update_rows lease_id (lease_id l) (swept_lease w) rows)))"
      if "unique_key lease_id rows" "l \<in> set rows" for rows
      using that
    proof (induction rows)
      case (Cons x xs)
      show ?case
      proof (cases "x = l")
        case True
        have "update_rows lease_id (lease_id l) (swept_lease w) xs = xs"
          using Cons.prems True by (auto simp: update_rows_def image_iff intro!: map_idI)
        moreover have "\<not> lease_live (lease_state (swept_lease w y))" for y by (simp add: swept_lease_def)
        ultimately show ?thesis using True l by simp
      next
        case False
        with Cons.prems have "lease_id x \<noteq> lease_id l" by auto
        with Cons False show ?thesis by auto
      qed
    qed simp
    with l(1) \<open>unique_key lease_id (w_leases w)\<close> show ?thesis by (simp add: live_leases_def w'(2))
  qed
  ultimately show ?thesis using w'(1) Swept by blast
qed

lemma sweep_loop:
  assumes "wf_world w"
  shows "\<exists>n w'. expire_leases_loop budget now k w = (Inr (k + n), w') \<and> n \<le> budget \<and> wf_world w'
    \<and> live_leases w = n + live_leases w'
    \<and> (n < budget \<longrightarrow> (\<forall>l \<in> set (w_leases w'). \<not> lease_expired_by now l))"
  using assms
proof (induction budget arbitrary: w k)
  case 0
  then show ?case by simp
next
  case (Suc budget)
  show ?case
    using Suc.prems
  proof (cases rule: sweep_one [of w now])
    case Nothing
    then show ?thesis using Suc.prems by (simp add: bindE_try_prog)
  next
    case (Swept w')
    obtain n w'' where "expire_leases_loop budget now (Suc k) w' = (Inr (Suc k + n), w'')" "n \<le> budget" "wf_world w''"
      "live_leases w' = n + live_leases w''"
      "n < budget \<longrightarrow> (\<forall>l \<in> set (w_leases w''). \<not> lease_expired_by now l)"
      using Suc.IH [OF Swept(2), of "Suc k"] by blast
    with Swept show ?thesis by (intro exI [of _ "Suc n"] exI [of _ w'']) (simp add: bindE_try_prog)
  qed
qed

text \<open>
  C14: A whole sweep. On a consistent database \<open>Store.ExpireLeases\<close> never fails: it
  expires exactly as many live leases as it reports, at most the limit (10 when none is
  given), and when it reports fewer than the limit no expired lease is left.
\<close>

theorem sweep_is_bounded_and_complete:
  assumes "wf_world w"
  shows "\<exists>n w'. store_ExpireLeases now limit w = (Inr n, w')
    \<and> int n \<le> (if limit \<le> 0 then 10 else limit) \<and> live_leases w = n + live_leases w'
    \<and> (int n < (if limit \<le> 0 then 10 else limit)
        \<longrightarrow> (\<forall>l \<in> set (w_leases w'). \<not> lease_expired_by (message_time now w) l))"
proof -
  let ?limit = "if limit \<le> 0 then 10 else limit"
  obtain n w' where "expire_leases_loop (nat ?limit) (message_time now w) 0 w = (Inr (0 + n), w')" "n \<le> nat ?limit"
    "live_leases w = n + live_leases w'"
    "n < nat ?limit \<longrightarrow> (\<forall>l \<in> set (w_leases w'). \<not> lease_expired_by (message_time now w) l)"
    using sweep_loop [OF assms] by blast
  then show ?thesis
    by (intro exI [of _ n] exI [of _ w']) (auto simp: store_ExpireLeases_def message_time_def Let_def)
qed

theorem sweep_is_bounded_and_complete_witness:
  "\<exists>n w'. store_ExpireLeases 100 5 scene_running = (Inr n, w') \<and> n + live_leases w' = 1
    \<and> filter (lease_expired_by 100) (w_leases w') = []"
proof -
  obtain n w' where "store_ExpireLeases 100 5 scene_running = (Inr n, w')"
    "live_leases scene_running = n + live_leases w'"
    "int n < 5 \<longrightarrow> (\<forall>l \<in> set (w_leases w'). \<not> lease_expired_by 100 l)"
    using sweep_is_bounded_and_complete [OF inv_wf [OF scene_inv(1)], of 100 5]
    by (auto simp: message_time_def time_IsZero_def)
  moreover have "live_leases scene_running = 1" by (simp add: live_leases_def scene_running_def scene_defs)
  ultimately show ?thesis by (auto simp: filter_empty_conv)
qed

end
