(* ===== verification/RunProperties.thy ===== *)
theory RunProperties
  imports LeaseProperties
begin

text \<open>
  The life of a run as its clients see it: an event or a rerun request that is delivered
  again does not start a second run, and the end of a run follows from its jobs.
\<close>

section \<open>Events\<close>

definition trigger_recorded :: "string \<Rightarrow> string \<Rightarrow> string \<Rightarrow> world \<Rightarrow> bool" where
  "trigger_recorded p k rid w \<longleftrightarrow>
     (\<exists>t \<in> set (w_triggers w). tr_provider t = p \<and> tr_event_key t = k \<and> tr_run_id t = rid)"

lemma trigger_recorded_lasting: "lasting (trigger_recorded p k rid)"
  unfolding lasting_def lawful_def evolves_def trigger_recorded_def by blast

text \<open>Both idempotent creations insert the run and its key in one transaction, or look the key up.\<close>

lemma create_or_find_cases:
  assumes "bindE (try_prog (with_tx (bindE (store_CreateRun r) (\<lambda>row.
        bindE (unique_as E (ins row)) (\<lambda>_. ret row))))) (\<lambda>res. case res of
      Inr row \<Rightarrow> ret (row, True)
    | Inl e \<Rightarrow> if e = E then look else fail e) w = (Inr (row, c), w')"
  obtains (New) w2 u where "c" "store_CreateRun r w = (Inr row, w2)" "ins row w2 = (Inr u, w')"
      "w_triggers w2 = w_triggers w" "w_reruns w2 = w_reruns w" "pg_now w2 = pg_now w"
    | (Found) "look w = (Inr (row, c), w')"
proof -
  define tx where "tx = with_tx (bindE (store_CreateRun r) (\<lambda>row. bindE (unique_as E (ins row)) (\<lambda>_. ret row)))"
  obtain res w1 where tx: "tx w = (res, w1)" by (cases "tx w") auto
  have run: "(case res of Inr row \<Rightarrow> ret (row, True) | Inl e \<Rightarrow> if e = E then look else fail e) w1 = (Inr (row, c), w')"
    using assms unfolding tx_def [symmetric] by (simp add: bindE_try_prog tx)
  show ?thesis
  proof (cases res)
    case (Inl e)
    have "w1 = w" using tx Inl unfolding tx_def by (auto dest: with_tx_Inl)
    with run Inl show ?thesis by (intro Found) (simp split: if_splits)
  next
    case (Inr row')
    with run have eq: "row' = row" "c" "w1 = w'" by simp_all
    with tx Inr obtain w2 u where w2: "store_CreateRun r w = (Inr row, w2)"
      and ins: "unique_as E (ins row) w2 = (Inr u, w')"
      unfolding tx_def by (auto simp: with_tx_Inr_iff bindE_Inr_iff)
    have "w_triggers w2 = w_triggers w \<and> w_reruns w2 = w_reruns w \<and> pg_now w2 = pg_now w"
      using w2 by (auto simp: store_CreateRun_def insert_run_def bindE_sql_insert Let_def split: option.splits)
    moreover have "ins row w2 = (Inr u, w')"
      using ins by (auto simp: unique_as_def wrap_error_def split: sum.splits prod.splits)
    ultimately show ?thesis using New [OF eq(2) w2] by simp
  qed
qed

text \<open>The two ways in which \<open>CreateRunWithTrigger\<close> succeeds.\<close>

lemma CreateRunWithTrigger_cases:
  assumes "store_CreateRunWithTrigger r t w = (Inr (row, c), w')"
  obtains (New) "c" "w_triggers w' = w_triggers w @ [t\<lparr>tr_run_id := run_id row, tr_created_at := pg_now w\<rparr>]"
      "\<not> has_row (\<lambda>x. (tr_provider x, tr_event_key x)) (tr_provider t, tr_event_key t) (w_triggers w)"
    | (Duplicate) x where "\<not> c" "w' = w" "run_id row = tr_run_id x"
      "find_row (\<lambda>x. (tr_provider x, tr_event_key x)) (tr_provider t, tr_event_key t) (w_triggers w) = Some x"
proof -
  have ok: "tr_provider t \<noteq> ''''" "tr_event_key t \<noteq> ''''"
    using assms by (auto simp: store_CreateRunWithTrigger_def split: if_splits)
  from assms ok have "bindE (try_prog (with_tx (bindE (store_CreateRun r) (\<lambda>row.
        bindE (unique_as ErrDuplicateTrigger (insert_trigger (t\<lparr>tr_run_id := run_id row\<rparr>))) (\<lambda>_. ret row))))) (\<lambda>res. case res of
      Inr row \<Rightarrow> ret (row, True)
    | Inl e \<Rightarrow> if e = ErrDuplicateTrigger
        then bindE (store_getRunByTriggerKey (tr_provider t) (tr_event_key t)) (\<lambda>row. ret (row, False))
        else fail e) w = (Inr (row, c), w')"
    by (simp add: store_CreateRunWithTrigger_def split: if_splits)
  then show ?thesis
  proof (cases rule: create_or_find_cases)
    case (New w2 u)
    then show ?thesis
      by (intro that(1)) (auto simp: insert_trigger_def sql_insert_def split: option.splits if_splits)
  next
    case Found
    show ?thesis
    proof (cases "find_row (\<lambda>x. (tr_provider x, tr_event_key x)) (tr_provider t, tr_event_key t) (w_triggers w)")
      case None
      with Found ok show ?thesis by (simp add: store_getRunByTriggerKey_def bindE_assoc)
    next
      case (Some x)
      with Found ok have "bindE (store_GetRun (tr_run_id x)) (\<lambda>row. ret (row, False)) w = (Inr (row, c), w')"
        by (simp add: store_getRunByTriggerKey_def bindE_assoc)
      then have "find_row run_id (tr_run_id x) (w_runs w) = Some row \<and> \<not> c \<and> w' = w"
        by (simp add: store_GetRun_def bindE_select_by split: option.splits)
      then show ?thesis using Some by (intro that(2)) (auto dest: find_row_SomeD)
    qed
  qed
qed

lemma recorded_by_CreateRunWithTrigger:
  assumes "store_CreateRunWithTrigger r t w = (Inr (row, c), w')"
  shows "trigger_recorded (tr_provider t) (tr_event_key t) (run_id row) w'"
  using assms
proof (cases rule: CreateRunWithTrigger_cases)
  case New
  then show ?thesis by (auto simp: trigger_recorded_def)
next
  case (Duplicate x)
  then show ?thesis by (auto simp: trigger_recorded_def dest: find_row_SomeD)
qed

lemma recorded_event_is_duplicate:
  assumes wf: "wf_world w" and rec: "trigger_recorded (tr_provider t) (tr_event_key t) rid w"
    and ok: "store_CreateRunWithTrigger r t w = (Inr (row, c), w')"
  shows "\<not> c \<and> run_id row = rid \<and> w' = w"
proof -
  obtain x where x: "x \<in> set (w_triggers w)" "tr_provider x = tr_provider t" "tr_event_key x = tr_event_key t"
    "tr_run_id x = rid" using rec by (auto simp: trigger_recorded_def)
  from ok show ?thesis
  proof (cases rule: CreateRunWithTrigger_cases)
    case New
    with x show ?thesis by (auto simp: has_row_def)
  next
    case (Duplicate y)
    have "find_row (\<lambda>x. (tr_provider x, tr_event_key x)) (tr_provider t, tr_event_key t) (w_triggers w) = Some x"
      using wf x by (intro find_row_unique) (auto simp: wf_world_def wf_triggers_def)
    with Duplicate x(4) show ?thesis by simp
  qed
qed

text \<open>The same for rerun requests and their idempotency keys.\<close>

definition rerun_recorded :: "string \<Rightarrow> string \<Rightarrow> string \<Rightarrow> world \<Rightarrow> bool" where
  "rerun_recorded original k rid w \<longleftrightarrow>
     (\<exists>x \<in> set (w_reruns w). rr_original_run_id x = original \<and> rr_idempotency_key x = k \<and> rr_new_run_id x = rid)"

lemma rerun_recorded_lasting: "lasting (rerun_recorded original k rid)"
  unfolding lasting_def lawful_def evolves_def rerun_recorded_def by blast

lemma CreateRunWithRerun_cases:
  assumes "store_CreateRunWithRerun r i k w = (Inr (row, c), w')"
  obtains (New) "c" "w_reruns w' = w_reruns w @ [\<lparr>rr_original_run_id = i, rr_idempotency_key = k, rr_new_run_id = run_id row\<rparr>]"
      "\<not> has_row (\<lambda>x. (rr_original_run_id x, rr_idempotency_key x)) (i, k) (w_reruns w)"
    | (Duplicate) x where "\<not> c" "w' = w" "run_id row = rr_new_run_id x"
      "find_row (\<lambda>x. (rr_original_run_id x, rr_idempotency_key x)) (i, k) (w_reruns w) = Some x"
proof -
  from assms have "bindE (try_prog (with_tx (bindE (store_CreateRun r) (\<lambda>row.
        bindE (unique_as ErrDuplicateRerun (insert_rerun
          \<lparr>rr_original_run_id = i, rr_idempotency_key = k, rr_new_run_id = run_id row\<rparr>)) (\<lambda>_. ret row))))) (\<lambda>res. case res of
      Inr row \<Rightarrow> ret (row, True)
    | Inl e \<Rightarrow> if e = ErrDuplicateRerun
        then bindE (store_getRerunByKey i k) (\<lambda>existing. bindE (store_GetRun existing) (\<lambda>row. ret (row, False)))
        else fail e) w = (Inr (row, c), w')"
    by (simp add: store_CreateRunWithRerun_def split: if_splits)
  then show ?thesis
  proof (cases rule: create_or_find_cases)
    case (New w2 u)
    then show ?thesis
      by (intro that(1)) (auto simp: insert_rerun_def sql_insert_def split: option.splits if_splits)
  next
    case Found
    show ?thesis
    proof (cases "find_row (\<lambda>x. (rr_original_run_id x, rr_idempotency_key x)) (i, k) (w_reruns w)")
      case None
      with Found show ?thesis by (simp add: store_getRerunByKey_def bindE_assoc)
    next
      case (Some x)
      with Found have "bindE (store_GetRun (rr_new_run_id x)) (\<lambda>row. ret (row, False)) w = (Inr (row, c), w')"
        by (simp add: store_getRerunByKey_def bindE_assoc)
      then have "find_row run_id (rr_new_run_id x) (w_runs w) = Some row \<and> \<not> c \<and> w' = w"
        by (simp add: store_GetRun_def bindE_select_by split: option.splits)
      then show ?thesis using Some by (intro that(2)) (auto dest: find_row_SomeD)
    qed
  qed
qed

lemma recorded_by_CreateRunWithRerun:
  assumes "store_CreateRunWithRerun r i k w = (Inr (row, c), w')"
  shows "rerun_recorded i k (run_id row) w'"
  using assms
proof (cases rule: CreateRunWithRerun_cases)
  case New
  then show ?thesis by (auto simp: rerun_recorded_def)
next
  case (Duplicate x)
  then show ?thesis by (auto simp: rerun_recorded_def dest: find_row_SomeD)
qed

lemma recorded_rerun_is_duplicate:
  assumes wf: "wf_world w" and rec: "rerun_recorded i k rid w"
    and ok: "store_CreateRunWithRerun r i k w = (Inr (row, c), w')"
  shows "\<not> c \<and> run_id row = rid \<and> w' = w"
proof -
  obtain x where x: "x \<in> set (w_reruns w)" "rr_original_run_id x = i" "rr_idempotency_key x = k"
    "rr_new_run_id x = rid" using rec by (auto simp: rerun_recorded_def)
  from ok show ?thesis
  proof (cases rule: CreateRunWithRerun_cases)
    case New
    with x show ?thesis by (auto simp: has_row_def)
  next
    case (Duplicate y)
    have "find_row (\<lambda>x. (rr_original_run_id x, rr_idempotency_key x)) (i, k) (w_reruns w) = Some x"
      using wf x by (intro find_row_unique) (auto simp: wf_world_def wf_reruns_def)
    with Duplicate x(4) show ?thesis by simp
  qed
qed

section \<open>The run that a call returns\<close>

lemma yields_any: "yields P m (\<lambda>_ _. True)"
  by (simp add: yields_def)

lemma startRun_returns: "yields P (svc_startRun S r) (\<lambda>d _. run_id (rd_run d) = run_id r)"
proof -
  have get: "yields Q (bindE (store_GetRun rid) (\<lambda>r'. ret \<lparr>rd_run = r', rd_jobs = js, rd_plan = None\<rparr>))
    (\<lambda>d _. run_id (rd_run d) = rid)" for Q rid js
    by (rule yieldsI) (auto simp: store_GetRun_def bindE_select_by dest: find_row_SomeD split: option.splits)
  show ?thesis
    unfolding svc_startRun_def
    by (intro yields_bind [OF yields_any] yields_sum yields_if yields_fail get)
qed

lemma yields_fact: "(b \<Longrightarrow> yields (\<lambda>_. True) m Q) \<Longrightarrow> yields (\<lambda>_. b) m Q"
  by (cases b) (simp_all add: yields_def)

lemma GetRunDetails_returns: "yields P (svc_GetRunDetails rid) (\<lambda>d _. run_id (rd_run d) = rid)"
proof -
  have get: "yields P (store_GetRun rid) (\<lambda>r _. run_id r = rid)"
    by (rule yieldsI) (auto simp: store_GetRun_def select_by_apply dest: find_row_SomeD split: option.splits)
  show ?thesis
    unfolding svc_GetRunDetails_def
    by (rule yields_bind [OF get], rule yields_fact, intro yields_bind [OF yields_any] yields_ret) simp
qed

interpretation same: world_preorder "(=)"
  by unfold_locales simp_all

lemma GetRunDetails_reads: "keeps (=) (svc_GetRunDetails rid)"
proof -
  have "keeps (=) (store_GetRun i)" "keeps (=) (store_ListJobsByRun i)" "keeps (=) (store_GetRunPlan i)"
    "keeps (=) (store_ListJobAttempts i)" "keeps (=) (store_ListArtifactsByJob i)"
    "keeps (=) (store_ListFailureExplanationsByJob i)" for i
    by (simp_all add: keeps_def store_GetRun_def store_ListJobsByRun_def store_GetRunPlan_def
        store_ListJobAttempts_def store_ListArtifactsByJob_def store_ListFailureExplanationsByJob_def)
  then show ?thesis unfolding svc_GetRunDetails_def by (intro same.keeps_rules)
qed


section \<open>A delivered event starts one run\<close>

text \<open>Both entry points create a run or find the one of the earlier delivery, and answer with it.\<close>

lemma start_or_report_cases:
  assumes "bindE create (\<lambda>(r, created).
       if \<not> created then bindE (svc_GetRunDetails (run_id r)) (\<lambda>d. ret (d, False))
       else bindE (svc_startRun S r) (\<lambda>d. ret (d, True))) w = (Inr (d, c), w')"
  obtains row w2 where "create w = (Inr (row, c), w2)" "run_id (rd_run d) = run_id row"
    "\<not> c \<Longrightarrow> w' = w2" "c \<Longrightarrow> (Inr d, w') = svc_startRun S row w2"
proof -
  from assms obtain p w2 where w2': "create w = (Inr p, w2)"
    and last': "(case p of (r, created) \<Rightarrow> if \<not> created then bindE (svc_GetRunDetails (run_id r)) (\<lambda>d. ret (d, False))
     else bindE (svc_startRun S r) (\<lambda>d. ret (d, True))) w2 = (Inr (d, c), w')"
    unfolding bindE_Inr_iff by blast
  obtain row c0 where p: "p = (row, c0)" by (cases p)
  note w2 = w2' [unfolded p] and last = last' [unfolded p prod.case]
  have eq: "c0 = c" using last by (auto simp: bindE_Inr_iff split: if_splits)
  show ?thesis
  proof (cases c)
    case False
    with last eq have g: "svc_GetRunDetails (run_id row) w2 = (Inr d, w')" by (auto simp: bindE_Inr_iff)
    have "w' = w2" using keepsD [OF GetRunDetails_reads, of w2 "run_id row"] g by simp
    moreover have "run_id (rd_run d) = run_id row"
      using yieldsD [OF GetRunDetails_returns [of "\<lambda>_. True"] TrueI g] .
    ultimately show ?thesis using that w2 False eq by blast
  next
    case True
    with last eq have g: "svc_startRun S row w2 = (Inr d, w')" by (auto simp: bindE_Inr_iff)
    have "run_id (rd_run d) = run_id row"
      using yieldsD [OF startRun_returns [of "\<lambda>_. True"] TrueI g] .
    then show ?thesis using that w2 True eq g by auto
  qed
qed

lemma CreateRunFromTrigger_cases:
  assumes ids: "id_source (sv_RunID S)" and ok: "svc_CreateRunFromTrigger S req t w = (Inr (d, c), w')"
  obtains r row w1 w2 where "same_core w w1" "store_CreateRunWithTrigger r t w1 = (Inr (row, c), w2)"
    "run_id (rd_run d) = run_id row" "\<not> c \<Longrightarrow> w' = w2" "c \<Longrightarrow> (Inr d, w') = svc_startRun S row w2"
proof -
  define tail where "tail rid = bindE (store_CreateRunWithTrigger
       (new_run rid (crr_repo_id req) (crr_ref req) (crr_commit_sha req)) t) (\<lambda>(r, created).
     if \<not> created then bindE (svc_GetRunDetails (run_id r)) (\<lambda>d. ret (d, False))
     else bindE (svc_startRun S r) (\<lambda>d. ret (d, True)))" for rid
  from ok [unfolded svc_CreateRunFromTrigger_def, folded tail_def] obtain u w0
    where v: "validateCreateRunRequest req w = (Inr u, w0)" and rest: "bindE (sv_RunID S) tail w0 = (Inr (d, c), w')"
    by (rule bindE_InrE)
  from rest obtain rid w1 where rid: "sv_RunID S w0 = (Inr rid, w1)" and last: "tail rid w1 = (Inr (d, c), w')"
    by (rule bindE_InrE)
  have "w0 = w" using v by (auto simp: validateCreateRunRequest_def split: if_splits)
  then have core: "same_core w w1" using id_source.next_id_core [OF ids, of w] rid by simp
  from last [unfolded tail_def] show ?thesis
    by (rule start_or_report_cases) (rule that [OF core])
qed

lemma wf_same_core: "same_core w w' \<Longrightarrow> wf_world w \<Longrightarrow> wf_world w'"
  using lawful_same_core [of w w'] by (simp add: lawful_def)

lemma trigger_recorded_core: "same_core w w' \<Longrightarrow> trigger_recorded p k i w \<Longrightarrow> trigger_recorded p k i w'"
  by (simp add: same_core_def trigger_recorded_def)

lemma CreateRunFromTrigger_records:
  assumes env: "service_env S" and wf: "wf_world w"
    and ok: "svc_CreateRunFromTrigger S req t w = (Inr (d, c), w')"
  shows "wf_world w' \<and> trigger_recorded (tr_provider t) (tr_event_key t) (run_id (rd_run d)) w'"
proof -
  obtain r row w1 w2 where w: "same_core w w1" "store_CreateRunWithTrigger r t w1 = (Inr (row, c), w2)"
    "run_id (rd_run d) = run_id row" "\<not> c \<Longrightarrow> w' = w2" "c \<Longrightarrow> (Inr d, w') = svc_startRun S row w2"
    using CreateRunFromTrigger_cases [OF service_env.ids(1) [OF env] ok] by metis
  have rec: "trigger_recorded (tr_provider t) (tr_event_key t) (run_id (rd_run d)) w2"
    using recorded_by_CreateRunWithTrigger [OF w(2)] w(3) by simp
  have wf2: "wf_world w2"
    using keepsD [OF CreateRunWithTrigger_lawful, of w1 r t] w(2) wf_same_core [OF w(1) wf] by (simp add: lawful_def)
  show ?thesis
  proof (cases c)
    case True
    have "lawful w2 w'" using keepsD [OF service_env.startRun_lawful [OF env], of w2 row] w(5) [OF True]
      by (metis snd_conv)
    then show ?thesis using lastingD [OF trigger_recorded_lasting wf2 rec] wf2 by (simp add: lawful_def)
  qed (use w(4) rec wf2 in simp)
qed

lemma event_once:
  assumes env: "service_env S" and wf: "wf_world w"
    and first: "svc_CreateRunFromTrigger S req t w = (Inr (d, c), w')"
    and later: "(serves S)\<^sup>*\<^sup>* w' v"
    and same: "tr_provider t' = tr_provider t" "tr_event_key t' = tr_event_key t"
    and again: "svc_CreateRunFromTrigger S req' t' v = (Inr (d', c'), v')"
  shows "\<not> c' \<and> run_id (rd_run d') = run_id (rd_run d) \<and> same_core v v'"
proof -
  note r1 = CreateRunFromTrigger_records [OF env wf first]
  have law: "lawful w' v" by (rule service_env.serves_lawful [OF env later])
  have rec: "trigger_recorded (tr_provider t') (tr_event_key t') (run_id (rd_run d)) v"
    using lastingD [OF trigger_recorded_lasting _ _ law] r1 same by simp
  have wfv: "wf_world v" using law r1 by (simp add: lawful_def)
  obtain r row w1 w2 where w: "same_core v w1" "store_CreateRunWithTrigger r t' w1 = (Inr (row, c'), w2)"
    "run_id (rd_run d') = run_id row" "\<not> c' \<Longrightarrow> v' = w2"
    using CreateRunFromTrigger_cases [OF service_env.ids(1) [OF env] again] by metis
  have "\<not> c' \<and> run_id row = run_id (rd_run d) \<and> w2 = w1"
    by (rule recorded_event_is_duplicate [OF wf_same_core [OF w(1) wfv] trigger_recorded_core [OF w(1) rec] w(2)])
  with w show ?thesis by simp
qed

text \<open>
  C15: An event starts one run. Once \<open>CreateRunFromTrigger\<close> has answered for an event of a
  provider, every later delivery of the event, with whatever request and after whatever
  other calls, is answered with the same run, reports that nothing was created, and
  leaves the runs, jobs, attempts, leases and the queue as they are.
\<close>

theorem event_starts_one_run:
  assumes "service_env S" and "wf_world w"
    and "svc_CreateRunFromTrigger S req t w = (Inr (d, c), w')"
    and "(serves S)\<^sup>*\<^sup>* w' v"
    and "tr_provider t' = tr_provider t" and "tr_event_key t' = tr_event_key t"
    and "svc_CreateRunFromTrigger S req' t' v = (Inr (d', c'), v')"
  shows "\<not> c' \<and> run_id (rd_run d') = run_id (rd_run d) \<and> same_core v v'"
  using assms by (rule event_once)

definition scene_event :: run_trigger where
  "scene_event = \<lparr>tr_run_id = ''r'', tr_provider = ''github'', tr_event_key = ''push:1'', tr_event_type = ''push'',
     tr_repo_id = ''acme/app'', tr_repo_owner = ''acme'', tr_repo_name = ''app'', tr_pr_number = None,
     tr_created_at = 1\<rparr>"

definition scene_triggered :: world where
  "scene_triggered = scene_running\<lparr>w_triggers := [scene_event]\<rparr>"

definition scene_request :: create_run_request where
  "scene_request = \<lparr>crr_repo_id = ''acme/app'', crr_ref = ''main'', crr_commit_sha = ''c0ffee''\<rparr>"

lemma scene_triggered_wf: "wf_world scene_triggered"
  using inv_wf [OF scene_inv(1)]
  by (simp add: scene_triggered_def wf_world_def wf_triggers_def scene_event_def)
    (simp add: scene_running_def scene_defs)

theorem event_starts_one_run_witness:
  "\<exists>d v. svc_CreateRunFromTrigger sample_service scene_request scene_event
      (scene_triggered\<lparr>w_ids := Suc 0\<rparr>) = (Inr (d, False), v) \<and> run_id (rd_run d) = ''r''
    \<and> same_core (scene_triggered\<lparr>w_ids := Suc 0\<rparr>) v"
proof -
  let ?w = "scene_triggered" and ?v = "scene_triggered\<lparr>w_ids := Suc 0\<rparr>"
  have calls: "\<exists>d. svc_CreateRunFromTrigger sample_service scene_request scene_event ?w = (Inr (d, False), ?v) \<and> run_id (rd_run d) = ''r''"
    "\<exists>d v. svc_CreateRunFromTrigger sample_service scene_request scene_event ?v = (Inr (d, False), v)"
    by (simp_all add: eval_run scene_triggered_def scene_event_def scene_request_def sample_service_def
        sample_rand_def scene_running_def scene_defs cong: eval_congs)
  then obtain d d' v where "svc_CreateRunFromTrigger sample_service scene_request scene_event ?w = (Inr (d, False), ?v)"
    "run_id (rd_run d) = ''r''" "svc_CreateRunFromTrigger sample_service scene_request scene_event ?v = (Inr (d', False), v)"
    by blast
  from event_starts_one_run [OF sample_env scene_triggered_wf this(1) rtranclp.rtrancl_refl refl refl this(3)] this(2,3)
  show ?thesis by auto
qed


section \<open>A rerun request starts one run\<close>

lemma RerunRun_cases:
  assumes ids: "id_source (sv_RunID S)" and ok: "svc_RerunRun S i k w = (Inr (d, c), w')"
  obtains r row w1 w2 where "same_core w w1" "store_CreateRunWithRerun r i k w1 = (Inr (row, c), w2)"
    "run_id (rd_run d) = run_id row" "\<not> c \<Longrightarrow> w' = w2" "c \<Longrightarrow> (Inr d, w') = svc_startRun S row w2"
proof -
  define tail where "tail original newid = bindE (store_CreateRunWithRerun
       (new_run newid (run_repo_id original) (run_ref original) (run_commit_sha original)) (run_id original) k) (\<lambda>(r, created).
     if \<not> created then bindE (svc_GetRunDetails (run_id r)) (\<lambda>d. ret (d, False))
     else bindE (svc_startRun S r) (\<lambda>d. ret (d, True)))" for original :: run and newid
  have "i \<noteq> ''''" "k \<noteq> ''''" using ok by (auto simp: svc_RerunRun_def split: if_splits)
  with ok have "bindE (store_GetRun i) (\<lambda>original. bindE (sv_RunID S) (tail original)) w = (Inr (d, c), w')"
    unfolding svc_RerunRun_def tail_def by simp
  then obtain o1 w0 where get: "store_GetRun i w = (Inr o1, w0)"
    and rest: "bindE (sv_RunID S) (tail o1) w0 = (Inr (d, c), w')"
    by (rule bindE_InrE)
  from rest obtain rid w1 where rid: "sv_RunID S w0 = (Inr rid, w1)" and last: "tail o1 rid w1 = (Inr (d, c), w')"
    by (rule bindE_InrE)
  have o1: "run_id o1 = i" "w0 = w"
    using get by (auto simp: store_GetRun_def select_by_apply dest: find_row_SomeD split: option.splits)
  then have core: "same_core w w1" using id_source.next_id_core [OF ids, of w] rid by simp
  from last [unfolded tail_def o1] show ?thesis
    by (rule start_or_report_cases) (rule that [OF core])
qed

lemma rerun_recorded_core: "same_core w w' \<Longrightarrow> rerun_recorded i k r w \<Longrightarrow> rerun_recorded i k r w'"
  by (simp add: same_core_def rerun_recorded_def)

lemma RerunRun_records:
  assumes env: "service_env S" and wf: "wf_world w" and ok: "svc_RerunRun S i k w = (Inr (d, c), w')"
  shows "wf_world w' \<and> rerun_recorded i k (run_id (rd_run d)) w'"
proof -
  obtain r row w1 w2 where w: "same_core w w1" "store_CreateRunWithRerun r i k w1 = (Inr (row, c), w2)"
    "run_id (rd_run d) = run_id row" "\<not> c \<Longrightarrow> w' = w2" "c \<Longrightarrow> (Inr d, w') = svc_startRun S row w2"
    using RerunRun_cases [OF service_env.ids(1) [OF env] ok] by metis
  have rec: "rerun_recorded i k (run_id (rd_run d)) w2"
    using recorded_by_CreateRunWithRerun [OF w(2)] w(3) by simp
  have wf2: "wf_world w2"
    using keepsD [OF CreateRunWithRerun_lawful, of w1 r i k] w(2) wf_same_core [OF w(1) wf] by (simp add: lawful_def)
  show ?thesis
  proof (cases c)
    case True
    have "lawful w2 w'" using keepsD [OF service_env.startRun_lawful [OF env], of w2 row] w(5) [OF True]
      by (metis snd_conv)
    then show ?thesis using lastingD [OF rerun_recorded_lasting wf2 rec] wf2 by (simp add: lawful_def)
  qed (use w(4) rec wf2 in simp)
qed

text \<open>
  C16: A rerun request starts one run. Once \<open>RerunRun\<close> has answered for an idempotency key of
  a run, every later request with the key, after whatever other calls, is answered with
  the same new run, reports that nothing was created, and leaves the runs, jobs,
  attempts, leases and the queue as they are.
\<close>

theorem rerun_starts_one_run:
  assumes env: "service_env S" and wf: "wf_world w"
    and first: "svc_RerunRun S i k w = (Inr (d, c), w')"
    and later: "(serves S)\<^sup>*\<^sup>* w' v"
    and again: "svc_RerunRun S i k v = (Inr (d', c'), v')"
  shows "\<not> c' \<and> run_id (rd_run d') = run_id (rd_run d) \<and> same_core v v'"
proof -
  note r1 = RerunRun_records [OF env wf first]
  have law: "lawful w' v" by (rule service_env.serves_lawful [OF env later])
  have rec: "rerun_recorded i k (run_id (rd_run d)) v"
    using lastingD [OF rerun_recorded_lasting _ _ law] r1 by simp
  have wfv: "wf_world v" using law r1 by (simp add: lawful_def)
  obtain r row w1 w2 where w: "same_core v w1" "store_CreateRunWithRerun r i k w1 = (Inr (row, c'), w2)"
    "run_id (rd_run d') = run_id row" "\<not> c' \<Longrightarrow> v' = w2"
    using RerunRun_cases [OF service_env.ids(1) [OF env] again] by metis
  have "\<not> c' \<and> run_id row = run_id (rd_run d) \<and> w2 = w1"
    by (rule recorded_rerun_is_duplicate [OF wf_same_core [OF w(1) wfv] rerun_recorded_core [OF w(1) rec] w(2)])
  with w show ?thesis by simp
qed

definition scene_rerun :: world where
  "scene_rerun = scene_running\<lparr>w_reruns := [\<lparr>rr_original_run_id = ''r'', rr_idempotency_key = ''k'', rr_new_run_id = ''r''\<rparr>]\<rparr>"

lemma scene_rerun_wf: "wf_world scene_rerun"
  using inv_wf [OF scene_inv(1)]
  by (simp add: scene_rerun_def wf_world_def wf_reruns_def)
    (simp add: scene_running_def scene_defs)

theorem rerun_starts_one_run_witness:
  "\<exists>d v. svc_RerunRun sample_service ''r'' ''k'' (scene_rerun\<lparr>w_ids := Suc 0\<rparr>) = (Inr (d, False), v)
    \<and> run_id (rd_run d) = ''r'' \<and> same_core (scene_rerun\<lparr>w_ids := Suc 0\<rparr>) v"
proof -
  let ?w = "scene_rerun" and ?v = "scene_rerun\<lparr>w_ids := Suc 0\<rparr>"
  have calls: "\<exists>d. svc_RerunRun sample_service ''r'' ''k'' ?w = (Inr (d, False), ?v) \<and> run_id (rd_run d) = ''r''"
    "\<exists>d v. svc_RerunRun sample_service ''r'' ''k'' ?v = (Inr (d, False), v)"
    by (simp_all add: eval_run scene_rerun_def sample_service_def
        sample_rand_def scene_running_def scene_defs cong: eval_congs)
  then obtain d d' v where "svc_RerunRun sample_service ''r'' ''k'' ?w = (Inr (d, False), ?v)"
    "run_id (rd_run d) = ''r''" "svc_RerunRun sample_service ''r'' ''k'' ?v = (Inr (d', False), v)"
    by blast
  from rerun_starts_one_run [OF sample_env scene_rerun_wf this(1) rtranclp.rtrancl_refl this(3)] this(2,3)
  show ?thesis by auto
qed

end
