(* ===== verification/RunEnd.thy ===== *)
theory RunEnd
  imports RunProperties
begin

text \<open>
  The end of a run (\<open>finalizeRunIfReady\<close>, \<open>finalizeCancelIfReady\<close>): what the loops over
  the jobs decide, stated without the loops, and what the handlers make of it.
\<close>

section \<open>The decision\<close>

definition required_succeeded :: "job list \<Rightarrow> bool" where
  "required_succeeded jobs \<longleftrightarrow> (\<forall>j \<in> set jobs. job_required j \<longrightarrow> job_state j = JobStateSucceeded)"

definition job_broken :: "job_state \<Rightarrow> bool" where
  "job_broken st \<longleftrightarrow> st \<in> {JobStateFailed, JobStateTimedOut, JobStateCanceled}"

text \<open>The first required job that has not succeeded decides.\<close>

definition first_pending_broken :: "job list \<Rightarrow> bool" where
  "first_pending_broken jobs \<longleftrightarrow> (\<exists>before j after. jobs = before @ j # after \<and> required_succeeded before
     \<and> job_required j \<and> job_broken (job_state j))"

lemma required_succeeded_simps [simp]:
  "required_succeeded []"
  "required_succeeded (j # js) \<longleftrightarrow> (job_required j \<longrightarrow> job_state j = JobStateSucceeded) \<and> required_succeeded js"
  by (auto simp: required_succeeded_def)

lemma first_pending_broken_simps [simp]:
  "\<not> first_pending_broken []"
  "first_pending_broken (j # js) \<longleftrightarrow>
     (if job_required j \<and> job_state j \<noteq> JobStateSucceeded then job_broken (job_state j) else first_pending_broken js)"
proof -
  show "\<not> first_pending_broken []" by (simp add: first_pending_broken_def)
  show "first_pending_broken (j # js) \<longleftrightarrow>
     (if job_required j \<and> job_state j \<noteq> JobStateSucceeded then job_broken (job_state j) else first_pending_broken js)"
    (is "?L \<longleftrightarrow> ?R")
  proof
    assume ?L
    then obtain before x after where b: "j # js = before @ x # after" "required_succeeded before"
      "job_required x" "job_broken (job_state x)" unfolding first_pending_broken_def by blast
    show ?R
    proof (cases before)
      case Nil
      with b show ?thesis by (auto simp: job_broken_def)
    next
      case (Cons y ys)
      with b show ?thesis by (auto simp: first_pending_broken_def)
    qed
  next
    assume ?R
    show ?L
    proof (cases "job_required j \<and> job_state j \<noteq> JobStateSucceeded")
      case True
      with \<open>?R\<close> show ?thesis unfolding first_pending_broken_def by (intro exI [of _ "[]"]) auto
    next
      case False
      with \<open>?R\<close> obtain before x after where b: "js = before @ x # after" "required_succeeded before"
        "job_required x" "job_broken (job_state x)" by (auto simp: first_pending_broken_def)
      with False show ?thesis unfolding first_pending_broken_def
        by (intro exI [of _ "j # before"] exI [of _ x] exI [of _ after]) auto
    qed
  qed
qed



section \<open>The handlers\<close>




















end
