(* ===== verification/FailureProperties.thy ===== *)
theory FailureProperties
  imports RunEnd FailureAnalyzer
begin

text \<open>
  What the failure analyzer promises to the handler that stores its explanations: an
  explanation for every failure, of bounded length, that the schema accepts.
\<close>

section \<open>The advisor\<close>




section \<open>Storing\<close>






end
