(* ===== verification/GoPaths.thy ===== *)
theory GoPaths
  imports GoStrings
begin

text \<open>
  The parts of Go's \<open>path/filepath\<close>, \<open>os\<close> and \<open>io/fs\<close> the planner uses, on a Unix system.
  A file system is a tree; the planner only reads it. A directory lists its entries in
  the order of \<open>ReadDir\<close> (by name), or fails to; a file has contents or an error when it is
  read; a link that cannot be followed fails every \<open>Stat\<close> with an error of its own.
\<close>

section \<open>Lexical path processing (path/filepath)\<close>

abbreviation slash :: char where "slash \<equiv> CHR ''/''"

definition IsAbs :: "string \<Rightarrow> bool" where
  "IsAbs p = HasPrefix p ''/''"

text \<open>One element of \<open>Clean\<close>; the elements kept so far are in reverse order.\<close>

definition clean_step :: "bool \<Rightarrow> string \<Rightarrow> string list \<Rightarrow> string list" where
  "clean_step rooted x out =
     (if x = '''' \<or> x = ''.'' then out
      else if x = ''..'' then
        (case out of
           [] \<Rightarrow> if rooted then [] else [''..'']
         | y # ys \<Rightarrow> if y = ''..'' then x # out else ys)
      else x # out)"

definition clean_elems :: "string \<Rightarrow> string list" where
  "clean_elems p = rev (fold (clean_step (IsAbs p)) (Split p slash) [])"

definition Clean :: "string \<Rightarrow> string" where
  "Clean p =
     (if p = '''' then ''.''
      else if IsAbs p then ''/'' @ Join (clean_elems p) ''/''
      else if clean_elems p = [] then ''.''
      else Join (clean_elems p) ''/'')"

definition PathJoin :: "string list \<Rightarrow> string" where
  "PathJoin xs =
     (case dropWhile (\<lambda>x. x = '''') xs of [] \<Rightarrow> '''' | ys \<Rightarrow> Clean (Join ys ''/''))"

definition DirOf :: "string \<Rightarrow> string" where
  "DirOf p = Clean (rev (dropWhile (\<lambda>c. c \<noteq> slash) (rev p)))"

definition BaseOf :: "string \<Rightarrow> string" where
  "BaseOf p =
     (if p = '''' then ''.''
      else let q = TrimRight (\<lambda>c. c = slash) p in
           if q = '''' then ''/'' else rev (takeWhile (\<lambda>c. c \<noteq> slash) (rev q)))"

definition path_elems :: "string \<Rightarrow> string list" where
  "path_elems p = filter (\<lambda>x. x \<noteq> '''' \<and> x \<noteq> ''.'') (Split p slash)"

fun strip_common :: "string list \<Rightarrow> string list \<Rightarrow> string list \<times> string list" where
  "strip_common (x # xs) (y # ys) = (if x = y then strip_common xs ys else (x # xs, y # ys))"
| "strip_common xs ys = (xs, ys)"

definition Rel :: "string \<Rightarrow> string \<Rightarrow> string option" where
  "Rel basepath targpath =
     (let base = Clean basepath; targ = Clean targpath in
      if targ = base then Some ''.''
      else if IsAbs base \<noteq> IsAbs targ then None
      else case strip_common (path_elems base) (path_elems targ) of
          (bs, ts) \<Rightarrow> if bs \<noteq> [] \<and> hd bs = ''..'' then None
                      else Some (Join (map (\<lambda>_. ''..'') bs @ ts) ''/''))"

definition ToSlash :: "string \<Rightarrow> string" where
  "ToSlash p = p"

section \<open>Files (os)\<close>

datatype fs_node =
    FsFile "string + string"
  | FsDir "string option" "(string \<times> fs_node) list"
  | FsLoop string

datatype fs_error = FsNotExist | FsError string

fun fs_error_text :: "fs_error \<Rightarrow> string" where
  "fs_error_text FsNotExist = ''no such file or directory''"
| "fs_error_text (FsError e) = e"

fun fs_at :: "fs_node \<Rightarrow> string list \<Rightarrow> fs_error + fs_node" where
  "fs_at (FsLoop e) ns = Inl (FsError e)"
| "fs_at t [] = Inr t"
| "fs_at (FsDir _ entries) (n # ns) =
     (case map_of entries n of None \<Rightarrow> Inl FsNotExist | Some t \<Rightarrow> fs_at t ns)"
| "fs_at (FsFile _) (n # ns) = Inl (FsError ''not a directory'')"

definition fs_lookup :: "fs_node \<Rightarrow> string \<Rightarrow> fs_error + fs_node" where
  "fs_lookup fs p = fs_at fs (path_elems p)"

fun fs_is_dir :: "fs_node \<Rightarrow> bool" where
  "fs_is_dir (FsDir _ _) = True"
| "fs_is_dir _ = False"

text \<open>\<open>os.Stat\<close>, for the two facts the planner asks: whether it fails, and \<open>IsDir\<close>.\<close>

definition Stat :: "fs_node \<Rightarrow> string \<Rightarrow> fs_error + bool" where
  "Stat fs p = (case fs_lookup fs p of Inl e \<Rightarrow> Inl e | Inr t \<Rightarrow> Inr (fs_is_dir t))"

definition path_error :: "string \<Rightarrow> string \<Rightarrow> string \<Rightarrow> string" where
  "path_error op p e = op @ '' '' @ p @ '': '' @ e"

definition ReadFile :: "fs_node \<Rightarrow> string \<Rightarrow> fs_error + string" where
  "ReadFile fs p =
     (case fs_lookup fs p of
        Inl FsNotExist \<Rightarrow> Inl FsNotExist
      | Inl (FsError e) \<Rightarrow> Inl (FsError (path_error ''open'' p e))
      | Inr (FsFile (Inr data)) \<Rightarrow> Inr data
      | Inr (FsFile (Inl e)) \<Rightarrow> Inl (FsError (path_error ''open'' p e))
      | Inr (FsDir _ _) \<Rightarrow> Inl (FsError (path_error ''read'' p ''is a directory''))
      | Inr (FsLoop e) \<Rightarrow> Inl (FsError (path_error ''open'' p e)))"

section \<open>Walking a tree (filepath.WalkDir)\<close>

text \<open>
  \<open>WalkDir\<close> with a callback of the form both searches of the planner have: it passes an
  error on, skips the directories \<open>omit\<close> names, and collects the paths of the other
  entries whose name is wanted.
\<close>

fun walk :: "(string \<Rightarrow> bool) \<Rightarrow> (string \<Rightarrow> bool) \<Rightarrow> string \<Rightarrow> string \<Rightarrow> fs_node \<Rightarrow> string + string list"
  and walk_entries :: "(string \<Rightarrow> bool) \<Rightarrow> (string \<Rightarrow> bool) \<Rightarrow> string \<Rightarrow> (string \<times> fs_node) list \<Rightarrow> string + string list"
where
  "walk omit want path name (FsFile _) = Inr (if want name then [path] else [])"
| "walk omit want path name (FsLoop _) = Inr (if want name then [path] else [])"
| "walk omit want path name (FsDir err entries) =
     (if omit name then Inr []
      else case err of Some e \<Rightarrow> Inl e | None \<Rightarrow> walk_entries omit want path entries)"
| "walk_entries omit want path [] = Inr []"
| "walk_entries omit want path ((n, t) # es) =
     (case walk omit want (PathJoin [path, n]) n t of
        Inl e \<Rightarrow> Inl e
      | Inr xs \<Rightarrow> (case walk_entries omit want path es of Inl e \<Rightarrow> Inl e | Inr ys \<Rightarrow> Inr (xs @ ys)))"

definition WalkDir :: "fs_node \<Rightarrow> (string \<Rightarrow> bool) \<Rightarrow> (string \<Rightarrow> bool) \<Rightarrow> string \<Rightarrow> string + string list" where
  "WalkDir fs omit want root =
     (case fs_lookup fs root of
        Inl e \<Rightarrow> Inl (path_error ''lstat'' root (fs_error_text e))
      | Inr t \<Rightarrow> walk omit want root (BaseOf root) t)"

end
