(* ===== verification/Projects.thy ===== *)
theory Projects
  imports GoPaths StaticPlan Tables
begin

text \<open>
  Discovery of the diff planner (\<open>planner/diff_planner.go\<close>): the files and Go modules of a
  repository, the two line parsers for \<open>go.mod\<close> and \<open>go.work\<close>, and the fingerprint. What
  the planner asks of its surroundings is a record: the file tree, the working directory,
  the environment variable, \<open>git show\<close>, SHA-256, the texts of database errors, and
  the order in which Go ranges over a set of names.
\<close>

record planner_env =
  pe_fs :: fs_node
  pe_cwd :: "string + string"
  pe_root_variable :: string
  pe_git_show :: "string \<Rightarrow> string \<Rightarrow> string + string"
  pe_sha256_hex :: "string \<Rightarrow> string"
  pe_error_text :: "go_error \<Rightarrow> string"
  pe_range_order :: "string list \<Rightarrow> string list"

section \<open>Repository paths\<close>

definition normalizeRepoPath :: "string \<Rightarrow> string" where
  "normalizeRepoPath p =
     (let p1 = ToSlash p; p2 = TrimPrefix p1 ''./''; p3 = TrimSuffix p2 ''/'' in
      if p3 = '''' \<or> p3 = ''.'' then ''.'' else p3)"

definition projectNameFromRoot :: "string \<Rightarrow> string" where
  "projectNameFromRoot root = (if root = ''.'' \<or> root = '''' then ''root'' else root)"

text \<open>The loop of \<open>uniqueStrings\<close>: the strings seen so far are those already collected.\<close>

fun unique_strings_from :: "string list \<Rightarrow> string list \<Rightarrow> string list" where
  "unique_strings_from seen [] = []"
| "unique_strings_from seen (x # xs) =
     (if x = '''' \<or> x \<in> set seen then unique_strings_from seen xs
      else x # unique_strings_from (x # seen) xs)"

definition uniqueStrings :: "string list \<Rightarrow> string list" where
  "uniqueStrings xs = unique_strings_from [] xs"

section \<open>Module files (parseGoMod, parseGoWork)\<close>

record go_mod_info =
  gm_module_path :: string
  gm_requires :: "string list"

definition comment_mark :: string where "comment_mark = ''//''"

text \<open>The text of a line without comment and surrounding space, \<open>None\<close> where the loops \<open>continue\<close>.\<close>

definition mod_line :: "string \<Rightarrow> string option" where
  "mod_line raw =
     (let line = TrimSpace raw in
      if line = '''' \<or> HasPrefix line comment_mark then None
      else case IndexOf line comment_mark of
          None \<Rightarrow> Some line
        | Some i \<Rightarrow> let cut = TrimSpace (take i line) in if cut = '''' then None else Some cut)"

text \<open>One turn of the loop of \<open>parseGoMod\<close>, on the block flag and the result.\<close>

definition go_mod_step :: "string \<Rightarrow> bool \<times> go_mod_info \<Rightarrow> bool \<times> go_mod_info" where
  "go_mod_step raw st =
     (case mod_line raw of
        None \<Rightarrow> st
      | Some line \<Rightarrow>
          let (block, info) = st; fields = Fields line in
          if HasPrefix line ''module '' then
            (block, if 2 \<le> length fields then info\<lparr>gm_module_path := fields ! 1\<rparr> else info)
          else if HasPrefix line ''require '' then
            (if 2 \<le> length fields \<and> fields ! 1 = ''('' then (True, info)
             else if 2 \<le> length fields then (block, info\<lparr>gm_requires := gm_requires info @ [fields ! 1]\<rparr>)
             else (block, info))
          else if block then
            (if line = '')'' then (False, info)
             else if 1 \<le> length fields then (block, info\<lparr>gm_requires := gm_requires info @ [fields ! 0]\<rparr>)
             else (block, info))
          else (block, info))"

definition no_mod_info :: go_mod_info where
  "no_mod_info = \<lparr>gm_module_path = '''', gm_requires = []\<rparr>"

definition newline :: char where "newline = CHR 0x0A"

definition go_mod_lines :: "string \<Rightarrow> go_mod_info" where
  "go_mod_lines data = snd (fold go_mod_step (Split data newline) (False, no_mod_info))"

text \<open>The module information is returned along with the error.\<close>

definition parseGoMod :: "fs_node \<Rightarrow> string \<Rightarrow> go_mod_info \<times> string option" where
  "parseGoMod fs path =
     (case ReadFile fs path of
        Inl e \<Rightarrow> (no_mod_info, Some (fs_error_text e))
      | Inr data \<Rightarrow>
          let info = go_mod_lines data in
          (info, if gm_module_path info = '''' then Some (''module path missing in '' @ path) else None))"

definition go_work_step :: "string \<Rightarrow> bool \<times> string list \<Rightarrow> bool \<times> string list" where
  "go_work_step raw st =
     (case mod_line raw of
        None \<Rightarrow> st
      | Some line \<Rightarrow>
          let (block, modules) = st; fields = Fields line in
          if HasPrefix line ''use '' then
            (if 2 \<le> length fields \<and> fields ! 1 = ''('' then (True, modules)
             else if 2 \<le> length fields then (block, modules @ [fields ! 1])
             else (block, modules))
          else if block then
            (if line = '')'' then (False, modules)
             else if 1 \<le> length fields then (block, modules @ [fields ! 0])
             else (block, modules))
          else (block, modules))"

definition parseGoWork :: "fs_node \<Rightarrow> string \<Rightarrow> string + string list" where
  "parseGoWork fs path =
     (case ReadFile fs path of
        Inl e \<Rightarrow> Inl (fs_error_text e)
      | Inr data \<Rightarrow> Inr (uniqueStrings (snd (fold go_work_step (Split data newline) (False, [])))))"

section \<open>Searching the repository\<close>

definition skipDirs :: "string list" where
  "skipDirs = [''.git'', ''node_modules'', ''vendor'', ''.cache'']"

definition findFiles :: "fs_node \<Rightarrow> string \<Rightarrow> string \<Rightarrow> string + string list" where
  "findFiles fs repoRoot name = WalkDir fs (\<lambda>d. d \<in> set skipDirs) (\<lambda>f. f = name) repoRoot"

definition findFilesByNames :: "fs_node \<Rightarrow> string \<Rightarrow> string list \<Rightarrow> string + string list" where
  "findFilesByNames fs repoRoot names = WalkDir fs (\<lambda>d. d \<in> set skipDirs) (\<lambda>f. f \<in> set names) repoRoot"

section \<open>Projects\<close>

record project =
  pr_name :: string
  pr_root :: string
  pr_language :: string
  pr_module_path :: string
  pr_requires :: "string list"

record project_discovery =
  pd_projects :: "project list"
  pd_dependency_unknown :: bool

definition go_project :: "string \<Rightarrow> go_mod_info \<Rightarrow> project" where
  "go_project rel info = \<lparr>pr_name = projectNameFromRoot rel, pr_root = rel, pr_language = ''go'',
     pr_module_path = gm_module_path info, pr_requires = gm_requires info\<rparr>"

text \<open>One turn of the loop over the \<open>go.mod\<close> files.\<close>

definition project_of_go_mod :: "fs_node \<Rightarrow> string \<Rightarrow> string \<Rightarrow> project \<times> bool" where
  "project_of_go_mod fs repoRoot path =
     (let (info, parseErr) = parseGoMod fs path;
          dir = DirOf path;
          (rel, relErr) = (case Rel repoRoot dir of None \<Rightarrow> (dir, True) | Some r \<Rightarrow> (r, False)) in
      (go_project (normalizeRepoPath rel) info, parseErr \<noteq> None \<or> relErr))"

definition discoverGoProjectsFromGoMod :: "fs_node \<Rightarrow> string \<Rightarrow> project_discovery" where
  "discoverGoProjectsFromGoMod fs repoRoot =
     (case findFiles fs repoRoot ''go.mod'' of
        Inl _ \<Rightarrow> \<lparr>pd_projects = [], pd_dependency_unknown = True\<rparr>
      | Inr paths \<Rightarrow>
          let found = map (project_of_go_mod fs repoRoot) (sort paths) in
          \<lparr>pd_projects = map fst found, pd_dependency_unknown = list_ex snd found\<rparr>)"

definition resolveGoWorkModule :: "string \<Rightarrow> string \<Rightarrow> (string \<times> string) option" where
  "resolveGoWorkModule repoRoot modulePath =
     (let joined = (if IsAbs modulePath then modulePath else PathJoin [repoRoot, modulePath]);
          absdir = Clean joined in
      case Rel repoRoot absdir of
        None \<Rightarrow> None
      | Some rel \<Rightarrow> if HasPrefix rel ''..'' then None else Some (absdir, normalizeRepoPath rel))"

text \<open>One turn of the loop over the modules of \<open>go.work\<close>.\<close>

definition project_of_go_work :: "fs_node \<Rightarrow> string \<Rightarrow> string \<Rightarrow> project option \<times> bool" where
  "project_of_go_work fs repoRoot modulePath =
     (if modulePath = '''' then (None, True)
      else case resolveGoWorkModule repoRoot modulePath of
        None \<Rightarrow> (None, True)
      | Some (absdir, rel) \<Rightarrow>
          let goModPath = PathJoin [absdir, ''go.mod''] in
          (case Stat fs goModPath of
             Inl _ \<Rightarrow> (Some (go_project rel no_mod_info), True)
           | Inr _ \<Rightarrow> (case parseGoMod fs goModPath of
               (info, parseErr) \<Rightarrow> (Some (go_project rel info), parseErr \<noteq> None))))"

definition discoverGoProjectsFromGoWork :: "fs_node \<Rightarrow> string \<Rightarrow> string list \<Rightarrow> project_discovery" where
  "discoverGoProjectsFromGoWork fs repoRoot modules =
     (let found = map (project_of_go_work fs repoRoot) modules in
      \<lparr>pd_projects = List.map_filter fst found, pd_dependency_unknown = list_ex snd found\<rparr>)"

definition discoverGoProjects :: "fs_node \<Rightarrow> string \<Rightarrow> project_discovery" where
  "discoverGoProjects fs repoRoot =
     (let goWorkPath = PathJoin [repoRoot, ''go.work''];
          fallback = (discoverGoProjectsFromGoMod fs repoRoot)\<lparr>pd_dependency_unknown := True\<rparr> in
      case Stat fs goWorkPath of
        Inr isDir \<Rightarrow>
          if isDir then discoverGoProjectsFromGoMod fs repoRoot
          else (case parseGoWork fs goWorkPath of
              Inl _ \<Rightarrow> fallback
            | Inr modules \<Rightarrow>
                if modules = [] then fallback
                else let workspace = discoverGoProjectsFromGoWork fs repoRoot modules in
                     if pd_projects workspace \<noteq> [] then workspace else fallback)
      | Inl FsNotExist \<Rightarrow> discoverGoProjectsFromGoMod fs repoRoot
      | Inl (FsError _) \<Rightarrow> fallback)"

section \<open>Discovery inputs\<close>

record discovery_inputs =
  di_files :: "string list"
  di_projects :: "project list"
  di_dependency_unknown :: bool

definition discovery_candidates :: "string list" where
  "discovery_candidates = [''go.mod'', ''go.sum'', ''go.work'', ''go.work.sum'', ''package.json'',
     ''Makefile'', ''README.md'', ''CONTRIBUTING.md'', ''ci.ai.yaml'']"

definition discoverInputs :: "fs_node \<Rightarrow> string \<Rightarrow> discovery_inputs" where
  "discoverInputs fs repoRoot =
     (let found = filter (\<lambda>c. case Stat fs (PathJoin [repoRoot, c]) of Inl _ \<Rightarrow> False | Inr _ \<Rightarrow> True)
                    discovery_candidates;
          discovery = discoverGoProjects fs repoRoot in
      \<lparr>di_files = found, di_projects = pd_projects discovery,
       di_dependency_unknown = pd_dependency_unknown discovery\<rparr>)"

definition hasFile :: "discovery_inputs \<Rightarrow> string \<Rightarrow> bool" where
  "hasFile d name = (name \<in> set (di_files d))"

section \<open>Fingerprint (computeRepoFingerprint)\<close>

definition fingerprint_names :: "string list" where
  "fingerprint_names = [''go.mod'', ''go.sum'', ''go.work'', ''go.work.sum'', ''package.json'',
     ''package-lock.json'', ''pnpm-lock.yaml'', ''yarn.lock'', ''Makefile'', ''justfile'', ''Taskfile.yml'',
     ''pom.xml'', ''build.gradle'', ''build.gradle.kts'', ''settings.gradle'', ''settings.gradle.kts'',
     ''Cargo.toml'', ''WORKSPACE'', ''BUILD.bazel'', ''Dockerfile'', ''ci.ai.yaml'']"

text \<open>The bytes written into the hash, file by file.\<close>

fun fingerprint_bytes :: "fs_node \<Rightarrow> string \<Rightarrow> string list \<Rightarrow> string + string" where
  "fingerprint_bytes fs repoRoot [] = Inr ''''"
| "fingerprint_bytes fs repoRoot (p # ps) =
     (case Rel repoRoot p of
        None \<Rightarrow> Inl (''Rel: can't make '' @ p @ '' relative to '' @ repoRoot)
      | Some rel \<Rightarrow>
          (case ReadFile fs p of
             Inl e \<Rightarrow> Inl (fs_error_text e)
           | Inr data \<Rightarrow>
               (case fingerprint_bytes fs repoRoot ps of
                  Inl e \<Rightarrow> Inl e
                | Inr rest \<Rightarrow> Inr (normalizeRepoPath rel @ [CHR 0x00] @ data @ [CHR 0x00] @ rest))))"

definition computeRepoFingerprint :: "planner_env \<Rightarrow> string \<Rightarrow> string + string" where
  "computeRepoFingerprint E repoRoot =
     (case findFilesByNames (pe_fs E) repoRoot fingerprint_names of
        Inl e \<Rightarrow> Inl e
      | Inr paths \<Rightarrow>
          if paths = [] then Inl ''no fingerprint inputs found''
          else case fingerprint_bytes (pe_fs E) repoRoot (sort paths) of
              Inl e \<Rightarrow> Inl e
            | Inr bytes \<Rightarrow> Inr (pe_sha256_hex E bytes))"

end
