(* ===== verification/Impact.thy ===== *)
theory Impact
  imports Projects
begin

text \<open>
  Impact analysis of the diff planner (\<open>planner/diff_planner.go\<close>): which project owns a
  changed path, how a change spreads along the module dependencies, and the summary the
  plan is made from. A Go map whose order is observable only through a later sort is an
  association list; the order in which Go ranges over a set of names is an argument.
\<close>

section \<open>Classification of paths\<close>

definition isDocsPath :: "string \<Rightarrow> bool" where
  "isDocsPath path =
     (let lower = ToLower path; base = ToLower (BaseOf lower) in
      if HasPrefix lower ''docs/'' then True
      else if base = ''readme.md'' \<or> base = ''contributing.md'' then True
      else HasSuffix lower ''.md'')"

definition isGlobalImpact :: "string \<Rightarrow> bool" where
  "isGlobalImpact path =
     (let lower = ToLower path in
      HasPrefix lower ''.github/'' \<or> lower = ''ci.ai.yaml'' \<or> lower = ''go.mod'' \<or> lower = ''go.sum''
      \<or> lower = ''go.work'' \<or> lower = ''go.work.sum'' \<or> lower = ''makefile'' \<or> lower = ''dockerfile'')"

definition isCodePath :: "string \<Rightarrow> bool" where
  "isCodePath path =
     (let lower = ToLower path in
      HasSuffix lower ''.go'' \<or> HasSuffix lower ''.mod'' \<or> HasSuffix lower ''.sum'')"

definition isPullRequestRef :: "string \<Rightarrow> bool" where
  "isPullRequestRef ref = HasPrefix ref ''refs/pull/''"

section \<open>Ownership\<close>

text \<open>
  The order of \<open>buildOwnershipIndex\<close>: root projects last, longer roots first, then by name.
  \<open>sort.Slice\<close> is not stable; projects it does not order have the same root, hence the same name.
\<close>

definition ownership_key :: "project \<Rightarrow> bool \<times> int \<times> string" where
  "ownership_key p = (pr_root p = ''.'', - int (length (pr_root p)), pr_root p)"

definition buildOwnershipIndex :: "project list \<Rightarrow> project list" where
  "buildOwnershipIndex projects = sort_key ownership_key projects"

definition ownerForPath :: "project list \<Rightarrow> string \<Rightarrow> project option" where
  "ownerForPath index path =
     (let normalized = TrimPrefix path ''./'' in
      case find (\<lambda>p. pr_root p \<noteq> ''.''
             \<and> (normalized = pr_root p \<or> HasPrefix normalized (pr_root p @ ''/''))) index of
        Some p \<Rightarrow> Some p
      | None \<Rightarrow> find (\<lambda>p. pr_root p = ''.'') index)"

section \<open>Dependencies\<close>

definition module_index :: "project list \<Rightarrow> string \<Rightarrow> string option" where
  "module_index projects =
     fold (\<lambda>p m. if pr_module_path p \<noteq> '''' then m(pr_module_path p \<mapsto> pr_name p) else m) projects Map.empty"

type_synonym dependency_graph = "(string \<times> string list) list"

text \<open>\<open>m[k] = append(m[k], x)\<close>\<close>

fun append_at :: "string \<Rightarrow> string \<Rightarrow> dependency_graph \<Rightarrow> dependency_graph" where
  "append_at k x [] = [(k, [x])]"
| "append_at k x ((k', xs) # m) = (if k' = k then (k', xs @ [x]) # m else (k', xs) # append_at k x m)"

definition add_requirement :: "(string \<Rightarrow> string option) \<Rightarrow> string \<Rightarrow> string \<Rightarrow> dependency_graph \<Rightarrow> dependency_graph" where
  "add_requirement index name req m =
     (case index req of None \<Rightarrow> m | Some target \<Rightarrow> append_at target name m)"

definition buildDependencyGraph :: "project list \<Rightarrow> dependency_graph" where
  "buildDependencyGraph projects =
     (let index = module_index projects;
          dependents = fold (\<lambda>p m. fold (add_requirement index (pr_name p)) (pr_requires p) m) projects [] in
      map (\<lambda>(k, xs). (k, sort xs)) dependents)"

definition graph_dependents :: "dependency_graph \<Rightarrow> string \<Rightarrow> string list" where
  "graph_dependents g name = (case map_of g name of None \<Rightarrow> [] | Some xs \<Rightarrow> xs)"

section \<open>Spreading (resolveImpactedProjects)\<close>

text \<open>The inner loop: unseen dependents are marked and queued.\<close>

fun visit_dependents :: "string list \<Rightarrow> string list \<times> string list \<Rightarrow> string list \<times> string list" where
  "visit_dependents [] st = st"
| "visit_dependents (d # ds) (impacted, queue) =
     (if d \<in> set impacted then visit_dependents ds (impacted, queue)
      else visit_dependents ds (impacted @ [d], queue @ [d]))"

definition graph_names :: "dependency_graph \<Rightarrow> string set" where
  "graph_names g = (\<Union>(k, xs) \<in> set g. set xs)"

lemma graph_dependents_names: "set (graph_dependents g n) \<subseteq> graph_names g"
proof (cases "map_of g n")
  case (Some xs)
  then have "(n, xs) \<in> set g" by (rule map_of_SomeD)
  with Some show ?thesis by (auto simp: graph_dependents_def graph_names_def)
qed (simp add: graph_dependents_def)

lemma finite_graph_names: "finite (graph_names g)"
  by (auto simp: graph_names_def)

text \<open>What a turn of the inner loop adds: the same new names to both lists.\<close>

lemma visit_dependents_adds:
  "\<exists>new. visit_dependents ds (imp, queue) = (imp @ new, queue @ new) \<and> set new \<subseteq> set ds
     \<and> distinct new \<and> set new \<inter> set imp = {} \<and> set ds \<subseteq> set imp \<union> set new"
proof (induction ds arbitrary: imp queue)
  case (Cons d ds)
  show ?case
  proof (cases "d \<in> set imp")
    case True
    with Cons [of imp queue] show ?thesis by auto
  next
    case False
    obtain new where "visit_dependents ds (imp @ [d], queue @ [d]) = ((imp @ [d]) @ new, (queue @ [d]) @ new)"
      "set new \<subseteq> set ds" "distinct new" "set new \<inter> set (imp @ [d]) = {}" "set ds \<subseteq> set (imp @ [d]) \<union> set new"
      using Cons [of "imp @ [d]" "queue @ [d]"] by auto
    with False show ?thesis by (intro exI [of _ "d # new"]) auto
  qed
qed simp

function resolve_loop :: "dependency_graph \<Rightarrow> string list \<Rightarrow> string list \<Rightarrow> string list" where
  "resolve_loop g impacted [] = impacted"
| "resolve_loop g impacted (name # queue) =
     (case visit_dependents (graph_dependents g name) (impacted, queue) of
        (impacted', queue') \<Rightarrow> resolve_loop g impacted' queue')"
  by pat_completeness auto

text \<open>Every name is marked at most once, so the loop ends: the names left to mark count twice.\<close>

lemma resolve_loop_decreases:
  assumes "visit_dependents (graph_dependents g name) (imp, queue) = (imp', queue')"
  shows "2 * card (graph_names g - set imp') + length queue' < 2 * card (graph_names g - set imp) + Suc (length queue)"
proof -
  obtain new where new: "imp' = imp @ new" "queue' = queue @ new" "set new \<subseteq> graph_names g" "distinct new"
    "set new \<inter> set imp = {}"
    using visit_dependents_adds [of "graph_dependents g name" imp queue] assms graph_dependents_names [of g name] by auto
  have "graph_names g - set imp' = (graph_names g - set imp) - set new" using new(1) by auto
  moreover have "set new \<subseteq> graph_names g - set imp" using new(3,5) by auto
  ultimately have "card (graph_names g - set imp') = card (graph_names g - set imp) - card (set new)"
    "card (set new) \<le> card (graph_names g - set imp)"
    using finite_graph_names [of g] by (auto simp: card_Diff_subset intro: card_mono)
  moreover have "card (set new) = length new" using new(4) by (simp add: distinct_card)
  ultimately show ?thesis using new(2) by simp
qed

termination resolve_loop
  by (relation "measure (\<lambda>(g, imp, queue). 2 * card (graph_names g - set imp) + length queue)")
    (simp_all, metis resolve_loop_decreases case_prod_conv add_Suc_right)

definition projectNames :: "project list \<Rightarrow> string list" where
  "projectNames projects = sort (rev (fold (\<lambda>p names. if pr_name p \<in> set names then names else pr_name p # names) projects []))"

text \<open>\<open>impacted\<close> lists the keys of the set in the order \<open>range\<close> happens to visit them.\<close>

definition resolveImpactedProjects ::
  "string list \<Rightarrow> project list \<Rightarrow> bool \<Rightarrow> bool \<Rightarrow> dependency_graph \<Rightarrow> string list" where
  "resolveImpactedProjects impacted projects global dependencyUnknown g =
     (if projects = [] then []
      else if global \<or> dependencyUnknown then projectNames projects
      else if impacted = [] then []
      else sort (resolve_loop g impacted impacted))"

section \<open>Summary (analyzeImpact)\<close>

record impact_summary =
  is_docs_only :: bool
  is_global :: bool
  is_code_changes :: bool
  is_paths :: "string list"
  is_impacted_projects :: "string list"
  is_unknown_ownership :: "string list"
  is_dependency_unknown :: bool

record impact_scan =
  sc_docs_only :: bool
  sc_global :: bool
  sc_code :: bool
  sc_unknown_paths :: "string list"
  sc_impacted :: "string list"

definition scan_path :: "project list \<Rightarrow> string \<Rightarrow> impact_scan \<Rightarrow> impact_scan" where
  "scan_path index path s =
     (let s1 = (if isDocsPath path then s else s\<lparr>sc_docs_only := False\<rparr>);
          s2 = (if isGlobalImpact path then s1\<lparr>sc_global := True\<rparr> else s1);
          s3 = (if isCodePath path then s2\<lparr>sc_code := True\<rparr> else s2) in
      case ownerForPath index path of
        Some owner \<Rightarrow> s3\<lparr>sc_impacted := List.insert (pr_name owner) (sc_impacted s3)\<rparr>
      | None \<Rightarrow> s3\<lparr>sc_unknown_paths := sc_unknown_paths s3 @ [path]\<rparr>)"

definition scan_start :: impact_scan where
  "scan_start = \<lparr>sc_docs_only = True, sc_global = False, sc_code = False, sc_unknown_paths = [], sc_impacted = []\<rparr>"

text \<open>\<open>order\<close> permutes the set of impacted names as \<open>range\<close> does.\<close>

definition analyzeImpact :: "(string list \<Rightarrow> string list) \<Rightarrow> string list \<Rightarrow> project list \<Rightarrow> bool \<Rightarrow> impact_summary" where
  "analyzeImpact order paths0 projects dependencyUnknown =
     (let paths = sort paths0;
          s = fold (scan_path (buildOwnershipIndex projects)) paths scan_start;
          global = (sc_global s \<or> sc_unknown_paths s \<noteq> [] \<or> dependencyUnknown) in
      \<lparr>is_docs_only = sc_docs_only s, is_global = global, is_code_changes = sc_code s, is_paths = paths,
       is_impacted_projects = resolveImpactedProjects (order (sc_impacted s)) projects global dependencyUnknown
         (buildDependencyGraph projects),
       is_unknown_ownership = sc_unknown_paths s, is_dependency_unknown = dependencyUnknown\<rparr>)"

end
