(* ===== verification/ImpactProperties.thy ===== *)
theory ImpactProperties
  imports Impact
begin

text \<open>
  What the impact analysis computes, without its loops: the owner of a path is the
  innermost project around it, and the impacted projects are the owners of the changed
  paths with everything that depends on them.
\<close>

section \<open>The owner of a path\<close>

definition contains_path :: "project \<Rightarrow> string \<Rightarrow> bool" where
  "contains_path p path \<longleftrightarrow> pr_root p \<noteq> ''.'' \<and>
     (TrimPrefix path ''./'' = pr_root p \<or> HasPrefix (TrimPrefix path ''./'') (pr_root p @ ''/''))"

lemma find_first:
  assumes "find P (sort_key f xs) = Some x"
  shows "x \<in> set xs \<and> P x \<and> (\<forall>y \<in> set xs. P y \<longrightarrow> f x \<le> f y)"
proof -
  obtain i where i: "i < length (sort_key f xs)" "P (sort_key f xs ! i)" "x = sort_key f xs ! i"
    "\<forall>j < i. \<not> P (sort_key f xs ! j)"
    using assms by (auto simp: find_Some_iff)
  have "f x \<le> f y" if y: "y \<in> set xs" "P y" for y
  proof -
    obtain j where j: "j < length (sort_key f xs)" "sort_key f xs ! j = y"
      using y(1) by (metis in_set_conv_nth set_sort)
    with i y(2) have "i \<le> j" by (metis not_less)
    then have "map f (sort_key f xs) ! i \<le> map f (sort_key f xs) ! j"
      using j(1) by (intro sorted_nth_mono) simp_all
    with i j show ?thesis by simp
  qed
  moreover have "x \<in> set xs" using i by (metis nth_mem set_sort)
  ultimately show ?thesis using i by simp
qed

lemma find_sort_None: "find P (sort_key f xs) = None \<longleftrightarrow> (\<forall>x \<in> set xs. \<not> P x)"
  by (auto simp: find_None_iff)

lemma prefixes_nested:
  assumes "s = p \<or> HasPrefix s (p @ ''/'')" and "s = q \<or> HasPrefix s (q @ ''/'')" and "length q \<le> length p"
  shows "q = p \<or> HasPrefix p (q @ ''/'')"
proof -
  obtain a b where a: "s = p @ a" "a = [] \<or> (\<exists>t. a = slash # t)" and b: "s = q @ b" "b = [] \<or> (\<exists>t. b = slash # t)"
    using assms(1,2) by (fastforce simp: HasPrefix_iff)
  from a(1) b(1) have "p @ a = q @ b" by simp
  then obtain us where us: "p = q @ us" "us @ a = b"
    using assms(3) by (auto simp: append_eq_append_conv2)
  show ?thesis
  proof (cases us)
    case (Cons c cs)
    with us b(2) have "c = slash" by auto
    with us Cons show ?thesis by (auto simp: HasPrefix_iff)
  qed (use us in simp)
qed

text \<open>
  C23: Ownership. The owner of a changed path is a project of the repository; it is
  the innermost project directory the path lies in, so that every other project
  directory around the path contains the owner's; the root project owns what no project
  directory contains; and a path without owner lies in no project at all.
\<close>

theorem owner_is_the_innermost:
  "case ownerForPath (buildOwnershipIndex projects) path of
     Some p \<Rightarrow> p \<in> set projects \<and>
       (if \<exists>q \<in> set projects. contains_path q path
        then contains_path p path \<and> (\<forall>q \<in> set projects. contains_path q path \<longrightarrow>
               pr_root q = pr_root p \<or> HasPrefix (pr_root p) (pr_root q @ ''/''))
        else pr_root p = ''.'')
   | None \<Rightarrow> \<forall>q \<in> set projects. \<not> contains_path q path \<and> pr_root q \<noteq> ''.''"
proof -
  let ?index = "buildOwnershipIndex projects"
  have owner: "ownerForPath ?index path = (case find (\<lambda>p. contains_path p path) ?index of
      Some p \<Rightarrow> Some p | None \<Rightarrow> find (\<lambda>p. pr_root p = ''.'') ?index)"
    by (simp add: ownerForPath_def contains_path_def Let_def)
  show ?thesis
  proof (cases "find (\<lambda>p. contains_path p path) ?index")
    case (Some p)
    have p: "p \<in> set projects" "contains_path p path"
      "\<forall>q \<in> set projects. contains_path q path \<longrightarrow> ownership_key p \<le> ownership_key q"
      using find_first [OF Some [unfolded buildOwnershipIndex_def]] by auto
    have "pr_root q = pr_root p \<or> HasPrefix (pr_root p) (pr_root q @ ''/'')"
      if q: "q \<in> set projects" "contains_path q path" for q
    proof (rule prefixes_nested [where s = "TrimPrefix path ''./''"])
      have "ownership_key p \<le> ownership_key q" using p(3) q by simp
      then show "length (pr_root q) \<le> length (pr_root p)"
        using p(2) q(2) by (auto simp: ownership_key_def contains_path_def less_eq_prod_def less_prod_def)
    qed (use p(2) q(2) in \<open>auto simp: contains_path_def\<close>)
    with p show ?thesis by (auto simp: owner Some)
  next
    case None
    then have none: "\<forall>q \<in> set projects. \<not> contains_path q path"
      unfolding buildOwnershipIndex_def find_sort_None .
    show ?thesis
    proof (cases "find (\<lambda>p. pr_root p = ''.'') ?index")
      case (Some p)
      with None none find_first [OF Some [unfolded buildOwnershipIndex_def]] show ?thesis by (auto simp: owner)
    next
      case rootless: None
      then have "\<forall>q \<in> set projects. pr_root q \<noteq> ''.''" unfolding buildOwnershipIndex_def find_sort_None .
      with None rootless none show ?thesis by (simp add: owner)
    qed
  qed
qed

text \<open>A nested project, its parent and the root project.\<close>

definition sample_project :: "string \<Rightarrow> string \<Rightarrow> string list \<Rightarrow> project" where
  "sample_project root path reqs = go_project root \<lparr>gm_module_path = path, gm_requires = reqs\<rparr>"

definition sample_projects :: "project list" where
  "sample_projects = [sample_project ''.'' ''m'' [], sample_project ''lib'' ''m/lib'' [],
     sample_project ''lib/io'' ''m/io'' [''m/lib''], sample_project ''app'' ''m/app'' [''m/io'', ''x'']]"

lemmas sample_defs = sample_projects_def sample_project_def go_project_def projectNameFromRoot_def

theorem owner_is_the_innermost_witness:
  "ownerForPath (buildOwnershipIndex sample_projects) ''lib/io/a.go'' = Some (sample_project ''lib/io'' ''m/io'' [''m/lib''])
    \<and> contains_path (sample_project ''lib'' ''m/lib'' []) ''lib/io/a.go'' \<and> HasPrefix ''lib/io'' ''lib/''"
proof -
  have "ownerForPath (buildOwnershipIndex sample_projects) ''lib/io/a.go''
      = Some (sample_project ''lib/io'' ''m/io'' [''m/lib''])"
    by (simp add: sample_defs buildOwnershipIndex_def ownership_key_def ownerForPath_def HasPrefix_def
        TrimPrefix_def less_eq_prod_def less_prod_def)
  with owner_is_the_innermost [of sample_projects "''lib/io/a.go''"] show ?thesis
    by (simp add: sample_defs contains_path_def HasPrefix_def TrimPrefix_def)
qed


section \<open>The dependency graph\<close>

text \<open>\<open>n'\<close> requires a module whose project is called \<open>n\<close>.\<close>

definition requires_project :: "project list \<Rightarrow> string \<Rightarrow> string \<Rightarrow> bool" where
  "requires_project projects n n' \<longleftrightarrow>
     (\<exists>p \<in> set projects. pr_name p = n' \<and> (\<exists>r \<in> set (pr_requires p). module_index projects r = Some n))"

lemma graph_dependents_simps:
  "graph_dependents [] n = []"
  "graph_dependents ((k, xs) # m) n = (if k = n then xs else graph_dependents m n)"
  by (simp_all add: graph_dependents_def)

lemma dependents_append_at:
  "set (graph_dependents (append_at k x m) n) = set (graph_dependents m n) \<union> (if n = k then {x} else {})"
proof (induction m)
  case (Cons e m)
  then show ?case by (cases e; cases "n = k") (simp_all add: graph_dependents_simps)
qed (simp add: graph_dependents_simps)

lemma dependents_add_requirement:
  "set (graph_dependents (add_requirement index name r m) n)
     = set (graph_dependents m n) \<union> (if index r = Some n then {name} else {})"
  by (auto simp: add_requirement_def dependents_append_at split: option.splits)

lemma dependents_requirements:
  "set (graph_dependents (fold (add_requirement index name) rs m) n)
     = set (graph_dependents m n) \<union> (if \<exists>r \<in> set rs. index r = Some n then {name} else {})"
  by (induction rs arbitrary: m) (auto simp: dependents_add_requirement)

lemma dependents_projects:
  "set (graph_dependents (fold (\<lambda>p m. fold (add_requirement index (pr_name p)) (pr_requires p) m) ps m) n)
     = set (graph_dependents m n) \<union> {pr_name p | p. p \<in> set ps \<and> (\<exists>r \<in> set (pr_requires p). index r = Some n)}"
  by (induction ps arbitrary: m) (auto simp: dependents_requirements)

lemma dependents_sorted:
  "graph_dependents (map (\<lambda>(k, xs). (k, sort xs)) m) n = sort (graph_dependents m n)"
  by (simp add: graph_dependents_def map_of_map split: option.splits)

lemma graph_dependents_iff:
  "n' \<in> set (graph_dependents (buildDependencyGraph projects) n) \<longleftrightarrow> requires_project projects n n'"
proof -
  have "graph_dependents [] n = []" by (simp add: graph_dependents_def)
  then show ?thesis
    by (auto simp: buildDependencyGraph_def Let_def dependents_sorted dependents_projects requires_project_def)
qed

section \<open>The closure\<close>

lemma resolve_loop_closure:
  assumes "set queue \<subseteq> set imp" and "distinct imp"
    and "\<And>x. x \<in> set imp \<Longrightarrow> x \<notin> set queue \<Longrightarrow> set (graph_dependents g x) \<subseteq> set imp"
  shows "distinct (resolve_loop g imp queue) \<and> set (resolve_loop g imp queue)
    = {y. \<exists>x \<in> set imp. (\<lambda>a b. b \<in> set (graph_dependents g a))\<^sup>*\<^sup>* x y}"
  using assms
proof (induction g imp queue rule: resolve_loop.induct)
  case (1 g imp)
  have "y \<in> set imp" if "x \<in> set imp" and "(\<lambda>a b. b \<in> set (graph_dependents g a))\<^sup>*\<^sup>* x y" for x y
    using that(2) that(1) by induction (use 1 in auto)
  with 1 show ?case by auto
next
  case (2 g imp n queue)
  let ?R = "(\<lambda>a b. b \<in> set (graph_dependents g a))\<^sup>*\<^sup>*"
  obtain new where new: "visit_dependents (graph_dependents g n) (imp, queue) = (imp @ new, queue @ new)"
    "set new \<subseteq> set (graph_dependents g n)" "distinct new" "set new \<inter> set imp = {}"
    "set (graph_dependents g n) \<subseteq> set imp \<union> set new"
    using visit_dependents_adds by blast
  have IH: "distinct (resolve_loop g (imp @ new) (queue @ new)) \<and> set (resolve_loop g (imp @ new) (queue @ new))
      = {y. \<exists>x \<in> set (imp @ new). ?R x y}"
  proof (rule "2.IH" [OF new(1) [symmetric]])
    show "set (queue @ new) \<subseteq> set (imp @ new)" "distinct (imp @ new)"
      using 2(2,3) new(3,4) by auto
    show "set (graph_dependents g x) \<subseteq> set (imp @ new)" if "x \<in> set (imp @ new)" "x \<notin> set (queue @ new)" for x
      using that 2(4) [of x] new(5) by auto
  qed
  have n: "n \<in> set imp" using 2(2) by simp
  have "?R n x" if "x \<in> set new" for x using that new(2) by auto
  then have "{y. \<exists>x \<in> set (imp @ new). ?R x y} = {y. \<exists>x \<in> set imp. ?R x y}"
    using n rtranclp_trans [of "\<lambda>a b. b \<in> set (graph_dependents g a)" n] by auto
  with IH show ?case by (simp add: new(1))
qed

lemma sample_requires:
  "requires_project sample_projects n n' \<longleftrightarrow> (n, n') \<in> {(''lib'', ''lib/io''), (''lib/io'', ''app'')}"
proof -
  have idx: "module_index sample_projects
      = [''m'' \<mapsto> ''root'', ''m/lib'' \<mapsto> ''lib'', ''m/io'' \<mapsto> ''lib/io'', ''m/app'' \<mapsto> ''app'']"
    by (simp add: module_index_def sample_defs)
  show ?thesis unfolding requires_project_def idx by (simp add: sample_defs) blast
qed

lemma resolveImpactedProjects_closure:
  assumes "distinct impacted" and "projects \<noteq> []"
    and "distinct impacted'" and "set impacted' = set impacted"
  shows "set (resolveImpactedProjects impacted projects False False (buildDependencyGraph projects))
      = {n'. \<exists>n \<in> set impacted. (requires_project projects)\<^sup>*\<^sup>* n n'}
    \<and> sorted (resolveImpactedProjects impacted projects False False (buildDependencyGraph projects))
    \<and> distinct (resolveImpactedProjects impacted projects False False (buildDependencyGraph projects))
    \<and> resolveImpactedProjects impacted' projects False False (buildDependencyGraph projects)
      = resolveImpactedProjects impacted projects False False (buildDependencyGraph projects)"
proof -
  let ?g = "buildDependencyGraph projects"
  have closed: "distinct (resolve_loop ?g xs xs)
      \<and> set (resolve_loop ?g xs xs) = {n'. \<exists>n \<in> set xs. (requires_project projects)\<^sup>*\<^sup>* n n'}"
    if "distinct xs" for xs
    using resolve_loop_closure [of xs xs ?g] that by (simp add: graph_dependents_iff [abs_def])
  have res: "resolveImpactedProjects xs projects False False ?g = sort (resolve_loop ?g xs xs)" for xs
    using assms(2) by (simp add: resolveImpactedProjects_def resolve_loop.simps)
  have "set (resolve_loop ?g impacted' impacted') = set (resolve_loop ?g impacted impacted)"
    using closed [OF assms(1)] closed [OF assms(3)] assms(4) by simp
  then have "sort (resolve_loop ?g impacted' impacted') = sort (resolve_loop ?g impacted impacted)"
    using closed [OF assms(1)] closed [OF assms(3)]
    by (intro sorted_distinct_set_unique) simp_all
  with closed [OF assms(1)] show ?thesis by (simp add: res)
qed

text \<open>
  C22: Spreading. For a known dependency graph and no global change,
  \<open>resolveImpactedProjects\<close> returns, sorted and without duplicates, exactly the projects
  that depend on an impacted project through any number of module requirements, in
  whatever order the set of impacted projects is traversed, and it always returns.
\<close>

theorem impact_is_the_closure:
  assumes "distinct impacted" and "projects \<noteq> []"
    and "distinct impacted'" and "set impacted' = set impacted"
  shows "set (resolveImpactedProjects impacted projects False False (buildDependencyGraph projects))
      = {n'. \<exists>n \<in> set impacted. (requires_project projects)\<^sup>*\<^sup>* n n'}
    \<and> sorted (resolveImpactedProjects impacted projects False False (buildDependencyGraph projects))
    \<and> distinct (resolveImpactedProjects impacted projects False False (buildDependencyGraph projects))
    \<and> resolveImpactedProjects impacted' projects False False (buildDependencyGraph projects)
      = resolveImpactedProjects impacted projects False False (buildDependencyGraph projects)"
  by (rule resolveImpactedProjects_closure [OF assms])

theorem impact_is_the_closure_witness:
  "''app'' \<in> set (resolveImpactedProjects [''lib''] sample_projects False False (buildDependencyGraph sample_projects))
    \<and> ''root'' \<notin> set (resolveImpactedProjects [''lib''] sample_projects False False (buildDependencyGraph sample_projects))"
proof -
  have "(requires_project sample_projects)\<^sup>*\<^sup>* ''lib'' ''app''"
    by (rule rtranclp_trans [of _ _ "''lib/io''"]; rule r_into_rtranclp) (simp_all add: sample_requires)
  moreover have "n' \<noteq> ''root''" if "(requires_project sample_projects)\<^sup>*\<^sup>* ''lib'' n'" for n'
    using that by cases (auto simp: sample_requires)
  moreover have "sample_projects \<noteq> []" by (simp add: sample_projects_def)
  ultimately show ?thesis using impact_is_the_closure [of "[''lib'']" sample_projects "[''lib'']"] by auto
qed


section \<open>The summary\<close>

lemma scan_path_fields:
  "sc_docs_only (scan_path index path s) \<longleftrightarrow> sc_docs_only s \<and> isDocsPath path"
  "sc_global (scan_path index path s) \<longleftrightarrow> sc_global s \<or> isGlobalImpact path"
  "sc_code (scan_path index path s) \<longleftrightarrow> sc_code s \<or> isCodePath path"
  "set (sc_unknown_paths (scan_path index path s)) = set (sc_unknown_paths s) \<union>
     (if ownerForPath index path = None then {path} else {})"
  "set (sc_impacted (scan_path index path s)) = set (sc_impacted s) \<union>
     {pr_name p | p. ownerForPath index path = Some p}"
  "distinct (sc_impacted s) \<Longrightarrow> distinct (sc_impacted (scan_path index path s))"
  by (auto simp: scan_path_def Let_def split: option.splits)

lemma scan_paths_fields:
  "sc_docs_only (fold (scan_path index) paths s) \<longleftrightarrow> sc_docs_only s \<and> (\<forall>path \<in> set paths. isDocsPath path)"
  "sc_global (fold (scan_path index) paths s) \<longleftrightarrow> sc_global s \<or> (\<exists>path \<in> set paths. isGlobalImpact path)"
  "set (sc_unknown_paths (fold (scan_path index) paths s)) = set (sc_unknown_paths s) \<union>
     {path \<in> set paths. ownerForPath index path = None}"
  "set (sc_impacted (fold (scan_path index) paths s)) = set (sc_impacted s) \<union>
     {pr_name p | p path. path \<in> set paths \<and> ownerForPath index path = Some p}"
  "distinct (sc_impacted s) \<Longrightarrow> distinct (sc_impacted (fold (scan_path index) paths s))"
  by (induction paths arbitrary: s) (auto simp: scan_path_fields)

lemma projectNames_fold:
  "distinct names \<Longrightarrow> distinct (fold (\<lambda>p names. if pr_name p \<in> set names then names else pr_name p # names) ps names)
    \<and> set (fold (\<lambda>p names. if pr_name p \<in> set names then names else pr_name p # names) ps names)
      = set names \<union> pr_name ` set ps"
  by (induction ps arbitrary: names) auto

lemma projectNames_set [simp]: "set (projectNames ps) = pr_name ` set ps"
  and projectNames_distinct [simp]: "distinct (projectNames ps)"
  and projectNames_sorted [simp]: "sorted (projectNames ps)"
  using projectNames_fold [of "[]" ps] by (simp_all add: projectNames_def)

definition range_order :: "(string list \<Rightarrow> string list) \<Rightarrow> bool" where
  "range_order order \<longleftrightarrow> (\<forall>xs. distinct xs \<longrightarrow> distinct (order xs) \<and> set (order xs) = set xs)"

abbreviation path_owner :: "project list \<Rightarrow> string \<Rightarrow> project option" where
  "path_owner projects path \<equiv> ownerForPath (buildOwnershipIndex projects) path"

lemma analyzeImpact_spec:
  assumes order: "range_order order"
  shows "(is_global (analyzeImpact order paths projects du) \<longleftrightarrow> du \<or> (\<exists>path \<in> set paths. isGlobalImpact path)
      \<or> (\<exists>path \<in> set paths. path_owner projects path = None))
    \<and> (is_docs_only (analyzeImpact order paths projects du) \<longleftrightarrow> (\<forall>path \<in> set paths. isDocsPath path))
    \<and> set (is_impacted_projects (analyzeImpact order paths projects du)) =
        (if is_global (analyzeImpact order paths projects du) then pr_name ` set projects
         else {n'. \<exists>path \<in> set paths. \<exists>p. path_owner projects path = Some p
                 \<and> (requires_project projects)\<^sup>*\<^sup>* (pr_name p) n'})"
proof -
  let ?s = "fold (scan_path (buildOwnershipIndex projects)) (sort paths) scan_start"
  let ?I = "analyzeImpact order paths projects du"
  have unknown: "sc_unknown_paths ?s \<noteq> [] \<longleftrightarrow> (\<exists>path \<in> set paths. path_owner projects path = None)"
    using scan_paths_fields(3) [of "buildOwnershipIndex projects" "sort paths" scan_start]
    by (auto simp: scan_start_def simp flip: set_empty2)
  have global: "is_global ?I \<longleftrightarrow> du \<or> (\<exists>path \<in> set paths. isGlobalImpact path)
      \<or> (\<exists>path \<in> set paths. path_owner projects path = None)"
  proof -
    have "sc_global ?s \<longleftrightarrow> (\<exists>path \<in> set paths. isGlobalImpact path)"
      unfolding scan_paths_fields by (simp add: scan_start_def)
    with unknown show ?thesis by (simp add: analyzeImpact_def Let_def) blast
  qed
  have docs: "is_docs_only ?I \<longleftrightarrow> (\<forall>path \<in> set paths. isDocsPath path)"
    by (simp add: analyzeImpact_def Let_def scan_paths_fields) (simp add: scan_start_def)
  have imp: "is_impacted_projects ?I = resolveImpactedProjects (order (sc_impacted ?s)) projects (is_global ?I) du
      (buildDependencyGraph projects)"
    by (simp add: analyzeImpact_def Let_def)
  have dist: "distinct (order (sc_impacted ?s))" and set_imp: "set (order (sc_impacted ?s))
      = {pr_name p | p path. path \<in> set paths \<and> path_owner projects path = Some p}"
    using order scan_paths_fields(5) [of scan_start "buildOwnershipIndex projects" "sort paths"]
      scan_paths_fields(4) [of "buildOwnershipIndex projects" "sort paths" scan_start]
    by (auto simp: range_order_def scan_start_def)
  have "set (is_impacted_projects ?I) = (if is_global ?I then pr_name ` set projects
      else {n'. \<exists>n \<in> set (order (sc_impacted ?s)). (requires_project projects)\<^sup>*\<^sup>* n n'})"
  proof (cases "is_global ?I \<or> projects = []")
    case True
    have "path_owner [] path = None" for path by (simp add: ownerForPath_def buildOwnershipIndex_def Let_def)
    with True global set_imp show ?thesis by (auto simp: imp resolveImpactedProjects_def)
  next
    case False
    with global have "\<not> du" by simp
    then show ?thesis unfolding imp using False resolveImpactedProjects_closure [OF dist _ dist refl, of projects]
      by simp
  qed
  then show ?thesis using global docs set_imp by auto
qed


lemma requires_closure_projects:
  "(requires_project projects)\<^sup>*\<^sup>* n n' \<Longrightarrow> n \<in> pr_name ` set projects \<Longrightarrow> n' \<in> pr_name ` set projects"
  by (induction rule: rtranclp_induct) (auto simp: requires_project_def)

lemma owner_is_a_project: "path_owner projects path = Some p \<Longrightarrow> p \<in> set projects"
  by (auto simp: ownerForPath_def buildOwnershipIndex_def Let_def dest: find_first split: option.splits)

text \<open>The impacted projects are listed once each and are projects of the repository.\<close>

lemma impacted_listed:
  assumes order: "range_order order"
  shows "distinct (is_impacted_projects (analyzeImpact order paths projects du))
    \<and> set (is_impacted_projects (analyzeImpact order paths projects du)) \<subseteq> pr_name ` set projects"
proof
  show "set (is_impacted_projects (analyzeImpact order paths projects du)) \<subseteq> pr_name ` set projects"
    using analyzeImpact_spec [OF order, of paths projects du] owner_is_a_project requires_closure_projects
    by (fastforce split: if_splits)
  let ?s = "fold (scan_path (buildOwnershipIndex projects)) (sort paths) scan_start"
  have "distinct (order (sc_impacted ?s))"
    using order scan_paths_fields(5) [of scan_start "buildOwnershipIndex projects" "sort paths"]
    by (simp add: range_order_def scan_start_def)
  from resolve_loop_closure [OF order_refl this, of "buildDependencyGraph projects"]
  show "distinct (is_impacted_projects (analyzeImpact order paths projects du))"
    by (simp add: analyzeImpact_def Let_def resolveImpactedProjects_def)
qed

text \<open>
  C24: Impact. A change is global exactly when the dependency graph is incomplete, a changed
  path is one of the repository-wide files, or a changed path belongs to no project; it is
  documentation only when every path is. A global change impacts every project, any
  other one exactly the owners of the changed paths and what depends on them.
\<close>

theorem impact_of_a_change:
  assumes order: "range_order order"
  shows "(is_global (analyzeImpact order paths projects du) \<longleftrightarrow> du \<or> (\<exists>path \<in> set paths. isGlobalImpact path)
      \<or> (\<exists>path \<in> set paths. path_owner projects path = None))
    \<and> (is_docs_only (analyzeImpact order paths projects du) \<longleftrightarrow> (\<forall>path \<in> set paths. isDocsPath path))
    \<and> set (is_impacted_projects (analyzeImpact order paths projects du)) =
        (if is_global (analyzeImpact order paths projects du) then pr_name ` set projects
         else {n'. \<exists>path \<in> set paths. \<exists>p. path_owner projects path = Some p
                 \<and> (requires_project projects)\<^sup>*\<^sup>* (pr_name p) n'})"
  by (rule analyzeImpact_spec [OF order])

lemma sample_owner:
  "path_owner sample_projects ''lib/io/a.go'' = Some (sample_project ''lib/io'' ''m/io'' [''m/lib''])"
  by (simp add: sample_defs buildOwnershipIndex_def ownership_key_def ownerForPath_def HasPrefix_def
      TrimPrefix_def less_eq_prod_def less_prod_def)

theorem impact_of_a_change_witness:
  "\<not> is_global (analyzeImpact (\<lambda>xs. xs) [''lib/io/a.go''] sample_projects False)
    \<and> ''app'' \<in> set (is_impacted_projects (analyzeImpact (\<lambda>xs. xs) [''lib/io/a.go''] sample_projects False))"
proof -
  have order: "range_order (\<lambda>xs. xs)" by (simp add: range_order_def)
  have "\<not> isGlobalImpact ''lib/io/a.go''"
    by (simp add: isGlobalImpact_def ToLower_def lower_char_def HasPrefix_def)
  moreover have "(requires_project sample_projects)\<^sup>*\<^sup>* ''lib/io'' ''app''"
    by (rule r_into_rtranclp) (simp add: sample_requires)
  moreover have "pr_name (sample_project ''lib/io'' ''m/io'' [''m/lib'']) = ''lib/io''" by (simp add: sample_defs)
  ultimately show ?thesis
    using impact_of_a_change [OF order, of "[''lib/io/a.go'']" sample_projects False] by (simp add: sample_owner)
qed

end
