(* ===== verification/DiffPlanner.thy ===== *)
theory DiffPlanner
  imports Impact System
begin

text \<open>
  The plan of the diff planner (\<open>planner/diff_planner.go\<close>) and the recipe store it looks
  recipes up in (\<open>orchestrator/recipe_store.go\<close>).
\<close>

section \<open>Texts\<close>

definition formatList :: "string list \<Rightarrow> int \<Rightarrow> string" where
  "formatList items limit =
     (if int (length items) \<le> limit then Join items '', ''
      else Join (take (nat limit) items) '', '' @ '', ... ('' @ Itoa (int (length items)) @ '' total)'')"

definition formatPaths :: "string list \<Rightarrow> int \<Rightarrow> string" where
  "formatPaths paths limit = (if paths = [] then ''(none)'' else formatList paths limit)"

definition shortFingerprint :: "string \<Rightarrow> string" where
  "shortFingerprint value = (if length value \<le> 8 then value else take 8 value)"

definition impactReasonSummary :: "impact_summary \<Rightarrow> string" where
  "impactReasonSummary impact =
     (if is_docs_only impact then ''docs-only change''
      else if is_global impact then
        (if is_dependency_unknown impact then ''global-impact change (dependency graph incomplete)''
         else if is_unknown_ownership impact \<noteq> [] then ''global-impact change (unknown ownership)''
         else ''global-impact change'')
      else if is_impacted_projects impact \<noteq> []
      then ''change in projects: '' @ formatList (is_impacted_projects impact) 4
      else if is_code_changes impact then ''code change''
      else ''non-docs change'')"

definition appendExplain :: "string \<Rightarrow> string \<Rightarrow> string" where
  "appendExplain base note =
     (if note = '''' then base else if base = '''' then note else base @ ''; '' @ note)"

definition discovery_explain :: "discovery_inputs \<Rightarrow> string" where
  "discovery_explain d =
     (if di_files d = [] then ''no discovery inputs found''
      else ''discovered '' @ Join (sort (di_files d)) '', '')
     @ (if di_projects d \<noteq> [] then ''; projects: '' @ formatList (projectNames (di_projects d)) 6 else '''')"

definition buildExplain :: "discovery_inputs \<Rightarrow> impact_summary \<Rightarrow> string" where
  "buildExplain d impact =
     ''diff-aware planner v1: '' @ discovery_explain d @ ''; changed paths: '' @ Join (is_paths impact) '', ''
     @ (if is_docs_only impact then ''; docs-only change'' else '''')
     @ (if is_global impact then ''; global-impact change''
        else if \<not> is_docs_only impact
        then (if is_code_changes impact then ''; code change'' else ''; non-docs change'') else '''')
     @ (if is_impacted_projects impact \<noteq> []
        then ''; impacted projects: '' @ formatList (is_impacted_projects impact) 6 else '''')
     @ (if is_unknown_ownership impact \<noteq> []
        then ''; unknown ownership: '' @ formatList (is_unknown_ownership impact) 6 else '''')
     @ (if is_dependency_unknown impact then ''; dependency graph incomplete'' else '''')"

definition buildRecipeExplain :: "discovery_inputs \<Rightarrow> string + string list \<Rightarrow> recipe \<Rightarrow> string \<Rightarrow> string" where
  "buildRecipeExplain d diff r fingerprint =
     ''diff-aware planner v1: '' @ discovery_explain d
     @ (case diff of Inl _ \<Rightarrow> ''; diff unavailable'' | Inr paths \<Rightarrow> ''; changed paths: '' @ formatPaths paths 6)
     @ (if fingerprint \<noteq> '''' then ''; fingerprint '' @ shortFingerprint fingerprint else '''')
     @ ''; recipe '' @ rc_id r
     @ (if rc_version r > 0 then '' v'' @ Itoa (rc_version r) else '''')"

section \<open>Jobs for Go projects (planForGo)\<close>

definition isRootProject :: "string \<Rightarrow> string \<Rightarrow> bool" where
  "isRootProject projectName root = (projectName = ''root'' \<or> root = ''.'')"

definition jobNameForProject :: "string \<Rightarrow> string \<Rightarrow> string \<Rightarrow> string" where
  "jobNameForProject base projectName root =
     (if isRootProject projectName root then base else base @ '':'' @ projectName)"

definition reasonForProject :: "string \<Rightarrow> string \<Rightarrow> string \<Rightarrow> string" where
  "reasonForProject reason projectName root =
     (if isRootProject projectName root then reason else reason @ '' (project: '' @ projectName @ '')'')"

definition buildProjectRootIndex :: "project list \<Rightarrow> string \<Rightarrow> string option" where
  "buildProjectRootIndex projects = fold (\<lambda>p m. m(pr_name p \<mapsto> pr_root p)) projects Map.empty"

text \<open>\<open>roots[name]\<close>, with \<open>.\<close> for a missing or empty entry.\<close>

definition root_of :: "(string \<Rightarrow> string option) \<Rightarrow> string \<Rightarrow> string" where
  "root_of roots name = (case roots name of None \<Rightarrow> ''.'' | Some r \<Rightarrow> if r = '''' then ''.'' else r)"

fun cache_key_bytes :: "fs_node \<Rightarrow> string \<Rightarrow> string \<Rightarrow> string list \<Rightarrow> string + (bool \<times> string)" where
  "cache_key_bytes fs repoRoot moduleRoot [] = Inr (False, '''')"
| "cache_key_bytes fs repoRoot moduleRoot (name # names) =
     (case ReadFile fs (PathJoin [repoRoot, moduleRoot, name]) of
        Inl FsNotExist \<Rightarrow> cache_key_bytes fs repoRoot moduleRoot names
      | Inl (FsError e) \<Rightarrow> Inl e
      | Inr data \<Rightarrow>
          (case cache_key_bytes fs repoRoot moduleRoot names of
             Inl e \<Rightarrow> Inl e
           | Inr (_, rest) \<Rightarrow> Inr (True, name @ [CHR 0x00] @ data @ [CHR 0x00] @ rest)))"

definition goModuleCacheKey :: "planner_env \<Rightarrow> string \<Rightarrow> string \<Rightarrow> string + string" where
  "goModuleCacheKey E repoRoot projectRoot =
     (let moduleRoot = (if projectRoot = '''' then ''.'' else projectRoot) in
      case cache_key_bytes (pe_fs E) repoRoot moduleRoot [''go.mod'', ''go.sum''] of
        Inl e \<Rightarrow> Inl e
      | Inr (found, bytes) \<Rightarrow>
          if \<not> found then Inl ''go module files unavailable''
          else Inr (''go:deps:'' @ pe_sha256_hex E bytes))"

definition buildGoCacheSpecs :: "planner_env \<Rightarrow> string \<Rightarrow> string \<Rightarrow> bool \<Rightarrow> cache_spec list" where
  "buildGoCacheSpecs E repoRoot projectRoot readOnly =
     (case goModuleCacheKey E repoRoot projectRoot of
        Inl _ \<Rightarrow> []
      | Inr key \<Rightarrow> [\<lparr>cs_type = ''deps'', cs_key = key, cs_paths = [''~/go/pkg/mod''], cs_read_only = readOnly\<rparr>])"

record reason_set =
  rs_build :: string
  rs_test :: string
  rs_lint :: string

definition buildReasons :: "impact_summary \<Rightarrow> reason_set" where
  "buildReasons impact =
     (let impactReason = impactReasonSummary impact in
      \<lparr>rs_build = ''go build triggered by '' @ impactReason, rs_test = ''go test triggered by '' @ impactReason,
       rs_lint = ''optional lint for '' @ impactReason\<rparr>)"

definition buildSkippedJobs :: "impact_summary \<Rightarrow> string list \<Rightarrow> (string \<Rightarrow> string option) \<Rightarrow> skipped_job list" where
  "buildSkippedJobs impact projects roots =
     (if \<not> is_docs_only impact then []
      else concat (map (\<lambda>name. let root = root_of roots name in
        [\<lparr>sj_name = jobNameForProject ''test'' name root,
          sj_reason = reasonForProject ''docs-only change: skipped go test'' name root\<rparr>,
         \<lparr>sj_name = jobNameForProject ''lint'' name root,
          sj_reason = reasonForProject ''docs-only change: skipped go vet'' name root\<rparr>]) projects))"

definition go_job :: "string \<Rightarrow> bool \<Rightarrow> string \<Rightarrow> string \<Rightarrow> cache_spec list \<Rightarrow> string \<Rightarrow> string list \<Rightarrow> planned_job" where
  "go_job name required root step caches reason deps =
     \<lparr>pj_name = name, pj_required = required,
      pj_spec = \<lparr>spec_name = name, spec_workdir = root, spec_steps = [step], spec_env = [], spec_caches = caches\<rparr>,
      pj_reason = reason, pj_depends_on = deps\<rparr>"

definition project_jobs :: "planner_env \<Rightarrow> string \<Rightarrow> bool \<Rightarrow> impact_summary \<Rightarrow> (string \<Rightarrow> string option) \<Rightarrow>
    string \<Rightarrow> planned_job list" where
  "project_jobs E repoRoot cacheReadOnly impact roots projectName =
     (let reasons = buildReasons impact;
          root = root_of roots projectName;
          caches = buildGoCacheSpecs E repoRoot root cacheReadOnly;
          buildName = jobNameForProject ''build'' projectName root in
      go_job buildName True root ''go build ./...'' caches
        (reasonForProject (rs_build reasons) projectName root) []
      # (if is_docs_only impact then []
         else [go_job (jobNameForProject ''test'' projectName root) True root ''go test ./...'' caches
                 (reasonForProject (rs_test reasons) projectName root) [buildName],
               go_job (jobNameForProject ''lint'' projectName root) False root ''go vet ./...'' caches
                 (reasonForProject (rs_lint reasons) projectName root) [buildName]]))"

definition target_projects :: "impact_summary \<Rightarrow> project list \<Rightarrow> string list" where
  "target_projects impact projects =
     (let t1 = is_impacted_projects impact;
          t2 = (if t1 = [] then projectNames projects else t1) in
      sort (if t2 = [] then [''root''] else t2))"

definition target_roots :: "impact_summary \<Rightarrow> project list \<Rightarrow> string \<Rightarrow> string option" where
  "target_roots impact projects =
     (let roots = buildProjectRootIndex projects in
      if is_impacted_projects impact = [] \<and> projectNames projects = [] \<and> roots ''root'' = None
      then roots(''root'' \<mapsto> ''.'') else roots)"

definition planForGo :: "planner_env \<Rightarrow> impact_summary \<Rightarrow> string \<Rightarrow> project list \<Rightarrow> string \<Rightarrow> bool \<Rightarrow> plan_result" where
  "planForGo E impact explain projects repoRoot cacheReadOnly =
     (let targets = target_projects impact projects; roots = target_roots impact projects in
      \<lparr>pl_jobs = concat (map (project_jobs E repoRoot cacheReadOnly impact roots) targets),
       pl_explain = explain, pl_skipped_jobs = buildSkippedJobs impact targets roots,
       pl_fingerprint = '''', pl_recipe_source = '''', pl_recipe_id = '''', pl_recipe_version = 0\<rparr>)"

section \<open>Recipes\<close>

definition recipeStore_FindRecipe :: "string \<Rightarrow> string \<Rightarrow> recipe option db" where
  "recipeStore_FindRecipe repoID fingerprint =
     bindE (store_FindRecipeByFingerprint repoID fingerprint) (\<lambda>found.
     case found of
       None \<Rightarrow> ret None
     | Some x \<Rightarrow>
         bindE (lift_result (unmarshal_planned_jobs (rec_json x))) (\<lambda>jobs.
         bindE (gets host_now) (\<lambda>hnow.
         bindE (try_prog (store_TouchRecipeLastUsed (rec_id x) hnow)) (\<lambda>_.
         ret (Some \<lparr>rc_id = rec_id x, rc_fingerprint = rec_fingerprint x, rc_version = rec_version x,
                    rc_source = rec_source x, rc_jobs = jobs\<rparr>)))))"

definition jobsFromRecipe :: "recipe \<Rightarrow> planned_job list" where
  "jobsFromRecipe r =
     (let reason = ''recipe '' @ rc_id r @ '' v'' @ Itoa (rc_version r) in
      map (\<lambda>j. j\<lparr>pj_reason := reason\<rparr>) (rc_jobs r))"

text \<open>The fingerprint is the pair that \<open>computeRepoFingerprint\<close> returns: the text is empty with an error.\<close>

definition applyPlanMetadata :: "plan_result \<Rightarrow> string \<Rightarrow> string option \<Rightarrow> string \<Rightarrow> string \<Rightarrow> plan_result" where
  "applyPlanMetadata result0 fingerprint fingerprintErr source note =
     (let r1 = (if fingerprint \<noteq> '''' then result0\<lparr>pl_fingerprint := fingerprint\<rparr> else result0);
          r2 = (if source \<noteq> '''' then r1\<lparr>pl_recipe_source := source\<rparr> else r1);
          r3 = (case fingerprintErr of
                  None \<Rightarrow> r2
                | Some e \<Rightarrow> r2\<lparr>pl_explain := appendExplain (pl_explain r2) (''fingerprint unavailable: '' @ e)\<rparr>) in
      if note \<noteq> '''' then r3\<lparr>pl_explain := appendExplain (pl_explain r3) note\<rparr> else r3)"

section \<open>The planner (DiffPlanner.Plan)\<close>

record diff_planner =
  dp_repo_root :: string
  dp_fallback :: "plan_request \<Rightarrow> plan_result db"
  dp_recipes :: "(string \<Rightarrow> string \<Rightarrow> recipe option db) option"

definition NewDiffPlanner :: "string \<Rightarrow> (plan_request \<Rightarrow> plan_result db) option \<Rightarrow>
    (string \<Rightarrow> string \<Rightarrow> recipe option db) option \<Rightarrow> diff_planner" where
  "NewDiffPlanner repoRoot fallback recipes =
     \<lparr>dp_repo_root = repoRoot, dp_fallback = (case fallback of None \<Rightarrow> StaticPlanner_Plan [] | Some p \<Rightarrow> p),
      dp_recipes = recipes\<rparr>"

definition resolveRepoRoot :: "planner_env \<Rightarrow> string \<Rightarrow> string + string" where
  "resolveRepoRoot E repoRoot0 =
     (let r1 = (if repoRoot0 = '''' then pe_root_variable E else repoRoot0);
          r2 = (if r1 = '''' then ''.'' else r1) in
      if IsAbs r2 then Inr (Clean r2)
      else case pe_cwd E of Inl e \<Rightarrow> Inl e | Inr cwd \<Rightarrow> Inr (PathJoin [cwd, r2]))"

definition gitChangedFiles :: "planner_env \<Rightarrow> string \<Rightarrow> string \<Rightarrow> string + string list" where
  "gitChangedFiles E repoRoot commitSHA =
     (if commitSHA = '''' then Inl ''commit sha is required''
      else case pe_git_show E repoRoot commitSHA of
          Inl e \<Rightarrow> Inl e
        | Inr out \<Rightarrow> Inr (filter (\<lambda>l. l \<noteq> '''') (map TrimSpace (Split out newline))))"

definition fallbackPlan :: "diff_planner \<Rightarrow> plan_request \<Rightarrow> string \<Rightarrow> string option \<Rightarrow> plan_result db" where
  "fallbackPlan P req reason err =
     bindE (dp_fallback P req) (\<lambda>result0.
     ret (result0\<lparr>pl_explain := (case err of Some e \<Rightarrow> ''fallback: '' @ reason @ '' ('' @ e @ '')''
                                          | None \<Rightarrow> ''fallback: '' @ reason),
                  pl_jobs := map (\<lambda>j. if pj_reason j = '''' then j\<lparr>pj_reason := ''fallback plan''\<rparr> else j)
                    (pl_jobs result0)\<rparr>))"

text \<open>A plan, or the note for the plan that is made without a recipe.\<close>

definition planFromRecipe :: "planner_env \<Rightarrow> diff_planner \<Rightarrow> plan_request \<Rightarrow> discovery_inputs \<Rightarrow> string \<Rightarrow>
    string \<Rightarrow> string option \<Rightarrow> (string + plan_result) db" where
  "planFromRecipe E P req d repoRoot fingerprint fingerprintErr =
     (case dp_recipes P of
        None \<Rightarrow> ret (Inl '''')
      | Some find_recipe \<Rightarrow>
          if fingerprint = '''' then
            ret (Inl (if fingerprintErr \<noteq> None then ''recipe lookup skipped: fingerprint unavailable''
                      else ''recipe lookup skipped: fingerprint missing''))
          else bindE (try_prog (find_recipe (pr_repo_id req) fingerprint)) (\<lambda>res.
            case res of
              Inl e \<Rightarrow> ret (Inl (''recipe lookup failed: '' @ pe_error_text E e))
            | Inr None \<Rightarrow> ret (Inl ''no recipe matched fingerprint'')
            | Inr (Some r) \<Rightarrow>
                ret (Inr (applyPlanMetadata
                  \<lparr>pl_jobs = jobsFromRecipe r,
                   pl_explain = buildRecipeExplain d (gitChangedFiles E repoRoot (pr_commit_sha req)) r fingerprint,
                   pl_skipped_jobs = [], pl_fingerprint = fingerprint, pl_recipe_source = PlanSourceRecipe,
                   pl_recipe_id = rc_id r, pl_recipe_version = rc_version r\<rparr> '''' fingerprintErr '''' ''''))))"

definition has_go :: "discovery_inputs \<Rightarrow> bool" where
  "has_go d = (di_projects d \<noteq> [] \<or> hasFile d ''go.mod'' \<or> hasFile d ''go.sum'' \<or> hasFile d ''go.work''
     \<or> hasFile d ''go.work.sum'')"

definition DiffPlanner_Plan :: "planner_env \<Rightarrow> diff_planner \<Rightarrow> plan_request \<Rightarrow> plan_result db" where
  "DiffPlanner_Plan E P req =
     (case resolveRepoRoot E (dp_repo_root P) of
        Inl err \<Rightarrow>
          bindE (fallbackPlan P req ''repo root unavailable'' (Some err)) (\<lambda>result.
          ret (result\<lparr>pl_recipe_source := PlanSourceFallback\<rparr>))
      | Inr root \<Rightarrow>
          let d = discoverInputs (pe_fs E) root;
              (fingerprint, fpErr) =
                (case computeRepoFingerprint E root of Inl e \<Rightarrow> ('''', Some e) | Inr f \<Rightarrow> (f, None));
              fallback = (\<lambda>reason err source note.
                bindE (fallbackPlan P req reason err) (\<lambda>result.
                ret (applyPlanMetadata result fingerprint fpErr source note))) in
          if hasFile d ''ci.ai.yaml''
          then fallback ''explicit config present (ci.ai.yaml)'' None PlanSourceConfig ''''
          else if \<not> has_go d
          then fallback ''no supported build files detected'' None PlanSourceFallback ''''
          else
            bindE (planFromRecipe E P req d root fingerprint fpErr) (\<lambda>recipe.
            case recipe of
              Inr result \<Rightarrow> ret result
            | Inl note \<Rightarrow>
                (case gitChangedFiles E root (pr_commit_sha req) of
                   Inl e \<Rightarrow> fallback ''diff unavailable'' (Some e) PlanSourceFallback note
                 | Inr paths \<Rightarrow>
                     if paths = [] then fallback ''diff empty'' None PlanSourceFallback note
                     else
                       let impact = analyzeImpact (pe_range_order E) paths (di_projects d) (di_dependency_unknown d) in
                       ret (applyPlanMetadata
                         (planForGo E impact (buildExplain d impact) (di_projects d) root (isPullRequestRef (pr_ref req)))
                         fingerprint fpErr PlanSourceDiscovery note))))"

end
