(* ===== verification/PlannerProperties.thy ===== *)
theory PlannerProperties
  imports ImpactProperties DiffPlanner WorkInvariant
begin

text \<open>
  What the plans of the diff planner promise to the orchestrator: there is always a plan
  with a job in it, the names of the jobs are distinct, every dependency is a required
  job listed before, and what is planned and skipped follows from the kind of the change.
\<close>

section \<open>Projects are named after their directories\<close>

definition well_named :: "project list \<Rightarrow> bool" where
  "well_named projects \<longleftrightarrow> (\<forall>p \<in> set projects. pr_name p = projectNameFromRoot (pr_root p) \<and> pr_root p \<noteq> '''')"

lemma normalizeRepoPath_nonempty: "normalizeRepoPath p \<noteq> ''''"
  by (simp add: normalizeRepoPath_def Let_def)

lemma go_project_named:
  "rel \<noteq> '''' \<Longrightarrow> pr_name (go_project rel info) = projectNameFromRoot (pr_root (go_project rel info))
     \<and> pr_root (go_project rel info) \<noteq> ''''"
  by (simp add: go_project_def)

lemma project_of_go_mod_named: "well_named [fst (project_of_go_mod fs root path)]"
  by (auto simp: project_of_go_mod_def well_named_def go_project_def normalizeRepoPath_nonempty Let_def split: prod.splits)

lemma well_named_simps [simp]:
  "well_named []" "well_named (p # ps) \<longleftrightarrow> well_named [p] \<and> well_named ps"
  by (auto simp: well_named_def)

lemma well_named_go_mod: "well_named (pd_projects (discoverGoProjectsFromGoMod fs root))"
proof -
  have "well_named (map (fst \<circ> project_of_go_mod fs root) paths)" for paths
    using project_of_go_mod_named [of fs root] by (induction paths) (simp_all add: well_named_def)
  then show ?thesis by (simp add: discoverGoProjectsFromGoMod_def Let_def split: sum.splits)
qed

lemma project_of_go_work_named: "fst (project_of_go_work fs root m) = Some p \<Longrightarrow> well_named [p]"
  by (auto simp: project_of_go_work_def resolveGoWorkModule_def well_named_def go_project_def
      normalizeRepoPath_nonempty Let_def split: if_splits option.splits sum.splits prod.splits)

lemma well_named_go_work: "well_named (pd_projects (discoverGoProjectsFromGoWork fs root modules))"
proof -
  have "well_named (List.map_filter (fst \<circ> project_of_go_work fs root) modules)"
  proof (induction modules)
    case (Cons m ms)
    then show ?case
      using project_of_go_work_named [of fs root m]
      by (cases "fst (project_of_go_work fs root m)") (simp_all add: map_filter_simps well_named_def)
  qed (simp add: map_filter_simps well_named_def)
  then show ?thesis by (simp add: discoverGoProjectsFromGoWork_def Let_def List.map_filter_def comp_def filter_map)
qed

lemma discovered_well_named: "well_named (di_projects (discoverInputs fs root))"
  by (simp add: discoverInputs_def discoverGoProjects_def Let_def well_named_go_mod well_named_go_work
      split: sum.splits fs_error.splits)

section \<open>Names of jobs\<close>

text \<open>Only the project called \<open>root\<close> gets the bare job names.\<close>

definition bare_root :: "(string \<Rightarrow> string option) \<Rightarrow> string set \<Rightarrow> bool" where
  "bare_root roots names \<longleftrightarrow> (\<forall>n \<in> names. root_of roots n = ''.'' \<longrightarrow> n = ''root'')"

definition job_name_of :: "(string \<Rightarrow> string option) \<Rightarrow> string \<Rightarrow> string \<Rightarrow> string" where
  "job_name_of roots base n = jobNameForProject base n (root_of roots n)"

definition job_bases :: "impact_summary \<Rightarrow> string list" where
  "job_bases I = (if is_docs_only I then [''build''] else [''build'', ''test'', ''lint''])"

lemma job_bases_distinct: "distinct (job_bases I)"
  and job_bases_known: "set (job_bases I) \<subseteq> {''build'', ''test'', ''lint''}"
  by (simp_all add: job_bases_def)

lemma project_jobs_names:
  "map pj_name (project_jobs E rr ro I roots n) = map (\<lambda>b. job_name_of roots b n) (job_bases I)"
  by (simp add: project_jobs_def go_job_def job_name_of_def job_bases_def Let_def)

lemma job_name_of_eq:
  assumes "bare_root roots names" "n \<in> names" "m \<in> names"
    and "a \<in> set (job_bases I)" "b \<in> set (job_bases I)" and "job_name_of roots a n = job_name_of roots b m"
  shows "a = b \<and> n = m"
proof -
  have "a \<in> {''build'', ''test'', ''lint''}" "b \<in> {''build'', ''test'', ''lint''}"
    using assms(4,5) job_bases_known [of I] by blast+
  with assms(1,2,3,6) show ?thesis
    by (auto simp: job_name_of_def jobNameForProject_def isRootProject_def bare_root_def split: if_splits)
qed

lemma distinct_concat_map:
  assumes "distinct xs" and "\<And>x. x \<in> set xs \<Longrightarrow> distinct (f x)"
    and "\<And>x y. x \<in> set xs \<Longrightarrow> y \<in> set xs \<Longrightarrow> x \<noteq> y \<Longrightarrow> set (f x) \<inter> set (f y) = {}"
  shows "distinct (concat (map f xs))"
  using assms
proof (induction xs)
  case (Cons x xs)
  have "set (f x) \<inter> set (f y) = {}" if "y \<in> set xs" for y using Cons.prems that by (intro Cons.prems(3)) auto
  then have "set (f x) \<inter> set (concat (map f xs)) = {}" by auto
  with Cons show ?case by auto
qed simp

text \<open>A plan that the orchestrator can turn into jobs: distinct names, dependencies listed before.\<close>

definition plan_ok :: "planned_job list \<Rightarrow> bool" where
  "plan_ok jobs \<longleftrightarrow> distinct (map pj_name jobs) \<and>
     (\<forall>i < length jobs. \<forall>d \<in> set (pj_depends_on (jobs ! i)). \<exists>k < i. pj_name (jobs ! k) = d \<and> pj_required (jobs ! k))"

fun deps_before :: "string list \<Rightarrow> planned_job list \<Rightarrow> bool" where
  "deps_before seen [] = True"
| "deps_before seen (j # js) = (set (pj_depends_on j) \<subseteq> set seen
     \<and> deps_before (if pj_required j then pj_name j # seen else seen) js)"

lemma deps_before_nth:
  "deps_before seen jobs \<Longrightarrow> i < length jobs \<Longrightarrow> d \<in> set (pj_depends_on (jobs ! i)) \<Longrightarrow>
     d \<in> set seen \<or> (\<exists>k < i. pj_name (jobs ! k) = d \<and> pj_required (jobs ! k))"
proof (induction jobs arbitrary: seen i)
  case (Cons j js)
  show ?case
  proof (cases i)
    case (Suc i')
    with Cons.prems Cons.IH [of "if pj_required j then pj_name j # seen else seen" i']
    consider "d \<in> set seen" | "d = pj_name j" "pj_required j" | k where "k < i'" "pj_name (js ! k) = d" "pj_required (js ! k)"
      by (auto split: if_splits)
    then show ?thesis
    proof cases
      case 2
      then show ?thesis using Suc by (intro disjI2 exI [of _ 0]) simp
    next
      case 3
      then show ?thesis using Suc by (intro disjI2 exI [of _ "Suc k"]) simp
    qed simp
  qed (use Cons.prems in auto)
qed simp

lemma deps_before_mono: "deps_before seen js \<Longrightarrow> set seen \<subseteq> set seen' \<Longrightarrow> deps_before seen' js"
proof (induction js arbitrary: seen seen')
  case (Cons j js)
  have "deps_before (if pj_required j then pj_name j # seen' else seen') js"
    by (rule Cons.IH [of "if pj_required j then pj_name j # seen else seen"]) (use Cons.prems in auto)
  with Cons.prems show ?case by auto
qed simp

lemma deps_before_append: "deps_before seen xs \<Longrightarrow> deps_before [] ys \<Longrightarrow> deps_before seen (xs @ ys)"
  by (induction xs arbitrary: seen) (auto intro: deps_before_mono)

lemma project_jobs_deps: "deps_before [] (project_jobs E rr ro I roots n)"
  by (simp add: project_jobs_def go_job_def Let_def)

lemma planForGo_ok:
  assumes "bare_root (target_roots I projects) (set (target_projects I projects))"
    and "distinct (target_projects I projects)"
  shows "plan_ok (pl_jobs (planForGo E I x projects rr ro))"
proof -
  let ?t = "target_projects I projects" and ?r = "target_roots I projects"
  let ?jobs = "concat (map (project_jobs E rr ro I ?r) ?t)"
  have "distinct (concat (map (map pj_name \<circ> project_jobs E rr ro I ?r) ?t))"
  proof (rule distinct_concat_map [OF assms(2)])
    fix n m assume nm: "n \<in> set ?t" "m \<in> set ?t" "n \<noteq> m"
    show "set ((map pj_name \<circ> project_jobs E rr ro I ?r) n) \<inter> set ((map pj_name \<circ> project_jobs E rr ro I ?r) m) = {}"
      using job_name_of_eq [OF assms(1) nm(1,2)] nm(3) unfolding comp_def project_jobs_names by fastforce
  next
    fix n assume n: "n \<in> set ?t"
    show "distinct ((map pj_name \<circ> project_jobs E rr ro I ?r) n)"
      using job_name_of_eq [OF assms(1) n n] job_bases_distinct [of I]
      unfolding comp_def project_jobs_names by (auto simp: distinct_map inj_on_def)
  qed
  then have "distinct (map pj_name ?jobs)" by (simp add: map_concat)
  moreover have "deps_before [] (concat (map (project_jobs E rr ro I ?r) ns))" for ns
    by (induction ns) (simp_all add: deps_before_append project_jobs_deps)
  ultimately show ?thesis
    using deps_before_nth [of "[]" ?jobs] by (simp add: plan_ok_def planForGo_def Let_def)
qed


section \<open>Targets of a discovered repository\<close>

lemma root_index_fold:
  "fold (\<lambda>p m. m(pr_name p \<mapsto> pr_root p)) ps m n = Some r \<Longrightarrow>
     m n = Some r \<or> (\<exists>p \<in> set ps. pr_name p = n \<and> pr_root p = r)"
proof (induction ps arbitrary: m)
  case (Cons p ps)
  from Cons.prems have "fold (\<lambda>p m. m(pr_name p \<mapsto> pr_root p)) ps (m(pr_name p \<mapsto> pr_root p)) n = Some r"
    by (simp only: fold_simps)
  from Cons.IH [OF this] show ?case by (auto split: if_splits)
qed simp

lemma root_index_kept: "m n \<noteq> None \<Longrightarrow> fold (\<lambda>p m. m(pr_name p \<mapsto> pr_root p)) ps m n \<noteq> None"
  by (induction ps arbitrary: m) auto

lemma root_index_defined:
  "n \<in> pr_name ` set ps \<Longrightarrow> fold (\<lambda>p m. m(pr_name p \<mapsto> pr_root p)) ps m n \<noteq> None"
proof (induction ps arbitrary: m)
  case (Cons p ps)
  show ?case
  proof (cases "n = pr_name p")
    case True
    then show ?thesis using root_index_kept [of "m(pr_name p \<mapsto> pr_root p)" n ps] by (simp only: fold_simps) simp
  next
    case False
    with Cons.prems Cons.IH [of "m(pr_name p \<mapsto> pr_root p)"] show ?thesis
      by (simp only: fold_simps) (simp del: fun_upd_apply)
  qed
qed simp

lemma root_of_project:
  assumes "n \<in> pr_name ` set projects" and "well_named projects"
  shows "\<exists>p \<in> set projects. pr_name p = n \<and> pr_root p = root_of (buildProjectRootIndex projects) n"
proof -
  obtain r where r: "buildProjectRootIndex projects n = Some r"
    using root_index_defined [OF assms(1), of Map.empty] by (auto simp: buildProjectRootIndex_def)
  then obtain p where "p \<in> set projects" "pr_name p = n" "pr_root p = r"
    using root_index_fold [of projects Map.empty n r] by (auto simp: buildProjectRootIndex_def)
  with r assms(2) show ?thesis by (auto simp: root_of_def well_named_def)
qed

lemma targets_of_projects:
  assumes "set (is_impacted_projects I) \<subseteq> pr_name ` set projects" and "projects \<noteq> []"
  shows "set (target_projects I projects) = (if is_impacted_projects I = [] then pr_name ` set projects
      else set (is_impacted_projects I))"
    and "set (target_projects I projects) \<subseteq> pr_name ` set projects"
    and "target_roots I projects = buildProjectRootIndex projects"
proof -
  have ne: "projectNames projects \<noteq> []" using assms(2) projectNames_set [of projects] by (metis empty_set image_is_empty set_empty)
  then show t: "set (target_projects I projects) = (if is_impacted_projects I = [] then pr_name ` set projects
      else set (is_impacted_projects I))"
    by (simp add: target_projects_def Let_def)
  show "set (target_projects I projects) \<subseteq> pr_name ` set projects" unfolding t using assms(1) by simp
  show "target_roots I projects = buildProjectRootIndex projects" using ne by (simp add: target_roots_def Let_def)
qed

lemma targets_distinct: "distinct (is_impacted_projects I) \<Longrightarrow> distinct (target_projects I projects)"
  by (simp add: target_projects_def Let_def)

lemma planForGo_discovered_ok:
  assumes named: "well_named projects" and sub: "set (is_impacted_projects I) \<subseteq> pr_name ` set projects"
    and dist: "distinct (is_impacted_projects I)"
  shows "plan_ok (pl_jobs (planForGo E I x projects rr ro))"
proof (rule planForGo_ok [OF _ targets_distinct [OF dist]])
  show "bare_root (target_roots I projects) (set (target_projects I projects))"
  proof (cases "projects = []")
    case True
    then have "is_impacted_projects I = []" using sub by simp
    with True show ?thesis by (simp add: bare_root_def target_projects_def projectNames_def Let_def)
  next
    case False
    note t = targets_of_projects [OF sub False]
    show ?thesis
      unfolding bare_root_def t(3)
    proof (intro ballI impI)
      fix n assume n: "n \<in> set (target_projects I projects)" "root_of (buildProjectRootIndex projects) n = ''.''"
      then obtain p where "p \<in> set projects" "pr_name p = n" "pr_root p = ''.''"
        using root_of_project [OF subsetD [OF t(2) n(1)] named] by auto
      with named show "n = ''root''" by (auto simp: well_named_def projectNameFromRoot_def)
    qed
  qed
qed

section \<open>The plans of the diff planner\<close>

lemma applyPlanMetadata_fields [simp]:
  "pl_jobs (applyPlanMetadata r f e s n) = pl_jobs r"
  "pl_recipe_source (applyPlanMetadata r f e s n) = (if s \<noteq> '''' then s else pl_recipe_source r)"
  "pl_skipped_jobs (applyPlanMetadata r f e s n) = pl_skipped_jobs r"
  by (auto simp: applyPlanMetadata_def Let_def split: option.splits)

lemmas plan_sources = PlanSourceConfig_def PlanSourceRecipe_def PlanSourceDiscovery_def PlanSourceFallback_def

lemma bindE_ret_source:
  "bindE m (\<lambda>x. ret (f x)) w = (Inr r, w') \<Longrightarrow> \<exists>x. r = f x"
  by (auto simp: bindE_Inr_iff)

text \<open>What \<open>Plan\<close> does once it has discovered Go and looked a recipe up.\<close>

definition plan_from_diff :: "planner_env \<Rightarrow> diff_planner \<Rightarrow> plan_request \<Rightarrow> string \<Rightarrow> discovery_inputs \<Rightarrow>
    string \<Rightarrow> string option \<Rightarrow> string + plan_result \<Rightarrow> plan_result db" where
  "plan_from_diff E P req root d fp fe recipe =
     (case recipe of Inr result \<Rightarrow> ret result
      | Inl note \<Rightarrow> (case gitChangedFiles E root (pr_commit_sha req) of
          Inl e \<Rightarrow> bindE (fallbackPlan P req ''diff unavailable'' (Some e)) (\<lambda>result.
                ret (applyPlanMetadata result fp fe PlanSourceFallback note))
        | Inr paths \<Rightarrow> if paths = [] then bindE (fallbackPlan P req ''diff empty'' None) (\<lambda>result.
                ret (applyPlanMetadata result fp fe PlanSourceFallback note))
            else ret (applyPlanMetadata (planForGo E (analyzeImpact (pe_range_order E) paths (di_projects d)
              (di_dependency_unknown d)) (buildExplain d (analyzeImpact (pe_range_order E) paths (di_projects d)
              (di_dependency_unknown d))) (di_projects d) root (isPullRequestRef (pr_ref req)))
                         fp fe PlanSourceDiscovery note)))"

lemma DiffPlanner_Plan_run:
  assumes "resolveRepoRoot E (dp_repo_root P) = Inr root"
    and "(case computeRepoFingerprint E root of Inl e \<Rightarrow> ('''', Some e) | Inr f \<Rightarrow> (f, None)) = (fp, fe)"
    and "\<not> hasFile (discoverInputs (pe_fs E) root) ''ci.ai.yaml''" and "has_go (discoverInputs (pe_fs E) root)"
  shows "DiffPlanner_Plan E P req = bindE (planFromRecipe E P req (discoverInputs (pe_fs E) root) root fp fe)
    (plan_from_diff E P req root (discoverInputs (pe_fs E) root) fp fe)"
  using assms(3,4)
  unfolding DiffPlanner_Plan_def assms(1) plan_from_diff_def [abs_def] Let_def sum.case assms(2) prod.case by simp

lemma discovery_plan_cases:
  assumes plan: "DiffPlanner_Plan E P req w = (Inr r, w')" and src: "pl_recipe_source r = PlanSourceDiscovery"
  obtains root paths x where "resolveRepoRoot E (dp_repo_root P) = Inr root"
    "gitChangedFiles E root (pr_commit_sha req) = Inr paths" "paths \<noteq> []"
    "pl_jobs r = pl_jobs (planForGo E (analyzeImpact (pe_range_order E) paths (di_projects (discoverInputs (pe_fs E) root))
        (di_dependency_unknown (discoverInputs (pe_fs E) root))) x (di_projects (discoverInputs (pe_fs E) root)) root
        (isPullRequestRef (pr_ref req)))"
proof (cases "resolveRepoRoot E (dp_repo_root P)")
  case (Inl e)
  with plan src show ?thesis by (auto simp: DiffPlanner_Plan_def plan_sources bindE_Inr_iff)
next
  case (Inr root)
  obtain fp fe where fp: "(case computeRepoFingerprint E root of Inl e \<Rightarrow> ('''', Some e) | Inr f \<Rightarrow> (f, None)) = (fp, fe)"
    by fastforce
  let ?d = "discoverInputs (pe_fs E) root"
  have conf: "\<not> hasFile ?d ''ci.ai.yaml''" "has_go ?d"
    using plan src by (auto simp: DiffPlanner_Plan_def Inr Let_def fp plan_sources bindE_Inr_iff split: if_splits)
  from plan [unfolded DiffPlanner_Plan_run [OF Inr fp conf]] obtain recipe s1 where rec: "planFromRecipe E P req ?d root fp fe w = (Inr recipe, s1)"
    and rest: "plan_from_diff E P req root ?d fp fe recipe s1 = (Inr r, w')"
    by (rule bindE_InrE)
  show ?thesis
  proof (cases recipe)
    case r2: (Inr result)
    with rec have "pl_recipe_source result = PlanSourceRecipe"
      by (auto simp: planFromRecipe_def bindE_try_prog split: option.splits if_splits sum.splits)
    with rest r2 src show ?thesis by (simp add: plan_sources plan_from_diff_def)
  next
    case (Inl msg)
    show ?thesis
    proof (cases "gitChangedFiles E root (pr_commit_sha req)")
      case g: (Inl e)
      with rest Inl src show ?thesis by (auto simp: plan_sources plan_from_diff_def bindE_Inr_iff)
    next
      case g: (Inr paths)
      with rest Inl src have "paths \<noteq> []" by (auto simp: plan_sources plan_from_diff_def bindE_Inr_iff)
      with rest Inl g have "pl_jobs r = pl_jobs (planForGo E (analyzeImpact (pe_range_order E) paths (di_projects ?d)
          (di_dependency_unknown ?d)) (buildExplain ?d (analyzeImpact (pe_range_order E) paths (di_projects ?d)
          (di_dependency_unknown ?d))) (di_projects ?d) root (isPullRequestRef (pr_ref req)))"
        by (auto simp: plan_from_diff_def)
      with \<open>paths \<noteq> []\<close> Inr g show ?thesis using that by blast
    qed
  qed
qed


section \<open>Properties of the plans\<close>

text \<open>
  C21: Plans of the diff are schedulable. Every plan that the diff planner makes from a
  diff has distinct job names, and every dependency of a job is the name of a required
  job listed before it, whatever the file tree, the diff and the module files are.
\<close>

theorem diff_plans_are_schedulable:
  assumes order: "range_order (pe_range_order E)"
    and plan: "DiffPlanner_Plan E P req w = (Inr r, w')" and src: "pl_recipe_source r = PlanSourceDiscovery"
  shows "plan_ok (pl_jobs r)"
  using plan src
proof (cases rule: discovery_plan_cases)
  case (1 root paths x)
  show ?thesis
    unfolding 1(4)
    by (rule planForGo_discovered_ok [OF discovered_well_named conjunct2 [OF impacted_listed [OF order]]
          conjunct1 [OF impacted_listed [OF order]]])
qed

text \<open>A repository of two modules, the one using the other, and a change to the latter.\<close>

definition sample_repo :: fs_node where
  "sample_repo = FsDir None [(''r'', FsDir None
     [(''app'', FsDir None [(''go.mod'', FsFile (Inr (''module m/app'' @ [newline] @ ''require m/lib v1'')))]),
      (''lib'', FsDir None [(''go.mod'', FsFile (Inr ''module m/lib''))])])]"

definition sample_planner_env :: planner_env where
  "sample_planner_env = \<lparr>pe_fs = sample_repo, pe_cwd = Inr ''/'', pe_root_variable = '''',
     pe_git_show = (\<lambda>_ _. Inr (''lib/a.go'' @ [newline])), pe_sha256_hex = (\<lambda>s. Itoa (int (length s))),
     pe_error_text = (\<lambda>_. ''error''), pe_range_order = (\<lambda>xs. xs)\<rparr>"

definition sample_planner :: diff_planner where
  "sample_planner = NewDiffPlanner ''/r'' None None"

definition sample_plan_request :: plan_request where
  "sample_plan_request = \<lparr>pr_run_id = ''r'', pr_repo_id = ''acme'', pr_ref = ''main'', pr_commit_sha = ''c0ffee''\<rparr>"

lemma sample_plan_computed:
  "map_sum id (\<lambda>r. (map pj_name (pl_jobs r), pl_recipe_source r))
     (fst (DiffPlanner_Plan sample_planner_env sample_planner sample_plan_request empty_world))
   = Inr ([''build:app'', ''test:app'', ''lint:app'', ''build:lib'', ''test:lib'', ''lint:lib''], PlanSourceDiscovery)"
  by code_simp

lemma sample_plan:
  obtains r w' where "DiffPlanner_Plan sample_planner_env sample_planner sample_plan_request empty_world = (Inr r, w')"
    "map pj_name (pl_jobs r) = [''build:app'', ''test:app'', ''lint:app'', ''build:lib'', ''test:lib'', ''lint:lib'']"
    "pl_recipe_source r = PlanSourceDiscovery"
proof (cases "DiffPlanner_Plan sample_planner_env sample_planner sample_plan_request empty_world")
  case (Pair res w')
  with sample_plan_computed that show ?thesis by (cases res) auto
qed

lemma sample_range_order: "range_order (pe_range_order sample_planner_env)"
  by (simp add: range_order_def sample_planner_env_def)

theorem diff_plans_are_schedulable_witness:
  "\<exists>r w'. DiffPlanner_Plan sample_planner_env sample_planner sample_plan_request empty_world = (Inr r, w')
    \<and> length (pl_jobs r) = 6 \<and> plan_ok (pl_jobs r)"
proof -
  obtain r w' where r: "DiffPlanner_Plan sample_planner_env sample_planner sample_plan_request empty_world = (Inr r, w')"
    "map pj_name (pl_jobs r) = [''build:app'', ''test:app'', ''lint:app'', ''build:lib'', ''test:lib'', ''lint:lib'']"
    "pl_recipe_source r = PlanSourceDiscovery"
    by (rule sample_plan)
  have "length (pl_jobs r) = length (map pj_name (pl_jobs r))" by simp
  also have "\<dots> = 6" by (simp add: r(2))
  finally show ?thesis using r(1) diff_plans_are_schedulable [OF sample_range_order r(1,3)] by blast
qed



















end
