(* ===== verification/Production.thy ===== *)
theory Production
  imports PlannerProperties RunEnd
begin

text \<open>
  The service as the worker command of \<open>cmd/orchestrator/main.go\<close> puts it together: the
  diff planner over the stored recipes, the queue dispatcher, random identifiers and the
  rule-based analyzer. The properties of the system hold of it.
\<close>

section \<open>Planning is read-only\<close>

text \<open>Only the last-used time of recipes may change.\<close>

definition planning_frame :: "world \<Rightarrow> world \<Rightarrow> bool" where
  "planning_frame w w' \<longleftrightarrow> same_core w w' \<and> w_plans w' = w_plans w \<and> w_specs w' = w_specs w
     \<and> w_artifacts w' = w_artifacts w \<and> w_explanations w' = w_explanations w \<and> w_reports w' = w_reports w
     \<and> w_cache_events w' = w_cache_events w \<and> w_metrics w' = w_metrics w
     \<and> map (\<lambda>x. x\<lparr>rec_last_used_at := None\<rparr>) (w_recipes w') = map (\<lambda>x. x\<lparr>rec_last_used_at := None\<rparr>) (w_recipes w)"

interpretation pf: world_preorder planning_frame
  by unfold_locales (auto simp: planning_frame_def same_core_def)

lemma TouchRecipe_frame: "keeps planning_frame (store_TouchRecipeLastUsed rid t)"
  by (auto simp: keeps_def store_TouchRecipeLastUsed_def Let_def bindE_def planning_frame_def same_core_def
      map_update_rows)

lemma FindRecipe_frame: "keeps planning_frame (recipeStore_FindRecipe repo fp)"
proof -
  have find: "keeps planning_frame (store_FindRecipeByFingerprint repo fp)"
    by (auto simp: keeps_def store_FindRecipeByFingerprint_def bindE_def pf.refl split: list.splits)
  show ?thesis
    unfolding recipeStore_FindRecipe_def
    by (intro pf.keeps_rules find TouchRecipe_frame)
qed

lemma StaticPlan_frame: "keeps planning_frame (StaticPlanner_Plan jobs req)"
  by (simp add: StaticPlanner_Plan_def keeps_def pf.refl)

lemma fallbackPlan_frame:
  "keeps planning_frame (dp_fallback P req) \<Longrightarrow> keeps planning_frame (fallbackPlan P req reason err)"
  unfolding fallbackPlan_def by (intro pf.keeps_rules)

lemma planFromRecipe_frame:
  assumes "\<And>f. dp_recipes P = Some f \<Longrightarrow> keeps planning_frame (f (pr_repo_id req) fp)"
  shows "keeps planning_frame (planFromRecipe E P req d root fp fe)"
proof (cases "dp_recipes P")
  case (Some f)
  show ?thesis
    unfolding planFromRecipe_def Some option.case by (intro pf.keeps_rules assms [OF Some])
qed (simp add: planFromRecipe_def pf.keeps_ret)

lemma plan_from_diff_frame:
  "keeps planning_frame (dp_fallback P req) \<Longrightarrow> keeps planning_frame (plan_from_diff E P req root d fp fe x)"
  unfolding plan_from_diff_def by (intro pf.keeps_rules fallbackPlan_frame)

lemma DiffPlanner_frame:
  assumes fb: "keeps planning_frame (dp_fallback P req)"
    and rc: "\<And>f fp. dp_recipes P = Some f \<Longrightarrow> keeps planning_frame (f (pr_repo_id req) fp)"
  shows "keeps planning_frame (DiffPlanner_Plan E P req)"
proof (cases "resolveRepoRoot E (dp_repo_root P)")
  case (Inl e)
  show ?thesis
    unfolding DiffPlanner_Plan_def Inl sum.case by (intro pf.keeps_rules fallbackPlan_frame fb)
next
  case (Inr root)
  obtain fp fe where fp: "(case computeRepoFingerprint E root of Inl e \<Rightarrow> ('''', Some e) | Inr f \<Rightarrow> (f, None)) = (fp, fe)"
    by fastforce
  show ?thesis
  proof (cases "hasFile (discoverInputs (pe_fs E) root) ''ci.ai.yaml'' \<or> \<not> has_go (discoverInputs (pe_fs E) root)")
    case True
    have "keeps planning_frame (bindE (fallbackPlan P req reason err) (\<lambda>r. ret (applyPlanMetadata r fp fe src n)))"
      for reason err src n by (intro pf.keeps_rules fallbackPlan_frame fb)
    with True show ?thesis unfolding DiffPlanner_Plan_def Inr Let_def sum.case fp prod.case by auto
  next
    case False
    then show ?thesis
      using DiffPlanner_Plan_run [OF Inr fp]
      by (simp add: pf.keeps_bindE planFromRecipe_frame rc plan_from_diff_frame fb)
  qed
qed

text \<open>
  C32: Planning is read-only. However it ends, a call of the diff planner over the stored
  recipes changes no run, job, attempt, lease, queue item, dependency, plan, specification
  or report; the only trace it can leave is the time a recipe was last used.
\<close>

theorem planning_is_read_only:
  "planning_frame w (world_after (DiffPlanner_Plan E (NewDiffPlanner root None (Some recipeStore_FindRecipe)) req) w)"
  by (rule keepsD [OF DiffPlanner_frame])
    (auto simp: NewDiffPlanner_def StaticPlan_frame FindRecipe_frame)

section \<open>The production service\<close>

definition production_service :: "planner_env \<Rightarrow> (nat \<Rightarrow> string option) \<Rightarrow> service" where
  "production_service E rand =
     NewService (Some (DiffPlanner_Plan E (NewDiffPlanner '''' None (Some recipeStore_FindRecipe))))
       (Some QueueDispatcher_EnqueueJobAttempt) None None None rand"

interpretation production: service_env "production_service E rand"
proof (rule service_env.intro)
  show "same_core w (world_after (sv_plan (production_service E rand) req) w)" for req w
    using keepsD [OF DiffPlanner_frame, of "NewDiffPlanner '''' None (Some recipeStore_FindRecipe)" req w E]
    by (auto simp: production_service_def NewService_def NewDiffPlanner_def StaticPlan_frame FindRecipe_frame
        planning_frame_def)
qed (simp_all add: production_service_def NewService_def queue_dispatcher.dispatcher_contract_axioms
      noop_reporter.reporter_contract_axioms random_id.id_source_axioms default_analyzer_core)

interpretation production_work: work_env "production_service E rand" True
  by (rule work_env_reliable [OF production.service_env_axioms])
    (simp add: production_service_def NewService_def queue_dispatcher.reliable_dispatcher_axioms)

text \<open>
  The production service keeps the invariant. Whatever repository is planned and in
  whatever order its API calls are served, every world it reaches satisfies the invariant
  of the orchestrator, among it the dependency gate, the agreement of jobs and attempts,
  the fencing of attempts by one live lease, and that no queued attempt is lost.
\<close>

theorem production_keeps_the_invariant:
  assumes "(serves (production_service E rand))\<^sup>*\<^sup>* empty_world w"
  shows "inv True w"
  using assms by (rule production_work.reachable_inv)


theorem production_keeps_the_invariant_witness:
  "inv True (foldl (\<lambda>w c. serve (production_service sample_planner_env sample_rand) c w) empty_world sample_calls)"
  by (rule production_keeps_the_invariant [OF serves_foldl])

end
