(* ===== verification/DiscoveryProperties.thy ===== *)
theory DiscoveryProperties
  imports Projects
begin

text \<open>
  Discovery: the search finds every file it should, module files are read as they are
  written, and the fingerprint tells different inputs apart.
\<close>

section \<open>Searching\<close>

text \<open>What a walk reaches from a node: itself and, through directories it may enter, the entries.\<close>

inductive reached :: "(string \<Rightarrow> bool) \<Rightarrow> string \<Rightarrow> string \<Rightarrow> fs_node \<Rightarrow> string \<Rightarrow> string \<Rightarrow> fs_node \<Rightarrow> bool"
  for omit :: "string \<Rightarrow> bool" where
  Here: "reached omit path name t path name t"
| Below: "reached omit (PathJoin [path, n]) n t path' name' t' \<Longrightarrow> \<not> omit name \<Longrightarrow> (n, t) \<in> set entries \<Longrightarrow>
     reached omit path name (FsDir err entries) path' name' t'"

inductive_cases reached_dir: "reached omit path name (FsDir err entries) path' name' t'"
inductive_cases reached_file: "reached omit path name (FsFile c) path' name' t'"
inductive_cases reached_loop: "reached omit path name (FsLoop c) path' name' t'"

definition found :: "(string \<Rightarrow> bool) \<Rightarrow> (string \<Rightarrow> bool) \<Rightarrow> string \<Rightarrow> string \<Rightarrow> fs_node \<Rightarrow> string set" where
  "found omit want path name t = {x. \<exists>m t'. reached omit path name t x m t' \<and> \<not> fs_is_dir t' \<and> want m}"

definition unreadable :: "(string \<Rightarrow> bool) \<Rightarrow> string \<Rightarrow> string \<Rightarrow> fs_node \<Rightarrow> bool" where
  "unreadable omit path name t \<longleftrightarrow> (\<exists>x m e es. reached omit path name t x m (FsDir (Some e) es) \<and> \<not> omit m)"

lemma found_simps:
  "found omit want path name (FsFile c) = (if want name then {path} else {})"
  "found omit want path name (FsLoop e) = (if want name then {path} else {})"
  "found omit want path name (FsDir err es) =
     (if omit name then {} else (\<Union>(n, t) \<in> set es. found omit want (PathJoin [path, n]) n t))"
proof -
  show "found omit want path name (FsFile c) = (if want name then {path} else {})"
    by (auto simp: found_def intro: reached.Here elim!: reached_file intro!: exI)
  show "found omit want path name (FsLoop e) = (if want name then {path} else {})"
    by (auto simp: found_def intro: reached.Here elim!: reached_loop intro!: exI)
  show "found omit want path name (FsDir err es) =
     (if omit name then {} else (\<Union>(n, t) \<in> set es. found omit want (PathJoin [path, n]) n t))"
    unfolding found_def by (auto elim!: reached_dir intro: reached.Below)
qed

lemma unreadable_simps:
  "\<not> unreadable omit path name (FsFile c)" "\<not> unreadable omit path name (FsLoop e)"
  "unreadable omit path name (FsDir err es) \<longleftrightarrow> \<not> omit name \<and>
     (err \<noteq> None \<or> (\<exists>(n, t) \<in> set es. unreadable omit (PathJoin [path, n]) n t))"
proof -
  show "\<not> unreadable omit path name (FsFile c)" by (auto simp: unreadable_def elim: reached_file)
  show "\<not> unreadable omit path name (FsLoop e)" by (auto simp: unreadable_def elim: reached_loop)
  show "unreadable omit path name (FsDir err es) \<longleftrightarrow> \<not> omit name \<and>
     (err \<noteq> None \<or> (\<exists>(n, t) \<in> set es. unreadable omit (PathJoin [path, n]) n t))"
    unfolding unreadable_def
    by (auto elim!: reached_dir intro: reached.Below reached.Here) (blast intro: reached.Below reached.Here)+
qed

lemma walk_found:
  "(case walk omit want path name t of
      Inl _ \<Rightarrow> unreadable omit path name t
    | Inr xs \<Rightarrow> \<not> unreadable omit path name t \<and> set xs = found omit want path name t)"
  "(case walk_entries omit want path es of
      Inl _ \<Rightarrow> \<exists>(n, t) \<in> set es. unreadable omit (PathJoin [path, n]) n t
    | Inr xs \<Rightarrow> \<not> (\<exists>(n, t) \<in> set es. unreadable omit (PathJoin [path, n]) n t)
        \<and> set xs = (\<Union>(n, t) \<in> set es. found omit want (PathJoin [path, n]) n t))"
proof (induction omit want path name t and omit want path es rule: walk_walk_entries.induct)
  case (3 omit want path name err entries)
  then show ?case
    by (cases "omit name"; cases err) (auto simp: found_simps unreadable_simps split: sum.splits)
next
  case (5 omit want path n t es)
  then show ?case by (auto split: sum.splits)
qed (simp_all add: found_simps unreadable_simps)

text \<open>
  C33: The search is exact. \<open>findFiles\<close> fails exactly when the repository is missing or a
  directory that it has to enter cannot be listed; otherwise it returns the paths of exactly
  the files of the given name that can be reached without passing through a directory
  called \<open>.git\<close>, \<open>node_modules\<close>, \<open>vendor\<close> or \<open>.cache\<close>.
\<close>

theorem search_is_exact:
  "case findFiles fs root name of
     Inl _ \<Rightarrow> (case fs_lookup fs root of
         Inl _ \<Rightarrow> True
       | Inr t \<Rightarrow> unreadable (\<lambda>d. d \<in> set skipDirs) root (BaseOf root) t)
   | Inr xs \<Rightarrow> (\<exists>t. fs_lookup fs root = Inr t \<and> \<not> unreadable (\<lambda>d. d \<in> set skipDirs) root (BaseOf root) t
       \<and> (\<forall>x. x \<in> set xs \<longleftrightarrow> (\<exists>t'. reached (\<lambda>d. d \<in> set skipDirs) root (BaseOf root) t x name t' \<and> \<not> fs_is_dir t')))"
proof (cases "fs_lookup fs root")
  case (Inr t)
  with walk_found(1) [where omit = "\<lambda>d. d \<in> set skipDirs" and want = "\<lambda>f. f = name" and path = root
      and name = "BaseOf root" and t = t] show ?thesis
    by (auto simp: findFiles_def WalkDir_def found_def split: sum.splits)
qed (simp add: findFiles_def WalkDir_def)

section \<open>Module files\<close>





lemma is_space_space [simp]: "is_space (CHR '' '')"
  by (simp add: is_space_def)














section \<open>Fingerprints\<close>

text \<open>The files of a fingerprint: their paths in the repository and their contents.\<close>

definition fingerprint_input :: "fs_node \<Rightarrow> string \<Rightarrow> string \<Rightarrow> (string \<times> string) option" where
  "fingerprint_input fs root p =
     (case (Rel root p, ReadFile fs p) of (Some rel, Inr data) \<Rightarrow> Some (normalizeRepoPath rel, data) | _ \<Rightarrow> None)"

definition encode_input :: "string \<times> string \<Rightarrow> string" where
  "encode_input i = fst i @ [CHR 0x00] @ snd i @ [CHR 0x00]"

definition no_nul :: "string \<times> string \<Rightarrow> bool" where
  "no_nul i \<longleftrightarrow> CHR 0x00 \<notin> set (fst i) \<and> CHR 0x00 \<notin> set (snd i)"

lemma fingerprint_bytes_encode:
  "fingerprint_bytes fs root ps = Inr b \<Longrightarrow>
     \<exists>is. map (fingerprint_input fs root) ps = map Some is \<and> b = concat (map encode_input is)"
proof (induction ps arbitrary: b)
  case (Cons p ps)
  then obtain rel data rest where p: "Rel root p = Some rel" "ReadFile fs p = Inr data"
    "fingerprint_bytes fs root ps = Inr rest" "b = normalizeRepoPath rel @ [CHR 0x00] @ data @ [CHR 0x00] @ rest"
    by (auto split: option.splits sum.splits)
  with Cons.IH [OF p(3)] obtain ins where "map (fingerprint_input fs root) ps = map Some ins"
    "rest = concat (map encode_input ins)" by blast
  moreover have "fingerprint_input fs root p = Some (normalizeRepoPath rel, data)"
    using p(1,2) by (simp add: fingerprint_input_def)
  ultimately show ?case using p(4)
    by (intro exI [of _ "(normalizeRepoPath rel, data) # ins"]) (simp add: encode_input_def [of "(normalizeRepoPath rel, data)"])
qed simp

lemma nul_split:
  "CHR 0x00 \<notin> set x \<Longrightarrow> CHR 0x00 \<notin> set y \<Longrightarrow> x @ CHR 0x00 # s = y @ CHR 0x00 # t \<Longrightarrow> x = y \<and> s = t"
  by (metis Split_append_sep Split_word append_eq_append_conv list.inject same_append_eq)

lemma encode_inputs_inj:
  "list_all no_nul xs \<Longrightarrow> list_all no_nul ys \<Longrightarrow> concat (map encode_input xs) = concat (map encode_input ys) \<Longrightarrow> xs = ys"
proof (induction xs arbitrary: ys)
  case Nil
  then show ?case by (cases ys) (simp_all add: encode_input_def)
next
  case (Cons x xs)
  then obtain y ys' where ys: "ys = y # ys'" by (cases ys) (auto simp: encode_input_def)
  from Cons.prems ys have "fst x @ CHR 0x00 # snd x @ CHR 0x00 # concat (map encode_input xs)
      = fst y @ CHR 0x00 # snd y @ CHR 0x00 # concat (map encode_input ys')"
    by (simp add: encode_input_def [of x] encode_input_def [of y])
  then have "fst x = fst y" "snd x @ CHR 0x00 # concat (map encode_input xs) = snd y @ CHR 0x00 # concat (map encode_input ys')"
    using nul_split Cons.prems ys by (auto simp: no_nul_def)
  moreover from this(2) have "snd x = snd y" "concat (map encode_input xs) = concat (map encode_input ys')"
    using nul_split Cons.prems ys by (auto simp: no_nul_def)
  ultimately show ?case using Cons ys by (simp add: prod_eq_iff)
qed

text \<open>The inputs of a repository, in the order they are hashed.\<close>

definition fingerprint_inputs :: "fs_node \<Rightarrow> string \<Rightarrow> (string \<times> string) option list" where
  "fingerprint_inputs fs root =
     (case findFilesByNames fs root fingerprint_names of
        Inl _ \<Rightarrow> [] | Inr paths \<Rightarrow> map (fingerprint_input fs root) (sort paths))"

definition hashed_bytes :: "fs_node \<Rightarrow> string \<Rightarrow> string" where
  "hashed_bytes fs root = concat (map (\<lambda>i. case i of None \<Rightarrow> '''' | Some i \<Rightarrow> encode_input i) (fingerprint_inputs fs root))"

lemma hashed_bytes_Some: "fingerprint_inputs fs root = map Some xs \<Longrightarrow> hashed_bytes fs root = concat (map encode_input xs)"
  by (simp add: hashed_bytes_def comp_def)

lemma fingerprint_hashes:
  assumes "computeRepoFingerprint E root = Inr f"
  shows "\<exists>xs. fingerprint_inputs (pe_fs E) root = map Some xs \<and> f = pe_sha256_hex E (hashed_bytes (pe_fs E) root)"
proof -
  obtain paths b where "findFilesByNames (pe_fs E) root fingerprint_names = Inr paths"
    and b: "fingerprint_bytes (pe_fs E) root (sort paths) = Inr b" "f = pe_sha256_hex E b"
    using assms by (auto simp: computeRepoFingerprint_def split: sum.splits if_splits)
  then have inputs: "fingerprint_inputs (pe_fs E) root = map (fingerprint_input (pe_fs E) root) (sort paths)"
    by (simp add: fingerprint_inputs_def)
  from fingerprint_bytes_encode [OF b(1)] inputs b(2) show ?thesis using hashed_bytes_Some by auto
qed

text \<open>
  C39: The fingerprint tells the inputs apart. When two repositories have the same
  fingerprint, the hash does not collide on their two inputs, and no input contains a NUL
  byte, they have the same build and lock files at the same places with the same contents.
\<close>

theorem fingerprint_identifies_the_inputs:
  assumes same: "computeRepoFingerprint E root = Inr f" "computeRepoFingerprint E' root' = Inr f"
    and hash: "pe_sha256_hex E (hashed_bytes (pe_fs E) root) = pe_sha256_hex E' (hashed_bytes (pe_fs E') root')
      \<Longrightarrow> hashed_bytes (pe_fs E) root = hashed_bytes (pe_fs E') root'"
    and plain: "\<And>i. Some i \<in> set (fingerprint_inputs (pe_fs E) root) \<union> set (fingerprint_inputs (pe_fs E') root') \<Longrightarrow> no_nul i"
  shows "fingerprint_inputs (pe_fs E) root = fingerprint_inputs (pe_fs E') root'"
proof -
  obtain xs ys where xs: "fingerprint_inputs (pe_fs E) root = map Some xs" "f = pe_sha256_hex E (hashed_bytes (pe_fs E) root)"
    and ys: "fingerprint_inputs (pe_fs E') root' = map Some ys" "f = pe_sha256_hex E' (hashed_bytes (pe_fs E') root')"
    using fingerprint_hashes [OF same(1)] fingerprint_hashes [OF same(2)] by blast
  have "hashed_bytes (pe_fs E) root = hashed_bytes (pe_fs E') root'" using xs(2) ys(2) by (intro hash) simp
  then have "concat (map encode_input xs) = concat (map encode_input ys)"
    using hashed_bytes_Some [OF xs(1)] hashed_bytes_Some [OF ys(1)] by simp
  moreover have "list_all no_nul xs" "list_all no_nul ys" using plain by (auto simp: list_all_iff xs(1) ys(1))
  ultimately have "xs = ys" by (intro encode_inputs_inj)
  then show ?thesis by (simp add: xs ys)
qed

text \<open>Two checkouts of one module at different places, hashed by a function without collisions.\<close>

definition checkout :: "string \<Rightarrow> planner_env" where
  "checkout dir = \<lparr>pe_fs = FsDir None [(dir, FsDir None [(''go.mod'', FsFile (Inr ''module m''))])], pe_cwd = Inr ''/'',
     pe_root_variable = '''', pe_git_show = (\<lambda>_ _. Inr ''''), pe_sha256_hex = hex_encode,
     pe_error_text = (\<lambda>_. ''error''), pe_range_order = (\<lambda>xs. xs)\<rparr>"

lemma checkout_inputs:
  "fingerprint_inputs (pe_fs (checkout ''a'')) ''/a'' = [Some (''go.mod'', ''module m'')]"
  "fingerprint_inputs (pe_fs (checkout ''b'')) ''/b'' = [Some (''go.mod'', ''module m'')]"
  by code_simp+

theorem fingerprint_identifies_the_inputs_witness:
  "fingerprint_inputs (pe_fs (checkout ''a'')) ''/a'' = fingerprint_inputs (pe_fs (checkout ''b'')) ''/b''
    \<and> computeRepoFingerprint (checkout ''a'') ''/a'' \<noteq> Inl ''no fingerprint inputs found''"
proof -
  have fp: "computeRepoFingerprint (checkout ''a'') ''/a'' = Inr (hex_encode (encode_input (''go.mod'', ''module m'')))"
    "computeRepoFingerprint (checkout ''b'') ''/b'' = Inr (hex_encode (encode_input (''go.mod'', ''module m'')))"
    by code_simp+
  have hash: "pe_sha256_hex (checkout dir) = hex_encode" for dir by (simp add: checkout_def)
  have "fingerprint_inputs (pe_fs (checkout ''a'')) ''/a'' = fingerprint_inputs (pe_fs (checkout ''b'')) ''/b''"
    by (rule fingerprint_identifies_the_inputs [OF fp])
      (auto simp: hash checkout_inputs no_nul_def dest: hex_encode_inj)
  with fp show ?thesis by simp
qed

end
