(* ===== verification/GreenRun.thy ===== *)
theory GreenRun
  imports RunEnd
begin

text \<open>
  A run of one job, from its creation to its success. \<open>green_stage\<close> writes the tables out as
  they stand between the calls.
\<close>

definition green_service :: service where
  "green_service = NewService (Some (StaticPlanner_Plan [simple_job ''build'' True ''go build ./...'' ''build first'']))
     (Some QueueDispatcher_EnqueueJobAttempt) None None None sample_rand"

definition green_request :: grant_lease_request where
  "green_request = \<lparr>glr_attempt_id = ''attempt_0200'', glr_runner_id = ''runner-1'', glr_ttl_seconds = 120,
     glr_heartbeat_seconds = 30, glr_max_runtime_seconds = 600\<rparr>"

definition green_completion :: complete_msg where
  "green_completion = \<lparr>cm_lease_id = ''lease_0300'', cm_runner_id = ''runner-1'',
     cm_status = CompleteStatusSucceeded, cm_exit_code = 0, cm_finished_at = 8000000000,
     cm_summary = ''succeeded'', cm_artifacts = [], cm_caches = []\<rparr>"

definition green_calls :: "api_call list" where
  "green_calls = [CallCreateRun scene_request,
     CallGrantLease green_request,
     CallAckLease \<lparr>ack_job_id = ''job_0100'', ack_lease_id = ''lease_0300'', ack_runner_id = ''runner-1'',
       ack_accepted_at = 6000000000\<rparr>,
     CallCompleteLease green_completion]"

definition green_world :: world where
  "green_world = foldl (\<lambda>w c. serve green_service c w) empty_world green_calls"

definition green_stage :: "run_state \<Rightarrow> job_state \<Rightarrow> string option \<Rightarrow> go_time option \<Rightarrow> lease list \<Rightarrow> queue_item list \<Rightarrow>
  nat \<Rightarrow> metric_event list \<Rightarrow> world" where
  "green_stage rst jst lease started ls qs ids metrics = empty_world\<lparr>
     w_runs := [\<lparr>run_id = ''run_0000'', run_repo_id = ''acme/app'', run_ref = ''main'', run_commit_sha = ''c0ffee'',
       run_state = rst, run_created_at = 1, run_updated_at = 1\<rparr>],
     w_jobs := [\<lparr>job_id = ''job_0100'', job_run_id = ''run_0000'', job_name = ''build'', job_required = True,
       job_state = jst, job_attempt_count = 1, job_reason = ''build first'', job_created_at = 1, job_updated_at = 1\<rparr>],
     w_attempts := [\<lparr>att_id = ''attempt_0200'', att_job_id = ''job_0100'', att_number = 1, att_state = jst,
       att_lease_id = lease, att_created_at = 1, att_updated_at = 1, att_started_at = started, att_completed_at = None\<rparr>],
     w_leases := ls, w_queue := qs,
     w_specs := [\<lparr>js_job_id = ''job_0100'', js_spec = JsonJobSpec \<lparr>spec_name = ''build'', spec_workdir = ''.'',
       spec_steps = [''go build ./...''], spec_env = [], spec_caches = []\<rparr>\<rparr>],
     w_plans := [\<lparr>rp_run_id = ''run_0000'', rp_repo_id = ''acme/app'', rp_fingerprint = [], rp_recipe_id = None,
       rp_recipe_source = ''fallback'', rp_recipe_version = None, rp_explain = ''static planner configured'',
       rp_skipped_jobs = [], rp_created_at = 1, rp_updated_at = 1\<rparr>],
     w_ids := ids, w_metrics := metrics\<rparr>"

definition green_lease :: "lease_state \<Rightarrow> go_time \<Rightarrow> go_time option \<Rightarrow> go_time \<Rightarrow> lease" where
  "green_lease st updated acked expires = \<lparr>lease_id = ''lease_0300'', lease_attempt_id = ''attempt_0200'',
     lease_runner_id = Some ''runner-1'', lease_state = st, lease_ttl = 120, lease_heartbeat = 30,
     lease_granted_at = 1, lease_updated_at = updated, lease_acknowledged_at = acked,
     lease_last_heartbeat_at = None, lease_expires_at = Some expires, lease_completed_at = None\<rparr>"

definition green_metrics :: "metric_event list" where
  "green_metrics = [IncRun ''queued'', IncJob ''queued'', IncJob ''created'', IncRun ''planning'', IncRun ''created'']"

definition green_queued :: world where
  "green_queued = green_stage RunStateQueued JobStateQueued None None [] [scene_queued ''attempt_0200'' 1] 3 green_metrics"

definition green_leased :: world where
  "green_leased = green_stage RunStateRunning JobStateLeased (Some ''lease_0300'') None
     [green_lease LeaseStateGranted 1 None 120000000001] [] 4
     ([IncRun ''running'', IncJob ''leased'', IncLease ''granted''] @ green_metrics)"

definition green_started :: world where
  "green_started = green_stage RunStateRunning JobStateStarting (Some ''lease_0300'') (Some 6000000000)
     [green_lease LeaseStateActive 6000000000 (Some 6000000000) 126000000000] [] 4
     ([IncJob ''starting'', IncLease ''active'', IncRun ''running'', IncJob ''leased'', IncLease ''granted''] @ green_metrics)"

lemmas green_defs = green_service_def green_request_def green_completion_def sample_rand_def scene_request_def empty_world_def scene_queued_def
  green_stage_def green_lease_def green_metrics_def green_queued_def green_leased_def green_started_def

lemma green_created: "serve green_service (green_calls ! 0) empty_world = green_queued"
  by (simp add: green_calls_def green_defs eval_run cong: eval_congs)

lemma green_granted: "serve green_service (green_calls ! 1) green_queued = green_leased"
  by (simp add: green_calls_def green_defs eval_run cong: eval_congs)

text \<open>The lease that the worker is given for its runner.\<close>

definition green_message :: lease_granted where
  "green_message = \<lparr>lg_run_id = ''run_0000'', lg_job_id = ''job_0100'', lg_lease_id = ''lease_0300'',
     lg_lease_ttl_seconds = 120, lg_heartbeat_interval_seconds = 30, lg_max_runtime_seconds = 600,
     lg_job_spec = \<lparr>spec_name = ''build'', spec_workdir = ''.'', spec_steps = [''go build ./...''],
       spec_env = [], spec_caches = []\<rparr>\<rparr>"

lemma green_answer: "outcome_of (svc_GrantLease green_service green_request) green_queued = Inr green_message"
  by (simp add: green_message_def green_defs eval_run cong: eval_congs)

lemma green_acknowledged: "serve green_service (green_calls ! 2) green_leased = green_started"
  by (simp add: green_calls_def green_defs eval_run cong: eval_congs)

lemma green_completed:
  "map (\<lambda>r. (run_id r, run_state r)) (w_runs (serve green_service (green_calls ! 3) green_started)) = [(''run_0000'', RunStateSuccess)]"
  "map (\<lambda>j. (job_run_id j, job_required j)) (w_jobs (serve green_service (green_calls ! 3) green_started)) = [(''run_0000'', True)]"
  by (simp_all add: green_calls_def green_defs eval_run cong: eval_congs)

lemma green_world_last: "green_world = serve green_service (green_calls ! 3) green_started"
proof -
  have "green_calls = [green_calls ! 0, green_calls ! 1, green_calls ! 2, green_calls ! 3]" by (simp add: green_calls_def)
  then have "green_world = foldl (\<lambda>w c. serve green_service c w) empty_world [green_calls ! 0, green_calls ! 1, green_calls ! 2, green_calls ! 3]"
    unfolding green_world_def by simp
  then show ?thesis by (simp only: foldl_Cons foldl_Nil green_created green_granted green_acknowledged)
qed

lemma green_world_run:
  "\<exists>r\<in>set (w_runs green_world). run_id r = ''run_0000'' \<and> run_state r = RunStateSuccess"
  "\<exists>j\<in>set (w_jobs green_world). job_run_id j = ''run_0000'' \<and> job_required j"
  unfolding green_world_last using green_completed by auto

lemma green_env: "service_env green_service"
  unfolding green_service_def
  by (rule service_env.intro)
    (simp_all add: NewService_def queue_dispatcher.dispatcher_contract_axioms
      noop_reporter.reporter_contract_axioms random_id.id_source_axioms StaticPlanner_core
      default_analyzer_core)

end
