(* ===== verification/RunnerCache.thy ===== *)
theory RunnerCache
  imports GoPaths Types
begin

text \<open>
  The caches of the runner (\<open>runner/main.go\<close>): where a cache lives, restoring it before the
  job and saving it afterwards. The file system is the operating system's: an argument
  \<open>'f os_env\<close> of operations on a state \<open>'f\<close>; \<open>WalkDir\<close> yields the entries it visits and the
  error it stops with. A failure is only a warning: the loops go on.
\<close>

section \<open>The operating system\<close>

type_synonym ('f, 'a) os = "('f, string, 'a) prog"

record dir_entry =
  de_path :: string
  de_is_dir :: bool
  de_mode :: "string + nat"

record 'f os_env =
  os_Stat :: "string \<Rightarrow> 'f \<Rightarrow> string + bool \<times> nat"
  os_MkdirAll :: "string \<Rightarrow> ('f, unit) os"
  os_RemoveAll :: "string \<Rightarrow> ('f, unit) os"
  os_WalkDir :: "string \<Rightarrow> 'f \<Rightarrow> dir_entry list \<times> string option"
  os_Open :: "string \<Rightarrow> ('f, unit) os"
  os_Create :: "string \<Rightarrow> ('f, unit) os"
  os_Copy :: "string \<Rightarrow> string \<Rightarrow> ('f, unit) os"
  os_Chmod :: "string \<Rightarrow> nat \<Rightarrow> ('f, unit) os"
  os_UserHomeDir :: "string + string"
  os_sha256 :: "string \<Rightarrow> string"

definition stat :: "'f os_env \<Rightarrow> string \<Rightarrow> ('f, bool \<times> nat) os" where
  "stat OS p = (\<lambda>s. (os_Stat OS p s, s))"

definition pathExists :: "'f os_env \<Rightarrow> string \<Rightarrow> 'f \<Rightarrow> bool" where
  "pathExists OS p s = (case os_Stat OS p s of Inl _ \<Rightarrow> False | Inr _ \<Rightarrow> True)"

section \<open>Copying\<close>

definition copyFile :: "'f os_env \<Rightarrow> string \<Rightarrow> string \<Rightarrow> nat \<Rightarrow> ('f, unit) os" where
  "copyFile OS src dest mode =
     bindE (os_MkdirAll OS (DirOf dest)) (\<lambda>_.
     bindE (os_Open OS src) (\<lambda>_.
     bindE (os_Create OS dest) (\<lambda>_.
     bindE (os_Copy OS src dest) (\<lambda>_.
     os_Chmod OS dest mode))))"

definition copy_entry :: "'f os_env \<Rightarrow> string \<Rightarrow> string \<Rightarrow> dir_entry \<Rightarrow> ('f, unit) os" where
  "copy_entry OS src dest d =
     (case Rel src (de_path d) of
        None \<Rightarrow> fail ''Rel: can't make path relative''
      | Some rel \<Rightarrow>
          let target = PathJoin [dest, rel] in
          if de_is_dir d then os_MkdirAll OS target
          else case de_mode d of Inl e \<Rightarrow> fail e | Inr mode \<Rightarrow> copyFile OS (de_path d) target mode)"

definition copyDir :: "'f os_env \<Rightarrow> string \<Rightarrow> string \<Rightarrow> ('f, unit) os" where
  "copyDir OS src dest =
     bindE (gets (os_WalkDir OS src)) (\<lambda>(entries, err).
     bindE (foreach (copy_entry OS src dest) entries) (\<lambda>_.
     case err of Some e \<Rightarrow> fail e | None \<Rightarrow> skip))"

definition copyPath :: "'f os_env \<Rightarrow> string \<Rightarrow> string \<Rightarrow> ('f, unit) os" where
  "copyPath OS src dest =
     bindE (stat OS src) (\<lambda>(is_dir, mode). if is_dir then copyDir OS src dest else copyFile OS src dest mode)"

definition restoreCachePath :: "'f os_env \<Rightarrow> string \<Rightarrow> string \<Rightarrow> ('f, unit) os" where
  "restoreCachePath OS cachePath targetPath =
     bindE (stat OS cachePath) (\<lambda>(is_dir, mode).
     if is_dir then copyDir OS cachePath targetPath else copyFile OS cachePath targetPath mode)"

section \<open>Where a cache lives\<close>

definition defaultCacheDir :: "string \<Rightarrow> string \<Rightarrow> string" where
  "defaultCacheDir env_value temp_dir =
     (if env_value \<noteq> '''' then env_value else PathJoin [temp_dir, ''delta-ci'', ''cache''])"

definition sanitizeCacheType :: "string \<Rightarrow> string" where
  "sanitizeCacheType value =
     (let v = TrimSpace (ToLower value) in
      if v = '''' then ''cache''
      else ReplaceChar (CHR 0x5C) (CHR ''_'') (ReplaceChar slash (CHR ''_'') v))"

definition hashValue :: "'f os_env \<Rightarrow> string \<Rightarrow> string" where
  "hashValue OS value = hex_encode (os_sha256 OS value)"

definition cache_root :: "'f os_env \<Rightarrow> string \<Rightarrow> cache_spec \<Rightarrow> string" where
  "cache_root OS baseDir spec =
     PathJoin [baseDir, sanitizeCacheType (cs_type spec), hashValue OS (cs_type spec @ '':'' @ cs_key spec)]"

definition resolveCachePath :: "'f os_env \<Rightarrow> string \<Rightarrow> string \<Rightarrow> string + string" where
  "resolveCachePath OS path workdir =
     (if path = '''' then Inl ''empty path''
      else
        let anchored = (\<lambda>p. Inr (Clean (if IsAbs p then p else PathJoin [workdir, p]))) in
        if HasPrefix path ''~'' then
          (case os_UserHomeDir OS of
             Inl e \<Rightarrow> Inl e
           | Inr home \<Rightarrow> anchored (PathJoin [home, TrimPrefix path ''~'']))
        else anchored path)"

section \<open>Restoring and saving\<close>

record cache_path_mapping =
  cpm_cache_path :: string
  cpm_target_path :: string

record cache_usage =
  cu_spec :: cache_spec
  cu_root :: string
  cu_paths :: "cache_path_mapping list"
  cu_hit :: bool
  cu_restored :: bool

text \<open>A warning is logged and forgotten.\<close>

definition warned :: "('f, unit) os \<Rightarrow> ('f, bool) os" where
  "warned m = bindE (try_prog m) (\<lambda>res. ret (case res of Inl _ \<Rightarrow> False | Inr _ \<Rightarrow> True))"

definition restore_path :: "'f os_env \<Rightarrow> string \<Rightarrow> cache_usage \<Rightarrow> string \<Rightarrow> ('f, cache_usage) os" where
  "restore_path OS workdir u path =
     (case resolveCachePath OS path workdir of
        Inl _ \<Rightarrow> ret u
      | Inr target \<Rightarrow>
          let cachePath = PathJoin [cu_root u, hashValue OS path];
              u' = u\<lparr>cu_paths := cu_paths u @ [\<lparr>cpm_cache_path = cachePath, cpm_target_path = target\<rparr>]\<rparr> in
          bindE (gets (pathExists OS cachePath)) (\<lambda>present.
          if \<not> present then ret u'
          else bindE (warned (restoreCachePath OS cachePath target)) (\<lambda>ok.
            ret (u'\<lparr>cu_hit := True, cu_restored := cu_restored u \<or> ok\<rparr>))))"

primrec restore_paths :: "'f os_env \<Rightarrow> string \<Rightarrow> cache_usage \<Rightarrow> string list \<Rightarrow> ('f, cache_usage) os" where
  "restore_paths OS workdir u [] = ret u"
| "restore_paths OS workdir u (p # ps) = bindE (restore_path OS workdir u p) (\<lambda>u'. restore_paths OS workdir u' ps)"

text \<open>A spec without key or paths is ignored; so is one whose directory cannot be made.\<close>

definition restore_spec :: "'f os_env \<Rightarrow> string \<Rightarrow> string \<Rightarrow> cache_spec \<Rightarrow> ('f, cache_usage option) os" where
  "restore_spec OS baseDir workdir spec =
     (if cs_key spec = '''' \<or> cs_paths spec = [] then ret None
      else
        let root = cache_root OS baseDir spec in
        bindE (warned (os_MkdirAll OS root)) (\<lambda>ok.
        if \<not> ok then ret None
        else bindE (restore_paths OS workdir
               \<lparr>cu_spec = spec, cu_root = root, cu_paths = [], cu_hit = False, cu_restored = False\<rparr> (cs_paths spec)) (\<lambda>u.
             ret (Some u))))"

definition usage_event :: "cache_usage \<Rightarrow> cache_event_msg" where
  "usage_event u = \<lparr>cem_type = cs_type (cu_spec u), cem_key = cs_key (cu_spec u), cem_hit = cu_hit u,
     cem_read_only = cs_read_only (cu_spec u)\<rparr>"

definition restoreCaches :: "'f os_env \<Rightarrow> string \<Rightarrow> string \<Rightarrow> cache_spec list \<Rightarrow>
    ('f, cache_usage list \<times> cache_event_msg list) os" where
  "restoreCaches OS baseDir workdir specs =
     (if specs = [] then ret ([], [])
      else bindE (warned (os_MkdirAll OS baseDir)) (\<lambda>ok.
        if \<not> ok then ret ([], [])
        else bindE (mapE (restore_spec OS baseDir workdir) specs) (\<lambda>found.
          let usages = List.map_filter id found in ret (usages, map usage_event usages))))"

definition save_path :: "'f os_env \<Rightarrow> cache_path_mapping \<Rightarrow> ('f, unit) os" where
  "save_path OS m =
     bindE (gets (pathExists OS (cpm_target_path m))) (\<lambda>present.
     if \<not> present then skip
     else bindE (warned (os_RemoveAll OS (cpm_cache_path m))) (\<lambda>cleared.
       if \<not> cleared then skip
       else bindE (warned (os_MkdirAll OS (DirOf (cpm_cache_path m)))) (\<lambda>made.
         if \<not> made then skip
         else bindE (warned (copyPath OS (cpm_target_path m) (cpm_cache_path m))) (\<lambda>_. skip))))"

definition saveCaches :: "'f os_env \<Rightarrow> cache_usage list \<Rightarrow> ('f, unit) os" where
  "saveCaches OS usages =
     foreach (\<lambda>u. if cs_read_only (cu_spec u) then skip else foreach (save_path OS) (cu_paths u)) usages"

end
