(* ===== verification/Runner.thy ===== *)
theory Runner
  imports RunnerCache
begin

text \<open>
  The runner process (\<open>runner/main.go\<close>, \<open>runner/transport/http.go\<close>,
  \<open>runner/artifacts/s3.go\<close>) as a machine: \<open>runner_step\<close> takes one event (an answer of the
  orchestrator, the end of the command, the end of an upload, a tick of the heartbeat
  goroutine) and is undefined where the event cannot happen. The two goroutines interleave
  freely, so an execution is any list of events the machine accepts; \<open>rs_sent\<close> is what
  the orchestrator has been sent.
\<close>

section \<open>Transport (transport/http.go)\<close>

datatype runner_msg =
    MsgAckLease ack_lease_msg
  | MsgHeartbeat heartbeat_msg
  | MsgComplete complete_msg
  | MsgCancelAck cancel_ack_msg

fun msg_path :: "runner_msg \<Rightarrow> string" where
  "msg_path (MsgAckLease _) = ''/api/v1/internal/ack-lease''"
| "msg_path (MsgHeartbeat _) = ''/api/v1/internal/heartbeat''"
| "msg_path (MsgComplete _) = ''/api/v1/internal/complete''"
| "msg_path (MsgCancelAck _) = ''/api/v1/internal/cancel-ack''"

text \<open>
  The exchange fails, or a status code comes back with the status line and a body; \<open>decode\<close>
  reads the answer, if one is wanted.
\<close>

type_synonym http_exchange = "string + int \<times> string \<times> string"

definition client_post :: "http_exchange \<Rightarrow> (string \<Rightarrow> string + 'a) \<Rightarrow> string + 'a" where
  "client_post exchange decode =
     (case exchange of
        Inl e \<Rightarrow> Inl e
      | Inr (code, status, body) \<Rightarrow> if 300 \<le> code then Inl (''unexpected status '' @ status) else decode body)"

definition client_send :: "http_exchange \<Rightarrow> string + unit" where
  "client_send exchange = client_post exchange (\<lambda>_. Inr ())"

definition client_Heartbeat :: "(string \<Rightarrow> string + heartbeat_ack) \<Rightarrow> http_exchange \<Rightarrow> string + heartbeat_ack" where
  "client_Heartbeat decode exchange = client_post exchange decode"

section \<open>Log upload (artifacts/s3.go)\<close>

definition objectKey :: "string \<Rightarrow> string list \<Rightarrow> string" where
  "objectKey prefix parts = (if prefix = '''' then PathJoin parts else PathJoin (prefix # parts))"

definition s3_prefix :: "string \<Rightarrow> string" where
  "s3_prefix p = TrimFunc (\<lambda>c. c = slash) p"

text \<open>\<open>opened\<close> and \<open>put\<close> are the errors of opening the log and of the S3 call, if any.\<close>

definition UploadLog :: "string \<Rightarrow> string \<Rightarrow> string \<Rightarrow> string \<Rightarrow> string option \<Rightarrow> string option \<Rightarrow> string + string" where
  "UploadLog bucket prefix runID jobID opened put =
     (let key = objectKey (s3_prefix prefix) [''runs'', runID, ''jobs'', jobID, ''log.txt''] in
      case opened of Some e \<Rightarrow> Inl e
      | None \<Rightarrow> (case put of Some e \<Rightarrow> Inl e | None \<Rightarrow> Inr (''s3://'' @ bucket @ ''/'' @ key)))"

text \<open>\<open>init\<close> is the error of loading the AWS configuration.\<close>

record s3_outcome =
  s3_init :: "string option"
  s3_open :: "string option"
  s3_put :: "string option"

section \<open>Configuration and start\<close>

record runner_config =
  rcf_runner_id :: string
  rcf_lease_path :: string
  rcf_workdir :: string
  rcf_s3_bucket :: string
  rcf_s3_prefix :: string
  rcf_cache_dir :: string

text \<open>What reading and parsing the lease file, creating the log and resolving the directory give.\<close>

record runner_host =
  rh_lease_file :: "string + lease_granted"
  rh_log_file :: "string option"
  rh_workdir :: "string + string"

definition firstStep :: "string list \<Rightarrow> string" where
  "firstStep steps = (case steps of [] \<Rightarrow> ''echo '' @ [CHR 0x22] @ ''no steps provided'' @ [CHR 0x22] | s # _ \<Rightarrow> s)"

definition heartbeat_interval :: "lease_granted \<Rightarrow> int" where
  "heartbeat_interval l =
     (let t = lg_heartbeat_interval_seconds l * time_second in if t \<le> 0 then 20 * time_second else t)"

text \<open>The end of the command: success, an exit status, or an error of another kind, with its text.\<close>

datatype command_end = CommandOk | CommandExit int string | CommandError string

fun exitCode :: "command_end \<Rightarrow> int" where
  "exitCode CommandOk = 0"
| "exitCode (CommandExit n _) = n"
| "exitCode (CommandError _) = 1"

fun command_error :: "command_end \<Rightarrow> string" where
  "command_error CommandOk = ''''"
| "command_error (CommandExit _ e) = e"
| "command_error (CommandError e) = e"

section \<open>The machine\<close>

datatype runner_phase =
    AwaitingAck
  | Preparing
  | Executing
  | Ended command_end
  | Reporting command_end go_time bool
  | Delivering
  | Exited nat

record 'f runner_state =
  rs_phase :: runner_phase
  rs_cancel :: bool
  rs_beating :: bool
  rs_command :: "(string \<times> string list) option"
  rs_usages :: "cache_usage list"
  rs_events :: "cache_event_msg list"
  rs_sent :: "runner_msg list"
  rs_fs :: 'f

text \<open>
  The one command of the job, its first step in a shell, is fixed when the caches are restored.
  The events. \<open>EvAck\<close>: the lease is acknowledged at a time, and answered. \<open>EvFirstBeat\<close>: the
  heartbeat before the command starts. \<open>EvBeat\<close>: a tick of the goroutine. \<open>EvEnd\<close>: the
  command returns. \<open>EvStopBeating\<close>: the goroutine sees \<open>hbDone\<close>. \<open>EvCheck\<close>: the end is
  timed and the cancel signal is read. \<open>EvUpload\<close>: caches and the log are saved, and the
  final message goes out. \<open>EvFinal\<close>: it is answered.
\<close>

datatype runner_event =
    EvAck go_time http_exchange
  | EvFirstBeat go_time "string + heartbeat_ack"
  | EvBeat go_time "string + heartbeat_ack"
  | EvEnd command_end
  | EvStopBeating
  | EvCheck go_time
  | EvUpload s3_outcome
  | EvFinal http_exchange

definition runner_init :: "runner_config \<Rightarrow> runner_host \<Rightarrow> 'f \<Rightarrow> 'f runner_state" where
  "runner_init cfg host fs =
     \<lparr>rs_phase =
        (if rcf_runner_id cfg = '''' \<or> rcf_lease_path cfg = '''' then Exited 1
         else case rh_lease_file host of
           Inl _ \<Rightarrow> Exited 1
         | Inr _ \<Rightarrow> (case rh_log_file host of Some _ \<Rightarrow> Exited 1 | None \<Rightarrow> AwaitingAck)),
      rs_cancel = False, rs_beating = False, rs_command = None, rs_usages = [], rs_events = [], rs_sent = [], rs_fs = fs\<rparr>"

definition runner_ack :: "runner_config \<Rightarrow> lease_granted \<Rightarrow> go_time \<Rightarrow> ack_lease_msg" where
  "runner_ack cfg l now = \<lparr>ack_job_id = lg_job_id l, ack_lease_id = lg_lease_id l,
     ack_runner_id = rcf_runner_id cfg, ack_accepted_at = now\<rparr>"

definition runner_beat :: "runner_config \<Rightarrow> lease_granted \<Rightarrow> go_time \<Rightarrow> heartbeat_msg" where
  "runner_beat cfg l ts = \<lparr>hb_lease_id = lg_lease_id l, hb_runner_id = rcf_runner_id cfg, hb_ts = ts\<rparr>"

text \<open>\<open>status\<close>, \<open>exit\<close> and \<open>summary\<close>: a command that a cancellation ended does not count as failed.\<close>

definition runner_outcome :: "bool \<Rightarrow> command_end \<Rightarrow> complete_status \<times> int \<times> string" where
  "runner_outcome canceled e =
     (if e \<noteq> CommandOk \<and> \<not> canceled then (CompleteStatusFailed, exitCode e, command_error e)
      else (CompleteStatusSucceeded, 0, ''succeeded''))"

definition uploaded_log :: "runner_config \<Rightarrow> lease_granted \<Rightarrow> s3_outcome \<Rightarrow> artifact_ref list" where
  "uploaded_log cfg l up =
     (if rcf_s3_bucket cfg = '''' then []
      else case s3_init up of Some _ \<Rightarrow> []
      | None \<Rightarrow>
          (case UploadLog (rcf_s3_bucket cfg) (rcf_s3_prefix cfg) (lg_run_id l) (lg_job_id l) (s3_open up) (s3_put up) of
             Inl _ \<Rightarrow> [] | Inr uri \<Rightarrow> [\<lparr>aref_type = ''log'', aref_uri = uri\<rparr>]))"

definition runner_final :: "runner_config \<Rightarrow> lease_granted \<Rightarrow> bool \<Rightarrow> command_end \<Rightarrow> go_time \<Rightarrow> artifact_ref list \<Rightarrow>
    cache_event_msg list \<Rightarrow> runner_msg" where
  "runner_final cfg l canceled e finished arts events =
     (case runner_outcome canceled e of (status, exit, summary) \<Rightarrow>
        if canceled then
          MsgCancelAck \<lparr>ca_lease_id = lg_lease_id l, ca_runner_id = rcf_runner_id cfg,
            ca_final_status = CancelFinalStatusCanceled, ca_ts = finished, ca_artifacts = arts,
            ca_summary = (if summary = ''succeeded'' then ''canceled'' else summary)\<rparr>
        else
          MsgComplete \<lparr>cm_lease_id = lg_lease_id l, cm_runner_id = rcf_runner_id cfg, cm_status = status,
            cm_exit_code = exit, cm_finished_at = finished, cm_summary = summary, cm_artifacts = arts,
            cm_caches = events\<rparr>)"

definition beat_cancels :: "string + heartbeat_ack \<Rightarrow> bool" where
  "beat_cancels answer = (case answer of Inl _ \<Rightarrow> True | Inr a \<Rightarrow> hba_cancel_requested a)"

fun runner_step :: "'f os_env \<Rightarrow> runner_config \<Rightarrow> runner_host \<Rightarrow> lease_granted \<Rightarrow> 'f runner_state \<Rightarrow> runner_event \<Rightarrow>
    'f runner_state option" where
  "runner_step OS cfg host l s (EvAck now answer) =
     (if rs_phase s \<noteq> AwaitingAck then None
      else let s' = s\<lparr>rs_sent := rs_sent s @ [MsgAckLease (runner_ack cfg l now)]\<rparr> in
        case client_send answer of
          Inl _ \<Rightarrow> Some (s'\<lparr>rs_phase := Exited 1\<rparr>)
        | Inr _ \<Rightarrow>
            (case rh_workdir host of
               Inl _ \<Rightarrow> Some (s'\<lparr>rs_phase := Exited 1\<rparr>)
             | Inr dir \<Rightarrow>
                 (case restoreCaches OS (rcf_cache_dir cfg) dir (spec_caches (lg_job_spec l)) (rs_fs s) of
                    (Inl _, fs) \<Rightarrow> Some (s'\<lparr>rs_phase := Exited 1, rs_fs := fs\<rparr>)
                  | (Inr (usages, events), fs) \<Rightarrow>
                      Some (s'\<lparr>rs_phase := Preparing,
                        rs_command := Some (dir, [''sh'', ''-c'', firstStep (spec_steps (lg_job_spec l))]), rs_usages := usages,
                        rs_events := events, rs_fs := fs\<rparr>))))"
| "runner_step OS cfg host l s (EvFirstBeat ts answer) =
     (if rs_phase s \<noteq> Preparing then None
      else let s' = s\<lparr>rs_sent := rs_sent s @ [MsgHeartbeat (runner_beat cfg l ts)]\<rparr> in
        case answer of
          Inl _ \<Rightarrow> Some (s'\<lparr>rs_phase := Exited 1\<rparr>)
        | Inr a \<Rightarrow> Some (s'\<lparr>rs_phase := Executing, rs_beating := True, rs_cancel := hba_cancel_requested a\<rparr>))"
| "runner_step OS cfg host l s (EvBeat ts answer) =
     (if \<not> rs_beating s \<or> (\<exists>n. rs_phase s = Exited n) then None
      else Some (s\<lparr>rs_sent := rs_sent s @ [MsgHeartbeat (runner_beat cfg l ts)],
                  rs_cancel := (rs_cancel s \<or> beat_cancels answer),
                  rs_beating := (case answer of Inl _ \<Rightarrow> False | Inr _ \<Rightarrow> True)\<rparr>))"
| "runner_step OS cfg host l s (EvEnd e) =
     (if rs_phase s \<noteq> Executing then None else Some (s\<lparr>rs_phase := Ended e\<rparr>))"
| "runner_step OS cfg host l s EvStopBeating =
     (if \<not> rs_beating s \<or> rs_phase s \<in> {AwaitingAck, Preparing, Executing} then None
      else Some (s\<lparr>rs_beating := False\<rparr>))"
| "runner_step OS cfg host l s (EvCheck now) =
     (case rs_phase s of
        Ended e \<Rightarrow> Some (s\<lparr>rs_phase := Reporting e now (rs_cancel s)\<rparr>)
      | _ \<Rightarrow> None)"
| "runner_step OS cfg host l s (EvUpload up) =
     (case rs_phase s of
        Reporting e finished canceled \<Rightarrow>
          let (status, exit, summary) = runner_outcome canceled e;
              fs = (if status = CompleteStatusSucceeded then snd (saveCaches OS (rs_usages s) (rs_fs s)) else rs_fs s) in
          Some (s\<lparr>rs_phase := Delivering, rs_fs := fs,
            rs_sent := rs_sent s @ [runner_final cfg l canceled e finished (uploaded_log cfg l up) (rs_events s)]\<rparr>)
      | _ \<Rightarrow> None)"
| "runner_step OS cfg host l s (EvFinal answer) =
     (if rs_phase s \<noteq> Delivering then None
      else case client_send answer of
        Inl _ \<Rightarrow> Some (s\<lparr>rs_phase := Exited 1\<rparr>)
      | Inr _ \<Rightarrow> Some (s\<lparr>rs_phase := Exited 0\<rparr>))"

fun runner_run :: "'f os_env \<Rightarrow> runner_config \<Rightarrow> runner_host \<Rightarrow> lease_granted \<Rightarrow> 'f runner_state \<Rightarrow> runner_event list \<Rightarrow>
    'f runner_state option" where
  "runner_run OS cfg host l s [] = Some s"
| "runner_run OS cfg host l s (e # es) =
     (case runner_step OS cfg host l s e of None \<Rightarrow> None | Some s' \<Rightarrow> runner_run OS cfg host l s' es)"

end
