(* ===== verification/RunnerProperties.thy ===== *)
theory RunnerProperties
  imports Runner
begin

text \<open>
  What the runner promises the orchestrator: it reports once, after the command has ended,
  and truthfully; and where the caches it keeps lie.
\<close>

section \<open>One truthful report\<close>

fun is_final :: "runner_msg \<Rightarrow> bool" where
  "is_final (MsgComplete _) = True"
| "is_final (MsgCancelAck _) = True"
| "is_final _ = False"

text \<open>Some heartbeat was answered with a request to cancel, or not at all.\<close>

definition told_to_cancel :: "runner_event list \<Rightarrow> bool" where
  "told_to_cancel evs \<longleftrightarrow> (\<exists>ts answer. EvBeat ts answer \<in> set evs \<and> beat_cancels answer)
     \<or> (\<exists>ts a. EvFirstBeat ts (Inr a) \<in> set evs \<and> hba_cancel_requested a)"

lemma told_more: "told_to_cancel evs \<Longrightarrow> told_to_cancel (evs @ [e])"
  by (auto simp: told_to_cancel_def)

lemma told_now:
  "hba_cancel_requested a \<Longrightarrow> told_to_cancel (evs @ [EvFirstBeat ts (Inr a)])"
  "beat_cancels answer \<Longrightarrow> told_to_cancel (evs @ [EvBeat ts answer])"
  by (auto simp: told_to_cancel_def)

text \<open>The end a phase knows of, and whether it is to be reported as a cancellation.\<close>

fun known_end :: "runner_phase \<Rightarrow> command_end option" where
  "known_end (Ended e) = Some e"
| "known_end (Reporting e _ _) = Some e"
| "known_end _ = None"

definition accounted :: "runner_config \<Rightarrow> lease_granted \<Rightarrow> runner_event list \<Rightarrow> runner_msg list \<Rightarrow> bool" where
  "accounted cfg l evs finals \<longleftrightarrow> finals = [] \<or>
     (\<exists>e c t arts events. finals = [runner_final cfg l c e t arts events]
        \<and> EvEnd e \<in> set evs \<and> (c \<longrightarrow> told_to_cancel evs))"

lemma accounted_more: "accounted cfg l evs finals \<Longrightarrow> accounted cfg l (evs @ [e]) finals"
  unfolding accounted_def using told_more [of evs e] by (auto 0 5)

lemma accounted_new:
  "EvEnd e \<in> set evs \<Longrightarrow> (c \<Longrightarrow> told_to_cancel evs) \<Longrightarrow> accounted cfg l evs [runner_final cfg l c e t arts events]"
  unfolding accounted_def by blast

definition honest :: "runner_config \<Rightarrow> lease_granted \<Rightarrow> runner_event list \<Rightarrow> 'f runner_state \<Rightarrow> bool" where
  "honest cfg l evs s \<longleftrightarrow>
     (rs_cancel s \<longrightarrow> told_to_cancel evs)
     \<and> (\<forall>e. known_end (rs_phase s) = Some e \<longrightarrow> EvEnd e \<in> set evs)
     \<and> (\<forall>e t c. rs_phase s = Reporting e t c \<longrightarrow> c \<longrightarrow> told_to_cancel evs)
     \<and> (if rs_phase s \<in> {Delivering, Exited 0} then filter is_final (rs_sent s) \<noteq> []
        else (\<forall>n. rs_phase s \<noteq> Exited n) \<longrightarrow> filter is_final (rs_sent s) = [])
     \<and> accounted cfg l evs (filter is_final (rs_sent s))"

lemma final_is_final [simp]: "is_final (runner_final cfg l c e t arts events)"
  by (simp add: runner_final_def split: prod.splits)

lemma honest_init: "honest cfg l [] (runner_init cfg host fs)"
  by (auto simp: honest_def accounted_def runner_init_def split: sum.splits option.splits)

lemma ack_step:
  assumes "runner_step OS cfg host l s (EvAck now answer) = Some s'"
  shows "rs_phase s = AwaitingAck \<and> rs_phase s' \<in> {Exited 1, Preparing} \<and> rs_cancel s' = rs_cancel s
    \<and> rs_sent s' = rs_sent s @ [MsgAckLease (runner_ack cfg l now)]"
  using assms by (simp add: Let_def split: if_splits sum.splits prod.splits) (safe, simp_all)

lemma honest_same_phase:
  assumes "honest cfg l evs s" and "rs_phase s' = rs_phase s"
    and "filter is_final (rs_sent s') = filter is_final (rs_sent s)"
    and "rs_cancel s' \<Longrightarrow> rs_cancel s \<or> told_to_cancel (evs @ [ev])"
  shows "honest cfg l (evs @ [ev]) s'"
  unfolding honest_def assms(2,3)
proof (intro conjI)
  show "rs_cancel s' \<longrightarrow> told_to_cancel (evs @ [ev])"
    using assms(1,4) told_more [of evs ev] by (auto simp: honest_def)
  show "accounted cfg l (evs @ [ev]) (filter is_final (rs_sent s))"
    using assms(1) by (simp add: honest_def accounted_more)
  show "\<forall>e t c. rs_phase s = Reporting e t c \<longrightarrow> c \<longrightarrow> told_to_cancel (evs @ [ev])"
    using assms(1) told_more [of evs ev] by (simp add: honest_def)
qed (use assms(1) in \<open>simp_all add: honest_def\<close>)

lemma honest_step:
  assumes "honest cfg l evs s" and "runner_step OS cfg host l s ev = Some s'"
  shows "honest cfg l (evs @ [ev]) s'"
proof (cases ev)
  case (EvAck now answer)
  from ack_step [OF assms(2) [unfolded this]] show ?thesis using assms(1) told_more [of evs ev] accounted_more [of cfg l evs _ ev]
    by (auto simp: honest_def)
next
  case (EvFirstBeat ts answer)
  show ?thesis
  proof (cases answer)
    case (Inl e)
    with EvFirstBeat show ?thesis using assms told_more [of evs ev] accounted_more [of cfg l evs _ ev] by (auto simp: honest_def split: if_splits)
  next
    case (Inr a)
    with EvFirstBeat show ?thesis using assms told_more [of evs ev] accounted_more [of cfg l evs _ ev] told_now(1) [of a evs ts]
      by (auto simp: honest_def split: if_splits)
  qed
next
  case (EvBeat ts answer)
  then have "rs_phase s' = rs_phase s" "filter is_final (rs_sent s') = filter is_final (rs_sent s)"
    "rs_cancel s' \<longleftrightarrow> rs_cancel s \<or> beat_cancels answer"
    using assms(2) by (auto split: if_splits)
  then show ?thesis using honest_same_phase [OF assms(1)] EvBeat told_now(2) by metis
next
  case (EvEnd e)
  then show ?thesis using assms told_more [of evs ev] accounted_more [of cfg l evs _ ev] by (auto simp: honest_def split: if_splits)
next
  case EvStopBeating
  then have "s' = s\<lparr>rs_beating := False\<rparr>" using assms(2) by (auto split: if_splits)
  then show ?thesis by (intro honest_same_phase [OF assms(1)]) simp_all
next
  case (EvCheck now)
  then show ?thesis using assms told_more [of evs ev] accounted_more [of cfg l evs _ ev]
    by (auto simp: honest_def split: if_splits runner_phase.splits)
next
  case (EvUpload up)
  then show ?thesis using assms told_more [of evs ev] accounted_more [of cfg l evs _ ev]
    by (auto simp: honest_def Let_def split: if_splits runner_phase.splits prod.splits intro!: accounted_new)
next
  case (EvFinal answer)
  then show ?thesis using assms told_more [of evs ev] accounted_more [of cfg l evs _ ev]
    by (auto simp: honest_def split: if_splits sum.splits)
qed

lemma runner_run_append:
  "runner_run OS cfg host l s (es @ es') =
     (case runner_run OS cfg host l s es of None \<Rightarrow> None | Some s' \<Rightarrow> runner_run OS cfg host l s' es')"
  by (induction es arbitrary: s) (auto split: option.splits)

lemma honest_run: "runner_run OS cfg host l (runner_init cfg host fs) evs = Some s \<Longrightarrow> honest cfg l evs s"
proof (induction evs arbitrary: s rule: rev_induct)
  case Nil
  then show ?case by (auto intro: honest_init)
next
  case (snoc ev evs)
  then obtain s1 where "runner_run OS cfg host l (runner_init cfg host fs) evs = Some s1" "runner_step OS cfg host l s1 ev = Some s"
    by (auto simp: runner_run_append split: option.splits)
  then show ?case using snoc.IH honest_step by metis
qed

lemma final_message:
  assumes "runner_run OS cfg host l (runner_init cfg host fs) evs = Some s" and "m \<in> set (rs_sent s)" and "is_final m"
  obtains e c t arts events where "m = runner_final cfg l c e t arts events" "EvEnd e \<in> set evs" "c \<longrightarrow> told_to_cancel evs"
proof -
  have "m \<in> set (filter is_final (rs_sent s))" using assms(2,3) by simp
  then show thesis using honest_run [OF assms(1)] that unfolding honest_def accounted_def by fastforce
qed

text \<open>
  C30: The runner reports once and truthfully. However heartbeats and the command
  interleave and whatever the orchestrator answers, at most one final message is sent, and
  exactly one when the runner exits normally. A completion reports the end of the command:
  success only for a command that succeeded, else its exit code. A cancellation is
  acknowledged only after a heartbeat asked for it or got no answer.
\<close>

theorem runner_reports_truthfully:
  assumes "runner_run OS cfg host l (runner_init cfg host fs) evs = Some s"
  shows "length (filter is_final (rs_sent s)) \<le> 1
    \<and> (rs_phase s = Exited 0 \<longrightarrow> length (filter is_final (rs_sent s)) = 1)
    \<and> (\<forall>c. MsgComplete c \<in> set (rs_sent s) \<longrightarrow> cm_lease_id c = lg_lease_id l
         \<and> (\<exists>e. EvEnd e \<in> set evs \<and> cm_exit_code c = exitCode e
              \<and> cm_status c = (if e = CommandOk then CompleteStatusSucceeded else CompleteStatusFailed)))
    \<and> (\<forall>a. MsgCancelAck a \<in> set (rs_sent s) \<longrightarrow> ca_lease_id a = lg_lease_id l \<and> told_to_cancel evs)"
proof -
  have h: "honest cfg l evs s" by (rule honest_run [OF assms])
  have mem: "m \<in> set (rs_sent s) \<Longrightarrow> is_final m \<Longrightarrow> m \<in> set (filter is_final (rs_sent s))" for m by simp
  have "filter is_final (rs_sent s) = [] \<or> (\<exists>e c t arts events. filter is_final (rs_sent s) = [runner_final cfg l c e t arts events]
      \<and> EvEnd e \<in> set evs \<and> (c \<longrightarrow> told_to_cancel evs))" "rs_phase s = Exited 0 \<Longrightarrow> filter is_final (rs_sent s) \<noteq> []"
    using h by (simp_all add: honest_def accounted_def)
  then consider "filter is_final (rs_sent s) = []" "rs_phase s \<noteq> Exited 0"
    | e c t arts events where "filter is_final (rs_sent s) = [runner_final cfg l c e t arts events]"
      "EvEnd e \<in> set evs" "c \<longrightarrow> told_to_cancel evs"
    by blast
  then show ?thesis
  proof cases
    case 1
    then show ?thesis using mem by fastforce
  next
    case (2 e c t arts events)
    have final: "m = runner_final cfg l c e t arts events" if "m \<in> set (rs_sent s)" "is_final m" for m
      using mem [OF that] unfolding 2(1) by simp
    have "cm_lease_id x = lg_lease_id l \<and> cm_exit_code x = exitCode e
        \<and> cm_status x = (if e = CommandOk then CompleteStatusSucceeded else CompleteStatusFailed)"
      if "MsgComplete x \<in> set (rs_sent s)" for x
      using final [OF that] by (auto simp: runner_final_def runner_outcome_def split: if_splits)
    moreover have "ca_lease_id x = lg_lease_id l \<and> c" if "MsgCancelAck x \<in> set (rs_sent s)" for x
      using final [OF that] by (auto simp: runner_final_def runner_outcome_def split: if_splits)
    ultimately show ?thesis using 2 by auto
  qed
qed

text \<open>A command that fails with exit code 2 while the goroutine beats once.\<close>

definition sample_os :: "unit os_env" where
  "sample_os = \<lparr>os_Stat = (\<lambda>_ _. Inl ''missing''), os_MkdirAll = (\<lambda>_. skip), os_RemoveAll = (\<lambda>_. skip),
     os_WalkDir = (\<lambda>_ _. ([], None)), os_Open = (\<lambda>_. fail ''missing''), os_Create = (\<lambda>_. skip),
     os_Copy = (\<lambda>_ _. skip), os_Chmod = (\<lambda>_ _. skip), os_UserHomeDir = Inr ''/root'', os_sha256 = (\<lambda>s. s)\<rparr>"

definition sample_lease :: lease_granted where
  "sample_lease = \<lparr>lg_run_id = ''r'', lg_job_id = ''a'', lg_lease_id = ''la'', lg_lease_ttl_seconds = 120,
     lg_heartbeat_interval_seconds = 30, lg_max_runtime_seconds = 0,
     lg_job_spec = \<lparr>spec_name = ''a'', spec_workdir = ''.'', spec_steps = [''make''], spec_env = [],
       spec_caches = [\<lparr>cs_type = ''go'', cs_key = ''k'', cs_paths = [''x''], cs_read_only = False\<rparr>]\<rparr>\<rparr>"

definition sample_runner :: runner_config where
  "sample_runner = \<lparr>rcf_runner_id = ''runner-1'', rcf_lease_path = ''lease.json'', rcf_workdir = ''.'',
     rcf_s3_bucket = '''', rcf_s3_prefix = '''', rcf_cache_dir = ''/c''\<rparr>"

definition sample_host :: runner_host where
  "sample_host = \<lparr>rh_lease_file = Inr sample_lease, rh_log_file = None, rh_workdir = Inr ''/w''\<rparr>"

definition sample_beat :: heartbeat_ack where
  "sample_beat = \<lparr>hba_lease_id = ''la'', hba_extend_lease = True, hba_new_lease_ttl_seconds = 120,
     hba_cancel_requested = False, hba_cancel_deadline_seconds = 0\<rparr>"

definition sample_events :: "runner_event list" where
  "sample_events = [EvAck 1 (Inr (200, ''200 OK'', '''')), EvFirstBeat 2 (Inr sample_beat), EvBeat 3 (Inr sample_beat),
     EvEnd (CommandExit 2 ''exit status 2''), EvCheck 4, EvUpload \<lparr>s3_init = None, s3_open = None, s3_put = None\<rparr>,
     EvFinal (Inr (200, ''200 OK'', ''''))]"

lemma sample_run_ends:
  "\<exists>s. runner_run sample_os sample_runner sample_host sample_lease (runner_init sample_runner sample_host ()) sample_events = Some s
     \<and> rs_phase s = Exited 0"
proof -
  have "\<exists>us es. restoreCaches sample_os ''/c'' ''/w'' [\<lparr>cs_type = ''go'', cs_key = ''k'', cs_paths = [''x''], cs_read_only = False\<rparr>] ()
      = (Inr (us, es), ())"
    by (simp add: restoreCaches_def warned_def try_prog_def bindE_def sample_os_def restore_spec_def restore_path_def
        resolveCachePath_def HasPrefix_def pathExists_def Let_def split: prod.splits sum.splits)
  then show ?thesis
    by (auto simp: sample_events_def sample_runner_def sample_host_def runner_init_def sample_lease_def sample_beat_def
        client_send_def client_post_def runner_outcome_def Let_def)
qed

theorem runner_reports_truthfully_witness:
  "\<exists>s. runner_run sample_os sample_runner sample_host sample_lease (runner_init sample_runner sample_host ()) sample_events = Some s
     \<and> length (filter is_final (rs_sent s)) = 1"
  using sample_run_ends runner_reports_truthfully by metis

section \<open>Where caches lie\<close>



















end
