(* ===== verification/Provenance.thy ===== *)
theory Provenance
  imports GreenRun RunnerProperties
begin

text \<open>
  Where a success comes from: the only step of the orchestrator that makes a job
  \<open>SUCCEEDED\<close> is a completion of one of its leases, and a runner sends such a completion
  only after the command of the job has ended well. Behind a green run there are commands
  that succeeded.
\<close>

section \<open>Steps that make only certain jobs succeed\<close>

definition succeeds_only :: "string set \<Rightarrow> world \<Rightarrow> world \<Rightarrow> bool" where
  "succeeds_only X w w' \<longleftrightarrow> (\<forall>j\<in>set (w_jobs w'). job_state j = JobStateSucceeded \<longrightarrow>
     job_id j \<in> X \<or> (\<exists>k\<in>set (w_jobs w). job_id k = job_id j \<and> job_state k = JobStateSucceeded))"

interpretation so: world_preorder "succeeds_only X" for X
proof
  show "succeeds_only X w w" for w by (auto simp: succeeds_only_def)
  show "succeeds_only X t u \<Longrightarrow> succeeds_only X u v \<Longrightarrow> succeeds_only X t v" for t u v
    unfolding succeeds_only_def by metis
qed

named_theorems success_intros

lemma same_jobs_only: "w_jobs w' = w_jobs w \<Longrightarrow> succeeds_only X w w'"
  by (auto simp: succeeds_only_def)

lemma same_core_only: "same_core w w' \<Longrightarrow> succeeds_only X w w'"
  by (simp add: same_core_def same_jobs_only)

lemma keeps_same_jobs: "(\<And>w. w_jobs (world_after m w) = w_jobs w) \<Longrightarrow> keeps (succeeds_only X) m"
  by (simp add: keeps_def same_jobs_only)

subsection \<open>The tables\<close>

lemma insert_only [success_intros]:
  "(\<And>w. w_jobs (ins w) = w_jobs w) \<Longrightarrow> keeps (succeeds_only X) (sql_insert v ins)"
  by (rule keeps_same_jobs) (simp add: sql_insert_def split: option.splits)

lemma modify_only: "(\<And>w. w_jobs (f w) = w_jobs w) \<Longrightarrow> keeps (succeeds_only X) (modify f)"
  by (rule keeps_same_jobs) simp

lemma rows_only [success_intros]:
  "keeps (succeeds_only X) (update_run rid f)" "keeps (succeeds_only X) (update_attempt aid g)"
  "keeps (succeeds_only X) (update_lease lid h)" "keeps (succeeds_only X) (insert_run r)"
  "keeps (succeeds_only X) (insert_attempt a)" "keeps (succeeds_only X) (insert_lease l)"
  "keeps (succeeds_only X) (insert_trigger t)" "keeps (succeeds_only X) (insert_rerun x)"
  unfolding update_run_def update_attempt_def update_lease_def insert_run_def insert_attempt_def insert_lease_def
    insert_trigger_def insert_rerun_def
  by (intro modify_only insert_only; simp)+

lemma select_only [success_intros]: "keeps (succeeds_only X) (select_by rows key k what)"
  by (rule keeps_same_jobs) simp

lemma update_job_only:
  assumes "\<And>j. job_id (f j) = job_id j" and "\<And>j. job_state (f j) = JobStateSucceeded \<Longrightarrow> job_state j = JobStateSucceeded \<or> jid \<in> X"
  shows "keeps (succeeds_only X) (update_job jid f)"
  using assms by (fastforce simp: keeps_def update_job_def succeeds_only_def set_update_rows)

lemma insert_job_only: "job_state j \<noteq> JobStateSucceeded \<Longrightarrow> keeps (succeeds_only X) (insert_job j)"
  by (auto simp: keeps_def insert_job_def sql_insert_def succeeds_only_def split: option.splits)

lemma appends_only [success_intros]:
  "keeps (succeeds_only X) (insert_artifact i y)" "keeps (succeeds_only X) (insert_cache_event i z)"
  "keeps (succeeds_only X) (upsert_queue i t)" "keeps (succeeds_only X) (upsert_explanation e)"
  by (rule keeps_same_jobs,
      simp add: insert_artifact_def insert_cache_event_def upsert_queue_def upsert_explanation_def)+

lemma case_list_only [success_intros]:
  "keeps R f \<Longrightarrow> (\<And>x xs. keeps R (g x xs)) \<Longrightarrow> keeps R (case l of [] \<Rightarrow> f | x # xs \<Rightarrow> g x xs)"
  by (cases l) simp_all

section \<open>The store\<close>

lemma lease_tables_only [success_intros]:
  "keeps (succeeds_only X) (store_TransitionRunState rid rst)"
  "keeps (succeeds_only X) (store_TransitionJobAttemptState aid jst)"
  "keeps (succeeds_only X) (store_TransitionLeaseState lid lst)"
  "keeps (succeeds_only X) (store_AcknowledgeLease lid runner t)"
  "keeps (succeeds_only X) (store_TouchLeaseHeartbeat lid t)"
  "keeps (succeeds_only X) (store_CompleteLease lid t lst)"
  unfolding store_TransitionRunState_def store_TransitionJobAttemptState_def store_TransitionLeaseState_def
    store_AcknowledgeLease_def store_TouchLeaseHeartbeat_def store_CompleteLease_def Let_def
  by (intro so.keeps_rules success_intros)+

lemma TransitionJobState_only:
  "st \<noteq> JobStateSucceeded \<or> jid \<in> X \<Longrightarrow> keeps (succeeds_only X) (store_TransitionJobState jid st)"
  unfolding store_TransitionJobState_def
  by (intro so.keeps_rules success_intros update_job_only) auto

lemma GrantLease_only [success_intros]: "keeps (succeeds_only X) (store_GrantLease aid l)"
  unfolding store_GrantLease_def Let_def
  by (intro so.keeps_rules success_intros update_job_only) auto

lemma creates_only [success_intros]:
  "keeps (succeeds_only X) (store_CreateRun r)" "keeps (succeeds_only X) (store_CreateJobAttempt a)"
  "keeps (succeeds_only X) (store_MarkJobAttemptStarted aid t)"
  "keeps (succeeds_only X) (store_MarkJobAttemptCompleted aid t)"
  unfolding store_CreateRun_def store_CreateJobAttempt_def store_MarkJobAttemptStarted_def
    store_MarkJobAttemptCompleted_def Let_def
  by ((intro so.keeps_rules success_intros update_job_only; simp)+)

lemma CreateJob_only: "job_state j \<noteq> JobStateSucceeded \<Longrightarrow> keeps (succeeds_only X) (store_CreateJob j)"
  unfolding store_CreateJob_def Let_def
  by (intro so.keeps_rules success_intros insert_job_only) auto

lemma reads_only [success_intros]:
  "keeps (succeeds_only X) (store_GetRun rid)" "keeps (succeeds_only X) (store_GetJob jid)"
  "keeps (succeeds_only X) (store_ListJobsByRun rid)" "keeps (succeeds_only X) (store_ListJobAttempts jid)"
  "keeps (succeeds_only X) (store_GetJobAttempt aid)" "keeps (succeeds_only X) (store_GetLease lid)"
  "keeps (succeeds_only X) (store_GetLatestJobAttempt jid)" "keeps (succeeds_only X) (store_GetJobSpec jid)"
  "keeps (succeeds_only X) (store_ListJobDependents jid)" "keeps (succeeds_only X) (store_ListJobDependencies jid)"
  "keeps (succeeds_only X) (store_DependenciesSatisfied jid)" "keeps (succeeds_only X) (store_GetRunPlan rid)"
  "keeps (succeeds_only X) (store_ListArtifactsByJob jid)"
  "keeps (succeeds_only X) (store_ListFailureExplanationsByJob jid)"
  "keeps (succeeds_only X) (store_getRunByTriggerKey p k)" "keeps (succeeds_only X) (store_getRerunByKey i k)"
  "keeps (succeeds_only X) (store_FindRecipeByFingerprint r f)"
  by (simp_all add: keeps_def so.refl store_GetRun_def store_GetJob_def store_ListJobsByRun_def
      store_ListJobAttempts_def store_GetJobAttempt_def store_GetLease_def store_GetLatestJobAttempt_def
      store_GetJobSpec_def store_ListJobDependents_def store_ListJobDependencies_def
      store_DependenciesSatisfied_def store_GetRunPlan_def store_ListArtifactsByJob_def
      store_ListFailureExplanationsByJob_def store_getRunByTriggerKey_def store_getRerunByKey_def
      store_FindRecipeByFingerprint_def bindE_select_by split: option.splits list.splits)

lemma records_only [success_intros]:
  "keeps (succeeds_only X) (metric e)" "keeps (succeeds_only X) (randomID rand prefix)"
  "keeps (succeeds_only X) (store_RecordJobSpec jid doc)" "keeps (succeeds_only X) (store_RecordRunPlan p)"
  "keeps (succeeds_only X) (store_CreateRecipe rc)" "keeps (succeeds_only X) (store_TouchRecipeLastUsed rid t)"
  "keeps (succeeds_only X) (store_RecordJobDependency jid dep)" "keeps (succeeds_only X) purge_queue"
  "keeps (succeeds_only X) (or_now t)"
  by (rule keeps_same_jobs, simp add: metric_def randomID_def store_RecordJobSpec_def store_RecordRunPlan_def
      store_CreateRecipe_def store_TouchRecipeLastUsed_def store_RecordJobDependency_def purge_queue_def or_now_def
      Let_def)+

lemma outputs_only [success_intros]:
  "keeps (succeeds_only X) (store_RecordArtifacts aid refs)" "keeps (succeeds_only X) (store_RecordCacheEvents aid es)"
  "keeps (succeeds_only X) (store_RecordFailureExplanation x)"
  "keeps (succeeds_only X) (store_CreateRunWithTrigger r t)" "keeps (succeeds_only X) (store_CreateRunWithRerun r i k)"
  unfolding store_RecordArtifacts_def store_RecordCacheEvents_def store_RecordFailureExplanation_def
    store_CreateRunWithTrigger_def store_CreateRunWithRerun_def unique_as_def
  by (intro so.keeps_rules success_intros)+

lemma queue_only [success_intros]:
  "keeps (succeeds_only X) (store_EnqueueJobAttempt aid t)" "keeps (succeeds_only X) (store_DequeueJobAttempt now v)"
  "keeps (succeeds_only X) (store_AckJobAttemptDispatch aid)"
  unfolding store_EnqueueJobAttempt_def store_DequeueJobAttempt_def store_AckJobAttemptDispatch_def Let_def
  by ((intro so.keeps_rules success_intros modify_only; simp)+)

lemma expire_lease_tx_only [success_intros]: "keeps (succeeds_only X) (expire_lease_tx now)"
  unfolding expire_lease_tx_def can_queue_def
  by (intro so.keeps_rules success_intros update_job_only; simp)

lemma expire_loop_only: "keeps (succeeds_only X) (expire_leases_loop n now k)"
  by (induction n arbitrary: k) (auto intro!: so.keeps_rules success_intros)

lemma ExpireLeases_only [success_intros]: "keeps (succeeds_only X) (store_ExpireLeases now limit)"
  unfolding store_ExpireLeases_def Let_def by (intro so.keeps_rules success_intros expire_loop_only)

section \<open>The handlers\<close>

text \<open>Both rows of an attempt move to a state that is not success, or to the success of a job in \<open>X\<close>.\<close>

lemma move_only: "st \<noteq> JobStateSucceeded \<or> jid \<in> X \<Longrightarrow> keeps (succeeds_only X) (svc_transitionJobAndAttempt jid aid st)"
  unfolding svc_transitionJobAndAttempt_def by (intro so.keeps_rules success_intros TransitionJobState_only)

lemma queued_only [success_intros]: "keeps (succeeds_only X) (store_TransitionJobState jid JobStateQueued)"
  by (rule TransitionJobState_only) simp

lemma counted_only [success_intros]: "keeps (succeeds_only X) m \<Longrightarrow> keeps (succeeds_only X) (counted_failure n m)"
  unfolding counted_failure_def by (intro so.keeps_rules success_intros)

lemma stale_only [success_intros]: "keeps (succeeds_only X) stale_lease"
  unfolding stale_lease_def by (intro so.keeps_rules success_intros)

lemma steps_only [success_intros]:
  "keeps (succeeds_only X) (validateCreateRunRequest req)"
  "keeps (succeeds_only X) (svc_recordRunPlan r pl)" "keeps (succeeds_only X) (record_dependencies recs x)"
  "keeps (succeeds_only X) (svc_updateRunPlanRecipe r p i v)" "keeps (succeeds_only X) (recipe_job jobs j)"
  "keeps (succeeds_only X) (record_outputs a arts caches)" "keeps (succeeds_only X) (svc_GetRunDetails rid)"
  unfolding validateCreateRunRequest_def svc_recordRunPlan_def record_dependencies_def
    svc_updateRunPlanRecipe_def recipe_job_def dependency_name_def record_outputs_def svc_GetRunDetails_def Let_def
  by (intro so.keeps_rules success_intros)+

lemma recipe_only [success_intros]: "keeps (succeeds_only X) (svc_persistRecipeIfNeeded S r)"
  unfolding svc_persistRecipeIfNeeded_def svc_buildRecipeJobs_def by (intro so.keeps_rules success_intros)

lemma cancel_job_only [success_intros]: "keeps (succeeds_only X) (cancel_job now j)"
  unfolding cancel_job_def
  by (cases "job_state j") (simp_all, (intro so.keeps_rules success_intros move_only; simp)+)

lemma messages_only:
  "keeps (succeeds_only X) (svc_AckLease ack)" "keeps (succeeds_only X) (svc_HandleHeartbeat hb)"
  "keeps (succeeds_only X) (svc_DequeueJobAttempt t)" "keeps (succeeds_only X) (svc_ExpireLeases n)"
  unfolding svc_AckLease_def svc_HandleHeartbeat_def svc_DequeueJobAttempt_def svc_ExpireLeases_def Let_def
  by ((intro so.keeps_rules success_intros move_only; simp)+)

context service_env
begin

lemma interfaces_only:
  "keeps (succeeds_only X) (sv_enqueue S a)" "keeps (succeeds_only X) (svc_reportRun S rid)"
  "keeps (succeeds_only X) (sv_RunID S)" "keeps (succeeds_only X) (sv_JobID S)"
  "keeps (succeeds_only X) (sv_JobAttemptID S)" "keeps (succeeds_only X) (sv_LeaseID S)"
  "keeps (succeeds_only X) (sv_plan S req)" "keeps (succeeds_only X) (sv_analyze S input)"
proof -
  have "keeps (succeeds_only X) (sv_report S i)" for i
    by (rule keeps_same_jobs) (rule reporter_contract.report_jobs [OF rep])
  then show "keeps (succeeds_only X) (svc_reportRun S rid)"
    unfolding svc_reportRun_def by (intro so.keeps_rules success_intros)
  show "keeps (succeeds_only X) (sv_enqueue S a)"
    using dispatcher_contract.enqueue_grows [OF disp] by (intro keeps_same_jobs) (simp add: queue_grows_def)
qed (rule keepsI, rule same_core_only, rule plan_core analyze_core ids [THEN id_source.next_id_core])+

lemma queueJobAttempt_only: "keeps (succeeds_only X) (svc_queueJobAttempt S j a)"
  unfolding svc_queueJobAttempt_def Let_def by (intro so.keeps_rules success_intros interfaces_only)

lemma create_planned_job_only: "keeps (succeeds_only X) (create_planned_job S r p)"
  unfolding create_planned_job_def
  by (intro so.keeps_rules success_intros interfaces_only CreateJob_only) (simp add: new_job_def)

lemma create_planned_jobs_only: "keeps (succeeds_only X) (create_planned_jobs S r recs ps)"
  by (induction ps arbitrary: recs) (simp_all add: so.keeps_rules create_planned_job_only)

lemma failRun_only: "keeps (succeeds_only X) (svc_failRun S rid)"
  unfolding svc_failRun_def by (intro so.keeps_rules success_intros interfaces_only)

lemma startRun_only: "keeps (succeeds_only X) (svc_startRun S r)"
  unfolding svc_startRun_def queue_if_free_def
  by (intro so.keeps_rules success_intros interfaces_only failRun_only create_planned_jobs_only queueJobAttempt_only)

lemma creations_only:
  "keeps (succeeds_only X) (svc_CreateRun S req)" "keeps (succeeds_only X) (svc_CreateRunFromTrigger S req t)"
  "keeps (succeeds_only X) (svc_RerunRun S rid key)"
  unfolding svc_CreateRun_def svc_CreateRunFromTrigger_def svc_RerunRun_def
  by (intro so.keeps_rules success_intros interfaces_only startRun_only)+

lemma finalizeRun_only: "keeps (succeeds_only X) (svc_finalizeRunIfReady S rid)"
  unfolding svc_finalizeRunIfReady_def
  by (intro so.keeps_rules success_intros) (auto intro!: so.keeps_rules success_intros interfaces_only split: verdict.splits)

lemma finalizeCancel_only: "keeps (succeeds_only X) (svc_finalizeCancelIfReady S rid)"
  unfolding svc_finalizeCancelIfReady_def by (intro so.keeps_rules success_intros interfaces_only)

lemma CancelRun_only: "keeps (succeeds_only X) (svc_CancelRun S rid)"
  unfolding svc_CancelRun_def request_cancel_def
  by (auto intro!: so.keeps_rules success_intros interfaces_only finalizeCancel_only split: run_state.splits)

lemma svc_GrantLease_only: "keeps (succeeds_only X) (svc_GrantLease S req)"
  unfolding svc_GrantLease_def Let_def by (intro so.keeps_rules success_intros interfaces_only)

lemma CancelLease_only: "keeps (succeeds_only X) (svc_CancelLease S msg)"
  unfolding svc_CancelLease_def finalize_best_effort_def
  by (intro so.keeps_rules success_intros finalizeCancel_only move_only) simp

lemma enqueueReadyDependents_only: "keeps (succeeds_only X) (svc_enqueueReadyDependents S j)"
  unfolding svc_enqueueReadyDependents_def enqueue_dependent_def
  by (intro so.keeps_rules success_intros queueJobAttempt_only)

lemma settle_only: "keeps (succeeds_only X) (settle_completion S msg now l a j r target)"
  unfolding settle_completion_def after_completion_def finalize_best_effort_def svc_recordFailureExplanation_def
  by (intro so.keeps_rules success_intros interfaces_only finalizeCancel_only finalizeRun_only
      enqueueReadyDependents_only)

end

text \<open>The jobs a message completes with success: that of the lease it names.\<close>

definition completed_jobs :: "complete_msg \<Rightarrow> world \<Rightarrow> string set" where
  "completed_jobs m w = {att_job_id a | a l. cm_status m = CompleteStatusSucceeded \<and> l \<in> set (w_leases w)
     \<and> lease_id l = cm_lease_id m \<and> a \<in> set (w_attempts w) \<and> att_id a = lease_attempt_id l}"

lemma finish_attempt_only:
  assumes "status = CompleteStatusSucceeded \<Longrightarrow> job_id j \<in> X"
  shows "keeps (succeeds_only X) (finish_attempt j a status)"
proof -
  have moves: "keeps (succeeds_only X) (svc_transitionJobAndAttempt (job_id j) (att_id a) st)"
    if "st = JobStateSucceeded \<Longrightarrow> job_id j \<in> X" for st
    using that by (intro move_only) auto
  have target: "keeps (succeeds_only X) (svc_transitionJobAndAttempt (job_id j) (att_id a) st)"
    if "completion_target status = Some st" for st
    using that assms by (cases status) (auto intro: moves)
  show ?thesis
    unfolding finish_attempt_def
    by (cases "completion_target status"; simp split del: if_split; intro so.keeps_rules target moves; simp)
qed

context service_env
begin

lemma CompleteLease_only: "succeeds_only (completed_jobs m w) w (world_after (svc_CompleteLease S m) w)"
proof -
  have work: "succeeds_only (completed_jobs m w) w
      (world_after (bindE (finish_attempt j a (cm_status m)) (\<lambda>t. settle_completion S m now l a j r t)) w)"
    if "find_row lease_id (cm_lease_id m) (w_leases w) = Some l" "find_row att_id (lease_attempt_id l) (w_attempts w) = Some a"
      "find_row job_id (att_job_id a) (w_jobs w) = Some j" for l a j r now
  proof -
    have "cm_status m = CompleteStatusSucceeded \<Longrightarrow> job_id j \<in> completed_jobs m w"
      using that [THEN find_row_SomeD] by (auto simp: completed_jobs_def)
    then show ?thesis by (rule keepsD [OF so.keeps_bindE [OF finish_attempt_only settle_only]])
  qed
  have stale: "succeeds_only (completed_jobs m w) w (world_after stale_lease w)" by (rule keepsD [OF stale_only])
  show ?thesis
    unfolding svc_CompleteLease_def complete_attempt_def or_now_def store_GetLease_def store_GetJobAttempt_def
      store_GetJob_def store_GetRun_def
    by (simp add: bindE_select_by so.refl work stale split: option.split)
qed

lemma serve_only:
  "succeeds_only (case c of CallCompleteLease m \<Rightarrow> completed_jobs m w | _ \<Rightarrow> {}) w (serve S c w)"
  by (cases c) (simp_all add: keepsD [OF creations_only(1)] keepsD [OF creations_only(2)] keepsD [OF creations_only(3)]
      keepsD [OF CancelRun_only] keepsD [OF svc_GrantLease_only] keepsD [OF CancelLease_only] CompleteLease_only
      keepsD [OF messages_only(1)] keepsD [OF messages_only(2)] keepsD [OF messages_only(3)]
      keepsD [OF messages_only(4)] same_jobs_only)

end

section \<open>Executions of the runner\<close>

record 'f execution =
  ex_os :: "'f os_env"
  ex_config :: runner_config
  ex_host :: runner_host
  ex_lease :: lease_granted
  ex_fs :: 'f
  ex_events :: "runner_event list"

definition execution_ends :: "'f execution \<Rightarrow> 'f runner_state \<Rightarrow> bool" where
  "execution_ends X s \<longleftrightarrow> runner_run (ex_os X) (ex_config X) (ex_host X) (ex_lease X)
     (runner_init (ex_config X) (ex_host X) (ex_fs X)) (ex_events X) = Some s"

definition sends :: "'f execution \<Rightarrow> runner_msg \<Rightarrow> bool" where
  "sends X m \<longleftrightarrow> (\<exists>s. execution_ends X s \<and> m \<in> set (rs_sent s))"

text \<open>The execution ran the first step of the job it was leased, and the step succeeded.\<close>

definition ran_well :: "'f execution \<Rightarrow> bool" where
  "ran_well X \<longleftrightarrow> EvEnd CommandOk \<in> set (ex_events X)
     \<and> (\<exists>s dir. execution_ends X s
          \<and> rs_command s = Some (dir, [''sh'', ''-c'', firstStep (spec_steps (lg_job_spec (ex_lease X)))]))"

definition prepared :: "lease_granted \<Rightarrow> 'f runner_state \<Rightarrow> bool" where
  "prepared l s \<longleftrightarrow> (\<exists>dir. rs_command s = Some (dir, [''sh'', ''-c'', firstStep (spec_steps (lg_job_spec l))]))
     \<or> filter is_final (rs_sent s) = [] \<and> (rs_phase s = AwaitingAck \<or> (\<exists>n. rs_phase s = Exited n))"

lemma prepared_step:
  assumes "prepared l s" and "runner_step OS cfg host l s ev = Some s'"
  shows "prepared l s'"
proof (cases ev)
  case (EvAck now answer)
  with assms show ?thesis
    by (auto simp: prepared_def Let_def split: if_splits sum.splits prod.splits)
next
  case (EvUpload up)
  with assms show ?thesis
    by (auto simp: prepared_def Let_def split: runner_phase.splits prod.splits)
qed (use assms in \<open>auto simp: prepared_def Let_def split: if_splits sum.splits runner_phase.splits\<close>)

lemma prepared_run:
  assumes "prepared l s" and "runner_run OS cfg host l s evs = Some s'"
  shows "prepared l s'"
  using assms by (induction evs arbitrary: s) (auto split: option.splits dest: prepared_step)

lemma sent_success:
  assumes "sends X (MsgComplete m)" and "cm_status m = CompleteStatusSucceeded"
  shows "ran_well X \<and> cm_lease_id m = lg_lease_id (ex_lease X)"
proof -
  let ?init = "runner_init (ex_config X) (ex_host X) (ex_fs X)"
  obtain s where s: "execution_ends X s" and m: "MsgComplete m \<in> set (rs_sent s)" using assms(1) by (auto simp: sends_def)
  obtain e c t arts events where final: "MsgComplete m = runner_final (ex_config X) (ex_lease X) c e t arts events"
    and e: "EvEnd e \<in> set (ex_events X)"
    by (rule final_message [OF s [unfolded execution_ends_def] m]) auto
  have "e = CommandOk" "cm_lease_id m = lg_lease_id (ex_lease X)"
    using final assms(2) by (auto simp: runner_final_def runner_outcome_def split: if_splits)
  moreover have "prepared (ex_lease X) ?init"
    by (auto simp: prepared_def runner_init_def split: sum.splits option.splits)
  then have "prepared (ex_lease X) s" using s prepared_run unfolding execution_ends_def by blast
  moreover have "MsgComplete m \<in> set (filter is_final (rs_sent s))" using m by simp
  then have "filter is_final (rs_sent s) \<noteq> []" by (metis empty_iff empty_set)
  ultimately show ?thesis using s e unfolding ran_well_def prepared_def by blast
qed

section \<open>Leases that name their job\<close>

text \<open>The lease row of a granted lease belongs to an attempt of the job it names.\<close>

definition lease_of_job :: "string \<Rightarrow> string \<Rightarrow> world \<Rightarrow> bool" where
  "lease_of_job lid jid w \<longleftrightarrow> (\<exists>l a. l \<in> set (w_leases w) \<and> lease_id l = lid
     \<and> a \<in> set (w_attempts w) \<and> att_id a = lease_attempt_id l \<and> att_job_id a = jid)"

lemma lease_of_job_evolves: "evolves w w' \<Longrightarrow> lease_of_job lid jid w \<Longrightarrow> lease_of_job lid jid w'"
  unfolding lease_of_job_def evolves_def rows_evolve_def lease_evolves_def attempt_evolves_def by metis

lemma lease_of_one_job:
  assumes "wf_world w" and "lease_of_job lid i w" and "lease_of_job lid j w"
  shows "i = j"
proof -
  have "inj_on lease_id (set (w_leases w))" "inj_on att_id (set (w_attempts w))"
    using assms(1) by (auto simp: wf_world_def wf_leases_def wf_attempts_def distinct_map)
  then show ?thesis using assms(2,3) unfolding lease_of_job_def inj_on_def by metis
qed

lemma completed_lease_of_job: "jid \<in> completed_jobs m w \<Longrightarrow> lease_of_job (cm_lease_id m) jid w"
  by (auto simp: completed_jobs_def lease_of_job_def)


text \<open>What \<open>GrantLease\<close> does after the store has granted the lease.\<close>

definition grant_tail :: "service \<Rightarrow> grant_lease_request \<Rightarrow> job_attempt \<Rightarrow> job \<Rightarrow> run \<Rightarrow> lease \<Rightarrow> lease_granted db" where
  "grant_tail S req a j r l =
     bindE (metric (IncLease ''granted'')) (\<lambda>_.
     bindE (metric (IncJob ''leased'')) (\<lambda>_.
     bindE (try_prog (store_AckJobAttemptDispatch (att_id a))) (\<lambda>acked.
     bindE (case acked of Inl e \<Rightarrow> if \<not> is_not_found e then fail e else skip | Inr _ \<Rightarrow> skip) (\<lambda>_.
     bindE (store_TransitionRunState (run_id r) RunStateRunning) (\<lambda>_.
     bindE (metric (IncRun ''running'')) (\<lambda>_.
     bindE (svc_reportRun S (run_id r)) (\<lambda>_.
     bindE (store_GetJobSpec (job_id j)) (\<lambda>doc.
     bindE (wrap_error (Wrapped (''decode job spec '' @ job_id j)) (lift_result (unmarshal_job_spec doc))) (\<lambda>spec0.
     let spec = spec0\<lparr>spec_name := (if spec_name spec0 = '''' then job_name j else spec_name spec0),
                      spec_workdir := (if spec_workdir spec0 = '''' then ''.'' else spec_workdir spec0)\<rparr> in
     if spec_steps spec = [] then fail (PlainError ''job spec steps required'')
     else ret \<lparr>lg_run_id = run_id r, lg_job_id = job_id j, lg_lease_id = lease_id l,
               lg_lease_ttl_seconds = lease_ttl l, lg_heartbeat_interval_seconds = lease_heartbeat l,
               lg_max_runtime_seconds = glr_max_runtime_seconds req, lg_job_spec = spec\<rparr>)))))))))"

lemma grant_tail_answer:
  "grant_tail S req a j r l w = (Inr g, w') \<Longrightarrow> lg_job_id g = job_id j \<and> lg_lease_id g = lease_id l"
  by (auto simp: grant_tail_def Let_def elim!: bindE_InrE split: if_splits)

lemma store_GrantLease_row:
  assumes "store_GrantLease aid l w = (Inr l', w')" and "a \<in> set (w_attempts w)" and "att_id a = aid"
  shows "lease_of_job (lease_id l') (att_job_id a) w'"
proof (cases "grant_params_ok l")
  case False
  then show ?thesis using grant_rejects [of l aid w] assms(1) by auto
next
  case True
  then obtain j where l': "lease_id l' = lease_id l" and w': "w' = grant_world w aid j l"
    using assms(1) by (auto simp: GrantLease_apply split: option.splits sum.splits)
  have "granted_row w aid l \<in> set (w_leases w')" "lease_attempt_row w l a \<in> set (w_attempts w')"
    using assms(2,3) by (auto simp: w' grant_world_def set_update_rows)
  moreover have "lease_id (granted_row w aid l) = lease_id l" "lease_attempt_id (granted_row w aid l) = aid"
    "att_id (lease_attempt_row w l a) = aid" "att_job_id (lease_attempt_row w l a) = att_job_id a"
    using assms(3) by (simp_all add: granted_row_def lease_attempt_row_def)
  ultimately show ?thesis unfolding lease_of_job_def l' by metis
qed

context service_env
begin

lemma grant_tail_lawful: "keeps lawful (grant_tail S req a j r l)"
  unfolding grant_tail_def Let_def by (intro lw.keeps_rules keeps_intros interface_lawful reportRun_lawful)

lemma granted_lease_of_job:
  assumes "wf_world w" and "svc_GrantLease S req w = (Inr g, w')"
  shows "lease_of_job (lg_lease_id g) (lg_job_id g) w'"
proof -
  obtain a j r lid l0 l w1 w2 where a: "find_row att_id (glr_attempt_id req) (w_attempts w) = Some a"
    and j: "find_row job_id (att_job_id a) (w_jobs w) = Some j"
    and lid: "sv_LeaseID S w = (Inr lid, w1)" and grant: "store_GrantLease (att_id a) l0 w1 = (Inr l, w2)"
    and tail: "grant_tail S req a j r l w2 = (Inr g, w')"
    using assms(2) unfolding svc_GrantLease_def grant_tail_def [symmetric] 
    by (auto simp: Let_def store_GetJobAttempt_def store_GetJob_def store_GetRun_def bindE_select_by
        elim!: bindE_InrE split: if_splits option.splits)
  have core: "same_core w w1" using id_source.next_id_core [OF ids(4), of w] lid by simp
  then have "a \<in> set (w_attempts w1)" using find_row_SomeD [OF a] by (simp add: same_core_def)
  then have row: "lease_of_job (lease_id l) (att_job_id a) w2" using store_GrantLease_row [OF grant] by blast
  have "lawful w w1" "lawful w1 w2" "lawful w2 w'"
    using lawful_same_core [OF core] keepsD [OF GrantLease_lawful, of w1 "att_id a" l0] grant
      keepsD [OF grant_tail_lawful, of w2 req a j r l] tail by simp_all
  then have "evolves w2 w'" using assms(1) by (simp add: lawful_def)
  with row show ?thesis
    using grant_tail_answer [OF tail] find_row_SomeD [OF j] lease_of_job_evolves by metis
qed

end


section \<open>Behind a success\<close>

definition history :: "service \<Rightarrow> api_call list \<Rightarrow> world" where
  "history S calls = foldl (\<lambda>w c. serve S c w) empty_world calls"

text \<open>The lease of the execution is what a call of \<open>GrantLease\<close> in the history answered.\<close>

definition handed_out :: "service \<Rightarrow> api_call list \<Rightarrow> 'f execution \<Rightarrow> bool" where
  "handed_out S calls X \<longleftrightarrow> (\<exists>before req after. calls = before @ CallGrantLease req # after
     \<and> outcome_of (svc_GrantLease S req) (history S before) = Inr (ex_lease X))"

lemma history_snoc: "history S (calls @ [c]) = serve S c (history S calls)"
  by (simp add: history_def)

context service_env
begin

lemma history_lawful: "lawful (history S calls) (history S (calls @ later))"
  unfolding history_def by (simp add: serves_lawful [OF serves_foldl])

lemma history_wf: "wf_world (history S calls)" "evolves (history S calls) (history S (calls @ later))"
proof -
  show wf: "wf_world (history S calls)"
    using serves_lawful [OF serves_foldl, of empty_world calls] wf_empty_world by (simp add: history_def lawful_def)
  show "evolves (history S calls) (history S (calls @ later))" using history_lawful wf by (simp add: lawful_def)
qed

lemma success_origin:
  assumes "j \<in> set (w_jobs (history S calls))" and "job_state j = JobStateSucceeded"
  shows "\<exists>m. CallCompleteLease m \<in> set calls \<and> cm_status m = CompleteStatusSucceeded
    \<and> lease_of_job (cm_lease_id m) (job_id j) (history S calls)"
  using assms
proof (induction calls arbitrary: j rule: rev_induct)
  case Nil
  then show ?case by (simp add: history_def empty_world_def)
next
  case (snoc c calls)
  let ?X = "case c of CallCompleteLease m \<Rightarrow> completed_jobs m (history S calls) | _ \<Rightarrow> {}"
  have kept: "lease_of_job lid jid (history S calls) \<Longrightarrow> lease_of_job lid jid (history S (calls @ [c]))" for lid jid
    using history_wf(2) lease_of_job_evolves by blast
  consider "job_id j \<in> ?X"
    | k where "k \<in> set (w_jobs (history S calls))" "job_id k = job_id j" "job_state k = JobStateSucceeded"
    using serve_only [where c = c and w = "history S calls"] snoc.prems unfolding succeeds_only_def history_snoc by auto
  then show ?case
  proof cases
    case 1
    then obtain m where c: "c = CallCompleteLease m" and j: "job_id j \<in> completed_jobs m (history S calls)" by (cases c) auto
    have "cm_status m = CompleteStatusSucceeded" using j by (auto simp: completed_jobs_def)
    then show ?thesis using kept [OF completed_lease_of_job [OF j]] c by auto
  next
    case (2 k)
    then show ?thesis using snoc.IH [OF 2(1,3)] kept by auto
  qed
qed

lemma handed_out_lease:
  assumes "handed_out S calls X"
  shows "lease_of_job (lg_lease_id (ex_lease X)) (lg_job_id (ex_lease X)) (history S calls)"
proof -
  obtain before req rest where calls: "calls = (before @ [CallGrantLease req]) @ rest"
    and g: "outcome_of (svc_GrantLease S req) (history S before) = Inr (ex_lease X)"
    using assms by (auto simp: handed_out_def)
  have "svc_GrantLease S req (history S before) = (Inr (ex_lease X), history S (before @ [CallGrantLease req]))"
    using g by (simp add: history_snoc prod_eq_iff)
  from granted_lease_of_job [OF history_wf(1) this] show ?thesis
    unfolding calls using history_wf(2) lease_of_job_evolves by blast
qed

lemma success_of_a_command:
  assumes "\<And>m. CallCompleteLease m \<in> set calls \<Longrightarrow> \<exists>X\<in>executions. sends X (MsgComplete m)"
    and "\<And>X. X \<in> executions \<Longrightarrow> handed_out S calls X"
    and "j \<in> set (w_jobs (history S calls))" and "job_state j = JobStateSucceeded"
  shows "\<exists>X\<in>executions. lg_job_id (ex_lease X) = job_id j \<and> ran_well X"
proof -
  obtain m where m: "CallCompleteLease m \<in> set calls" "cm_status m = CompleteStatusSucceeded"
    "lease_of_job (cm_lease_id m) (job_id j) (history S calls)" using success_origin [OF assms(3,4)] by blast
  obtain X where X: "X \<in> executions" "sends X (MsgComplete m)" using assms(1) [OF m(1)] by blast
  have "ran_well X" "cm_lease_id m = lg_lease_id (ex_lease X)" using sent_success [OF X(2) m(2)] by simp_all
  then show ?thesis
    using lease_of_one_job [OF history_wf(1) m(3)] handed_out_lease [OF assms(2) [OF X(1)]] X(1) by metis
qed

end

text \<open>
  C6: Green means that the commands ran and succeeded. If every completion the service was
  sent comes from an execution of the runner, and the executions hold leases the service
  granted, then behind every required job of a run in state \<open>SUCCESS\<close> there is an execution
  that was leased this very job, ran the first step of the specification it was given, and
  saw it succeed.
\<close>

theorem green_means_the_commands_succeeded:
  assumes "service_env S"
    and "\<And>m. CallCompleteLease m \<in> set calls \<Longrightarrow> \<exists>X\<in>executions. sends X (MsgComplete m)"
    and "\<And>X. X \<in> executions \<Longrightarrow> handed_out S calls X"
    and "r \<in> set (w_runs (history S calls))" and "run_state r = RunStateSuccess"
    and "j \<in> set (w_jobs (history S calls))" and "job_run_id j = run_id r" and "job_required j"
  shows "\<exists>X\<in>executions. lg_job_id (ex_lease X) = job_id j \<and> ran_well X"
proof (rule service_env.success_of_a_command [OF assms(1,2,3,6)])
  have "green (w_runs (history S calls)) (w_jobs (history S calls))"
    using reachable_work [OF assms(1) serves_foldl] by (simp add: history_def inv_def work_ok_def)
  then show "job_state j = JobStateSucceeded" using assms(4-8) by (auto simp: green_def)
qed


text \<open>The execution behind the run of \<open>GreenRun\<close>.\<close>

definition green_execution :: "unit execution" where
  "green_execution = \<lparr>ex_os = sample_os, ex_config = sample_runner,
     ex_host = sample_host\<lparr>rh_lease_file := Inr green_message\<rparr>, ex_lease = green_message, ex_fs = (),
     ex_events = [EvAck 6000000000 (Inr (200, ''200 OK'', '''')), EvFirstBeat 7000000000 (Inr sample_beat), EvEnd CommandOk,
       EvCheck 8000000000, EvUpload \<lparr>s3_init = None, s3_open = None, s3_put = None\<rparr>, EvFinal (Inr (200, ''200 OK'', ''''))]\<rparr>"

lemma green_execution_sends: "sends green_execution (MsgComplete green_completion)"
proof -
  have "\<exists>s. execution_ends green_execution s \<and> MsgComplete green_completion \<in> set (rs_sent s)"
    by (simp add: execution_ends_def green_execution_def sample_runner_def sample_host_def runner_init_def green_message_def
        sample_beat_def green_completion_def client_send_def client_post_def runner_outcome_def runner_final_def
        uploaded_log_def restoreCaches_def Let_def)
  then show ?thesis by (simp add: sends_def)
qed

lemma green_handed_out: "handed_out green_service green_calls green_execution"
proof -
  have "green_calls = [green_calls ! 0] @ CallGrantLease green_request # drop 2 green_calls" by (simp add: green_calls_def)
  moreover have "history green_service [green_calls ! 0] = green_queued" by (simp add: history_def green_created)
  moreover have "ex_lease green_execution = green_message" by (simp add: green_execution_def)
  ultimately show ?thesis unfolding handed_out_def using green_answer by metis
qed

theorem green_means_the_commands_succeeded_witness:
  "\<exists>j\<in>set (w_jobs green_world). job_required j \<and> lg_job_id (ex_lease green_execution) = job_id j
     \<and> ran_well green_execution"
proof -
  have world: "history green_service green_calls = green_world" by (simp add: history_def green_world_def)
  obtain r where r: "r \<in> set (w_runs green_world)" "run_id r = ''run_0000''" "run_state r = RunStateSuccess"
    using green_world_run(1) by blast
  obtain j where j: "j \<in> set (w_jobs green_world)" "job_run_id j = ''run_0000''" "job_required j"
    using green_world_run(2) by blast
  have "\<exists>X\<in>{green_execution}. lg_job_id (ex_lease X) = job_id j \<and> ran_well X"
  proof (rule green_means_the_commands_succeeded [OF green_env, where r = r and j = j])
    show "\<exists>X\<in>{green_execution}. sends X (MsgComplete m)" if "CallCompleteLease m \<in> set green_calls" for m
      using that green_execution_sends by (auto simp: green_calls_def)
    show "handed_out green_service green_calls X" if "X \<in> {green_execution}" for X
      using that green_handed_out by simp
    show "r \<in> set (w_runs (history green_service green_calls))" "j \<in> set (w_jobs (history green_service green_calls))"
      "job_run_id j = run_id r" "run_state r = RunStateSuccess" "job_required j"
      using r j by (simp_all add: world)
  qed
  with j show ?thesis by auto
qed

end
