(* ===== verification/GithubClient.thy ===== *)
theory GithubClient
  imports Records GoStrings
begin

text \<open>
  The GitHub API client and the app installation token (\<open>internal/vcs/github/client.go\<close>,
  \<open>app_auth.go\<close>). GitHub itself is not in the repository: an HTTP exchange takes a request
  and answers with a status and a body or fails in transport; the answer may depend on the
  moment (the world it happens in) and changes nothing in the database. The encoders of the
  standard library (JSON, base64, PEM, RSA) are arguments.
\<close>

section \<open>Requests and errors\<close>

datatype gh_error = APIError int string | TransportError string

fun gh_error_text :: "gh_error \<Rightarrow> string" where
  "gh_error_text (APIError status msg) =
     ''github api error: status='' @ Itoa status @ '' message='' @ msg"
| "gh_error_text (TransportError msg) = msg"

record http_request =
  hq_method :: string
  hq_url :: string
  hq_headers :: "(string \<times> string) list"
  hq_body :: "string option"

record http_response =
  hr_status :: int
  hr_body :: string

record check_run_request =
  crq_name :: string
  crq_head_sha :: string
  crq_status :: string
  crq_conclusion :: string
  crq_started_at :: "go_time option"
  crq_completed_at :: "go_time option"
  crq_title :: string
  crq_summary :: string

datatype gh_payload = CheckRunPayload check_run_request | CommentPayload string

type_synonym 'a gh_answer = "world \<Rightarrow> gh_error + 'a"

text \<open>\<open>gc_marshal\<close> is \<open>json.Marshal\<close>, \<open>gc_decode_id\<close> the field \<open>id\<close> of a decoded answer.\<close>

record github_client =
  gc_BaseURL :: string
  gc_Token :: string
  gc_TokenProvider :: "string gh_answer option"
  gc_UserAgent :: string
  gc_Do :: "http_request \<Rightarrow> world \<Rightarrow> string + http_response"
  gc_marshal :: "gh_payload \<Rightarrow> string"
  gc_decode_id :: "string \<Rightarrow> string + int"

definition defaultBaseURL :: string where
  "defaultBaseURL = ''https://api.github.com''"

definition NewClient :: "string \<Rightarrow> (http_request \<Rightarrow> world \<Rightarrow> string + http_response) \<Rightarrow> (gh_payload \<Rightarrow> string) \<Rightarrow>
    (string \<Rightarrow> string + int) \<Rightarrow> github_client" where
  "NewClient token exchange marshal decode =
     \<lparr>gc_BaseURL = defaultBaseURL, gc_Token = token, gc_TokenProvider = None, gc_UserAgent = ''delta-ci'',
      gc_Do = exchange, gc_marshal = marshal, gc_decode_id = decode\<rparr>"

definition NewAppClient :: "string gh_answer option \<Rightarrow> (http_request \<Rightarrow> world \<Rightarrow> string + http_response) \<Rightarrow>
    (gh_payload \<Rightarrow> string) \<Rightarrow> (string \<Rightarrow> string + int) \<Rightarrow> github_client" where
  "NewAppClient provider exchange marshal decode =
     \<lparr>gc_BaseURL = defaultBaseURL, gc_Token = '''', gc_TokenProvider = provider, gc_UserAgent = ''delta-ci'',
      gc_Do = exchange, gc_marshal = marshal, gc_decode_id = decode\<rparr>"

section \<open>A call of the API (doJSON)\<close>

definition max_answer :: nat where
  "max_answer = 1048576"

definition api_headers :: "string \<Rightarrow> string \<Rightarrow> (string \<times> string) list" where
  "api_headers token agent =
     [(''Accept'', ''application/vnd.github+json''), (''Authorization'', ''Bearer '' @ token), (''User-Agent'', agent)]"

text \<open>An answer outside the 2xx range is an error of the API with the (cut) body as its text.\<close>

definition checked_answer :: "http_response \<Rightarrow> gh_error + string" where
  "checked_answer resp =
     (let body = take max_answer (hr_body resp) in
      if hr_status resp < 200 \<or> 300 \<le> hr_status resp then Inl (APIError (hr_status resp) body) else Inr body)"

definition gh_token :: "github_client \<Rightarrow> string gh_answer" where
  "gh_token C w = (case gc_TokenProvider C of Some provider \<Rightarrow> provider w | None \<Rightarrow> Inr (gc_Token C))"

definition doJSON :: "github_client \<Rightarrow> string \<Rightarrow> string \<Rightarrow> gh_payload \<Rightarrow> int gh_answer" where
  "doJSON C method path payload w =
     (case gh_token C w of
        Inl e \<Rightarrow> Inl e
      | Inr token \<Rightarrow>
          if token = '''' then Inl (TransportError ''github token missing'')
          else
            let req = \<lparr>hq_method = method, hq_url = TrimRight (\<lambda>c. c = CHR ''/'') (gc_BaseURL C) @ path,
                       hq_headers = api_headers token (gc_UserAgent C) @ [(''Content-Type'', ''application/json'')],
                       hq_body = Some (gc_marshal C payload)\<rparr> in
            case gc_Do C req w of
              Inl e \<Rightarrow> Inl (TransportError e)
            | Inr resp \<Rightarrow>
                (case checked_answer resp of
                   Inl e \<Rightarrow> Inl e
                 | Inr body \<Rightarrow> (case gc_decode_id C body of Inl e \<Rightarrow> Inl (TransportError e) | Inr i \<Rightarrow> Inr i)))"

definition gc_CreateCheckRun :: "github_client \<Rightarrow> string \<Rightarrow> string \<Rightarrow> check_run_request \<Rightarrow> int gh_answer" where
  "gc_CreateCheckRun C owner repo payload =
     doJSON C ''POST'' (''/repos/'' @ owner @ ''/'' @ repo @ ''/check-runs'') (CheckRunPayload payload)"

definition gc_UpdateCheckRun :: "github_client \<Rightarrow> string \<Rightarrow> string \<Rightarrow> string \<Rightarrow> check_run_request \<Rightarrow> int gh_answer" where
  "gc_UpdateCheckRun C owner repo checkRunID payload =
     doJSON C ''PATCH'' (''/repos/'' @ owner @ ''/'' @ repo @ ''/check-runs/'' @ checkRunID) (CheckRunPayload payload)"

definition gc_CreateComment :: "github_client \<Rightarrow> string \<Rightarrow> string \<Rightarrow> int \<Rightarrow> string \<Rightarrow> int gh_answer" where
  "gc_CreateComment C owner repo pr body =
     doJSON C ''POST'' (''/repos/'' @ owner @ ''/'' @ repo @ ''/issues/'' @ Itoa pr @ ''/comments'') (CommentPayload body)"

definition gc_UpdateComment :: "github_client \<Rightarrow> string \<Rightarrow> string \<Rightarrow> string \<Rightarrow> string \<Rightarrow> int gh_answer" where
  "gc_UpdateComment C owner repo commentID body =
     doJSON C ''PATCH'' (''/repos/'' @ owner @ ''/'' @ repo @ ''/issues/comments/'' @ commentID) (CommentPayload body)"

section \<open>The installation token of a GitHub App (app_auth.go)\<close>

definition appTokenGracePeriod :: int where
  "appTokenGracePeriod = 120 * time_second"

record jwt_claims =
  jwt_iss :: string
  jwt_iat :: int
  jwt_exp :: int

text \<open>
  What the provider asks of the standard library and of its host: PEM and key parsing, JSON,
  base64, the signature and the HTTP exchange. A key of another kind than RSA is \<open>Inr None\<close>.
\<close>

record 'k app_env =
  ae_pem_decode :: "string \<Rightarrow> string option"
  ae_parse_pkcs1 :: "string \<Rightarrow> 'k option"
  ae_parse_pkcs8 :: "string \<Rightarrow> string + 'k option"
  ae_header_json :: string
  ae_claims_json :: "jwt_claims \<Rightarrow> string"
  ae_base64url :: "string \<Rightarrow> string"
  ae_sign_rs256 :: "'k \<Rightarrow> string \<Rightarrow> string + string"
  ae_unix :: "go_time \<Rightarrow> int"
  ae_Do :: "http_request \<Rightarrow> string + http_response"
  ae_decode_token :: "string \<Rightarrow> string + string \<times> go_time"

record 'k token_provider =
  tp_appID :: string
  tp_installation :: string
  tp_privateKey :: 'k
  tp_baseURL :: string
  tp_userAgent :: string
  tp_cachedToken :: string
  tp_cachedExpires :: go_time

definition parsePrivateKey :: "'k app_env \<Rightarrow> string \<Rightarrow> gh_error + 'k" where
  "parsePrivateKey E pem =
     (if pem = '''' then Inl (TransportError ''github app private key required'')
      else case ae_pem_decode E pem of
        None \<Rightarrow> Inl (TransportError ''failed to decode github app private key'')
      | Some der \<Rightarrow>
          (case ae_parse_pkcs1 E der of
             Some key \<Rightarrow> Inr key
           | None \<Rightarrow>
               (case ae_parse_pkcs8 E der of
                  Inl e \<Rightarrow> Inl (TransportError e)
                | Inr None \<Rightarrow> Inl (TransportError ''github app private key is not RSA'')
                | Inr (Some key) \<Rightarrow> Inr key)))"

definition NewAppTokenProvider :: "'k app_env \<Rightarrow> string \<Rightarrow> string \<Rightarrow> string \<Rightarrow> string \<Rightarrow> gh_error + 'k token_provider" where
  "NewAppTokenProvider E appID installationID pem baseURL =
     (if appID = '''' \<or> installationID = ''''
      then Inl (TransportError ''github app id and installation id are required'')
      else case parsePrivateKey E pem of
        Inl e \<Rightarrow> Inl e
      | Inr key \<Rightarrow>
          let base = (if baseURL = '''' then defaultBaseURL else baseURL) in
          Inr \<lparr>tp_appID = appID, tp_installation = installationID, tp_privateKey = key,
               tp_baseURL = TrimRight (\<lambda>c. c = CHR ''/'') base, tp_userAgent = ''delta-ci'',
               tp_cachedToken = '''', tp_cachedExpires = 0\<rparr>)"

definition signJWT :: "'k app_env \<Rightarrow> 'k token_provider \<Rightarrow> go_time \<Rightarrow> gh_error + string" where
  "signJWT E P now =
     (let claims = \<lparr>jwt_iss = tp_appID P, jwt_iat = ae_unix E (now - 60 * time_second),
                    jwt_exp = ae_unix E (now + 9 * 60 * time_second)\<rparr>;
          input = ae_base64url E (ae_header_json E) @ ''.'' @ ae_base64url E (ae_claims_json E claims) in
      case ae_sign_rs256 E (tp_privateKey P) input of
        Inl e \<Rightarrow> Inl (TransportError e)
      | Inr sig \<Rightarrow> Inr (input @ ''.'' @ ae_base64url E sig))"

definition fetchInstallationToken :: "'k app_env \<Rightarrow> 'k token_provider \<Rightarrow> go_time \<Rightarrow> gh_error + string \<times> go_time" where
  "fetchInstallationToken E P now =
     (case signJWT E P now of
        Inl e \<Rightarrow> Inl e
      | Inr jwt \<Rightarrow>
          let req = \<lparr>hq_method = ''POST'',
                     hq_url = tp_baseURL P @ ''/app/installations/'' @ tp_installation P @ ''/access_tokens'',
                     hq_headers = api_headers jwt (tp_userAgent P), hq_body = None\<rparr> in
          case ae_Do E req of
            Inl e \<Rightarrow> Inl (TransportError e)
          | Inr resp \<Rightarrow>
              (case checked_answer resp of
                 Inl e \<Rightarrow> Inl e
               | Inr body \<Rightarrow>
                   (case ae_decode_token E body of
                      Inl e \<Rightarrow> Inl (TransportError e)
                    | Inr (token, expires) \<Rightarrow>
                        if token = '''' then Inl (TransportError ''github app token response missing token'')
                        else if time_IsZero expires then Inr (token, now + 30 * 60 * time_second)
                        else Inr (token, expires))))"

text \<open>
  \<open>now\<close> is the time of the call and stands for all clock reads of it. The lock guards the
  two cached fields; the fetch in between runs without it.
\<close>

definition token_cached :: "'k token_provider \<Rightarrow> go_time \<Rightarrow> bool" where
  "token_cached P now = (tp_cachedToken P \<noteq> '''' \<and> tp_cachedExpires P - now > appTokenGracePeriod)"

definition AppToken :: "'k app_env \<Rightarrow> go_time \<Rightarrow> 'k token_provider \<Rightarrow> (gh_error + string) \<times> 'k token_provider" where
  "AppToken E now P =
     (if token_cached P now then (Inr (tp_cachedToken P), P)
      else case fetchInstallationToken E P now of
        Inl e \<Rightarrow> (Inl e, P)
      | Inr (token, expires) \<Rightarrow>
          (Inr token, P\<lparr>tp_cachedToken := token, tp_cachedExpires := expires\<rparr>))"

end
