(* ===== verification/GithubReporter.thy ===== *)
theory GithubReporter
  imports GithubClient
begin

text \<open>
  The GitHub status reporter (\<open>internal/vcs/github/reporter.go\<close>): what a run looks like on
  GitHub, the texts, and publishing one state of a run.
\<close>

section \<open>Calls of the client\<close>

fun gh_isNotFound :: "gh_error \<Rightarrow> bool" where
  "gh_isNotFound (APIError status _) = (status = 404)"
| "gh_isNotFound (TransportError _) = False"

text \<open>A call of the client as a program: it does not change the world.\<close>

definition ask :: "'a gh_answer \<Rightarrow> (gh_error + 'a) db" where
  "ask answer = gets answer"

definition gh_fail :: "gh_error \<Rightarrow> 'a db" where
  "gh_fail e = fail (PlainError (gh_error_text e))"

section \<open>The state of a run on GitHub\<close>

fun mapRunToCheck :: "run_state \<Rightarrow> string \<times> string" where
  "mapRunToCheck RunStateCreated = (''queued'', '''')"
| "mapRunToCheck RunStatePlanning = (''queued'', '''')"
| "mapRunToCheck RunStateQueued = (''queued'', '''')"
| "mapRunToCheck RunStateRunning = (''in_progress'', '''')"
| "mapRunToCheck RunStateSuccess = (''completed'', ''success'')"
| "mapRunToCheck RunStateFailed = (''completed'', ''failure'')"
| "mapRunToCheck RunStatePlanFailed = (''completed'', ''failure'')"
| "mapRunToCheck RunStateCanceled = (''completed'', ''cancelled'')"
| "mapRunToCheck RunStateTimeout = (''completed'', ''timed_out'')"
| "mapRunToCheck _ = (''in_progress'', '''')"

definition isTerminalState :: "run_state \<Rightarrow> bool" where
  "isTerminalState st = (st \<in> {RunStateSuccess, RunStateFailed, RunStateCanceled, RunStateTimeout, RunStatePlanFailed})"

definition isReportableTerminal :: "run_state \<Rightarrow> bool" where
  "isReportableTerminal st = (st \<in> {RunStateSuccess, RunStateFailed, RunStateCanceled, RunStateTimeout})"

definition buildCheckRun :: "string \<Rightarrow> run \<Rightarrow> string \<Rightarrow> string \<Rightarrow> check_run_request" where
  "buildCheckRun name r title summary =
     (let (status, conclusion0) = mapRunToCheck (run_state r);
          conclusion = (if status = ''completed'' \<and> conclusion0 = '''' then ''neutral'' else conclusion0) in
      \<lparr>crq_name = name, crq_head_sha = run_commit_sha r, crq_status = status,
       crq_conclusion = (if status = ''completed'' then conclusion else ''''),
       crq_started_at = (if status \<noteq> ''queued'' then Some (run_created_at r) else None),
       crq_completed_at = (if status = ''completed'' then Some (run_updated_at r) else None),
       crq_title = title, crq_summary = summary\<rparr>)"

section \<open>Texts\<close>

definition gh_sanitize :: "string \<Rightarrow> string" where
  "gh_sanitize value = TrimSpace (ReplaceChar (CHR 0x0D) (CHR '' '') (ReplaceChar (CHR 0x0A) (CHR '' '') value))"

fun failure_category_string :: "failure_category \<Rightarrow> string" where
  "failure_category_string FailureCategoryUser = ''USER''"
| "failure_category_string FailureCategoryInfra = ''INFRA''"
| "failure_category_string FailureCategoryTooling = ''TOOLING''"
| "failure_category_string FailureCategoryFlaky = ''FLAKY''"
| "failure_category_string FailureCategoryCanceled = ''CANCELED''"
| "failure_category_string FailureCategoryUnknown = ''UNKNOWN''"
| "failure_category_string (FailureCategoryOther s) = s"

fun failure_confidence_string :: "failure_confidence \<Rightarrow> string" where
  "failure_confidence_string FailureConfidenceLow = ''LOW''"
| "failure_confidence_string FailureConfidenceMedium = ''MEDIUM''"
| "failure_confidence_string FailureConfidenceHigh = ''HIGH''"
| "failure_confidence_string (FailureConfidenceOther s) = s"

abbreviation nl :: string where "nl \<equiv> [CHR 0x0A]"

definition backquoted :: "string \<Rightarrow> string" where
  "backquoted s = [CHR 0x60] @ s @ [CHR 0x60]"

definition plan_summary :: "run_plan \<Rightarrow> string" where
  "plan_summary p =
     (if rp_recipe_source p \<noteq> '''' then ''Plan source: '' @ backquoted (gh_sanitize (rp_recipe_source p)) @ nl else '''')
     @ (if rp_explain p \<noteq> '''' then ''Plan: '' @ gh_sanitize (rp_explain p) @ nl else '''')
     @ (if rp_skipped_jobs p \<noteq> []
        then nl @ ''Skipped jobs:'' @ nl
          @ concat (map (\<lambda>s. ''- '' @ gh_sanitize (sj_name s) @ '': '' @ gh_sanitize (sj_reason s) @ nl) (rp_skipped_jobs p))
        else '''')"

definition artifact_text :: "artifact \<Rightarrow> string" where
  "artifact_text a = gh_sanitize (art_type a) @ '' '' @ gh_sanitize (art_uri a)"

definition job_summary :: "artifact list \<Rightarrow> failure_explanation option \<Rightarrow> job \<Rightarrow> string" where
  "job_summary arts failure j =
     ''- '' @ gh_sanitize (job_name j) @ '' ('' @ (if job_required j then ''required'' else ''optional'') @ ''): ''
       @ backquoted (job_state_string (job_state j)) @ nl
     @ (if job_reason j \<noteq> '''' then ''  Reason: '' @ gh_sanitize (job_reason j) @ nl else '''')
     @ (if job_state j = JobStateFailed \<or> job_state j = JobStateTimedOut
        then (case failure of None \<Rightarrow> ''''
              | Some f \<Rightarrow> ''  Failure: '' @ gh_sanitize (fe_summary f) @ '' ('' @ gh_sanitize (failure_category_string (fe_category f))
                  @ ''/'' @ gh_sanitize (failure_confidence_string (fe_confidence f)) @ '')'' @ nl)
        else '''')
     @ (if arts = [] then '''' else ''  Artifacts: '' @ Join (map artifact_text arts) ''; '' @ nl)"

definition buildSummary :: "run \<Rightarrow> run_plan option \<Rightarrow> (job \<times> artifact list \<times> failure_explanation option) list \<Rightarrow> string \<times> string" where
  "buildSummary r plan jobs =
     (''Delta CI: '' @ run_state_string (run_state r),
      ''Run '' @ backquoted (run_id r) @ nl @ nl
      @ ''State: '' @ backquoted (run_state_string (run_state r)) @ nl
      @ ''Ref: '' @ backquoted (run_ref r) @ nl
      @ ''Commit: '' @ backquoted (run_commit_sha r) @ nl
      @ (case plan of None \<Rightarrow> '''' | Some p \<Rightarrow> plan_summary p)
      @ (if jobs = [] then ''''
         else nl @ ''Jobs:'' @ nl @ concat (map (\<lambda>(j, arts, failure). job_summary arts failure j) jobs)))"

text \<open>\<open>stamp\<close> is the time in RFC 3339.\<close>

definition buildComment :: "string \<Rightarrow> run \<Rightarrow> string \<Rightarrow> string" where
  "buildComment stamp r summary =
     ''<!-- delta-ci run:'' @ run_id r @ '' -->'' @ nl @ ''## Delta CI Run Result'' @ nl @ nl @ summary
     @ (if HasSuffix summary nl then '''' else nl) @ nl @ ''Updated: '' @ stamp"

section \<open>Reporting (ReportRun)\<close>

record reporter =
  rep_client :: "github_client option"
  rep_check_name :: string
  rep_format_time :: "go_time \<Rightarrow> string"

definition NewReporter :: "github_client option \<Rightarrow> string \<Rightarrow> (go_time \<Rightarrow> string) \<Rightarrow> reporter" where
  "NewReporter client checkName fmt =
     \<lparr>rep_client = client, rep_check_name = (if checkName = '''' then ''delta-ci'' else checkName), rep_format_time = fmt\<rparr>"

definition create_check :: "github_client \<Rightarrow> run_trigger \<Rightarrow> check_run_request \<Rightarrow> string db" where
  "create_check C t req =
     bindE (ask (gc_CreateCheckRun C (tr_repo_owner t) (tr_repo_name t) req)) (\<lambda>res.
     case res of Inl e \<Rightarrow> gh_fail e | Inr i \<Rightarrow> ret (Itoa i))"

text \<open>A check run or comment that GitHub no longer knows is created again.\<close>

definition publish_check :: "github_client \<Rightarrow> run_trigger \<Rightarrow> string option \<Rightarrow> check_run_request \<Rightarrow> string db" where
  "publish_check C t known req =
     (case known of
        None \<Rightarrow> create_check C t req
      | Some cid \<Rightarrow>
          bindE (ask (gc_UpdateCheckRun C (tr_repo_owner t) (tr_repo_name t) cid req)) (\<lambda>res.
          case res of
            Inr _ \<Rightarrow> ret cid
          | Inl e \<Rightarrow> if gh_isNotFound e then create_check C t req else gh_fail e))"

definition create_comment :: "github_client \<Rightarrow> run_trigger \<Rightarrow> int \<Rightarrow> string \<Rightarrow> string db" where
  "create_comment C t pr body =
     bindE (ask (gc_CreateComment C (tr_repo_owner t) (tr_repo_name t) pr body)) (\<lambda>res.
     case res of Inl e \<Rightarrow> gh_fail e | Inr i \<Rightarrow> ret (Itoa i))"

definition publish_comment :: "github_client \<Rightarrow> run_trigger \<Rightarrow> string option \<Rightarrow> run \<Rightarrow> (go_time \<Rightarrow> string) \<Rightarrow> string \<Rightarrow>
    string option db" where
  "publish_comment C t known r fmt summary =
     (case tr_pr_number t of
        None \<Rightarrow> ret known
      | Some pr \<Rightarrow>
          if \<not> isTerminalState (run_state r) then ret known
          else bindE (gets host_now) (\<lambda>now.
            let body = buildComment (fmt now) r summary in
            case known of
              None \<Rightarrow> bindE (create_comment C t pr body) (\<lambda>i. ret (Some i))
            | Some cid \<Rightarrow>
                bindE (ask (gc_UpdateComment C (tr_repo_owner t) (tr_repo_name t) cid body)) (\<lambda>res.
                case res of
                  Inr _ \<Rightarrow> ret (Some cid)
                | Inl e \<Rightarrow> if gh_isNotFound e then bindE (create_comment C t pr body) (\<lambda>i. ret (Some i))
                           else gh_fail e)))"

definition no_report :: status_report where
  "no_report = \<lparr>sr_run_id = '''', sr_provider = '''', sr_check_run_id = None, sr_pr_comment_id = None,
     sr_last_state = '''', sr_created_at = 0, sr_updated_at = 0\<rparr>"

definition or_not_found :: "'a db \<Rightarrow> 'a option db" where
  "or_not_found m = bindE (try_prog m) (\<lambda>res.
     case res of Inr a \<Rightarrow> ret (Some a) | Inl e \<Rightarrow> if is_not_found e then ret None else fail e)"

definition job_report :: "job \<Rightarrow> (job \<times> artifact list \<times> failure_explanation option) db" where
  "job_report j =
     bindE (store_ListArtifactsByJob (job_id j)) (\<lambda>arts.
     bindE (store_ListFailureExplanationsByJob (job_id j)) (\<lambda>explanations.
     ret (j, arts, case explanations of [] \<Rightarrow> None | f # _ \<Rightarrow> Some f)))"

text \<open>Publishing: what is read, the texts, the check run and the comment. Answers their identifiers.\<close>

definition announce :: "reporter \<Rightarrow> string \<Rightarrow> run_trigger \<Rightarrow> run \<Rightarrow> status_report \<Rightarrow> (string \<times> string option) db" where
  "announce R rid t r report =
     bindE (store_ListJobsByRun rid) (\<lambda>jobs.
     bindE (or_not_found (store_GetRunPlan rid)) (\<lambda>plan.
     bindE (mapE job_report jobs) (\<lambda>details.
     let (title, summary) = buildSummary r plan details;
         req = buildCheckRun (rep_check_name R) r title summary in
     case rep_client R of None \<Rightarrow> fail (PlainError ''github client not configured'') | Some C \<Rightarrow>
     bindE (publish_check C t (sr_check_run_id report) req) (\<lambda>check.
     bindE (publish_comment C t (sr_pr_comment_id report) r (rep_format_time R) summary) (\<lambda>comment.
     ret (check, comment))))))"

definition mark_reported :: "run \<Rightarrow> unit db" where
  "mark_reported r =
     (if isReportableTerminal (run_state r) then
        bindE (try_prog (store_TransitionRunState (run_id r) RunStateReported)) (\<lambda>res.
        case res of Inr _ \<Rightarrow> skip | Inl e \<Rightarrow> if IsTransitionError e then skip else fail e)
      else skip)"

definition Reporter_ReportRun :: "reporter \<Rightarrow> string \<Rightarrow> unit db" where
  "Reporter_ReportRun R rid =
     bindE (or_not_found (store_GetRunTrigger rid)) (\<lambda>trigger.
     case trigger of None \<Rightarrow> skip | Some t \<Rightarrow>
     bindE (store_GetRun rid) (\<lambda>r.
     if run_state r = RunStateReported then skip else
     bindE (or_not_found (store_GetStatusReport rid (tr_provider t))) (\<lambda>found.
     let report = (case found of None \<Rightarrow> no_report | Some x \<Rightarrow> x) in
     if sr_last_state report = run_state_string (run_state r) \<and> sr_last_state report \<noteq> '''' then skip else
     bindE (announce R rid t r report) (\<lambda>(check, comment).
     bindE (store_UpsertStatusReport \<lparr>sr_run_id = rid, sr_provider = tr_provider t, sr_check_run_id = Some check,
       sr_pr_comment_id = comment, sr_last_state = run_state_string (run_state r), sr_created_at = 0, sr_updated_at = 0\<rparr>) (\<lambda>_.
     mark_reported r)))))"

end
