(* ===== verification/Webhook.thy ===== *)
theory Webhook
  imports Records GoStrings
begin

text \<open>
  GitHub webhooks (\<open>internal/vcs/github/webhook.go\<close>): the signature of a delivery, the
  events that start a run, and the key under which a delivery is recorded. The hash
  functions and the JSON decoder are the standard library's and are arguments.
\<close>

section \<open>Decoding hexadecimal and splitting once\<close>

definition hex_value :: "char \<Rightarrow> nat option" where
  "hex_value c =
     (let n = (of_char c :: nat) in
      if 48 \<le> n \<and> n \<le> 57 then Some (n - 48)
      else if 97 \<le> n \<and> n \<le> 102 then Some (n - 87)
      else if 65 \<le> n \<and> n \<le> 70 then Some (n - 55)
      else None)"

text \<open>\<open>hex.DecodeString\<close>\<close>

fun hex_decode :: "string \<Rightarrow> string option" where
  "hex_decode [] = Some []"
| "hex_decode [c] = None"
| "hex_decode (a # b # s) =
     (case (hex_value a, hex_value b, hex_decode s) of
        (Some x, Some y, Some bs) \<Rightarrow> Some (char_of (16 * x + y) # bs)
      | _ \<Rightarrow> None)"

text \<open>\<open>strings.SplitN(s, sep, 2)\<close> for a separator of one byte: \<open>None\<close> when it has one part.\<close>

fun split_once :: "string \<Rightarrow> char \<Rightarrow> (string \<times> string) option" where
  "split_once [] sep = None"
| "split_once (c # s) sep = (if c = sep then Some ([], s) else map_option (\<lambda>(a, b). (c # a, b)) (split_once s sep))"

section \<open>Events\<close>

record repo_ref =
  rr_full_name :: string
  rr_name :: string
  rr_owner_login :: string

record push_event =
  pe_ref :: string
  pe_after :: string
  pe_deleted :: bool
  pe_repository :: repo_ref

record pull_request_event =
  pre_action :: string
  pre_number :: int
  pre_head_sha :: string
  pre_repository :: repo_ref

record webhook_event =
  we_event_type :: string
  we_repo_id :: string
  we_repo_owner :: string
  we_repo_name :: string
  we_ref :: string
  we_commit_sha :: string
  we_pr_number :: "int option"

text \<open>
  \<open>wc_hmac algo secret body\<close>; a decoding error is its text. The details of signature errors
  (the offending character, the algorithm's name) only go to the log and are left out.
\<close>

record webhook_codec =
  wc_hmac :: "string \<Rightarrow> string \<Rightarrow> string \<Rightarrow> string"
  wc_sha256 :: "string \<Rightarrow> string"
  wc_push :: "string \<Rightarrow> string + push_event"
  wc_pull_request :: "string \<Rightarrow> string + pull_request_event"

definition EventPing :: string where "EventPing = ''ping''"
definition EventPush :: string where "EventPush = ''push''"
definition EventPullRequest :: string where "EventPullRequest = ''pull_request''"

section \<open>Signatures (VerifySignature)\<close>

definition VerifySignature :: "webhook_codec \<Rightarrow> string \<Rightarrow> string \<Rightarrow> string \<Rightarrow> string + bool" where
  "VerifySignature K secret body signatureHeader =
     (if secret = '''' then Inl ''webhook secret is empty''
      else if signatureHeader = '''' then Inl ''signature header missing''
      else case split_once signatureHeader (CHR ''='') of
        None \<Rightarrow> Inl ''signature header malformed''
      | Some (algo, sigHex) \<Rightarrow>
          (case hex_decode sigHex of
             None \<Rightarrow> Inl ''signature hex decode failed''
           | Some sig \<Rightarrow>
               if algo = ''sha1'' \<or> algo = ''sha256'' then Inr (wc_hmac K algo secret body = sig)
               else Inl ''unsupported signature algorithm''))"

section \<open>Events that start a run (NormalizeEvent)\<close>

definition normalizeRepo :: "repo_ref \<Rightarrow> string \<times> string \<times> string" where
  "normalizeRepo repo =
     (let owner = TrimSpace (rr_owner_login repo);
          name = TrimSpace (rr_name repo);
          full = TrimSpace (rr_full_name repo);
          repoID = (if full = '''' \<and> owner \<noteq> '''' \<and> name \<noteq> '''' then owner @ ''/'' @ name else full) in
      if (owner = '''' \<or> name = '''') \<and> repoID \<noteq> '''' then
        (case split_once repoID (CHR ''/'') of
           None \<Rightarrow> (owner, name, repoID)
         | Some (a, b) \<Rightarrow> (if owner = '''' then a else owner, if name = '''' then b else name, repoID))
      else (owner, name, repoID))"

text \<open>\<open>Inr None\<close> is an event that does not start a run.\<close>

definition normalizePush :: "webhook_codec \<Rightarrow> string \<Rightarrow> string + webhook_event option" where
  "normalizePush K body =
     (case wc_push K body of
        Inl e \<Rightarrow> Inl (''decode push event: '' @ e)
      | Inr evt \<Rightarrow>
          if pe_deleted evt \<or> pe_after evt = '''' \<or> pe_ref evt = '''' then Inr None
          else case normalizeRepo (pe_repository evt) of (owner, name, repoID) \<Rightarrow>
            if owner = '''' \<or> name = '''' \<or> repoID = '''' then Inl ''push event missing repository metadata''
            else Inr (Some \<lparr>we_event_type = EventPush, we_repo_id = repoID, we_repo_owner = owner, we_repo_name = name,
                            we_ref = pe_ref evt, we_commit_sha = pe_after evt, we_pr_number = None\<rparr>))"

definition isSupportedPRAction :: "string \<Rightarrow> bool" where
  "isSupportedPRAction action = (action = ''opened'' \<or> action = ''synchronize'' \<or> action = ''reopened'')"

definition normalizePullRequest :: "webhook_codec \<Rightarrow> string \<Rightarrow> string + webhook_event option" where
  "normalizePullRequest K body =
     (case wc_pull_request K body of
        Inl e \<Rightarrow> Inl (''decode pull_request event: '' @ e)
      | Inr evt \<Rightarrow>
          if pre_number evt \<le> 0 \<or> pre_head_sha evt = '''' then Inr None
          else if \<not> isSupportedPRAction (pre_action evt) then Inr None
          else case normalizeRepo (pre_repository evt) of (owner, name, repoID) \<Rightarrow>
            if owner = '''' \<or> name = '''' \<or> repoID = '''' then Inl ''pull_request event missing repository metadata''
            else Inr (Some \<lparr>we_event_type = EventPullRequest, we_repo_id = repoID, we_repo_owner = owner,
                            we_repo_name = name, we_ref = ''refs/pull/'' @ Itoa (pre_number evt) @ ''/head'',
                            we_commit_sha = pre_head_sha evt, we_pr_number = Some (pre_number evt)\<rparr>))"

definition NormalizeEvent :: "webhook_codec \<Rightarrow> string \<Rightarrow> string \<Rightarrow> string + webhook_event option" where
  "NormalizeEvent K eventType body =
     (if eventType = EventPing then Inr None
      else if eventType = EventPush then normalizePush K body
      else if eventType = EventPullRequest then normalizePullRequest K body
      else Inr None)"

section \<open>The key of a delivery (ComputeEventKey)\<close>

definition event_payload :: "string \<Rightarrow> string \<Rightarrow> string \<Rightarrow> int option \<Rightarrow> string" where
  "event_payload repoID commitSHA eventType pr =
     repoID @ ''|'' @ commitSHA @ ''|'' @ eventType @ ''|'' @ (case pr of None \<Rightarrow> '''' | Some n \<Rightarrow> Itoa n)"

definition ComputeEventKey :: "webhook_codec \<Rightarrow> string \<Rightarrow> string \<Rightarrow> string \<Rightarrow> int option \<Rightarrow> string + string" where
  "ComputeEventKey K repoID commitSHA eventType pr =
     (if repoID = '''' \<or> commitSHA = '''' \<or> eventType = '''' then Inl ''repo_id, commit_sha, and event_type required''
      else Inr (hex_encode (wc_sha256 K (event_payload repoID commitSHA eventType pr))))"

section \<open>Facts\<close>

lemma hex_decode_encode: "hex_decode (hex_encode bs) = Some bs"
proof (induction bs)
  case (Cons b bs)
  have digit: "hex_value (digit_char d) = Some d" if "d < 16" for d
  proof -
    have "d \<in> {0, 1, 2, 3, 4, 5, 6, 7, 8, 9, 10, 11, 12, 13, 14, 15}" using that by simp presburger
    then show ?thesis by (auto simp: hex_value_def digit_char_def Let_def)
  qed
  have "(of_char b :: nat) < 256" by simp
  then have "of_char b div 16 < (16 :: nat)" by linarith
  moreover have "16 * (of_char b div 16) + of_char b mod 16 = (of_char b :: nat)" by simp
  ultimately show ?case using Cons by (simp add: digit)
qed simp

lemma nat_digits_ne [simp]: "nat_digits n \<noteq> []" "[] \<noteq> nat_digits n"
  by (subst nat_digits.simps, simp)+

lemma nat_digits_inj: "nat_digits n = nat_digits m \<Longrightarrow> n = m"
proof (induction n arbitrary: m rule: less_induct)
  case (less n)
  have small: "digit_char a = digit_char b \<Longrightarrow> a < 10 \<Longrightarrow> b < 10 \<Longrightarrow> a = b" for a b
    by (rule digit_char_inj) simp_all
  show ?case
  proof (cases "n < 10")
    case True
    then show ?thesis using less.prems small [of n m]
      by (cases "m < 10") (simp_all add: nat_digits.simps [of n] nat_digits.simps [of m])
  next
    case False
    then have "\<not> m < 10" using less.prems by (auto simp: nat_digits.simps [of n] nat_digits.simps [of m])
    with False less.prems have "nat_digits (n div 10) = nat_digits (m div 10)" "digit_char (n mod 10) = digit_char (m mod 10)"
      by (simp_all add: nat_digits.simps [of n] nat_digits.simps [of m])
    then have "n div 10 = m div 10" "n mod 10 = m mod 10"
      using less.IH [of "n div 10" "m div 10"] False small [of "n mod 10" "m mod 10"] by simp_all
    then show ?thesis by (metis div_mult_mod_eq)
  qed
qed

lemma digit_no_bar: "d < 16 \<Longrightarrow> digit_char d \<noteq> CHR ''|''"
proof -
  assume "d < 16"
  then have "digit_char d \<in> set ''0123456789abcdef''" unfolding digit_char_def by (intro nth_mem) simp
  then show ?thesis by auto
qed

lemma nat_digits_no_bar: "CHR ''|'' \<notin> set (nat_digits n)"
proof (induction n rule: less_induct)
  case (less n)
  have "digit_char (n mod 10) \<noteq> CHR ''|''" by (rule digit_no_bar) simp
  then show ?case using less [of "n div 10"] digit_no_bar [of n]
    by (cases "n < 10") (auto simp: nat_digits.simps [of n] eq_commute [of "CHR ''|''"])
qed

lemma last_bar: "CHR ''|'' \<notin> set x \<Longrightarrow> CHR ''|'' \<notin> set y \<Longrightarrow>
  a @ CHR ''|'' # x = b @ CHR ''|'' # y \<longleftrightarrow> a = b \<and> x = y"
proof -
  have "a = b \<and> x = y" if "CHR ''|'' \<notin> set x" "CHR ''|'' \<notin> set y" "a @ CHR ''|'' # x = b @ CHR ''|'' # y" for a b x y
    using that
  proof (induction x arbitrary: y rule: rev_induct)
    case Nil
    then show ?case by (cases y rule: rev_cases) auto
  next
    case (snoc c x)
    then show ?case
      by (cases y rule: rev_cases) (auto simp flip: append_assoc append_Cons)
  qed
  then show "CHR ''|'' \<notin> set x \<Longrightarrow> CHR ''|'' \<notin> set y \<Longrightarrow>
    a @ CHR ''|'' # x = b @ CHR ''|'' # y \<longleftrightarrow> a = b \<and> x = y" by blast
qed

text \<open>What a normalized event looks like.\<close>

lemma NormalizeEvent_shape:
  assumes "NormalizeEvent K t body = Inr (Some e)"
  shows "we_repo_id e \<noteq> '''' \<and> we_commit_sha e \<noteq> ''''
    \<and> (we_event_type e = EventPush \<and> we_pr_number e = None
       \<or> we_event_type e = EventPullRequest
         \<and> (\<exists>n > 0. we_pr_number e = Some n \<and> we_ref e = ''refs/pull/'' @ Itoa n @ ''/head''))"
  using assms by (auto simp: NormalizeEvent_def normalizePush_def normalizePullRequest_def
      split: if_splits sum.splits prod.splits)

lemma event_payload_inj:
  assumes "event_payload r c t p = event_payload r' c' t' p'"
    and "CHR ''|'' \<notin> set c" "CHR ''|'' \<notin> set c'" "CHR ''|'' \<notin> set t" "CHR ''|'' \<notin> set t'"
    and "\<And>n. p = Some n \<Longrightarrow> n > 0" "\<And>n. p' = Some n \<Longrightarrow> n > 0"
  shows "r = r' \<and> c = c' \<and> t = t' \<and> p = p'"
proof -
  let ?d = "\<lambda>q. case q of None \<Rightarrow> '''' | Some n \<Rightarrow> Itoa n"
  have digits: "q = Some n \<Longrightarrow> n > 0 \<Longrightarrow> ?d q = nat_digits (nat n)" for q n by (simp add: Itoa_def)
  have bar: "CHR ''|'' \<notin> set (?d p)" "CHR ''|'' \<notin> set (?d p')"
    using assms(6,7) digits by (auto simp: nat_digits_no_bar split: option.split)
  have "(((r @ CHR ''|'' # c) @ CHR ''|'' # t) @ CHR ''|'' # ?d p) = (((r' @ CHR ''|'' # c') @ CHR ''|'' # t') @ CHR ''|'' # ?d p')"
    using assms(1) by (simp add: event_payload_def)
  then have "r = r'" "c = c'" "t = t'" and d: "?d p = ?d p'"
    unfolding last_bar [OF bar] last_bar [OF assms(4,5)] last_bar [OF assms(2,3)] by auto
  moreover have "p = p'"
  proof (cases p)
    case None
    then show ?thesis using d assms(7) digits [of p'] by (cases p') auto
  next
    case (Some n)
    then obtain m where "p' = Some m" using d assms(6) digits [of p n] by (cases p') auto
    moreover have "n = m" using Some calculation d assms(6,7) digits nat_digits_inj [of "nat n" "nat m"] by auto
    ultimately show ?thesis using Some by simp
  qed
  ultimately show ?thesis by simp
qed

end
