(* ===== verification/HttpApi.thy ===== *)
theory HttpApi
  imports System Webhook GoPaths
begin

text \<open>
  The HTTP interface of the orchestrator (\<open>orchestrator/http.go\<close>). A handler is a function
  from a request to a reply and the next world: errors of the service become status codes.
  Decoding JSON is the standard library's and an argument; a reply carries the value whose
  JSON is its body.
\<close>

section \<open>Requests and replies\<close>

text \<open>\<open>in_body\<close> is what the connection delivers; \<open>in_body_error\<close> the error it ends with, if any.\<close>

record http_in =
  in_method :: string
  in_path :: string
  in_headers :: "(string \<times> string) list"
  in_body :: string
  in_body_error :: "string option"

datatype reply_body =
    BodyEmpty
  | BodyError go_error
  | BodyAck heartbeat_ack
  | BodyFields "(string \<times> string) list"
  | BodyDetails run_details
  | BodyMetrics "metric_event list"

type_synonym reply = "nat \<times> reply_body"

type_synonym handler = "http_in \<Rightarrow> world \<Rightarrow> reply \<times> world"

definition StatusOK :: nat where "StatusOK = 200"
definition StatusCreated :: nat where "StatusCreated = 201"
definition StatusAccepted :: nat where "StatusAccepted = 202"
definition StatusMovedPermanently :: nat where "StatusMovedPermanently = 301"
definition StatusBadRequest :: nat where "StatusBadRequest = 400"
definition StatusUnauthorized :: nat where "StatusUnauthorized = 401"
definition StatusNotFound :: nat where "StatusNotFound = 404"
definition StatusMethodNotAllowed :: nat where "StatusMethodNotAllowed = 405"
definition StatusConflict :: nat where "StatusConflict = 409"
definition StatusInternalServerError :: nat where "StatusInternalServerError = 500"
definition StatusServiceUnavailable :: nat where "StatusServiceUnavailable = 503"

lemmas status_defs = StatusOK_def StatusCreated_def StatusAccepted_def StatusMovedPermanently_def
  StatusBadRequest_def StatusUnauthorized_def StatusNotFound_def StatusMethodNotAllowed_def
  StatusConflict_def StatusInternalServerError_def StatusServiceUnavailable_def

record http_config =
  hc_GitHubWebhookSecret :: string
  hc_GitHubWebhookMaxBytes :: int

text \<open>The decoders get the bytes of the body and the error the reading ends with.\<close>

record http_codec =
  hk_webhook :: webhook_codec
  hk_AckLease :: "string \<times> string option \<Rightarrow> string + ack_lease_msg"
  hk_Heartbeat :: "string \<times> string option \<Rightarrow> string + heartbeat_msg"
  hk_Complete :: "string \<times> string option \<Rightarrow> string + complete_msg"
  hk_CancelAck :: "string \<times> string option \<Rightarrow> string + cancel_ack_msg"

definition header_Get :: "http_in \<Rightarrow> string \<Rightarrow> string" where
  "header_Get r name = (case map_of (in_headers r) name of None \<Rightarrow> '''' | Some v \<Rightarrow> v)"

definition no_body :: "nat \<Rightarrow> world \<Rightarrow> reply \<times> world" where
  "no_body status w = ((status, BodyEmpty), w)"

definition writeError :: "nat \<Rightarrow> go_error \<Rightarrow> world \<Rightarrow> reply \<times> world" where
  "writeError status e w = ((status, BodyError e), w)"

definition writeJSON :: "nat \<Rightarrow> reply_body \<Rightarrow> world \<Rightarrow> reply \<times> world" where
  "writeJSON status body w = ((status, body), w)"

fun is_stale_lease :: "go_error \<Rightarrow> bool" where
  "is_stale_lease ErrStaleLease = True"
| "is_stale_lease (Wrapped _ e) = is_stale_lease e"
| "is_stale_lease _ = False"

fun is_invalid_run_state :: "go_error \<Rightarrow> bool" where
  "is_invalid_run_state (ErrInvalidRunState _) = True"
| "is_invalid_run_state (Wrapped _ e) = is_invalid_run_state e"
| "is_invalid_run_state _ = False"

section \<open>Runner messages\<close>

text \<open>The four handlers have one shape: decode, serve, report a stale lease as a conflict.\<close>

definition runner_endpoint :: "(string \<times> string option \<Rightarrow> string + 'm) \<Rightarrow> ('m \<Rightarrow> 'a db) \<Rightarrow> ('a \<Rightarrow> reply_body) \<Rightarrow> handler" where
  "runner_endpoint decode serve_msg answer r w =
     (if in_method r \<noteq> ''POST'' then no_body StatusMethodNotAllowed w
      else case decode (in_body r, in_body_error r) of
        Inl e \<Rightarrow> writeError StatusBadRequest (PlainError e) w
      | Inr msg \<Rightarrow>
          (case serve_msg msg w of
             (Inl e, w') \<Rightarrow>
               if is_stale_lease e then writeError StatusConflict e w'
               else writeError StatusInternalServerError e w'
           | (Inr a, w') \<Rightarrow> writeJSON StatusOK (answer a) w'))"

definition http_ack_lease :: "http_codec \<Rightarrow> service \<Rightarrow> handler" where
  "http_ack_lease K S = runner_endpoint (hk_AckLease K) svc_AckLease (\<lambda>_. BodyEmpty)"

definition http_heartbeat :: "http_codec \<Rightarrow> service \<Rightarrow> handler" where
  "http_heartbeat K S = runner_endpoint (hk_Heartbeat K) svc_HandleHeartbeat BodyAck"

definition http_complete :: "http_codec \<Rightarrow> service \<Rightarrow> handler" where
  "http_complete K S = runner_endpoint (hk_Complete K) (svc_CompleteLease S) (\<lambda>_. BodyEmpty)"

definition http_cancel_ack :: "http_codec \<Rightarrow> service \<Rightarrow> handler" where
  "http_cancel_ack K S = runner_endpoint (hk_CancelAck K) (svc_CancelLease S) (\<lambda>_. BodyEmpty)"

section \<open>Webhooks\<close>

text \<open>The program leaves the limit at its default of 1 MiB, so \<open>maxBytes + 1\<close> is far from the end of \<open>int64\<close>.\<close>

definition readBody :: "http_in \<Rightarrow> int \<Rightarrow> string + string" where
  "readBody r maxBytes =
     (if maxBytes \<le> 0
      then (case in_body_error r of Some e \<Rightarrow> Inl e | None \<Rightarrow> Inr (in_body r))
      else
        let limit = nat (maxBytes + 1); body = take limit (in_body r) in
        case (if length (in_body r) < limit then in_body_error r else None) of
          Some e \<Rightarrow> Inl e
        | None \<Rightarrow> if int (length body) > maxBytes then Inl ''payload too large'' else Inr body)"

definition run_fields :: "run_details \<Rightarrow> (string \<times> string) list" where
  "run_fields d = [(''run_id'', run_id (rd_run d)), (''state'', run_state_string (run_state (rd_run d)))]"

definition webhook_request :: "webhook_event \<Rightarrow> create_run_request" where
  "webhook_request evt =
     \<lparr>crr_repo_id = we_repo_id evt, crr_ref = we_ref evt, crr_commit_sha = we_commit_sha evt\<rparr>"

definition webhook_trigger :: "webhook_event \<Rightarrow> string \<Rightarrow> run_trigger" where
  "webhook_trigger evt eventKey =
     \<lparr>tr_run_id = '''', tr_provider = ''github'', tr_event_key = eventKey, tr_event_type = we_event_type evt,
      tr_repo_id = we_repo_id evt, tr_repo_owner = we_repo_owner evt, tr_repo_name = we_repo_name evt,
      tr_pr_number = we_pr_number evt, tr_created_at = 0\<rparr>"

text \<open>A verified, normalized event: find or create its run.\<close>

definition accept_event :: "http_codec \<Rightarrow> service \<Rightarrow> webhook_event \<Rightarrow> world \<Rightarrow> reply \<times> world" where
  "accept_event K S evt w =
     (case ComputeEventKey (hk_webhook K) (we_repo_id evt) (we_commit_sha evt) (we_event_type evt) (we_pr_number evt) of
        Inl e \<Rightarrow> writeError StatusBadRequest (PlainError e) w
      | Inr eventKey \<Rightarrow>
          (case svc_CreateRunFromTrigger S (webhook_request evt) (webhook_trigger evt eventKey) w of
             (Inl e, w') \<Rightarrow> writeError StatusInternalServerError e w'
           | (Inr (d, created), w') \<Rightarrow>
               writeJSON (if created then StatusCreated else StatusAccepted) (BodyFields (run_fields d)) w'))"

definition webhook_signature :: "http_in \<Rightarrow> string" where
  "webhook_signature r =
     (let signature = header_Get r ''X-Hub-Signature-256'' in
      if signature = '''' then header_Get r ''X-Hub-Signature'' else signature)"

definition http_webhook :: "http_codec \<Rightarrow> http_config \<Rightarrow> service \<Rightarrow> handler" where
  "http_webhook K config S r w =
     (if in_method r \<noteq> ''POST'' then no_body StatusMethodNotAllowed w
      else if hc_GitHubWebhookSecret config = ''''
      then writeError StatusServiceUnavailable (PlainError ''github webhook secret not configured'') w
      else case readBody r (hc_GitHubWebhookMaxBytes config) of
        Inl e \<Rightarrow> writeError StatusBadRequest (PlainError e) w
      | Inr body \<Rightarrow>
          if VerifySignature (hk_webhook K) (hc_GitHubWebhookSecret config) body (webhook_signature r) \<noteq> Inr True
          then writeError StatusUnauthorized (PlainError ''invalid webhook signature'') w
          else
            let eventType = header_Get r ''X-GitHub-Event'' in
            if eventType = '''' then writeError StatusBadRequest (PlainError ''missing github event header'') w
            else case NormalizeEvent (hk_webhook K) eventType body of
              Inl e \<Rightarrow> writeError StatusBadRequest (PlainError e) w
            | Inr None \<Rightarrow> no_body StatusAccepted w
            | Inr (Some evt) \<Rightarrow> accept_event K S evt w)"

section \<open>Runs\<close>

text \<open>\<open>None\<close> is the third result \<open>false\<close>.\<close>

definition parseRunPath :: "string \<Rightarrow> (string \<times> string) option" where
  "parseRunPath path =
     (let p = TrimFunc (\<lambda>c. c = CHR ''/'') (TrimPrefix path ''/api/v1/runs/'') in
      case Split p (CHR ''/'') of
        [a] \<Rightarrow> if a = '''' then None else Some (a, '''')
      | [a, b] \<Rightarrow> if a = '''' \<or> b = '''' then None else Some (a, b)
      | _ \<Rightarrow> None)"

text \<open>Nil slices are empty lists already, so hiding the lease is what is left.\<close>

definition sanitizeRunDetails :: "run_details \<Rightarrow> run_details" where
  "sanitizeRunDetails d =
     d\<lparr>rd_jobs := map (\<lambda>j. j\<lparr>jd_attempts := map (\<lambda>a. a\<lparr>att_lease_id := None\<rparr>) (jd_attempts j)\<rparr>) (rd_jobs d)\<rparr>"

definition http_get_run :: "string \<Rightarrow> world \<Rightarrow> reply \<times> world" where
  "http_get_run rid w =
     (case svc_GetRunDetails rid w of
        (Inl e, w') \<Rightarrow> writeError (if is_not_found e then StatusNotFound else StatusInternalServerError) e w'
      | (Inr d, w') \<Rightarrow> writeJSON StatusOK (BodyDetails (sanitizeRunDetails d)) w')"

definition http_cancel_run :: "service \<Rightarrow> string \<Rightarrow> world \<Rightarrow> reply \<times> world" where
  "http_cancel_run S rid w =
     (case svc_CancelRun S rid w of
        (Inl e, w') \<Rightarrow>
          writeError (if IsTransitionError e \<or> is_invalid_run_state e then StatusConflict else StatusBadRequest) e w'
      | (Inr d, w') \<Rightarrow> writeJSON StatusOK (BodyFields (run_fields d)) w')"

definition http_rerun_run :: "service \<Rightarrow> string \<Rightarrow> http_in \<Rightarrow> world \<Rightarrow> reply \<times> world" where
  "http_rerun_run S rid r w =
     (let idempotencyKey = header_Get r ''Idempotency-Key'' in
      if idempotencyKey = '''' then writeError StatusBadRequest (PlainError ''Idempotency-Key header required'') w
      else case svc_RerunRun S rid idempotencyKey w of
        (Inl e, w') \<Rightarrow> writeError (if IsTransitionError e then StatusConflict else StatusBadRequest) e w'
      | (Inr (d, created), w') \<Rightarrow>
          writeJSON (if created then StatusCreated else StatusOK)
            (BodyFields (run_fields d @ [(''original_run'', rid), (''created'', if created then ''true'' else ''false''),
               (''idempotencyKey'', idempotencyKey)])) w')"

definition http_runs :: "service \<Rightarrow> handler" where
  "http_runs S r w =
     (case parseRunPath (in_path r) of
        None \<Rightarrow> no_body StatusNotFound w
      | Some (rid, action) \<Rightarrow>
          if in_method r = ''GET'' then (if action \<noteq> '''' then no_body StatusNotFound w else http_get_run rid w)
          else if in_method r \<noteq> ''POST'' then no_body StatusMethodNotAllowed w
          else if action = '''' then no_body StatusNotFound w
          else if action = ''cancel'' then http_cancel_run S rid w
          else if action = ''rerun'' then http_rerun_run S rid r w
          else no_body StatusNotFound w)"

section \<open>The mux (NewHTTPHandler)\<close>

text \<open>
  \<open>http.ServeMux\<close> redirects a path that is not clean, and the name of a subtree without its
  final slash; the patterns of the program are exact but for \<open>/api/v1/runs/\<close>.
\<close>

definition cleanPath :: "string \<Rightarrow> string" where
  "cleanPath p =
     (if p = '''' then ''/''
      else
        let q = (if HasPrefix p ''/'' then p else CHR ''/'' # p); np = Clean q in
        if HasSuffix q ''/'' \<and> np \<noteq> ''/'' then np @ ''/'' else np)"

definition configured :: "http_config \<Rightarrow> http_config" where
  "configured config =
     (if hc_GitHubWebhookMaxBytes config \<le> 0 then config\<lparr>hc_GitHubWebhookMaxBytes := 1048576\<rparr> else config)"

definition NewHTTPHandler :: "http_codec \<Rightarrow> service \<Rightarrow> http_config \<Rightarrow> handler" where
  "NewHTTPHandler K S config r w =
     (let path = in_path r in
      if (in_method r \<noteq> ''CONNECT'' \<and> cleanPath path \<noteq> path) \<or> path = ''/api/v1/runs''
      then no_body StatusMovedPermanently w
      else if path = ''/metrics'' then writeJSON StatusOK (BodyMetrics (w_metrics w)) w
      else if path = ''/healthz'' then no_body StatusOK w
      else if path = ''/api/v1/internal/ack-lease'' then http_ack_lease K S r w
      else if path = ''/api/v1/internal/heartbeat'' then http_heartbeat K S r w
      else if path = ''/api/v1/internal/complete'' then http_complete K S r w
      else if path = ''/api/v1/internal/cancel-ack'' then http_cancel_ack K S r w
      else if path = ''/api/v1/webhooks/github'' then http_webhook K (configured config) S r w
      else if HasPrefix path ''/api/v1/runs/'' then http_runs S r w
      else no_body StatusNotFound w)"

end
