(* ===== verification/Commands.thy ===== *)
theory Commands
  imports Production GithubReporter HttpApi
begin

text \<open>
  The orchestrator's commands (\<open>cmd/orchestrator/main.go\<close>): how a process puts the service
  together, the loops of \<open>worker\<close> and \<open>dogfood\<close>, and the lease sweeper. Opening the database,
  sockets and files, and running the runner as a child process, are the host's: what they
  answer is an argument. A child process acts on the world through the HTTP interface.
\<close>

section \<open>The reporter of a process (buildGitHubReporter)\<close>

record github_flags =
  gf_token :: string
  gf_app_id :: string
  gf_installation_id :: string
  gf_private_key :: string
  gf_private_key_file :: string
  gf_api_url :: string
  gf_check_name :: string

text \<open>\<open>strings.ReplaceAll(key, "\\n", "\n")\<close>: a backslash and an \<open>n\<close> become a line feed.\<close>

fun unescape_newlines :: "string \<Rightarrow> string" where
  "unescape_newlines [] = []"
| "unescape_newlines [c] = [c]"
| "unescape_newlines (a # b # s) =
     (if a = CHR 0x5C \<and> b = CHR ''n'' then CHR 0x0A # unescape_newlines s else a # unescape_newlines (b # s))"

definition loadGitHubAppKey :: "(string \<Rightarrow> string + string) \<Rightarrow> string \<Rightarrow> string \<Rightarrow> string + string" where
  "loadGitHubAppKey read_file rawKey keyFile =
     (if keyFile \<noteq> '''' then read_file keyFile
      else if rawKey = '''' then Inl ''github app private key required''
      else Inr (unescape_newlines rawKey))"

text \<open>
  \<open>client\<close> holds what a client gets from the standard library; \<open>answers\<close> is how a provider
  answers in the worlds to come. No reporter is \<open>NoopStatusReporter\<close>.
\<close>

definition buildGitHubReporter :: "(string \<Rightarrow> string + string) \<Rightarrow> 'k app_env \<Rightarrow> github_client \<Rightarrow>
    ('k token_provider \<Rightarrow> string gh_answer) \<Rightarrow> (go_time \<Rightarrow> string) \<Rightarrow> github_flags \<Rightarrow> string + reporter option" where
  "buildGitHubReporter read_file E client answers fmt f =
     (if gf_app_id f \<noteq> '''' \<or> gf_installation_id f \<noteq> '''' \<or> gf_private_key f \<noteq> '''' \<or> gf_private_key_file f \<noteq> '''' then
        if gf_app_id f = '''' \<or> gf_installation_id f = '''' then Inl ''github app id and installation id required''
        else case loadGitHubAppKey read_file (gf_private_key f) (gf_private_key_file f) of
          Inl e \<Rightarrow> Inl e
        | Inr key \<Rightarrow>
            let c = NewAppClient None (gc_Do client) (gc_marshal client) (gc_decode_id client);
                c1 = (if gf_api_url f \<noteq> '''' then c\<lparr>gc_BaseURL := gf_api_url f\<rparr> else c) in
            (case NewAppTokenProvider E (gf_app_id f) (gf_installation_id f) key (gc_BaseURL c1) of
               Inl e \<Rightarrow> Inl (gh_error_text e)
             | Inr provider \<Rightarrow>
                 Inr (Some (NewReporter (Some (c1\<lparr>gc_TokenProvider := Some (answers provider)\<rparr>)) (gf_check_name f) fmt)))
      else if gf_token f = '''' then Inr None
      else
        let c = NewClient (gf_token f) (gc_Do client) (gc_marshal client) (gc_decode_id client);
            c1 = (if gf_api_url f \<noteq> '''' then c\<lparr>gc_BaseURL := gf_api_url f\<rparr> else c) in
        Inr (Some (NewReporter (Some c1) (gf_check_name f) fmt)))"

text \<open>The service of \<open>serve\<close> and \<open>dogfood\<close>; that of \<open>worker\<close> is \<open>production_service\<close>.\<close>

definition server_service :: "planner_env \<Rightarrow> reporter option \<Rightarrow> (nat \<Rightarrow> string option) \<Rightarrow> service" where
  "server_service E R rand =
     NewService (Some (DiffPlanner_Plan E (NewDiffPlanner '''' None (Some recipeStore_FindRecipe))))
       (Some QueueDispatcher_EnqueueJobAttempt) None
       (case R of None \<Rightarrow> Some NoopStatusReporter_ReportRun | Some r \<Rightarrow> Some (Reporter_ReportRun r)) None rand"

section \<open>Launching the runner (runRunner)\<close>

record worker_config =
  wk_orchestrator_url :: string
  wk_runner_id :: string
  wk_workdir :: string
  wk_runner_cmd :: string
  wk_log_dir :: string
  wk_lease_dir :: string
  wk_s3_bucket :: string
  wk_s3_prefix :: string
  wk_s3_region :: string
  wk_visibility_timeout :: int
  wk_continue_on_runner_error :: bool

text \<open>The program and its arguments.\<close>

definition runner_argv :: "worker_config \<Rightarrow> string \<Rightarrow> string \<Rightarrow> string + string \<times> string list" where
  "runner_argv cfg leasePath logPath =
     (case Fields (wk_runner_cmd cfg) of
        [] \<Rightarrow> Inl ''runner-cmd is empty''
      | program # args \<Rightarrow>
          Inr (program, args @ [''-orchestrator'', wk_orchestrator_url cfg, ''-runner-id'', wk_runner_id cfg,
               ''-lease'', leasePath, ''-workdir'', wk_workdir cfg, ''-log'', logPath]
             @ (if wk_s3_bucket cfg \<noteq> '''' then [''-s3-bucket'', wk_s3_bucket cfg] else [])
             @ (if wk_s3_prefix cfg \<noteq> '''' then [''-s3-prefix'', wk_s3_prefix cfg] else [])
             @ (if wk_s3_region cfg \<noteq> '''' then [''-s3-region'', wk_s3_region cfg] else [])))"

text \<open>\<open>wh_write\<close> writes the lease file; \<open>wh_exec\<close> runs a child to its end.\<close>

record worker_host =
  wh_write :: "string \<Rightarrow> lease_granted \<Rightarrow> string option"
  wh_exec :: "string \<times> string list \<Rightarrow> world \<Rightarrow> string option \<times> world"

definition runRunner :: "worker_config \<Rightarrow> worker_host \<Rightarrow> string \<Rightarrow> string \<Rightarrow> world \<Rightarrow> string option \<times> world" where
  "runRunner cfg host leasePath logPath w =
     (case runner_argv cfg leasePath logPath of Inl e \<Rightarrow> (Some e, w) | Inr argv \<Rightarrow> wh_exec host argv w)"

section \<open>One attempt: the body shared by the loops\<close>

datatype round = RoundIdle | RoundDone | RoundFinished | RoundStop go_error

fun is_queue_empty :: "go_error \<Rightarrow> bool" where
  "is_queue_empty ErrQueueEmpty = True"
| "is_queue_empty (Wrapped _ e) = is_queue_empty e"
| "is_queue_empty _ = False"

definition worker_lease :: "worker_config \<Rightarrow> string \<Rightarrow> grant_lease_request" where
  "worker_lease cfg attemptID = \<lparr>glr_attempt_id = attemptID, glr_runner_id = wk_runner_id cfg, glr_ttl_seconds = 120,
     glr_heartbeat_seconds = 30, glr_max_runtime_seconds = 0\<rparr>"

text \<open>Lease the attempt, write the lease, run the runner.\<close>

definition run_attempt :: "service \<Rightarrow> worker_config \<Rightarrow> worker_host \<Rightarrow> string \<Rightarrow> world \<Rightarrow> round \<times> world" where
  "run_attempt S cfg host attemptID w =
     (case svc_GrantLease S (worker_lease cfg attemptID) w of
        (Inl e, w1) \<Rightarrow> (RoundStop e, w1)
      | (Inr lease, w1) \<Rightarrow>
          let leasePath = PathJoin [wk_lease_dir cfg, attemptID @ ''.json''];
              logPath = PathJoin [wk_log_dir cfg, attemptID @ ''.log''] in
          case wh_write host leasePath lease of
            Some e \<Rightarrow> (RoundStop (PlainError e), w1)
          | None \<Rightarrow>
              (case runRunner cfg host leasePath logPath w1 of
                 (Some e, w2) \<Rightarrow> (if wk_continue_on_runner_error cfg then RoundDone else RoundStop (PlainError e), w2)
               | (None, w2) \<Rightarrow> (RoundDone, w2)))"

section \<open>The worker (runWorker)\<close>

definition worker_flags_error :: "string \<Rightarrow> worker_config \<Rightarrow> string option" where
  "worker_flags_error databaseURL cfg =
     (if databaseURL = '''' then Some ''database-url or DATABASE_URL required''
      else if wk_orchestrator_url cfg = '''' then Some ''orchestrator-url required''
      else if wk_runner_id cfg = '''' then Some ''runner-id required''
      else None)"

definition worker_round :: "service \<Rightarrow> worker_config \<Rightarrow> worker_host \<Rightarrow> world \<Rightarrow> round \<times> world" where
  "worker_round S cfg host w =
     (case svc_DequeueJobAttempt (wk_visibility_timeout cfg) w of
        (Inl e, w1) \<Rightarrow> (if is_queue_empty e then RoundIdle else RoundStop e, w1)
      | (Inr attemptID, w1) \<Rightarrow> run_attempt S cfg host attemptID w1)"

section \<open>The dogfood loop (runDogfood)\<close>

definition isTerminalRun :: "run_state \<Rightarrow> bool" where
  "isTerminalRun st = (st \<in> {RunStateSuccess, RunStateFailed, RunStateCanceled, RunStateTimeout, RunStateReported})"

definition idle_timeout :: int where
  "idle_timeout = 120 * time_second"

text \<open>The second component is the time of the last activity.\<close>

definition dogfood_round :: "service \<Rightarrow> worker_config \<Rightarrow> worker_host \<Rightarrow> string \<Rightarrow> go_time \<Rightarrow> world \<Rightarrow> round \<times> go_time \<times> world" where
  "dogfood_round S cfg host rid active w =
     (case store_GetRun rid w of
        (Inl e, w0) \<Rightarrow> (RoundStop e, active, w0)
      | (Inr r, w0) \<Rightarrow>
          if isTerminalRun (run_state r) then (RoundFinished, active, w0)
          else case svc_DequeueJobAttempt (wk_visibility_timeout cfg) w0 of
            (Inl e, w1) \<Rightarrow>
              ((if \<not> is_queue_empty e then RoundStop e
                else if host_now w1 - active > idle_timeout
                then RoundStop (PlainError ''idle timeout waiting for queued attempts'')
                else RoundIdle), active, w1)
          | (Inr attemptID, w1) \<Rightarrow>
              (case run_attempt S cfg host attemptID w1 of (res, w2) \<Rightarrow> (res, host_now w1, w2)))"

section \<open>The sweeper (startLeaseSweeper)\<close>

definition sweeper_interval :: "int \<Rightarrow> int" where
  "sweeper_interval interval = (if interval \<le> 0 then 5 * time_second else interval)"

text \<open>One tick; its error only goes to the log.\<close>

definition sweep_tick :: "world \<Rightarrow> world" where
  "sweep_tick w = world_after (svc_ExpireLeases 25) w"

section \<open>Starting a process (openDB, runServe, runDogfood, runWorker)\<close>

text \<open>
  What the host answers: errors of \<open>sql.Open\<close>, of the ping, of the migrations and of
  \<open>MkdirAll\<close>, the port of a listener, and the name of a fresh directory.
\<close>

record process_host =
  ph_open :: "string \<Rightarrow> string option"
  ph_ping :: "string \<Rightarrow> string option"
  ph_migrate :: "string \<Rightarrow> string option"
  ph_listen :: "string \<Rightarrow> string + int"
  ph_mkdir :: "string \<Rightarrow> string option"
  ph_mkdir_temp :: "string \<Rightarrow> string + string"

definition openDB :: "process_host \<Rightarrow> string \<Rightarrow> string option" where
  "openDB host databaseURL = (case ph_open host databaseURL of Some e \<Rightarrow> Some e | None \<Rightarrow> ph_ping host databaseURL)"

definition open_store :: "process_host \<Rightarrow> string \<Rightarrow> string option" where
  "open_store host databaseURL = (case openDB host databaseURL of Some e \<Rightarrow> Some e | None \<Rightarrow> ph_migrate host databaseURL)"

text \<open>The flags after parsing, with their defaults; \<open>getenv\<close> is \<open>os.Getenv\<close>.\<close>

definition default_github_flags :: "(string \<Rightarrow> string) \<Rightarrow> github_flags" where
  "default_github_flags getenv = \<lparr>gf_token = getenv ''GITHUB_TOKEN'', gf_app_id = getenv ''GITHUB_APP_ID'',
     gf_installation_id = getenv ''GITHUB_APP_INSTALLATION_ID'', gf_private_key = getenv ''GITHUB_APP_PRIVATE_KEY'',
     gf_private_key_file = getenv ''GITHUB_APP_PRIVATE_KEY_FILE'', gf_api_url = getenv ''GITHUB_API_URL'',
     gf_check_name = getenv ''GITHUB_CHECK_NAME''\<rparr>"

record serve_flags =
  sf_database_url :: string
  sf_listen :: string
  sf_webhook_secret :: string
  sf_github :: github_flags

definition default_serve_flags :: "(string \<Rightarrow> string) \<Rightarrow> serve_flags" where
  "default_serve_flags getenv = \<lparr>sf_database_url = getenv ''DATABASE_URL'', sf_listen = '':8080'',
     sf_webhook_secret = getenv ''GITHUB_WEBHOOK_SECRET'', sf_github = default_github_flags getenv\<rparr>"

record server_process =
  sp_service :: service
  sp_config :: http_config
  sp_listen :: string
  sp_sweep_interval :: int

text \<open>\<open>build\<close> is \<open>buildGitHubReporter\<close> over the host.\<close>

definition runServe :: "process_host \<Rightarrow> (github_flags \<Rightarrow> string + reporter option) \<Rightarrow> planner_env \<Rightarrow>
    (nat \<Rightarrow> string option) \<Rightarrow> serve_flags \<Rightarrow> string + server_process" where
  "runServe host build E rand f =
     (if sf_database_url f = '''' then Inl ''database-url or DATABASE_URL required''
      else case open_store host (sf_database_url f) of
        Some e \<Rightarrow> Inl e
      | None \<Rightarrow>
          (case build (sf_github f) of
             Inl e \<Rightarrow> Inl e
           | Inr R \<Rightarrow> Inr \<lparr>sp_service = server_service E R rand,
               sp_config = \<lparr>hc_GitHubWebhookSecret = sf_webhook_secret f, hc_GitHubWebhookMaxBytes = 0\<rparr>,
               sp_listen = sf_listen f, sp_sweep_interval = sweeper_interval (5 * time_second)\<rparr>))"

record dogfood_flags =
  df_database_url :: string
  df_listen :: string
  df_repo_id :: string
  df_ref :: string
  df_commit_sha :: string
  df_worker :: worker_config
  df_github :: github_flags

definition default_dogfood_flags :: "(string \<Rightarrow> string) \<Rightarrow> dogfood_flags" where
  "default_dogfood_flags getenv = \<lparr>df_database_url = getenv ''DATABASE_URL'', df_listen = '':8080'',
     df_repo_id = ''delta-ci'', df_ref = ''refs/heads/phase_0'', df_commit_sha = ''local'',
     df_worker = \<lparr>wk_orchestrator_url = '''', wk_runner_id = ''dogfood-runner'', wk_workdir = ''.'',
       wk_runner_cmd = ''go run ./runner'', wk_log_dir = ''.delta-ci/logs'', wk_lease_dir = '''',
       wk_s3_bucket = '''', wk_s3_prefix = '''', wk_s3_region = '''', wk_visibility_timeout = 30 * time_second,
       wk_continue_on_runner_error = False\<rparr>,
     df_github = default_github_flags getenv\<rparr>"

text \<open>The two directories of a loop: that of the logs, and a fresh one for the lease files.\<close>

definition loop_dirs :: "process_host \<Rightarrow> string \<Rightarrow> string \<Rightarrow> string + string" where
  "loop_dirs host logDir pattern =
     (case ph_mkdir host logDir of Some e \<Rightarrow> Inl e | None \<Rightarrow> ph_mkdir_temp host pattern)"

text \<open>
  \<open>runDogfood\<close> up to its loop: the service, the configuration of the loop with the address
  of the process' own server, and the run it waits for.
\<close>

definition dogfood_start :: "process_host \<Rightarrow> (github_flags \<Rightarrow> string + reporter option) \<Rightarrow> planner_env \<Rightarrow>
    (nat \<Rightarrow> string option) \<Rightarrow> dogfood_flags \<Rightarrow> world \<Rightarrow> (go_error + service \<times> worker_config \<times> string) \<times> world" where
  "dogfood_start host build E rand f w =
     (if df_database_url f = '''' then (Inl (PlainError ''database-url or DATABASE_URL required''), w)
      else case open_store host (df_database_url f) of
        Some e \<Rightarrow> (Inl (PlainError e), w)
      | None \<Rightarrow>
      (case build (df_github f) of
        Inl e \<Rightarrow> (Inl (PlainError e), w)
      | Inr R \<Rightarrow>
      (case ph_listen host (df_listen f) of
        Inl e \<Rightarrow> (Inl (PlainError e), w)
      | Inr port \<Rightarrow>
          let S = server_service E R rand; baseURL = ''http://127.0.0.1:'' @ Itoa port in
          (case svc_CreateRun S \<lparr>crr_repo_id = df_repo_id f, crr_ref = df_ref f, crr_commit_sha = df_commit_sha f\<rparr> w of
             (Inl e, w1) \<Rightarrow> (Inl e, w1)
           | (Inr d, w1) \<Rightarrow>
               (case loop_dirs host (wk_log_dir (df_worker f)) ''delta-ci-leases'' of
                  Inl e \<Rightarrow> (Inl (PlainError e), w1)
                | Inr leaseDir \<Rightarrow>
                    (Inr (S, (df_worker f)\<lparr>wk_orchestrator_url := baseURL, wk_lease_dir := leaseDir\<rparr>, run_id (rd_run d)), w1))))))"

record worker_flags =
  wf_database_url :: string
  wf_worker :: worker_config
  wf_poll_interval :: int

definition default_worker_flags :: "(string \<Rightarrow> string) \<Rightarrow> worker_flags" where
  "default_worker_flags getenv = \<lparr>wf_database_url = getenv ''DATABASE_URL'',
     wf_worker = \<lparr>wk_orchestrator_url = ''http://localhost:8080'', wk_runner_id = ''local-worker'', wk_workdir = ''.'',
       wk_runner_cmd = ''go run ./runner'', wk_log_dir = ''.delta-ci/logs'', wk_lease_dir = '''',
       wk_s3_bucket = '''', wk_s3_prefix = '''', wk_s3_region = '''', wk_visibility_timeout = 30 * time_second,
       wk_continue_on_runner_error = True\<rparr>,
     wf_poll_interval = 2 * time_second\<rparr>"

text \<open>\<open>runWorker\<close> up to its loop.\<close>

definition worker_start :: "process_host \<Rightarrow> planner_env \<Rightarrow> (nat \<Rightarrow> string option) \<Rightarrow> worker_flags \<Rightarrow>
    string + service \<times> worker_config" where
  "worker_start host E rand f =
     (case worker_flags_error (wf_database_url f) (wf_worker f) of
        Some e \<Rightarrow> Inl e
      | None \<Rightarrow>
      (case open_store host (wf_database_url f) of
        Some e \<Rightarrow> Inl e
      | None \<Rightarrow>
      (case loop_dirs host (wk_log_dir (wf_worker f)) ''delta-ci-worker-leases'' of
        Inl e \<Rightarrow> Inl e
      | Inr leaseDir \<Rightarrow> Inr (production_service E rand, (wf_worker f)\<lparr>wk_lease_dir := leaseDir\<rparr>))))"

section \<open>The command line (main)\<close>

datatype command = CmdServe "string list" | CmdDogfood "string list" | CmdWorker "string list"

text \<open>No command is usage and exit status 1.\<close>

definition main_command :: "string list \<Rightarrow> command option" where
  "main_command args =
     (case args of
        _ # name # rest \<Rightarrow>
          if name = ''serve'' then Some (CmdServe rest)
          else if name = ''dogfood'' then Some (CmdDogfood rest)
          else if name = ''worker'' then Some (CmdWorker rest)
          else None
      | _ \<Rightarrow> None)"

end
