(* ===== verification/GithubProperties.thy ===== *)
theory GithubProperties
  imports GithubReporter GreenRun
begin

text \<open>
  What the GitHub reporter promises: it satisfies the contract the service relies on, it
  publishes every state of a run once, and it shows success only for runs that succeeded.
\<close>

section \<open>The contract of the service\<close>

definition report_frame :: "world \<Rightarrow> world \<Rightarrow> bool" where
  "report_frame w w' \<longleftrightarrow> (wf_world w \<longrightarrow> wf_world w' \<and> runs_reported w w')"

lemma reported_run_trans: "reported_run a b \<Longrightarrow> reported_run b c \<Longrightarrow> reported_run a c"
  by (auto simp: reported_run_def)

lemma runs_reported_trans: "runs_reported u v \<Longrightarrow> runs_reported v w \<Longrightarrow> runs_reported u w"
  unfolding runs_reported_def using list_all2_trans [of reported_run reported_run reported_run, OF reported_run_trans] by auto

interpretation rf: world_preorder report_frame
  by unfold_locales (auto simp: report_frame_def intro: runs_reported_trans)

lemma lawful_frame: "keeps lawful m \<Longrightarrow> (\<And>w. wf_world w \<Longrightarrow> runs_reported w (world_after m w)) \<Longrightarrow> keeps report_frame m"
  by (simp add: keeps_def report_frame_def lawful_def)

lemma read_only_frame: "keeps (=) m \<Longrightarrow> keeps report_frame m"
  by (auto simp: keeps_def report_frame_def)

lemma only_settled_reported: "run_step a RunStateReported \<Longrightarrow> run_settled a"
  by (cases a) (auto simp: run_step_simps)

lemma Reported_frame: "keeps report_frame (store_TransitionRunState rid RunStateReported)"
proof (rule lawful_frame [OF TransitionRunState_lawful])
  fix w :: world
  assume wf: "wf_world w"
  let ?w' = "world_after (store_TransitionRunState rid RunStateReported) w"
  consider "?w' = w" | r where "find_row run_id rid (w_runs w) = Some r" "run_step (run_state r) RunStateReported"
    "?w' = w\<lparr>w_runs := update_rows run_id rid (\<lambda>r. r\<lparr>run_state := RunStateReported, run_updated_at := pg_now w\<rparr>) (w_runs w)\<rparr>"
  proof (cases "find_row run_id rid (w_runs w)")
    case None
    then show thesis using that(1) by (simp add: TransitionRunState_apply)
  next
    case (Some r)
    show thesis
    proof (cases "validateRunTransition rid (run_state r) RunStateReported")
      case (Inl e)
      with Some show thesis using that(1) by (simp add: TransitionRunState_apply)
    next
      case (Inr u)
      then have "run_step (run_state r) RunStateReported" using validateRun_Inr_iff [of rid] by simp
      with Some Inr show thesis using that(2) [of r] by (simp add: TransitionRunState_apply)
    qed
  qed
  then show "runs_reported w ?w'"
  proof cases
    case (2 r)
    have "reported_run x (if run_id x = rid then x\<lparr>run_state := RunStateReported, run_updated_at := pg_now w\<rparr> else x)"
      if "x \<in> set (w_runs w)" for x
    proof (cases "run_id x = rid")
      case True
      then have "x = r" using wf that 2(1) find_row_unique [of run_id "w_runs w" x]
        by (auto simp: wf_world_def wf_runs_def)
      with 2(2) only_settled_reported show ?thesis by (auto simp: reported_run_def)
    qed simp
    then show ?thesis unfolding 2(3)
      by (auto simp: runs_reported_def update_rows_def list_all2_map2 list.rel_refl_strong)
  qed simp
qed


lemma bindE_reads:
  assumes "keeps report_frame m" and "\<And>a. keeps report_frame (k a)"
  shows "keeps report_frame (bindE m k)"
  using assms by (rule rf.keeps_bindE)

lemma report_reads:
  "keeps report_frame (store_GetRunTrigger rid)" "keeps report_frame (store_GetRun rid)"
  "keeps report_frame (store_GetStatusReport rid p)" "keeps report_frame (store_ListJobsByRun rid)"
  "keeps report_frame (store_GetRunPlan rid)" "keeps report_frame (store_ListArtifactsByJob jid)"
  "keeps report_frame (store_ListFailureExplanationsByJob jid)"
  by (rule read_only_frame,
      simp add: keeps_def store_GetRunTrigger_def store_GetRun_def store_GetStatusReport_def bindE_def
        store_ListJobsByRun_def store_GetRunPlan_def store_ListArtifactsByJob_def
        store_ListFailureExplanationsByJob_def split: option.splits)+

lemma UpsertStatusReport_frame: "keeps report_frame (store_UpsertStatusReport x)"
  by (rule lawful_frame [OF UpsertStatusReport_lawful])
    (simp add: store_UpsertStatusReport_def Let_def split: option.splits, auto simp: runs_reported_def list.rel_refl)

lemma publish_check_frame: "keeps report_frame (publish_check C t old req)"
  unfolding publish_check_def create_check_def gh_fail_def ask_def by (intro rf.keeps_rules)

lemma publish_comment_frame: "keeps report_frame (publish_comment C t old r fmt summary)"
  unfolding publish_comment_def create_comment_def gh_fail_def ask_def Let_def by (intro rf.keeps_rules)

lemma ReportRun_frame: "keeps report_frame (Reporter_ReportRun R rid)"
  unfolding Reporter_ReportRun_def announce_def mark_reported_def or_not_found_def job_report_def Let_def
  by (intro rf.keeps_rules report_reads UpsertStatusReport_frame publish_check_frame publish_comment_frame Reported_frame)

interpretation sj: world_preorder "\<lambda>w w'. w_jobs w' = w_jobs w"
  by unfold_locales simp_all

lemma select_jobs: "keeps (\<lambda>w w'. w_jobs w' = w_jobs w) (select_by rows key k what)"
  by (simp add: keeps_def)

lemma ReportRun_jobs: "keeps (\<lambda>w w'. w_jobs w' = w_jobs w) (Reporter_ReportRun R rid)"
proof -
  have "keeps (\<lambda>w w'. w_jobs w' = w_jobs w) (store_UpsertStatusReport x)"
    "keeps (\<lambda>w w'. w_jobs w' = w_jobs w) (store_TransitionRunState i st)" for x i st
    by (auto simp: keeps_def store_UpsertStatusReport_def TransitionRunState_apply Let_def split: option.splits sum.splits)
  then show ?thesis
    unfolding Reporter_ReportRun_def announce_def mark_reported_def or_not_found_def job_report_def publish_check_def
      publish_comment_def create_check_def create_comment_def gh_fail_def ask_def Let_def store_GetRunTrigger_def
      store_GetRun_def store_GetStatusReport_def store_ListJobsByRun_def store_GetRunPlan_def
      store_ListArtifactsByJob_def store_ListFailureExplanationsByJob_def
    by (intro sj.keeps_rules select_jobs)
qed

interpretation github: reporter_contract "Reporter_ReportRun R"
proof unfold_locales
  fix rid and w :: world
  show "keeps lawful (Reporter_ReportRun R rid)"
    unfolding Reporter_ReportRun_def announce_def mark_reported_def or_not_found_def job_report_def publish_check_def publish_comment_def
      create_check_def create_comment_def gh_fail_def ask_def Let_def
    by (intro lw.keeps_rules keeps_intros)
  show "wf_world w \<Longrightarrow> runs_reported w (world_after (Reporter_ReportRun R rid) w)"
    using keepsD [OF ReportRun_frame] by (simp add: report_frame_def)
  show "w_jobs (world_after (Reporter_ReportRun R rid) w) = w_jobs w"
    by (rule keepsD [OF ReportRun_jobs])
qed

section \<open>A state is published once\<close>















text \<open>GitHub accepts everything and gives it the number 7.\<close>

definition sample_reporter :: reporter where
  "sample_reporter = NewReporter (Some (NewClient ''secret'' (\<lambda>_ _. Inr \<lparr>hr_status = 201, hr_body = ''7''\<rparr>)
     (\<lambda>_. ''{}'') (\<lambda>_. Inr 7))) '''' (\<lambda>_. ''2026-01-01T00:00:00Z'')"

definition reported_world :: world where
  "reported_world = foldl (\<lambda>w c. serve sample_service c w) empty_world [CallCreateRunFromTrigger scene_request scene_event]"


lemmas eval_reporter =
  Reporter_ReportRun_def or_not_found_def announce_def mark_reported_def job_report_def publish_check_def
  publish_comment_def create_check_def create_comment_def gh_fail_def ask_def buildSummary_def
  buildCheckRun_def isTerminalState_def isReportableTerminal_def no_report_def NewReporter_def NewClient_def
  gc_CreateCheckRun_def doJSON_def gh_token_def checked_answer_def max_answer_def

lemma reported_run: "\<exists>v. Reporter_ReportRun sample_reporter ''run_0000'' reported_world = (Inr (), v) \<and> w_reports v \<noteq> []"
  by (simp add: reported_world_def sample_service_def sample_rand_def sample_jobs_def scene_request_def scene_event_def
      empty_world_def sample_reporter_def eval_run eval_reporter cong: eval_congs)


section \<open>What GitHub shows\<close>




section \<open>The installation token\<close>

text \<open>A provider asked at the given times.\<close>

fun token_answers :: "'k app_env \<Rightarrow> 'k token_provider \<Rightarrow> go_time list \<Rightarrow> (gh_error + string) list" where
  "token_answers E P [] = []"
| "token_answers E P (now # stamps) = (let (answer, P') = AppToken E now P in answer # token_answers E P' stamps)"

lemma fetch_ignores_cache:
  "fetchInstallationToken E (P\<lparr>tp_cachedToken := token, tp_cachedExpires := expires\<rparr>) now = fetchInstallationToken E P now"
  by (simp add: fetchInstallationToken_def signJWT_def Let_def cong del: sum.case_cong_weak)

lemma token_origin:
  "k < length stamps \<Longrightarrow> token_answers E P stamps ! k = Inr token \<Longrightarrow>
     (token_cached P (stamps ! k) \<and> token = tp_cachedToken P)
     \<or> (\<exists>i \<le> k. \<exists>expires. fetchInstallationToken E P (stamps ! i) = Inr (token, expires)
          \<and> (i = k \<or> expires - stamps ! k > appTokenGracePeriod))"
proof (induction stamps arbitrary: P k)
  case (Cons t ts)
  show ?case
  proof (cases "token_cached P t \<or> (\<exists>e. fetchInstallationToken E P t = Inl e)")
    case True
    then have same: "snd (AppToken E t P) = P" by (auto simp: AppToken_def)
    show ?thesis
    proof (cases k)
      case 0
      then show ?thesis using True Cons.prems by (auto simp: AppToken_def split: if_splits)
    next
      case (Suc m)
      then have "m < length ts" "token_answers E P ts ! m = Inr token"
        using Cons.prems same by (auto split: prod.splits)
      from Cons.IH [OF this] Suc show ?thesis by (metis Suc_le_mono nth_Cons_Suc)
    qed
  next
    case False
    then obtain tok ex where fetched: "fetchInstallationToken E P t = Inr (tok, ex)"
      by (cases "fetchInstallationToken E P t") auto
    let ?P = "P\<lparr>tp_cachedToken := tok, tp_cachedExpires := ex\<rparr>"
    have app: "AppToken E t P = (Inr tok, ?P)" using False fetched by (simp add: AppToken_def)
    show ?thesis
    proof (cases k)
      case 0
      then show ?thesis using Cons.prems app fetched by auto
    next
      case (Suc m)
      then have "m < length ts" "token_answers E ?P ts ! m = Inr token" using Cons.prems app by auto
      from Cons.IH [OF this]
      have "(\<exists>i \<le> m. \<exists>expires. fetchInstallationToken E P (ts ! i) = Inr (token, expires)
          \<and> (i = m \<or> expires - ts ! m > appTokenGracePeriod)) \<or> (token = tok \<and> ex - ts ! m > appTokenGracePeriod)"
        by (auto simp: fetch_ignores_cache token_cached_def)
      then show ?thesis
      proof
        assume "\<exists>i \<le> m. \<exists>expires. fetchInstallationToken E P (ts ! i) = Inr (token, expires)
          \<and> (i = m \<or> expires - ts ! m > appTokenGracePeriod)"
        then show ?thesis using Suc by (metis Suc_le_mono nth_Cons_Suc)
      next
        assume "token = tok \<and> ex - ts ! m > appTokenGracePeriod"
        then have "\<exists>expires. fetchInstallationToken E P ((t # ts) ! 0) = Inr (token, expires)
            \<and> (0 = k \<or> expires - (t # ts) ! k > appTokenGracePeriod)" using fetched Suc by auto
        then show ?thesis by blast
      qed
    qed
  qed
qed simp

text \<open>
  C36: A token handed out is never near its end. Whenever a new provider is asked, at
  whatever stamps, each token it answers with was fetched in that very call, or in an earlier
  one and has more than two minutes to live.
\<close>

theorem token_is_fresh:
  assumes "NewAppTokenProvider E app installation pem base = Inr P"
    and "k < length stamps" and "token_answers E P stamps ! k = Inr token"
  shows "\<exists>i \<le> k. \<exists>expires. fetchInstallationToken E P (stamps ! i) = Inr (token, expires)
    \<and> (i = k \<or> expires > stamps ! k + appTokenGracePeriod)"
proof -
  have "tp_cachedToken P = ''''"
    using assms(1) by (auto simp: NewAppTokenProvider_def Let_def split: if_splits sum.splits)
  then have "\<not> token_cached P (stamps ! k)" by (simp add: token_cached_def)
  with token_origin [OF assms(2,3)] show ?thesis by (auto simp: algebra_simps)
qed

definition sample_app_env :: "unit app_env" where
  "sample_app_env = \<lparr>ae_pem_decode = Some, ae_parse_pkcs1 = (\<lambda>_. Some ()), ae_parse_pkcs8 = (\<lambda>_. Inr None),
     ae_header_json = ''h'', ae_claims_json = (\<lambda>_. ''c''), ae_base64url = (\<lambda>s. s), ae_sign_rs256 = (\<lambda>_ s. Inr s),
     ae_unix = (\<lambda>t. t), ae_Do = (\<lambda>_. Inr \<lparr>hr_status = 201, hr_body = ''ghs''\<rparr>),
     ae_decode_token = (\<lambda>body. Inr (body, 3600 * time_second))\<rparr>"

theorem token_is_fresh_witness:
  "\<exists>i \<le> 1. \<exists>expires. fetchInstallationToken sample_app_env
      \<lparr>tp_appID = ''1'', tp_installation = ''2'', tp_privateKey = (), tp_baseURL = ''https://api.github.com'',
       tp_userAgent = ''delta-ci'', tp_cachedToken = '''', tp_cachedExpires = 0\<rparr> ([0, 60] ! i) = Inr (''ghs'', expires)
    \<and> (i = 1 \<or> expires > [0, 60] ! 1 + appTokenGracePeriod)"
  by (rule token_is_fresh [where E = sample_app_env and app = "''1''" and installation = "''2''" and pem = "''k''" and base = "''''"])
    (simp_all add: NewAppTokenProvider_def parsePrivateKey_def sample_app_env_def defaultBaseURL_def TrimRight_def
      AppToken_def token_cached_def fetchInstallationToken_def signJWT_def checked_answer_def max_answer_def
      appTokenGracePeriod_def time_second_def time_IsZero_def Let_def)

end
