(* ===== verification/HttpProperties.thy ===== *)
theory HttpProperties
  imports HttpApi RunProperties
begin

text \<open>
  What the HTTP interface promises: every request is at most one call of the service, so
  whatever holds of the service holds behind HTTP; only signed deliveries start runs, and
  each event starts one.
\<close>

section \<open>A request is at most one call\<close>

definition at_most_one_call :: "service \<Rightarrow> world \<Rightarrow> world \<Rightarrow> bool" where
  "at_most_one_call S w w' \<longleftrightarrow> w' = w \<or> (\<exists>c. w' = serve S c w)"

lemma no_call [simp]: "at_most_one_call S w (snd (no_body st w))" "at_most_one_call S w (snd (writeError st e w))"
  "at_most_one_call S w (snd (writeJSON st b w))"
  by (simp_all add: no_body_def writeError_def writeJSON_def at_most_one_call_def)








section \<open>Signed deliveries\<close>

lemma split_once_at [simp]: "c \<notin> set a \<Longrightarrow> split_once (a @ c # b) c = Some (a, b)"
  by (induction a) auto

lemma split_once_SomeD: "split_once s c = Some (a, b) \<Longrightarrow> s = a @ c # b \<and> c \<notin> set a"
  by (induction s arbitrary: a) (auto split: if_splits)

lemma split_once_None: "split_once s c = None \<longleftrightarrow> c \<notin> set s"
  by (induction s) auto

text \<open>The request carries a signature of its body under the secret.\<close>

definition authentic :: "webhook_codec \<Rightarrow> string \<Rightarrow> http_in \<Rightarrow> bool" where
  "authentic K secret r \<longleftrightarrow> (\<exists>algo sig. algo \<in> {''sha1'', ''sha256''} \<and> webhook_signature r = algo @ ''='' @ sig
     \<and> hex_decode sig = Some (wc_hmac K algo secret (in_body r)))"

lemma VerifySignature_iff:
  "VerifySignature K secret (in_body r) (webhook_signature r) = Inr True \<longleftrightarrow> secret \<noteq> '''' \<and> authentic K secret r"
proof -
  have known: "split_once (algo @ ''='' @ sig) (CHR ''='') = Some (algo, sig)" if "algo \<in> {''sha1'', ''sha256''}" for algo sig
    using that split_once_at [of "CHR ''=''" algo sig] by auto
  have "VerifySignature K secret (in_body r) (webhook_signature r) = Inr True" if "secret \<noteq> ''''" "authentic K secret r"
    using that by (auto simp: VerifySignature_def authentic_def known)
  moreover have "secret \<noteq> '''' \<and> authentic K secret r"
    if "VerifySignature K secret (in_body r) (webhook_signature r) = Inr True"
    using that unfolding authentic_def
    by (fastforce simp: VerifySignature_def dest: split_once_SomeD split: option.splits if_splits)
  ultimately show ?thesis by blast
qed

lemma readBody_whole:
  "m > 0 \<Longrightarrow> readBody r m = Inr body \<longleftrightarrow>
     in_body_error r = None \<and> body = in_body r \<and> int (length (in_body r)) \<le> m"
  by (auto simp: readBody_def Let_def split: option.splits if_splits)

abbreviation webhook_path :: string where
  "webhook_path \<equiv> ''/api/v1/webhooks/github''"

lemma webhook_path_clean: "cleanPath webhook_path = webhook_path"
  by code_simp

lemma webhook_handler:
  "in_path r = webhook_path \<Longrightarrow> NewHTTPHandler K S config r w = http_webhook K (configured config) S r w"
  by (simp add: NewHTTPHandler_def webhook_path_clean)

lemma configured_limit: "hc_GitHubWebhookMaxBytes (configured config) > 0"
  "hc_GitHubWebhookSecret (configured config) = hc_GitHubWebhookSecret config"
  by (simp_all add: configured_def)

text \<open>
  C29: Only signed deliveries act. A delivery without a valid signature of its whole body
  (or too long, or cut short, or not a \<open>POST\<close>) is refused with 400, 401, 405 or 503 and changes
  nothing, not even a counter.
\<close>

theorem unsigned_deliveries_are_refused:
  assumes "in_path r = webhook_path"
    and "\<not> authentic (hk_webhook K) (hc_GitHubWebhookSecret config) r \<or> hc_GitHubWebhookSecret config = ''''
      \<or> int (length (in_body r)) > hc_GitHubWebhookMaxBytes (configured config) \<or> in_body_error r \<noteq> None
      \<or> in_method r \<noteq> ''POST''"
  shows "fst (fst (NewHTTPHandler K S config r w)) \<in> {StatusBadRequest, StatusUnauthorized, StatusMethodNotAllowed,
      StatusServiceUnavailable} \<and> snd (NewHTTPHandler K S config r w) = w"
proof (cases "in_method r \<noteq> ''POST'' \<or> hc_GitHubWebhookSecret config = ''''")
  case True
  then show ?thesis
    by (auto simp: webhook_handler [OF assms(1)] http_webhook_def configured_limit no_body_def writeError_def)
next
  case False
  show ?thesis
  proof (cases "readBody r (hc_GitHubWebhookMaxBytes (configured config))")
    case (Inl e)
    with False show ?thesis
      by (simp add: webhook_handler [OF assms(1)] http_webhook_def configured_limit no_body_def writeError_def)
  next
    case (Inr body)
    then have body: "body = in_body r" and "\<not> authentic (hk_webhook K) (hc_GitHubWebhookSecret config) r"
      using readBody_whole [OF configured_limit(1)] False assms(2) by auto
    then have "VerifySignature (hk_webhook K) (hc_GitHubWebhookSecret config) body (webhook_signature r) \<noteq> Inr True"
      using VerifySignature_iff by metis
    with False Inr show ?thesis
      by (simp add: webhook_handler [OF assms(1)] http_webhook_def configured_limit no_body_def writeError_def)
  qed
qed

section \<open>An event starts one run\<close>

text \<open>The request is a signed delivery of the event.\<close>

definition delivers :: "http_codec \<Rightarrow> http_config \<Rightarrow> http_in \<Rightarrow> webhook_event \<Rightarrow> bool" where
  "delivers K config r evt \<longleftrightarrow> in_path r = webhook_path \<and> in_method r = ''POST''
     \<and> hc_GitHubWebhookSecret config \<noteq> '''' \<and> authentic (hk_webhook K) (hc_GitHubWebhookSecret config) r
     \<and> in_body_error r = None \<and> int (length (in_body r)) \<le> hc_GitHubWebhookMaxBytes (configured config)
     \<and> NormalizeEvent (hk_webhook K) (header_Get r ''X-GitHub-Event'') (in_body r) = Inr (Some evt)"

lemma delivery_accepted:
  assumes "delivers K config r evt"
  shows "NewHTTPHandler K S config r w = accept_event K S evt w"
proof -
  have "readBody r (hc_GitHubWebhookMaxBytes (configured config)) = Inr (in_body r)"
    "VerifySignature (hk_webhook K) (hc_GitHubWebhookSecret config) (in_body r) (webhook_signature r) = Inr True"
    "header_Get r ''X-GitHub-Event'' \<noteq> ''''"
    using assms readBody_whole [OF configured_limit(1)]
    by (auto simp: delivers_def VerifySignature_iff NormalizeEvent_def EventPing_def EventPush_def EventPullRequest_def)
  with assms show ?thesis
    by (auto simp: delivers_def webhook_handler http_webhook_def configured_limit)
qed

lemma accepted_event:
  assumes "accept_event K S evt w = ((status, BodyFields f), w')"
  obtains key d created where "svc_CreateRunFromTrigger S (webhook_request evt) (webhook_trigger evt key) w = (Inr (d, created), w')"
    "ComputeEventKey (hk_webhook K) (we_repo_id evt) (we_commit_sha evt) (we_event_type evt) (we_pr_number evt) = Inr key"
    "f = run_fields d" "status = (if created then StatusCreated else StatusAccepted)"
  using assms by (auto simp: accept_event_def writeError_def writeJSON_def split: sum.splits prod.splits)

text \<open>
  C28: A redelivered event is answered with its run. Once a signed delivery has been
  answered with a run, every later signed delivery of an event with the same repository,
  commit, type and pull request, after whatever other calls, is answered 202 with the same
  run and leaves runs, jobs, attempts, leases and queue as they are.
\<close>

theorem redelivery_finds_the_run:
  assumes "service_env S" and "wf_world w"
    and first: "delivers K config r evt" "NewHTTPHandler K S config r w = ((status, BodyFields f), w')"
    and later: "(serves S)\<^sup>*\<^sup>* w' v"
    and again: "delivers K config r' evt'" "NewHTTPHandler K S config r' v = ((status', BodyFields f'), v')"
    and same: "we_repo_id evt' = we_repo_id evt" "we_commit_sha evt' = we_commit_sha evt"
      "we_event_type evt' = we_event_type evt" "we_pr_number evt' = we_pr_number evt"
  shows "status' = StatusAccepted \<and> map_of f' ''run_id'' = map_of f ''run_id'' \<and> same_core v v'"
proof -
  obtain key d created where c: "svc_CreateRunFromTrigger S (webhook_request evt) (webhook_trigger evt key) w = (Inr (d, created), w')"
    and k: "ComputeEventKey (hk_webhook K) (we_repo_id evt) (we_commit_sha evt) (we_event_type evt) (we_pr_number evt) = Inr key"
    and f: "f = run_fields d"
    by (rule accepted_event [OF first(2) [unfolded delivery_accepted [OF first(1)]]])
  obtain key' d' created' where c': "svc_CreateRunFromTrigger S (webhook_request evt') (webhook_trigger evt' key') v = (Inr (d', created'), v')"
    and k': "ComputeEventKey (hk_webhook K) (we_repo_id evt') (we_commit_sha evt') (we_event_type evt') (we_pr_number evt') = Inr key'"
    and f': "f' = run_fields d'" "status' = (if created' then StatusCreated else StatusAccepted)"
    by (rule accepted_event [OF again(2) [unfolded delivery_accepted [OF again(1)]]])
  have "key' = key" using k k' same by simp
  then have "\<not> created' \<and> run_id (rd_run d') = run_id (rd_run d) \<and> same_core v v'"
    using event_once [OF assms(1,2) c later _ _ c'] by (simp add: webhook_trigger_def)
  then show ?thesis using f f' by (simp add: run_fields_def)
qed

text \<open>A codec whose MAC and hash are one byte, and a delivery of a push signed with it.\<close>

definition sample_codec :: http_codec where
  "sample_codec = \<lparr>hk_webhook = \<lparr>wc_hmac = (\<lambda>_ secret _. secret), wc_sha256 = (\<lambda>_. ''k''),
       wc_push = (\<lambda>_. Inr \<lparr>pe_ref = ''main'', pe_after = ''c0ffee'', pe_deleted = False,
         pe_repository = \<lparr>rr_full_name = ''acme/app'', rr_name = '''', rr_owner_login = ''''\<rparr>\<rparr>),
       wc_pull_request = (\<lambda>_. Inl ''no'')\<rparr>,
     hk_AckLease = (\<lambda>_. Inl ''no''), hk_Heartbeat = (\<lambda>_. Inl ''no''), hk_Complete = (\<lambda>_. Inl ''no''),
     hk_CancelAck = (\<lambda>_. Inl ''no'')\<rparr>"

definition sample_config :: http_config where
  "sample_config = \<lparr>hc_GitHubWebhookSecret = ''k'', hc_GitHubWebhookMaxBytes = 0\<rparr>"

definition sample_delivery :: "string \<Rightarrow> http_in" where
  "sample_delivery sig = \<lparr>in_method = ''POST'', in_path = webhook_path,
     in_headers = [(''X-Hub-Signature-256'', ''sha256='' @ sig), (''X-GitHub-Event'', ''push'')],
     in_body = ''{}'', in_body_error = None\<rparr>"

definition sample_push :: webhook_event where
  "sample_push = \<lparr>we_event_type = ''push'', we_repo_id = ''acme/app'', we_repo_owner = ''acme'', we_repo_name = ''app'',
     we_ref = ''main'', we_commit_sha = ''c0ffee'', we_pr_number = None\<rparr>"

lemmas eval_webhook = sample_codec_def sample_config_def sample_delivery_def sample_push_def webhook_signature_def
  header_Get_def configured_def hex_value_def NormalizeEvent_def EventPing_def EventPush_def EventPullRequest_def
  normalizePush_def normalizeRepo_def TrimSpace_def TrimFunc_def TrimLeft_def TrimRight_def is_space_def Let_def

lemma sample_authentic: "authentic (hk_webhook sample_codec) ''k'' (sample_delivery sig) \<longleftrightarrow> hex_decode sig = Some ''k''"
proof -
  have "VerifySignature (hk_webhook sample_codec) ''k'' (in_body (sample_delivery sig)) (webhook_signature (sample_delivery sig)) = Inr True
      \<longleftrightarrow> hex_decode sig = Some ''k''"
    by (simp add: VerifySignature_def eval_webhook split: option.splits) auto
  then show ?thesis by (simp add: VerifySignature_iff)
qed

lemma sample_hex: "hex_decode ''6b'' = Some ''k''" "hex_decode ''6c'' = Some ''l''"
  by code_simp+

lemma sample_delivers: "delivers sample_codec sample_config (sample_delivery ''6b'') sample_push"
proof -
  have "authentic (hk_webhook sample_codec) ''k'' (sample_delivery ''6b'')" using sample_authentic sample_hex by blast
  moreover have "NormalizeEvent (hk_webhook sample_codec) ''push'' ''{}'' = Inr (Some sample_push)"
    by (simp add: eval_webhook)
  ultimately show ?thesis
    by (simp add: delivers_def sample_config_def configured_def sample_delivery_def header_Get_def)
qed

theorem unsigned_deliveries_are_refused_witness:
  "snd (NewHTTPHandler sample_codec sample_service sample_config (sample_delivery ''6c'') empty_world) = empty_world"
proof -
  have "\<not> authentic (hk_webhook sample_codec) (hc_GitHubWebhookSecret sample_config) (sample_delivery ''6c'')"
    using sample_authentic [of "''6c''"] by (simp only: sample_hex) (simp add: sample_config_def)
  with unsigned_deliveries_are_refused [of "sample_delivery ''6c''" sample_codec sample_config] show ?thesis
    by (simp add: sample_delivery_def)
qed

text \<open>The run was created under the key of the delivery.\<close>

definition scene_delivered :: world where
  "scene_delivered = scene_running\<lparr>w_triggers := [scene_event\<lparr>tr_event_key := ''6b''\<rparr>]\<rparr>"

lemma scene_delivered_wf: "wf_world scene_delivered"
  using inv_wf [OF scene_inv(1)]
  by (simp add: scene_delivered_def wf_world_def wf_triggers_def scene_event_def)
    (simp add: scene_running_def scene_defs)

theorem redelivery_finds_the_run_witness:
  "\<exists>f v. NewHTTPHandler sample_codec sample_service sample_config (sample_delivery ''6b'') (scene_delivered\<lparr>w_ids := Suc 0\<rparr>)
      = ((StatusAccepted, BodyFields f), v) \<and> map_of f ''run_id'' = Some ''r''
    \<and> same_core (scene_delivered\<lparr>w_ids := Suc 0\<rparr>) v"
proof -
  let ?w = "scene_delivered" and ?v = "scene_delivered\<lparr>w_ids := Suc 0\<rparr>"
  let ?H = "NewHTTPHandler sample_codec sample_service sample_config (sample_delivery ''6b'')"
  have "\<exists>st f. ?H ?w = ((st, BodyFields f), ?v) \<and> map_of f ''run_id'' = Some ''r''" "\<exists>st f v. ?H ?v = ((st, BodyFields f), v)"
    unfolding delivery_accepted [OF sample_delivers]
    by (simp_all add: accept_event_def sample_codec_def 
sample_push_def ComputeEventKey_def
        webhook_request_def webhook_trigger_def writeJSON_def run_fields_def
        eval_run scene_delivered_def scene_event_def sample_service_def sample_rand_def scene_running_def scene_defs cong: eval_congs)
  then obtain st f st' f' v where "?H ?w = ((st, BodyFields f), ?v)" "map_of f ''run_id'' = Some ''r''"
    "?H ?v = ((st', BodyFields f'), v)" by blast
  from redelivery_finds_the_run [OF sample_env scene_delivered_wf sample_delivers this(1) rtranclp.rtrancl_refl sample_delivers this(3)] this(2,3)
  show ?thesis by auto
qed

section \<open>The key of an event\<close>



end
