(* ===== verification/Deployment.thy ===== *)
theory Deployment
  imports Commands GithubProperties HttpProperties RunnerProperties
begin

text \<open>
  A deployment: the server process (HTTP interface, diff planner, GitHub reporter, sweeper)
  and worker processes on one database, with runner processes between them. Its guarantee
  is the orchestrator's invariant.
\<close>

section \<open>The services of the processes\<close>



text \<open>The handler that a started server process serves is that of one of these services.\<close>

lemma served_service:
  assumes "runServe host build E rand f = Inr P"
  obtains R where "build (sf_github f) = Inr R" and "sp_service P = server_service E R rand"
  using assms by (auto simp: runServe_def split: if_splits option.splits sum.splits)

section \<open>What happens in a deployment\<close>









section \<open>The invariant of a deployment\<close>











end
