(* ===== verification/Observability.thy ===== *)
theory Observability
  imports Types GoStrings
begin

text \<open>
  Loggers and counters (\<open>internal/observability\<close>). A logger is the list of the attributes it
  attaches, \<open>None\<close> for a nil logger. The world keeps the increments of the counters in
  order; the counters are their totals.
\<close>

section \<open>Loggers (logging.go)\<close>

type_synonym logger = "(string \<times> string) list option"

definition NewLogger :: "string \<Rightarrow> logger" where
  "NewLogger component = Some (if component \<noteq> '''' then [(''component'', component)] else [])"

definition with_attr :: "logger \<Rightarrow> string \<Rightarrow> string \<Rightarrow> logger" where
  "with_attr L name value = map_option (\<lambda>attrs. attrs @ [(name, value)]) L"

definition WithRun :: "logger \<Rightarrow> string \<Rightarrow> logger" where
  "WithRun L runID = (if L = None \<or> runID = '''' then L else with_attr L ''run_id'' runID)"

definition WithJob :: "logger \<Rightarrow> string \<Rightarrow> logger" where
  "WithJob L jobID = (if L = None \<or> jobID = '''' then L else with_attr L ''job_id'' jobID)"

definition hashLeaseID :: "(string \<Rightarrow> string) \<Rightarrow> string \<Rightarrow> string" where
  "hashLeaseID sha256 leaseID = hex_encode (take 8 (sha256 leaseID))"

definition WithLease :: "(string \<Rightarrow> string) \<Rightarrow> logger \<Rightarrow> string \<Rightarrow> logger" where
  "WithLease sha256 L leaseID =
     (if L = None \<or> leaseID = '''' then L else with_attr L ''lease_id_hash'' (hashLeaseID sha256 leaseID))"

section \<open>Counters (metrics.go)\<close>

text \<open>The four counter vectors with their label, and where an increment goes.\<close>

definition counter_vecs :: "(string \<times> string) list" where
  "counter_vecs = [(''delta_runs_total'', ''state''), (''delta_jobs_total'', ''state''),
     (''delta_leases_total'', ''state''), (''delta_failures_total'', ''type'')]"

fun counter_of :: "metric_event \<Rightarrow> string \<times> string" where
  "counter_of (IncRun st) = (''delta_runs_total'', st)"
| "counter_of (IncJob st) = (''delta_jobs_total'', st)"
| "counter_of (IncLease st) = (''delta_leases_total'', st)"
| "counter_of (IncFailure kind) = (''delta_failures_total'', kind)"

definition counter_value :: "metric_event list \<Rightarrow> string \<Rightarrow> string \<Rightarrow> nat" where
  "counter_value events name label = length (filter (\<lambda>e. counter_of e = (name, label)) events)"

text \<open>A vector that is registered already is shared: the registry holds each name once.\<close>

definition registerCounterVec :: "string list \<Rightarrow> string \<Rightarrow> string list" where
  "registerCounterVec registry name = (if name \<in> set registry then registry else registry @ [name])"

definition NewMetrics :: "string list \<Rightarrow> string list" where
  "NewMetrics registry = fold (\<lambda>(name, _) reg. registerCounterVec reg name) counter_vecs registry"

lemma registered_names:
  "set registry \<union> fst ` set vs \<subseteq> set (fold (\<lambda>(name, _) reg. registerCounterVec reg name) vs registry)"
proof (induction vs arbitrary: registry)
  case (Cons v vs)
  have "set registry \<union> {fst v} \<subseteq> set (registerCounterVec registry (fst v))" by (auto simp: registerCounterVec_def)
  then show ?case using Cons.IH [of "registerCounterVec registry (fst v)"] by (cases v) auto
qed simp

lemma registering_again:
  "fst ` set vs \<subseteq> set registry \<Longrightarrow> fold (\<lambda>(name, _) reg. registerCounterVec reg name) vs registry = registry"
  by (induction vs) (auto simp: registerCounterVec_def)

lemma counters_are_shared: "NewMetrics (NewMetrics registry) = NewMetrics registry"
  unfolding NewMetrics_def by (rule registering_again) (use registered_names [of registry counter_vecs] in blast)

lemma counters_declared: "fst (counter_of e) \<in> fst ` set counter_vecs"
  by (cases e) (simp_all add: counter_vecs_def)

end
