(* ===== verification/Migrations.thy ===== *)
theory Migrations
  imports Prelude
begin

text \<open>
  The migration runner (\<open>state/migrate.go\<close>, \<open>state/migrations/migrations.go\<close>). What a script
  does to the database is Postgres', an argument; the runner's own state is the table of
  the applied migrations, \<open>None\<close> before it exists.
\<close>

record 'd migration_db =
  md_applied :: "string list option"
  md_data :: 'd

definition all_migrations :: "string list" where
  "all_migrations = [''0001_initial'', ''0002_job_queue'', ''0003_artifacts'', ''0004_job_specs'',
     ''0005_run_triggers'', ''0006_status_reports'', ''0007_run_reruns'', ''0008_failure_explanations'',
     ''0009_job_dependencies'', ''0010_recipes'', ''0011_cache_events'', ''0012_explainability'']"

definition applied_ids :: "'d migration_db \<Rightarrow> string list" where
  "applied_ids s = (case md_applied s of None \<Rightarrow> [] | Some ids \<Rightarrow> ids)"

definition ensureSchemaMigrationsTable :: "('d migration_db, string, unit) prog" where
  "ensureSchemaMigrationsTable = modify (\<lambda>s. s\<lparr>md_applied := Some (applied_ids s)\<rparr>)"

definition loadAppliedMigrations :: "('d migration_db, string, string list) prog" where
  "loadAppliedMigrations = gets applied_ids"

definition apply_migration :: "(string \<Rightarrow> 'd \<Rightarrow> string + 'd) \<Rightarrow> string list \<Rightarrow> string \<Rightarrow> ('d migration_db, string, unit) prog" where
  "apply_migration exec applied mid =
     (if mid \<in> set applied then skip
      else bindE (\<lambda>s. case exec mid (md_data s) of
                   Inl e \<Rightarrow> (Inl (''apply migration '' @ mid @ '': '' @ e), s)
                 | Inr d \<Rightarrow> (Inr (), s\<lparr>md_data := d\<rparr>)) (\<lambda>_.
        (\<lambda>s. if mid \<in> set (applied_ids s) then (Inl (''record migration '' @ mid @ '': duplicate key''), s)
             else (Inr (), s\<lparr>md_applied := Some (applied_ids s @ [mid])\<rparr>))))"

definition ApplyMigrations :: "(string \<Rightarrow> 'd \<Rightarrow> string + 'd) \<Rightarrow> ('d migration_db, string, unit) prog" where
  "ApplyMigrations exec =
     with_tx (bindE ensureSchemaMigrationsTable (\<lambda>_.
       bindE loadAppliedMigrations (\<lambda>applied.
       foreach (apply_migration exec applied) all_migrations)))"

section \<open>Starting again changes nothing\<close>

lemma migration_records:
  assumes "apply_migration exec applied mid s = (Inr (), s')"
  shows "set (applied_ids s) \<subseteq> set (applied_ids s') \<and> (mid \<in> set applied \<or> mid \<in> set (applied_ids s'))
    \<and> (md_applied s \<noteq> None \<longrightarrow> md_applied s' \<noteq> None)"
  using assms by (auto simp: apply_migration_def bindE_def applied_ids_def split: if_splits sum.splits option.splits)

lemma migrations_recorded:
  "foreach (apply_migration exec applied) ms s = (Inr (), s') \<Longrightarrow>
     set (applied_ids s) \<subseteq> set (applied_ids s') \<and> set ms \<subseteq> set applied \<union> set (applied_ids s')
     \<and> (md_applied s \<noteq> None \<longrightarrow> md_applied s' \<noteq> None)"
proof (induction ms arbitrary: s)
  case (Cons m ms)
  then obtain s1 where first: "apply_migration exec applied m s = (Inr (), s1)"
    and rest: "foreach (apply_migration exec applied) ms s1 = (Inr (), s')" by (auto elim: bindE_InrE)
  from migration_records [OF first] Cons.IH [OF rest] show ?case by auto
qed simp

lemma migrations_idle: "set ms \<subseteq> set applied \<Longrightarrow> foreach (apply_migration exec applied) ms s = (Inr (), s)"
  by (induction ms) (auto simp: apply_migration_def bindE_def)

text \<open>Once migrated, a database is left alone, whatever the scripts would do.\<close>

lemma migrations_idempotent:
  assumes "ApplyMigrations exec s = (Inr (), s')"
  shows "ApplyMigrations exec' s' = (Inr (), s')"
proof -
  let ?s = "s\<lparr>md_applied := Some (applied_ids s)\<rparr>"
  have run: "foreach (apply_migration exec (applied_ids s)) all_migrations ?s = (Inr (), s')"
    using assms by (simp add: ApplyMigrations_def with_tx_Inr_iff)
      (simp add: bindE_def ensureSchemaMigrationsTable_def loadAppliedMigrations_def modify_def applied_ids_def)
  have "set (applied_ids s) \<subseteq> set (applied_ids ?s)" by (simp add: applied_ids_def)
  with migrations_recorded [OF run] have all: "set all_migrations \<subseteq> set (applied_ids s')" and some: "md_applied s' \<noteq> None"
    by auto
  have "s'\<lparr>md_applied := Some (applied_ids s')\<rparr> = s'" using some by (cases s') (auto simp: applied_ids_def)
  then show ?thesis
    using migrations_idle [OF all, of exec' s']
    by (simp add: ApplyMigrations_def with_tx_def bindE_def ensureSchemaMigrationsTable_def loadAppliedMigrations_def modify_def)
qed

end
