(* ===== verification/Spec2Isabelle.thy ===== *)
theory Spec2Isabelle
  imports QueueProperties FailureProperties StaticPlan Production DiscoveryProperties
    Provenance Deployment Observability Migrations
begin

text \<open>
  Delta CI: a continuous integration orchestrator in Go. A run is planned into jobs, the
  jobs are handed to runners under leases, and the state of everything is kept in a
  PostgreSQL database; GitHub tells of commits and is told of results. This library models
  the orchestrator with its store and HTTP interface, the planner, the failure analyzer, the
  GitHub integration, the runner and the commands as HOL functions and proves what they
  promise.

  The program and the theories. \<open>state/\<close> holds the state machines and the store; every
  operation of the store is one transaction. \<open>orchestrator/\<close> holds the service: the
  handlers of the API call the store operations one after the other, a planner, a
  dispatcher, a failure analyzer and a status reporter. \<open>planner/\<close> turns a commit into jobs.
  \<open>internal/vcs/github\<close> verifies webhooks and publishes the states of runs. \<open>runner/\<close> is the
  process that executes one leased attempt and talks to the orchestrator over HTTP.
  \<open>cmd/orchestrator\<close> puts the processes together: a server, and workers that lease attempts
  and start runners.

    \<^item> Prelude: programs over a state with errors as values (\<open>prog\<close>, \<open>bindE\<close>, \<open>with_tx\<close>),
      the judgement \<open>keeps\<close> and its rules (locale \<open>world_preorder\<close>), keyed rows.
    \<^item> States: the transition tables and validators of \<open>state/states.go\<close>, the errors.
    \<^item> Types, Tables: the rows and messages (\<open>state/types.go\<close>, \<open>protocol/messages.go\<close>), the
      record \<open>world\<close> of all tables, the clocks and the counters; the constraints of the
      migrations as insert programs.
    \<^item> Store, Queue, Records: the operations of \<open>state/store.go\<close>, \<open>queries.go\<close>, \<open>queue.go\<close>,
      \<open>lease_expiration.go\<close>, \<open>job_dependencies.go\<close>, \<open>job_specs.go\<close>, \<open>run_triggers.go\<close>,
      \<open>run_reruns.go\<close>, \<open>recipes.go\<close>, \<open>status_reports.go\<close>.
    \<^item> Lawful, LawfulOps: a step is lawful when it keeps the constraints of the schema and
      moves rows along the tables only; every store operation is lawful. This holds of any
      interleaving of store operations, not only of whole handlers.
    \<^item> GoStrings, GoPaths: the library functions of Go the program uses.
    \<^item> Service, LeaseService, Completion: the handlers of \<open>orchestrator/service.go\<close>.
    \<^item> ServiceLawful, System: the contracts of the service's collaborators as locales
      (\<open>dispatcher_contract\<close>, \<open>reporter_contract\<close>, \<open>id_source\<close>, \<open>service_env\<close>), their
      interpretations, and the system: \<open>serves S w w'\<close> is one API call, served as a whole.
    \<^item> Invariants, InvariantOps, InvariantSteps, InvariantHandlers, StartRun, WorkInvariant:
      the invariant \<open>inv\<close> of whole handlers (dependency gate, agreement of jobs and
      attempts, one live lease, verdicts, no attempt lost) and its preservation
      (locale \<open>work_env\<close>).
    \<^item> FailureAnalyzer, StaticPlan: \<open>orchestrator/failure_analyzer.go\<close>, \<open>planner/planner.go\<close>.
    \<^item> Projects, Impact, DiffPlanner: \<open>planner/diff_planner.go\<close>, \<open>orchestrator/recipe_store.go\<close>.
    \<^item> Outcomes, Scenario, Evaluation: reasoning about what a successful call has
      established, small worlds for examples, and the evaluation of handlers on them.
    \<^item> SystemProperties, LeaseProperties, QueueProperties, RunProperties, RunEnd,
      FailureProperties: the properties of the orchestrator.
    \<^item> ImpactProperties, PlannerProperties, DiscoveryProperties: the properties of the planner.
    \<^item> Production: the service as the worker command assembles it satisfies the contracts, so
      that the properties of the orchestrator hold of it.
    \<^item> Webhook, HttpApi: \<open>internal/vcs/github/webhook.go\<close> and \<open>orchestrator/http.go\<close>; a handler
      maps a request and a world to a reply and a world. HttpProperties: a request is at
      most one call of the service; unsigned deliveries do nothing; an event starts one run.
    \<^item> GithubClient, GithubReporter: \<open>client.go\<close>, \<open>app_auth.go\<close>, \<open>reporter.go\<close>.
      GithubProperties: the reporter satisfies the locale \<open>reporter_contract\<close>, reports each
      state once and success only for green runs; the installation token is fresh.
    \<^item> RunnerCache, Runner: \<open>runner/main.go\<close> with its transport and uploads, as a machine that
      takes one event at a time. RunnerProperties: one truthful final message per lease, and
      caches that stay in their directory.
    \<^item> GreenRun, Provenance: a run from its creation to its success; behind every green run
      there are runner executions whose commands succeeded.
    \<^item> Commands: flags, start, reporters, services and loops of \<open>cmd/orchestrator/main.go\<close>. Deployment:
      server, sweeper, workers and runners together keep the orchestrator's invariant.
    \<^item> Observability, Migrations: the attributes of loggers, the counters, \<open>state/migrate.go\<close>.

  State and errors. The database is the record \<open>world\<close>; a table is a list of rows. A program
  returns a value or an error with the next world; \<open>with_tx\<close> undoes the writes of a
  transaction that fails. A raise or an early return of the code is a branch of its
  definition. Ignored errors are \<open>try_prog\<close>.

  Parameters. What is not in the repository is an argument: the random source, the planner,
  dispatcher, reporter and analyzer of a service (with the contracts above), and for the
  diff planner the file tree, the working directory, \<open>git show\<close>, SHA-256, the texts of
  database errors and the order in which Go ranges over a map. The texts of system errors
  are abbreviated; they only reach explanations of plans. Of the processes around the
  database: what GitHub and S3 answer, HMAC and SHA-256, the JSON decoders and encoders,
  RSA and PEM, the operating system under the caches (\<open>'f os_env\<close>), the end of the executed
  command, and the child process of a worker (any requests to the server).

  Interleaving. A runner's heartbeat goroutine and its main goroutine interleave in the
  events of \<open>runner_step\<close>. In \<open>Deployment\<close> a request, a sweep and the polling part of a worker
  round are each one step, and while a worker's runner executes, the server's steps go on.

  Recursion. The loops are structural recursions over rows. The spreading of an impact is a
  worklist whose measure counts the names not yet marked; the lease sweep runs with its
  limit as fuel, which is the bound of the code's own loop. Nothing else needs fuel.

  Bounds. Numbers are unbounded integers where the code's cannot overflow: lengths,
  counters, and times in nanoseconds. A lease's time to live is a PostgreSQL INTEGER, so its
  duration in nanoseconds fits 64 bits.

  Not modelled: connection errors and the rounding of times to microseconds by PostgreSQL;
  two transactions running at once (a handler is one step for \<open>inv\<close>, a store operation for
  \<open>lawful\<close>); \<open>SKIP LOCKED\<close>; the clock moving within a handler; the constant \<open>Type\<close> fields of
  messages; quoting by \<open>%q\<close>; letters outside ASCII in \<open>ToLower\<close>, \<open>TrimSpace\<close> and \<open>Fields\<close>;
  invalid UTF-8 in JSON; collations other than by byte; gaps of BIGSERIAL columns; symbolic
  links that can be followed in a repository.
  Of the processes: the bytes of JSON documents, the text of log lines, Prometheus' output,
  HTTP below requests and replies, the parsing of the command line, the database driver and
  sockets, the timing of tickers and the effect of the SQL scripts (their constraints are in Tables).
\<close>

end
